(* ===== verification/Prelude.thy ===== *)
theory Prelude
  imports Main "HOL-Library.Word" "HOL-Library.AList" "HOL-Library.Multiset"
    "HOL-Library.Sublist" "HOL-Library.Signed_Division"
begin

text \<open>
  Shared vocabulary of the development: the Go language's outcomes (return, error, panic), its
  maps and their unspecified iteration order, machine integers and durations, time stamps, the
  string functions of the standard library that the repository calls, and two locales that the
  components instantiate: \<^emph>\<open>dictionary\<close> (what a component may rely on when it keeps a Go map)
  and \<^emph>\<open>invariant_system\<close> (a step relation with an inductive invariant).
\<close>

section \<open>Automation\<close>

text \<open>
  \<^theory_text>\<open>outcome_simps\<close> collects the equations that run a Go function body written with
  \<^theory_text>\<open>and_then\<close>; \<^theory_text>\<open>word_bounds\<close> collects facts that move a machine integer to
  the integers when it is in range.
\<close>

named_theorems outcome_simps
named_theorems word_bounds

section \<open>Outcomes of a Go call\<close>

datatype panic =
    NilDereference
  | IndexOutOfRange
  | TypeAssertion
  | DivideByZero
  | SliceTooShort
  | PanicWith string

text \<open>An error is a message, or an error wrapped in a message (\<^verbatim>\<open>errors.Wrap\<close>).\<close>

datatype error = ErrNew string | ErrWrap error string

datatype 'a outcome = Panics panic | Fails error | Returns 'a

primrec and_then :: "'a outcome \<Rightarrow> ('a \<Rightarrow> 'b outcome) \<Rightarrow> 'b outcome" where
  "and_then (Panics p) f = Panics p"
| "and_then (Fails e) f = Fails e"
| "and_then (Returns x) f = f x"

text \<open>\<^verbatim>\<open>if err != nil { return errors.Wrap(err, msg) }\<close>.\<close>

primrec wrap :: "string \<Rightarrow> 'a outcome \<Rightarrow> 'a outcome" where
  "wrap msg (Panics p) = Panics p"
| "wrap msg (Fails e) = Fails (ErrWrap e msg)"
| "wrap msg (Returns x) = Returns x"

primrec of_option :: "panic \<Rightarrow> 'a option \<Rightarrow> 'a outcome" where
  "of_option p None = Panics p"
| "of_option p (Some x) = Returns x"

primrec outcome_of :: "error + 'a \<Rightarrow> 'a outcome" where
  "outcome_of (Inl e) = Fails e"
| "outcome_of (Inr x) = Returns x"

section \<open>Machine integers, durations and time stamps\<close>

type_synonym u64 = "64 word"
type_synonym u32 = "32 word"
type_synonym u16 = "16 word"
type_synonym byte = "8 word"

text \<open>A \<^verbatim>\<open>time.Duration\<close> is an \<^verbatim>\<open>int64\<close> count of nanoseconds; its arithmetic wraps.\<close>

type_synonym duration = "64 word"

text \<open>
  A \<^verbatim>\<open>time.Time\<close> is the number of nanoseconds since the Unix epoch. Go keeps seconds and
  nanoseconds apart and has no wrap-around in the range of any date, so an integer is exact.
\<close>

type_synonym gotime = int

definition second :: duration where
  "second = 1000000000"

definition hour :: duration where
  "hour = 3600 * second"

text \<open>Integer division of \<^verbatim>\<open>int64\<close> truncates towards zero and panics on a zero divisor.\<close>

definition sdiv64 :: "64 word \<Rightarrow> 64 word \<Rightarrow> 64 word outcome" where
  "sdiv64 a b = (if b = 0 then Panics DivideByZero else Returns (word_of_int (sint a sdiv sint b)))"

definition udiv64 :: "u64 \<Rightarrow> u64 \<Rightarrow> u64 outcome" where
  "udiv64 a b = (if b = 0 then Panics DivideByZero else Returns (a div b))"

definition time_Unix :: "int \<Rightarrow> gotime" where
  "time_Unix s = s * 10 ^ 9"

definition time_Add :: "gotime \<Rightarrow> duration \<Rightarrow> gotime" where
  "time_Add t d = t + sint d"

text \<open>\<^verbatim>\<open>Time.Sub\<close> saturates at the extreme durations.\<close>

definition time_Sub :: "gotime \<Rightarrow> gotime \<Rightarrow> duration" where
  "time_Sub t u =
     (if t - u > 2 ^ 63 - 1 then word_of_int (2 ^ 63 - 1)
      else if t - u < - (2 ^ 63) then word_of_int (- (2 ^ 63))
      else word_of_int (t - u))"

definition unix_seconds :: "gotime \<Rightarrow> 64 word" where
  "unix_seconds t = word_of_int (t div 10 ^ 9)"

text \<open>\<^verbatim>\<open>Duration.Milliseconds\<close>.\<close>

definition milliseconds :: "duration \<Rightarrow> 64 word" where
  "milliseconds d = word_of_int (sint d sdiv 1000000)"

text \<open>
  \<^verbatim>\<open>uint64(d.Seconds())\<close>: \<^verbatim>\<open>Seconds\<close> is a \<^verbatim>\<open>float64\<close> and the conversion truncates
  it towards zero.
\<close>

definition whole_seconds :: "duration \<Rightarrow> u64" where
  "whole_seconds d = word_of_int (sint d sdiv 1000000000)"

section \<open>Go maps\<close>

text \<open>
  A Go map is an association list with distinct keys: lookup is \<^const>\<open>map_of\<close>, assignment is
  \<^term>\<open>AList.update\<close>, \<^verbatim>\<open>delete\<close> is \<^term>\<open>AList.delete\<close>. The order of the list carries no
  meaning: the order in which a \<^verbatim>\<open>range\<close> loop visits a map is a parameter of the functions
  that have such a loop. The language promises only that every entry is visited exactly once,
  which is what the type \<^theory_text>\<open>iter_order\<close> of such orders says.
\<close>

type_synonym ('k, 'v) gomap = "('k \<times> 'v) list"

abbreviation gomap_ok :: "('k, 'v) gomap \<Rightarrow> bool" where
  "gomap_ok m \<equiv> distinct (map fst m)"

typedef 'a iter_order = "{rng :: 'a list \<Rightarrow> 'a list. \<forall>xs. mset (rng xs) = mset xs}"
  morphisms visit Abs_iter_order
  by (rule exI [of _ "\<lambda>xs. xs"]) simp

setup_lifting type_definition_iter_order

text \<open>Two orders for concrete runs: as stored, and reversed.\<close>

lift_definition as_stored :: "'a iter_order" is "\<lambda>xs. xs" by simp

lift_definition reversed :: "'a iter_order" is rev by simp

text \<open>The values of \<^verbatim>\<open>i\<close> in \<^verbatim>\<open>for i := uint64(0); i < n; i++\<close>.\<close>

definition for_range :: "u64 \<Rightarrow> u64 list" where
  "for_range n = map of_nat [0..<unat n]"

section \<open>Strings\<close>

text \<open>\<^verbatim>\<open>strings.Contains\<close>.\<close>

definition Contains :: "string \<Rightarrow> string \<Rightarrow> bool" where
  "Contains s sub = sublist sub s"

text \<open>\<^verbatim>\<open>strings.Split\<close> on a one-character separator.\<close>

fun Split :: "char \<Rightarrow> string \<Rightarrow> string list" where
  "Split c [] = [[]]"
| "Split c (x # xs) =
     (if x = c then [] # Split c xs
      else (case Split c xs of [] \<Rightarrow> [[x]] | p # ps \<Rightarrow> (x # p) # ps))"

text \<open>\<^verbatim>\<open>[]byte(s)\<close> and \<^verbatim>\<open>hex.EncodeToString\<close>.\<close>

definition string_bytes :: "string \<Rightarrow> byte list" where
  "string_bytes s = map (\<lambda>c. of_nat (of_char c)) s"

definition hex_digit :: "nat \<Rightarrow> char" where
  "hex_digit n = ''0123456789abcdef'' ! n"

definition hex_byte :: "byte \<Rightarrow> string" where
  "hex_byte b = [hex_digit (unat b div 16), hex_digit (unat b mod 16)]"

definition hex_bytes :: "byte list \<Rightarrow> string" where
  "hex_bytes bs = concat (map hex_byte bs)"

text \<open>Decimal printing of a natural number (\<^verbatim>\<open>%d\<close>).\<close>

fun decimal :: "nat \<Rightarrow> string" where
  "decimal n = (if n < 10 then [char_of (48 + n)] else decimal (n div 10) @ [char_of (48 + n mod 10)])"

declare decimal.simps [simp del]

text \<open>A \<^verbatim>\<open>switch\<close> without a tag: the first case whose condition holds, or the default.\<close>

fun first_case :: "(bool \<times> 'a) list \<Rightarrow> 'a \<Rightarrow> 'a" where
  "first_case [] d = d"
| "first_case ((b, x) # cs) d = (if b then x else first_case cs d)"

section \<open>Lemmas\<close>

subsection \<open>Outcomes\<close>

declare and_then.simps [outcome_simps] wrap.simps [outcome_simps] of_option.simps [outcome_simps]
  outcome_of.simps [outcome_simps]

lemma and_then_Returns [simp]: "and_then m Returns = m"
  by (cases m) auto

lemma and_then_assoc [simp]: "and_then (and_then m f) g = and_then m (\<lambda>x. and_then (f x) g)"
  by (cases m) auto

lemma and_then_eq_Returns [simp]:
  "and_then m f = Returns y \<longleftrightarrow> (\<exists>x. m = Returns x \<and> f x = Returns y)"
  by (cases m) auto

lemma wrap_eq_Returns [simp]: "wrap msg m = Returns x \<longleftrightarrow> m = Returns x"
  by (cases m) auto

lemma of_option_eq_Returns [simp]: "of_option p o' = Returns x \<longleftrightarrow> o' = Some x"
  by (cases o') auto

lemma outcome_of_eq_Returns [simp]: "outcome_of r = Returns x \<longleftrightarrow> r = Inr x"
  by (cases r) auto

lemma outcome_of_no_panic [simp]: "outcome_of r \<noteq> Panics p"
  by (cases r) auto

lemma wrap_eq_Panics [simp]: "wrap msg m = Panics p \<longleftrightarrow> m = Panics p"
  by (cases m) auto

lemma wrap_not_new [simp]: "wrap msg m \<noteq> Fails (ErrNew s)"
  by (cases m) auto

lemma and_then_eq_Fails:
  "and_then m f = Fails err \<longleftrightarrow> m = Fails err \<or> (\<exists>x. m = Returns x \<and> f x = Fails err)"
  by (cases m) simp_all

lemma and_then_eq_Panics:
  "and_then m f = Panics p \<longleftrightarrow> m = Panics p \<or> (\<exists>x. m = Returns x \<and> f x = Panics p)"
  by (cases m) auto

lemma sdiv64_nonzero [simp]:
  "b \<noteq> 0 \<Longrightarrow> sdiv64 a b = Returns (word_of_int (sint a sdiv sint b))"
  by (simp add: sdiv64_def)

lemma udiv64_nonzero [simp]: "b \<noteq> 0 \<Longrightarrow> udiv64 a b = Returns (a div b)"
  by (simp add: udiv64_def)

text \<open>A decimal number is made of digits.\<close>

lemma digits_of_small:
  assumes "(n :: nat) < 10"
  shows "char_of (48 + n) \<in> set ''0123456789''"
proof -
  have "\<forall>n \<in> set [0..<10]. char_of (48 + n) \<in> set ''0123456789''" by code_simp
  with assms show ?thesis by simp
qed

lemma digits_of_decimal: "set (decimal n) \<subseteq> set ''0123456789''"
proof (induction n rule: decimal.induct)
  case (1 n)
  show ?case
  proof (cases "n < 10")
    case True
    then show ?thesis using digits_of_small by (simp add: decimal.simps [of n])
  next
    case False
    then have "set (decimal (n div 10)) \<subseteq> set ''0123456789''" using 1 by blast
    moreover have "char_of (48 + n mod 10) \<in> set ''0123456789''" by (rule digits_of_small) simp
    ultimately show ?thesis using False by (simp add: decimal.simps [of n])
  qed
qed

lemma first_case_nth:
  "i < length xs \<Longrightarrow> length bs = length xs \<Longrightarrow> bs ! i \<Longrightarrow> \<forall>k < i. \<not> bs ! k \<Longrightarrow>
     first_case (zip bs xs) d = xs ! i"
proof (induction xs arbitrary: bs i)
  case (Cons x xs)
  then obtain b bs' where bs: "bs = b # bs'" by (cases bs) auto
  show ?case
  proof (cases i)
    case 0
    with Cons.prems bs show ?thesis by simp
  next
    case (Suc j)
    have "\<not> b" using Cons.prems(4) bs Suc by (auto dest: spec [of _ 0])
    moreover have "\<forall>k < j. \<not> bs' ! k" using Cons.prems(4) bs Suc by (metis Suc_less_eq nth_Cons_Suc)
    ultimately show ?thesis using Cons.IH [of j bs'] Cons.prems bs Suc by simp
  qed
qed simp

subsection \<open>Machine integers\<close>

lemma sint_word_of_int_64 [word_bounds]:
  "- (2 ^ 63) \<le> k \<Longrightarrow> k < 2 ^ 63 \<Longrightarrow> sint (word_of_int k :: 64 word) = k"
  by (simp add: sint_sbintrunc' signed_take_bit_int_eq_self)

lemma uint_word_of_int_64 [word_bounds]:
  "0 \<le> k \<Longrightarrow> k < 2 ^ 64 \<Longrightarrow> uint (word_of_int k :: 64 word) = k"
  by (simp add: uint_word_of_int)

lemma sint_range_64: "- (2 ^ 63) \<le> sint (w :: 64 word) \<and> sint w < 2 ^ 63"
  using sint_greater_eq [of w] sint_less [of w] by simp

lemma sdiv_nonneg: "0 \<le> a \<Longrightarrow> 0 < b \<Longrightarrow> (a :: int) sdiv b = a div b"
  by (cases "a = 0") (simp_all add: signed_divide_int_def)

lemma sdiv_neg: "a < 0 \<Longrightarrow> 0 < b \<Longrightarrow> (a :: int) sdiv b = - (- a div b)"
  by (simp add: signed_divide_int_def)

lemma time_Sub_exact:
  "- (2 ^ 63) \<le> t - u \<Longrightarrow> t - u < 2 ^ 63 \<Longrightarrow> sint (time_Sub t u) = t - u"
  using sint_word_of_int_64 [of "t - u"] by (simp add: time_Sub_def)

subsection \<open>Maps and iteration order\<close>

lemma mset_visit [simp]: "mset (visit ord xs) = mset xs"
  by transfer simp

lemma set_visit [simp]: "set (visit ord xs) = set xs"
  by (metis mset_visit set_mset_mset)

lemma length_visit [simp]: "length (visit ord xs) = length xs"
  by (metis mset_visit size_mset)

lemma distinct_visit [simp]: "distinct (visit ord xs) = distinct xs"
  by (metis mset_eq_imp_distinct_iff mset_visit)

lemma visit_Nil [simp]: "visit ord [] = []"
  by (metis length_0_conv length_visit)

lemma visit_singleton [simp]: "visit ord [x] = [x]"
  using mset_visit [of ord "[x]"] by (simp del: mset_visit)

lemma visit_as_stored [simp]: "visit as_stored xs = xs"
  by transfer simp

lemma visit_reversed [simp]: "visit reversed xs = rev xs"
  by transfer simp

lemma unat_of_nat_below [simp]: "k < unat (n :: u64) \<Longrightarrow> unat (of_nat k :: u64) = k"
  by (rule of_nat_inverse [OF refl]) (metis order.strict_trans unsigned_less)

lemma set_for_range: "set (for_range n) = {i. i < n}"
proof -
  have "i \<in> of_nat ` {0..<unat n}" if "i < n" for i
    using that by (intro image_eqI [of _ _ "unat i"]) (simp_all add: word_less_nat_alt)
  then show ?thesis by (auto simp: for_range_def word_less_nat_alt)
qed

lemma distinct_for_range: "distinct (for_range n)"
proof -
  have "inj_on (of_nat :: nat \<Rightarrow> u64) {0..<unat n}"
    by (rule inj_on_inverseI [of _ unat]) simp
  then show ?thesis by (simp add: for_range_def distinct_map)
qed

lemma length_for_range [simp]: "length (for_range n) = unat n"
  by (simp add: for_range_def)

lemmas gomap_simps = update_conv' delete_conv' distinct_update distinct_delete

lemma gomap_lookup: "gomap_ok m \<Longrightarrow> map_of m k = Some v \<longleftrightarrow> (k, v) \<in> set m"
  by (simp add: map_of_eq_Some_iff)

lemma mset_delete:
  assumes "gomap_ok m" and "map_of m k = Some v"
  shows "mset m = add_mset (k, v) (mset (AList.delete k m))"
  using assms
proof (induction m)
  case Nil
  then show ?case by simp
next
  case (Cons p m)
  obtain a b where p: "p = (a, b)" by (cases p)
  show ?case
  proof (cases "a = k")
    case True
    with Cons.prems p have "k \<notin> fst ` set m" and "b = v" by auto
    then have "AList.delete k m = m"
      by (force simp: AList.delete_eq intro!: filter_True)
    with True p \<open>b = v\<close> show ?thesis by simp
  next
    case False
    with Cons p show ?thesis by simp
  qed
qed

lemma set_update_subset: "set (AList.update k v m) \<subseteq> insert (k, v) (set m)"
  by (induction m) auto

lemma set_delete_subset: "set (AList.delete k m) \<subseteq> set m"
  by (auto simp: AList.delete_eq)

lemma delete_absent: "map_of m k = None \<Longrightarrow> AList.delete k m = m"
  by (force simp: AList.delete_eq map_of_eq_None_iff intro!: filter_True)

lemma mset_update:
  "gomap_ok m \<Longrightarrow> mset (AList.update k v m) = add_mset (k, v) (mset (AList.delete k m))"
proof (induction m)
  case (Cons p m)
  obtain a b where p: "p = (a, b)" by (cases p)
  show ?case
  proof (cases "a = k")
    case True
    with Cons.prems p have "map_of m k = None" by (simp add: map_of_eq_None_iff)
    then have "AList.delete k m = m" by (rule delete_absent)
    with True p show ?thesis by simp
  next
    case False
    with Cons p show ?thesis by simp
  qed
qed simp

subsection \<open>Strings\<close>

lemma Split_nonempty [simp]: "Split c s \<noteq> []"
  by (induction s) (auto split: list.splits)

lemma Split_no_sep: "c \<notin> set s \<Longrightarrow> Split c s = [s]"
  by (induction s) auto

lemma Split_append_sep: "c \<notin> set a \<Longrightarrow> Split c (a @ c # s) = a # Split c s"
  by (induction a) auto

lemma length_Split: "length (Split c s) = Suc (count_list s c)"
proof (induction s)
  case (Cons x s)
  then show ?case by (cases "Split c s") auto
qed simp

text \<open>
  A needle without the separator lies inside one of the parts: the fact behind every
  \<^verbatim>\<open>strings.Contains\<close> test on a topic.
\<close>

lemma sublist_around_sep:
  assumes "c \<notin> set n"
  shows "sublist n (a @ c # b) \<longleftrightarrow> sublist n a \<or> sublist n b"
proof
  assume "sublist n (a @ c # b)"
  then obtain p s where eq: "a @ c # b = p @ n @ s"
    by (auto simp: sublist_def)
  show "sublist n a \<or> sublist n b"
  proof (cases "length p + length n \<le> length a")
    case True
    have "prefix (p @ n) (a @ c # b)" by (simp add: eq prefix_def)
    moreover have "prefix a (a @ c # b)" by simp
    ultimately have "prefix (p @ n) a"
      using True prefix_length_prefix [of "p @ n" "a @ c # b" a] by simp
    then show ?thesis by (auto simp: prefix_def)
  next
    case False
    have "length a < length p"
    proof (rule ccontr)
      assume short: "\<not> length a < length p"
      have "(p @ n @ s) ! length a = n ! (length a - length p)"
        using short False by (auto simp: nth_append)
      moreover have "(p @ n @ s) ! length a = c"
        by (simp flip: eq)
      ultimately have "c \<in> set n"
        using short False by (metis add_diff_inverse_nat less_diff_conv2 linorder_not_less
            nat_add_left_cancel_less not_le nth_mem)
      with assms show False by blast
    qed
    then have "drop (Suc (length a)) (a @ c # b) = drop (Suc (length a)) p @ n @ s"
      by (simp add: eq)
    then show ?thesis by simp
  qed
next
  assume "sublist n a \<or> sublist n b"
  then show "sublist n (a @ c # b)"
    by (metis append_Cons append_Nil sublist_append_leftI sublist_append_rightI
        sublist_order.order.trans)
qed

lemma Contains_around_sep:
  "c \<notin> set n \<Longrightarrow> Contains (a @ c # b) n \<longleftrightarrow> Contains a n \<or> Contains b n"
  by (simp add: Contains_def sublist_around_sep)

lemma Contains_self [simp]: "Contains s s"
  by (simp add: Contains_def)

lemma Contains_longer: "length s < length n \<Longrightarrow> \<not> Contains s n"
  by (auto simp: Contains_def dest: sublist_length_le)

text \<open>Hexadecimal encoding is injective.\<close>

lemma hex_digit_inj:
  assumes "m < 16" and "n < 16" and "hex_digit m = hex_digit n"
  shows "m = n"
proof -
  have "distinct (''0123456789abcdef'')" by simp
  moreover have "length (''0123456789abcdef'') = (16 :: nat)" by simp
  ultimately show ?thesis
    using assms unfolding hex_digit_def by (metis nth_eq_iff_index_eq)
qed

lemma unat_byte_less [simp]: "unat (b :: byte) < 256"
  using unsigned_less [of b, where ?'a = nat] by simp

lemma hex_byte_inj: "hex_byte a = hex_byte b \<Longrightarrow> a = b"
proof -
  assume eq: "hex_byte a = hex_byte b"
  have "unat a div 16 < 16" "unat b div 16 < 16"
    using unat_byte_less [of a] unat_byte_less [of b] by (simp_all add: less_mult_imp_div_less)
  with eq have "unat a div 16 = unat b div 16" "unat a mod 16 = unat b mod 16"
    by (auto simp: hex_byte_def intro: hex_digit_inj)
  then have "unat a = unat b" by (metis div_mult_mod_eq)
  then show "a = b" by (rule unsigned_word_eqI)
qed

lemma hex_bytes_simps [simp]:
  "hex_bytes [] = []" "hex_bytes (b # bs) = hex_byte b @ hex_bytes bs"
  by (simp_all add: hex_bytes_def)

lemma length_hex_bytes [simp]: "length (hex_bytes bs) = 2 * length bs"
  by (induction bs) (auto simp: hex_byte_def)

lemma hex_bytes_inj: "hex_bytes as = hex_bytes bs \<Longrightarrow> as = bs"
proof (induction as arbitrary: bs)
  case Nil
  then show ?case by (cases bs) (auto simp: hex_byte_def)
next
  case (Cons a as)
  then obtain b bs' where bs: "bs = b # bs'"
    by (cases bs) (auto simp: hex_byte_def)
  with Cons.prems have "hex_byte a = hex_byte b" "hex_bytes as = hex_bytes bs'"
    by (auto simp: hex_byte_def)
  with Cons.IH bs show ?case by (auto dest: hex_byte_inj)
qed

lemma string_bytes_inj: "string_bytes s = string_bytes t \<Longrightarrow> s = t"
proof -
  have inj: "c = d" if "(of_nat (of_char c) :: byte) = of_nat (of_char d)" for c d :: char
  proof -
    have "unat (of_nat (of_char c) :: byte) = of_char c" for c :: char
      using nat_of_char_less_256 [of c] by (simp add: unat_of_nat)
    with that have "(of_char c :: nat) = of_char d" by metis
    then show ?thesis by simp
  qed
  assume "string_bytes s = string_bytes t"
  then show "s = t"
    unfolding string_bytes_def by (rule map_injective) (use inj in \<open>auto simp: inj_on_def\<close>)
qed

lemma hex_digit_not_slash: "n < 16 \<Longrightarrow> hex_digit n \<noteq> CHR ''/''"
proof -
  assume "n < 16"
  then have "hex_digit n \<in> set (''0123456789abcdef'')"
    unfolding hex_digit_def by (intro nth_mem) simp
  then show ?thesis by auto
qed

lemma slash_notin_hex [simp]: "CHR ''/'' \<notin> set (hex_bytes bs)"
proof (induction bs)
  case (Cons b bs)
  have "unat b div 16 < 16"
    using unat_byte_less [of b] by (simp add: less_mult_imp_div_less)
  then show ?case
    using Cons hex_digit_not_slash [of "unat b div 16"] hex_digit_not_slash [of "unat b mod 16"]
    by (auto simp: hex_byte_def)
qed simp

section \<open>Interfaces\<close>

subsection \<open>What a component may rely on when it keeps a dictionary\<close>

locale dictionary =
  fixes lookup :: "'m \<Rightarrow> 'k \<Rightarrow> 'v option"
    and store :: "'k \<Rightarrow> 'v \<Rightarrow> 'm \<Rightarrow> 'm"
    and remove :: "'k \<Rightarrow> 'm \<Rightarrow> 'm"
    and ok :: "'m \<Rightarrow> bool"
  assumes lookup_store: "lookup (store k v m) = (lookup m)(k \<mapsto> v)"
    and lookup_remove: "lookup (remove k m) = (lookup m)(k := None)"
    and ok_store: "ok m \<Longrightarrow> ok (store k v m)"
    and ok_remove: "ok m \<Longrightarrow> ok (remove k m)"
begin

text \<open>Repeated read-modify-write of entries: each key sees its own updates only.\<close>

lemma lookup_modify_many:
  "lookup (fold (\<lambda>k m. store k (f (lookup m k)) m) ks m) k =
     ((\<lambda>v. Some (f v)) ^^ count_list ks k) (lookup m k)"
proof (induction ks arbitrary: m)
  case (Cons a ks)
  then show ?case
    by (auto simp: lookup_store funpow_swap1 [where f = "\<lambda>v. Some (f v)", symmetric])
qed simp

text \<open>The order of read-modify-writes does not matter.\<close>

lemma modify_many_order:
  assumes "mset ks = mset ks'"
  shows "lookup (fold (\<lambda>k m. store k (f (lookup m k)) m) ks m) =
         lookup (fold (\<lambda>k m. store k (f (lookup m k)) m) ks' m)"
proof -
  have "count_list ks = count_list ks'"
    using assms by (auto simp: fun_eq_iff simp flip: count_mset)
  then show ?thesis by (simp add: fun_eq_iff lookup_modify_many)
qed

lemma ok_modify_many: "ok m \<Longrightarrow> ok (fold (\<lambda>k m. store k (f (lookup m k)) m) ks m)"
  by (induction ks arbitrary: m) (auto simp: ok_store)

lemma lookup_remove_many: "lookup (fold remove ks m) = (lookup m) |` (- set ks)"
proof (induction ks arbitrary: m)
  case (Cons a ks)
  then show ?case by (auto simp: lookup_remove restrict_map_def fun_eq_iff)
qed (simp add: restrict_map_def)

end

text \<open>Go maps are dictionaries.\<close>

interpretation gm: dictionary map_of AList.update AList.delete "\<lambda>m. gomap_ok m"
  by unfold_locales (simp_all add: gomap_simps)

subsection \<open>Step relations with an invariant\<close>

locale transition_system =
  fixes init :: "'s \<Rightarrow> bool"
    and step :: "'s \<Rightarrow> 's \<Rightarrow> bool"
begin

inductive reachable :: "'s \<Rightarrow> bool" where
  reachable_init: "init s \<Longrightarrow> reachable s"
| reachable_step: "reachable s \<Longrightarrow> step s t \<Longrightarrow> reachable t"

end

locale invariant_system = transition_system init step
  for init :: "'s \<Rightarrow> bool" and step :: "'s \<Rightarrow> 's \<Rightarrow> bool" +
  fixes inv :: "'s \<Rightarrow> bool"
  assumes inv_init: "init s \<Longrightarrow> inv s"
    and inv_step: "inv s \<Longrightarrow> step s t \<Longrightarrow> inv t"
begin

lemma reachable_inv: "reachable s \<Longrightarrow> inv s"
  by (induction rule: reachable.induct) (auto intro: inv_init inv_step)

lemma run_inv: "inv s \<Longrightarrow> step\<^sup>*\<^sup>* s t \<Longrightarrow> inv t"
  by (rotate_tac, induction rule: rtranclp_induct) (auto intro: inv_step)

end

end
