(* ===== verification/Prysm_Params.thy ===== *)
theory Prysm_Params
  imports Prelude
begin

text \<open>
  What peekd takes from the Prysm packages, which are not part of the repository: the beacon
  chain configuration, the network configuration, the names of the gossip topics and the
  protobuf message types. Configurations and names are parameters (values of these records), of
  which properties assume what they need; of the message types only the fields that peekd reads
  are kept, with every pointer on the way as an option. \<^verbatim>\<open>FuluForkVersion\<close>, which peekd never
  reads, is kept to say which fork an epoch belongs to.
\<close>

section \<open>Configurations\<close>

record BeaconChainConfig =
  SecondsPerSlot :: u64
  SlotsPerEpoch :: u64
  AltairForkEpoch :: u64
  BellatrixForkEpoch :: u64
  CapellaForkEpoch :: u64
  DenebForkEpoch :: u64
  ElectraForkEpoch :: u64
  FuluForkEpoch :: u64
  GenesisForkVersion :: "byte list"
  AltairForkVersion :: "byte list"
  BellatrixForkVersion :: "byte list"
  CapellaForkVersion :: "byte list"
  DenebForkVersion :: "byte list"
  ElectraForkVersion :: "byte list"
  FuluForkVersion :: "byte list"
  BlobsidecarSubnetCount :: u64
  AttestationSubnetCount :: u64
  SyncCommitteeSubnetCount :: u64
  TargetCommitteeSize :: u64
  MaxCommitteesPerSlot :: u64
  TargetAggregatorsPerCommittee :: u64
  TargetAggregatorsPerSyncSubcommittee :: u64
  SyncCommitteeSize :: u64
  MaxPayloadSize :: u64
  GenesisValidatorsRoot :: "byte list"

record NetworkConfig =
  AttSubnetKey :: string
  SyncCommsSubnetKey :: string
  ETH2Key :: string
  BootstrapNodes :: "string list"

section \<open>Names\<close>

record p2p_names =
  GossipBlockMessage :: string
  GossipBlobSidecarMessage :: string
  GossipAggregateAndProofMessage :: string
  GossipAttestationMessage :: string
  GossipContributionAndProofMessage :: string
  GossipSyncCommitteeMessage :: string
  GossipProposerSlashingMessage :: string
  GossipAttesterSlashingMessage :: string
  GossipBlsToExecutionChangeMessage :: string
  GossipExitMessage :: string

text \<open>
  A subnet topic format is \<^verbatim>\<open>/eth2/%x/<name>\<close> or \<^verbatim>\<open>/eth2/%x/<name>_%d\<close>: format strings for
  \<^verbatim>\<open>fmt.Sprintf\<close> with the fork digest and, for subnets, the subnet number.
\<close>

record p2p_formats =
  BlockSubnetTopicFormat :: string
  BlobSubnetTopicFormat :: string
  AggregateAndProofSubnetTopicFormat :: string
  AttestationSubnetTopicFormat :: string
  SyncContributionAndProofSubnetTopicFormat :: string
  SyncCommitteeSubnetTopicFormat :: string
  ProposerSlashingSubnetTopicFormat :: string
  AttesterSlashingSubnetTopicFormat :: string
  BlsToExecutionChangeSubnetTopicFormat :: string
  ExitSubnetTopicFormat :: string

section \<open>Message types\<close>

type_synonym slot = u64

datatype block = Block (Block_Slot: slot)

datatype att_data = AttestationData (Data_Slot: slot)

datatype aggregate = AttestationOf (Data: "att_data option")

datatype aggregate_and_proof = AggregateAndProof (Aggregate: "aggregate option")

datatype contribution = Contribution (Contribution_Slot: slot)

datatype contribution_and_proof = ContributionAndProof (Contribution_of: "contribution option")

datatype header = BeaconBlockHeader (Header_Slot: slot)

datatype signed_header = SignedBeaconBlockHeader (Header: "header option")

datatype message =
    SignedBeaconBlock "block option"
  | SignedBeaconBlockAltair "block option"
  | SignedBeaconBlockBellatrix "block option"
  | SignedBeaconBlockCapella "block option"
  | SignedBeaconBlockDeneb "block option"
  | SignedBeaconBlockElectra "block option"
  | SignedAggregateAttestationAndProof "aggregate_and_proof option"
  | SignedAggregateAttestationAndProofElectra "aggregate_and_proof option"
  | SignedContributionAndProof "contribution_and_proof option"
  | Attestation "att_data option"
  | AttestationElectra "att_data option"
  | SingleAttestation "att_data option"
  | SyncCommitteeMessage slot
  | SyncCommitteeContribution slot
  | BlobSidecar "signed_header option"
  | ProposerSlashing
  | AttesterSlashing
  | AttesterSlashingElectra
  | VoluntaryExit
  | BLSToExecutionChange
  | OtherMessage string

text \<open>\<^verbatim>\<open>reflect.TypeOf\<close> of a message pointer.\<close>

datatype go_type =
    T_SignedBeaconBlock | T_SignedBeaconBlockAltair | T_SignedBeaconBlockBellatrix
  | T_SignedBeaconBlockCapella | T_SignedBeaconBlockDeneb | T_SignedBeaconBlockElectra
  | T_SignedAggregateAttestationAndProof | T_SignedAggregateAttestationAndProofElectra
  | T_SignedContributionAndProof
  | T_Attestation | T_AttestationElectra | T_SingleAttestation
  | T_SyncCommitteeMessage | T_SyncCommitteeContribution
  | T_BlobSidecar
  | T_ProposerSlashing | T_AttesterSlashing | T_AttesterSlashingElectra
  | T_VoluntaryExit | T_BLSToExecutionChange
  | T_Other string

fun TypeOf :: "message \<Rightarrow> go_type" where
  "TypeOf (SignedBeaconBlock _) = T_SignedBeaconBlock"
| "TypeOf (SignedBeaconBlockAltair _) = T_SignedBeaconBlockAltair"
| "TypeOf (SignedBeaconBlockBellatrix _) = T_SignedBeaconBlockBellatrix"
| "TypeOf (SignedBeaconBlockCapella _) = T_SignedBeaconBlockCapella"
| "TypeOf (SignedBeaconBlockDeneb _) = T_SignedBeaconBlockDeneb"
| "TypeOf (SignedBeaconBlockElectra _) = T_SignedBeaconBlockElectra"
| "TypeOf (SignedAggregateAttestationAndProof _) = T_SignedAggregateAttestationAndProof"
| "TypeOf (SignedAggregateAttestationAndProofElectra _) = T_SignedAggregateAttestationAndProofElectra"
| "TypeOf (SignedContributionAndProof _) = T_SignedContributionAndProof"
| "TypeOf (Attestation _) = T_Attestation"
| "TypeOf (AttestationElectra _) = T_AttestationElectra"
| "TypeOf (SingleAttestation _) = T_SingleAttestation"
| "TypeOf (SyncCommitteeMessage _) = T_SyncCommitteeMessage"
| "TypeOf (SyncCommitteeContribution _) = T_SyncCommitteeContribution"
| "TypeOf (BlobSidecar _) = T_BlobSidecar"
| "TypeOf ProposerSlashing = T_ProposerSlashing"
| "TypeOf AttesterSlashing = T_AttesterSlashing"
| "TypeOf AttesterSlashingElectra = T_AttesterSlashingElectra"
| "TypeOf VoluntaryExit = T_VoluntaryExit"
| "TypeOf BLSToExecutionChange = T_BLSToExecutionChange"
| "TypeOf (OtherMessage name) = T_Other name"

text \<open>Reading a field through a pointer: a nil pointer panics.\<close>

definition deref :: "'a option \<Rightarrow> ('a \<Rightarrow> 'b outcome) \<Rightarrow> 'b outcome" where
  "deref ptr field = and_then (of_option NilDereference ptr) field"

lemma deref_simps [simp]:
  "deref None f = Panics NilDereference" "deref (Some x) f = f x"
  by (simp_all add: deref_def)

lemma deref_field: "deref p (\<lambda>x. Returns (f x)) = of_option NilDereference (map_option f p)"
  by (cases p) simp_all

lemma deref_path: "deref p (\<lambda>x. of_option NilDereference (g x)) = of_option NilDereference (Option.bind p g)"
  by (cases p) simp_all

end
