(* ===== verification/Eth_Network.thy ===== *)
theory Eth_Network
  imports Prysm_Params
begin

text \<open>
  The chosen Ethereum network (\<^verbatim>\<open>src/eth/network.go\<close>): the package variable with its setter and
  getter, the configurations selected by it, the fork version of an epoch, subnet counts, slot
  and epoch durations, and the all-subnets bit vectors. What the package calls in Prysm,
  go-ethereum and go-bitfield is in the parameter records \<^theory_text>\<open>eth_params\<close> and
  \<^theory_text>\<open>bitvector\<close>.
\<close>

section \<open>State and parameters\<close>

record eth_params =
  MainnetName :: string
  HoodiName :: string
  MainnetConfig :: BeaconChainConfig
  HoodiConfig :: BeaconChainConfig
  UseHoodiNetworkConfig :: "NetworkConfig \<Rightarrow> NetworkConfig"
  MustDecode :: "string \<Rightarrow> byte list outcome"
  slots_Since :: "gotime \<Rightarrow> gotime \<Rightarrow> slot"
  slots_ToEpoch :: "slot \<Rightarrow> u64"

text \<open>
  The package variable \<^verbatim>\<open>network\<close>, and Prysm's current network configuration, which
  \<^verbatim>\<open>UseHoodiNetworkConfig\<close> replaces.
\<close>

record eth_state =
  network :: string
  beaconNetworkConfig :: NetworkConfig

record GenesisConfig =
  GenesisTime :: gotime
  GenesisValidatorRoot :: "byte list"

record 'b bitvector =
  bv_zero :: 'b
  SetBitAt :: "'b \<Rightarrow> u64 \<Rightarrow> bool \<Rightarrow> 'b"
  BitAt :: "'b \<Rightarrow> u64 \<Rightarrow> bool"
  bv_Len :: u64

section \<open>Operations\<close>

abbreviation no_network :: "'a outcome" where
  "no_network \<equiv> Panics (PanicWith ''failed to get ethereum network'')"

definition GetNetwork :: "eth_params \<Rightarrow> eth_state \<Rightarrow> string outcome" where
  "GetNetwork prm st =
     (if network st = MainnetName prm \<or> network st = HoodiName prm then Returns (network st)
      else no_network)"

definition SetNetwork :: "eth_params \<Rightarrow> string \<Rightarrow> eth_state \<Rightarrow> eth_state outcome" where
  "SetNetwork prm net st =
     (if net = MainnetName prm \<or> net = HoodiName prm then Returns (st\<lparr>network := net\<rparr>)
      else Fails (ErrNew ''network must be set only for supported ethereum''))"

definition GetGenesisConfig :: "eth_params \<Rightarrow> eth_state \<Rightarrow> GenesisConfig outcome" where
  "GetGenesisConfig prm st =
     and_then (GetNetwork prm st) (\<lambda>net.
       if net = MainnetName prm then
         and_then (MustDecode prm ''0x4b363db94e286120d76eb905340fdd4e54bfe9f06bf33ff6cf5ad27f511bfe95'')
           (\<lambda>root. Returns \<lparr> GenesisTime = time_Unix 1606824023, GenesisValidatorRoot = root \<rparr>)
       else if net = HoodiName prm then
         and_then (MustDecode prm ''0x212f13fc4df078b6cb7db228f1c8307566dcecf900867401a92023d7ba99cb5f'')
           (\<lambda>root. Returns \<lparr> GenesisTime = time_Unix 1742213400, GenesisValidatorRoot = root \<rparr>)
       else no_network)"

definition GetBeaconNetworkConfig :: "eth_params \<Rightarrow> eth_state \<Rightarrow> (NetworkConfig \<times> eth_state) outcome" where
  "GetBeaconNetworkConfig prm st =
     and_then (GetNetwork prm st) (\<lambda>net.
       if net = MainnetName prm then Returns (beaconNetworkConfig st, st)
       else if net = HoodiName prm then
         (let st' = st\<lparr>beaconNetworkConfig := UseHoodiNetworkConfig prm (beaconNetworkConfig st)\<rparr>
          in Returns (beaconNetworkConfig st', st'))
       else no_network)"

definition GetBeaconChainConfig :: "eth_params \<Rightarrow> eth_state \<Rightarrow> BeaconChainConfig outcome" where
  "GetBeaconChainConfig prm st =
     and_then (GetNetwork prm st) (\<lambda>net.
       if net = MainnetName prm then Returns (MainnetConfig prm)
       else if net = HoodiName prm then Returns (HoodiConfig prm)
       else no_network)"

text \<open>The conversion \<^verbatim>\<open>[4]byte(slice)\<close> panics on a shorter slice.\<close>

definition array4 :: "byte list \<Rightarrow> byte list outcome" where
  "array4 bs = (if length bs < 4 then Panics SliceTooShort else Returns (take 4 bs))"

text \<open>The switch of \<^verbatim>\<open>GetForkVersion\<close> on a configuration.\<close>

definition fork_version_of :: "BeaconChainConfig \<Rightarrow> u64 \<Rightarrow> byte list outcome" where
  "fork_version_of cfg epoch =
     (if epoch < AltairForkEpoch cfg then array4 (GenesisForkVersion cfg)
      else if epoch < BellatrixForkEpoch cfg then array4 (AltairForkVersion cfg)
      else if epoch < CapellaForkEpoch cfg then array4 (BellatrixForkVersion cfg)
      else if epoch < DenebForkEpoch cfg then array4 (CapellaForkVersion cfg)
      else if epoch < ElectraForkEpoch cfg then array4 (DenebForkVersion cfg)
      else if epoch < FuluForkEpoch cfg then array4 (ElectraForkVersion cfg)
      else array4 (ElectraForkVersion cfg))"

definition GetForkVersion :: "eth_params \<Rightarrow> eth_state \<Rightarrow> u64 \<Rightarrow> byte list outcome" where
  "GetForkVersion prm st epoch =
     and_then (GetBeaconChainConfig prm st) (\<lambda>cfg. fork_version_of cfg epoch)"

definition GetCurrentForkVersion :: "eth_params \<Rightarrow> eth_state \<Rightarrow> gotime \<Rightarrow> byte list outcome" where
  "GetCurrentForkVersion prm st now =
     and_then (GetGenesisConfig prm st) (\<lambda>gen.
       GetForkVersion prm st (slots_ToEpoch prm (slots_Since prm now (GenesisTime gen))))"

text \<open>The switch of \<^verbatim>\<open>HasSubnets\<close> on a configuration; the formats are Prysm's.\<close>

definition subnets_of :: "BeaconChainConfig \<Rightarrow> p2p_formats \<Rightarrow> string \<Rightarrow> u64 \<times> bool" where
  "subnets_of cfg fmts rawTopic =
     (if rawTopic = BlobSubnetTopicFormat fmts then (BlobsidecarSubnetCount cfg, True)
      else if rawTopic = AttestationSubnetTopicFormat fmts then (AttestationSubnetCount cfg, True)
      else if rawTopic = SyncCommitteeSubnetTopicFormat fmts then (SyncCommitteeSubnetCount cfg, True)
      else (0, False))"

definition HasSubnets :: "eth_params \<Rightarrow> p2p_formats \<Rightarrow> eth_state \<Rightarrow> string \<Rightarrow> (u64 \<times> bool) outcome" where
  "HasSubnets prm fmts st rawTopic =
     and_then (GetBeaconChainConfig prm st) (\<lambda>cfg. Returns (subnets_of cfg fmts rawTopic))"

definition slot_duration :: "BeaconChainConfig \<Rightarrow> duration" where
  "slot_duration cfg = 1 * second * SecondsPerSlot cfg"

definition epoch_duration :: "BeaconChainConfig \<Rightarrow> duration" where
  "epoch_duration cfg = slot_duration cfg * SlotsPerEpoch cfg"

definition GetSlotDuration :: "eth_params \<Rightarrow> eth_state \<Rightarrow> duration outcome" where
  "GetSlotDuration prm st = and_then (GetBeaconChainConfig prm st) (\<lambda>cfg. Returns (slot_duration cfg))"

definition GetEpochDuration :: "eth_params \<Rightarrow> eth_state \<Rightarrow> duration outcome" where
  "GetEpochDuration prm st =
     and_then (GetSlotDuration prm st) (\<lambda>d.
       and_then (GetBeaconChainConfig prm st) (\<lambda>cfg. Returns (d * SlotsPerEpoch cfg)))"

definition GetAttestationAllSubnetBitvector ::
  "'b bitvector \<Rightarrow> eth_params \<Rightarrow> eth_state \<Rightarrow> 'b outcome" where
  "GetAttestationAllSubnetBitvector bv prm st =
     and_then (GetBeaconChainConfig prm st) (\<lambda>cfg.
       Returns (fold (\<lambda>i b. SetBitAt bv b i True) (for_range (AttestationSubnetCount cfg)) (bv_zero bv)))"

definition GetSyncCommitteeAllSubnetBitvector ::
  "'b bitvector \<Rightarrow> eth_params \<Rightarrow> eth_state \<Rightarrow> 'b outcome" where
  "GetSyncCommitteeAllSubnetBitvector bv prm st =
     and_then (GetBeaconChainConfig prm st) (\<lambda>cfg.
       Returns (fold (\<lambda>i b. SetBitAt bv b i True) (for_range (SyncCommitteeSubnetCount cfg)) (bv_zero bv)))"

section \<open>Reference for the fork version\<close>

text \<open>The forks in order with their first epochs; the version of an epoch is that of the last fork not after it.\<close>

definition fork_schedule :: "BeaconChainConfig \<Rightarrow> (u64 \<times> byte list) list" where
  "fork_schedule cfg =
     [(0, GenesisForkVersion cfg), (AltairForkEpoch cfg, AltairForkVersion cfg),
      (BellatrixForkEpoch cfg, BellatrixForkVersion cfg), (CapellaForkEpoch cfg, CapellaForkVersion cfg),
      (DenebForkEpoch cfg, DenebForkVersion cfg), (ElectraForkEpoch cfg, ElectraForkVersion cfg),
      (FuluForkEpoch cfg, FuluForkVersion cfg)]"

definition active_fork :: "BeaconChainConfig \<Rightarrow> u64 \<Rightarrow> byte list" where
  "active_fork cfg epoch = snd (last (filter (\<lambda>(start, version). start \<le> epoch) (fork_schedule cfg)))"

text \<open>Documented behaviour of a bit vector: setting a bit in range sets that bit, out of range nothing.\<close>

definition bitvector_laws :: "'b bitvector \<Rightarrow> bool" where
  "bitvector_laws bv \<longleftrightarrow>
     (\<forall>j. \<not> BitAt bv (bv_zero bv) j) \<and>
     (\<forall>b i v j. BitAt bv (SetBitAt bv b i v) j = (if i = j \<and> j < bv_Len bv then v else BitAt bv b j))"

section \<open>Lemmas\<close>

lemma GetBeaconChainConfig_supported:
  "network st = MainnetName prm \<or> network st = HoodiName prm \<Longrightarrow>
     GetBeaconChainConfig prm st =
       Returns (if network st = MainnetName prm then MainnetConfig prm else HoodiConfig prm)"
  by (auto simp: GetBeaconChainConfig_def GetNetwork_def)

lemma GetBeaconChainConfig_unsupported:
  "network st \<noteq> MainnetName prm \<Longrightarrow> network st \<noteq> HoodiName prm \<Longrightarrow> GetBeaconChainConfig prm st = no_network"
  by (simp add: GetBeaconChainConfig_def GetNetwork_def)

lemma GetEpochDuration_eq:
  "GetEpochDuration prm st =
     and_then (GetBeaconChainConfig prm st) (\<lambda>cfg. Returns (epoch_duration cfg))"
  by (cases "GetBeaconChainConfig prm st")
    (simp_all add: GetEpochDuration_def GetSlotDuration_def epoch_duration_def)

lemma BitAt_set_many:
  assumes "bitvector_laws bv"
  shows "BitAt bv (fold (\<lambda>i b. SetBitAt bv b i True) is b) j \<longleftrightarrow>
           j \<in> set is \<and> j < bv_Len bv \<or> BitAt bv b j"
  using assms by (induction "is" arbitrary: b) (auto simp: bitvector_laws_def)

text \<open>Mainnet's fork epochs and versions, for concrete runs.\<close>

definition sample_config :: BeaconChainConfig where
  "sample_config =
     \<lparr> SecondsPerSlot = 12, SlotsPerEpoch = 32,
       AltairForkEpoch = 74240, BellatrixForkEpoch = 144896, CapellaForkEpoch = 194048,
       DenebForkEpoch = 269568, ElectraForkEpoch = 364032, FuluForkEpoch = 411392,
       GenesisForkVersion = [0, 0, 0, 0], AltairForkVersion = [1, 0, 0, 0],
       BellatrixForkVersion = [2, 0, 0, 0], CapellaForkVersion = [3, 0, 0, 0],
       DenebForkVersion = [4, 0, 0, 0], ElectraForkVersion = [5, 0, 0, 0],
       FuluForkVersion = [6, 0, 0, 0],
       BlobsidecarSubnetCount = 6, AttestationSubnetCount = 64, SyncCommitteeSubnetCount = 4,
       TargetCommitteeSize = 128, MaxCommitteesPerSlot = 64, TargetAggregatorsPerCommittee = 16,
       TargetAggregatorsPerSyncSubcommittee = 16, SyncCommitteeSize = 512,
       MaxPayloadSize = 10485760, GenesisValidatorsRoot = replicate 32 0 \<rparr>"

definition sample_names :: p2p_names where
  "sample_names =
     \<lparr> GossipBlockMessage = ''beacon_block'', GossipBlobSidecarMessage = ''blob_sidecar'',
       GossipAggregateAndProofMessage = ''beacon_aggregate_and_proof'',
       GossipAttestationMessage = ''beacon_attestation'',
       GossipContributionAndProofMessage = ''sync_committee_contribution_and_proof'',
       GossipSyncCommitteeMessage = ''sync_committee'',
       GossipProposerSlashingMessage = ''proposer_slashing'',
       GossipAttesterSlashingMessage = ''attester_slashing'',
       GossipBlsToExecutionChangeMessage = ''bls_to_execution_change'',
       GossipExitMessage = ''voluntary_exit'' \<rparr>"

definition sample_network_config :: NetworkConfig where
  "sample_network_config =
     \<lparr> AttSubnetKey = ''attnets'', SyncCommsSubnetKey = ''syncnets'', ETH2Key = ''eth2'', BootstrapNodes = [] \<rparr>"

definition sample_params :: eth_params where
  "sample_params =
     \<lparr> MainnetName = ''mainnet'', HoodiName = ''hoodi'', MainnetConfig = sample_config,
       HoodiConfig = sample_config, UseHoodiNetworkConfig = (\<lambda>c. c),
       MustDecode = (\<lambda>s. Returns (replicate 32 0)),
       slots_Since = (\<lambda>now genesis. of_int ((now - genesis) div (12 * 10 ^ 9))),
       slots_ToEpoch = (\<lambda>s. s div 32) \<rparr>"

definition sample_eth :: eth_state where
  "sample_eth = \<lparr> network = ''mainnet'', beaconNetworkConfig = sample_network_config \<rparr>"

text \<open>A bit vector as the list of the positions set in it.\<close>

definition list_bitvector :: "u64 \<Rightarrow> u64 list bitvector" where
  "list_bitvector n =
     \<lparr> bv_zero = [], SetBitAt = (\<lambda>b i v. if i < n then (if v then i # b else removeAll i b) else b),
       BitAt = (\<lambda>b i. i \<in> set b), bv_Len = n \<rparr>"

lemma list_bitvector_laws: "bitvector_laws (list_bitvector n)"
  by (auto simp: bitvector_laws_def list_bitvector_def)

section \<open>Properties\<close>

text \<open>
  C22: For a configuration whose fork epochs are in order and whose versions are four bytes,
  on either supported network: the fork version of an epoch before Fulu is the version of the
  last fork that starts at or before it. From Fulu on the last started fork is Fulu, but the
  version returned is still that of Electra.
\<close>

theorem GetForkVersion_active:
  assumes "GetBeaconChainConfig prm st = Returns cfg"
    and "sorted (map fst (fork_schedule cfg))"
    and "list_all (\<lambda>(start, version). length version = 4) (fork_schedule cfg)"
  shows "(epoch < FuluForkEpoch cfg \<longrightarrow> GetForkVersion prm st epoch = Returns (active_fork cfg epoch)) \<and>
    (FuluForkEpoch cfg \<le> epoch \<longrightarrow>
       GetForkVersion prm st epoch = Returns (ElectraForkVersion cfg) \<and> active_fork cfg epoch = FuluForkVersion cfg)"
proof -
  have "fork_version_of cfg epoch = Returns (active_fork cfg epoch)" if "epoch < FuluForkEpoch cfg"
    using assms(2,3) that
    by (auto simp: fork_version_of_def active_fork_def fork_schedule_def array4_def not_less)
  moreover have "fork_version_of cfg epoch = Returns (ElectraForkVersion cfg)" "active_fork cfg epoch = FuluForkVersion cfg"
    if "FuluForkEpoch cfg \<le> epoch"
    using assms(2,3) that
    by (auto simp: fork_version_of_def active_fork_def fork_schedule_def array4_def not_less)
  ultimately show ?thesis by (simp add: GetForkVersion_def assms(1))
qed

theorem GetForkVersion_active_witness:
  "GetForkVersion sample_params sample_eth 364031 = Returns [4, 0, 0, 0] \<and>
   GetForkVersion sample_params sample_eth 364032 = Returns [5, 0, 0, 0] \<and>
   GetForkVersion sample_params sample_eth 411392 = Returns [5, 0, 0, 0] \<and>
   active_fork sample_config 411392 = [6, 0, 0, 0]"
proof -
  have cfg: "GetBeaconChainConfig sample_params sample_eth = Returns sample_config"
    by (simp add: GetBeaconChainConfig_supported sample_params_def sample_eth_def)
  have "sorted (map fst (fork_schedule sample_config))"
    "list_all (\<lambda>(start, version). length version = 4) (fork_schedule sample_config)"
    by (simp_all add: fork_schedule_def sample_config_def)
  note * = GetForkVersion_active [OF cfg this]
  show ?thesis
    using * [of 364031] * [of 364032] * [of 411392]
    by (simp add: active_fork_def fork_schedule_def sample_config_def)
qed

text \<open>
  Setting a network succeeds exactly for the two supported names and is then what every
  getter uses; a rejected name is an error, and as long as no supported network is set the
  getters panic rather than return a configuration.
\<close>

lemma network_selection:
  "(SetNetwork prm net st = Returns st' \<longrightarrow>
      net \<in> {MainnetName prm, HoodiName prm} \<and> GetNetwork prm st' = Returns net \<and>
      GetBeaconChainConfig prm st' =
        Returns (if net = MainnetName prm then MainnetConfig prm else HoodiConfig prm) \<and>
      beaconNetworkConfig st' = beaconNetworkConfig st) \<and>
   (net \<notin> {MainnetName prm, HoodiName prm} \<longrightarrow>
      SetNetwork prm net st = Fails (ErrNew ''network must be set only for supported ethereum'')) \<and>
   (network st \<notin> {MainnetName prm, HoodiName prm} \<longrightarrow>
      GetNetwork prm st = no_network \<and> GetGenesisConfig prm st = no_network \<and>
      GetBeaconChainConfig prm st = no_network \<and> GetBeaconNetworkConfig prm st = no_network \<and>
      GetForkVersion prm st epoch = no_network \<and> GetSlotDuration prm st = no_network)"
  by (auto simp: SetNetwork_def GetNetwork_def GetBeaconChainConfig_def GetGenesisConfig_def
      GetBeaconNetworkConfig_def GetForkVersion_def GetSlotDuration_def split: if_splits)

text \<open>
  C38: The bit vectors announced to peers have exactly the bits of the existing subnets set:
  bit \<^verbatim>\<open>i\<close> of the attestation vector is set when \<^verbatim>\<open>i\<close> is below the attestation subnet count (and
  within the vector), and likewise for the sync committee vector.
\<close>

theorem all_subnet_bits:
  assumes "bitvector_laws bv" and "GetBeaconChainConfig prm st = Returns cfg"
  shows "(\<exists>b. GetAttestationAllSubnetBitvector bv prm st = Returns b \<and>
            (\<forall>i. BitAt bv b i \<longleftrightarrow> i < AttestationSubnetCount cfg \<and> i < bv_Len bv)) \<and>
         (\<exists>b. GetSyncCommitteeAllSubnetBitvector bv prm st = Returns b \<and>
            (\<forall>i. BitAt bv b i \<longleftrightarrow> i < SyncCommitteeSubnetCount cfg \<and> i < bv_Len bv))"
  using assms(1)
  by (simp add: GetAttestationAllSubnetBitvector_def GetSyncCommitteeAllSubnetBitvector_def assms(2)
      BitAt_set_many set_for_range) (simp add: bitvector_laws_def)

theorem all_subnet_bits_witness:
  "\<exists>b. GetAttestationAllSubnetBitvector (list_bitvector 64) sample_params sample_eth = Returns b \<and>
       BitAt (list_bitvector 64) b 0 \<and> BitAt (list_bitvector 64) b 63 \<and> \<not> BitAt (list_bitvector 64) b 64"
proof -
  have cfg: "GetBeaconChainConfig sample_params sample_eth = Returns sample_config"
    by (simp add: GetBeaconChainConfig_supported sample_params_def sample_eth_def)
  from all_subnet_bits [OF list_bitvector_laws cfg, of 64] obtain b where
    "GetAttestationAllSubnetBitvector (list_bitvector 64) sample_params sample_eth = Returns b"
    "\<forall>i. BitAt (list_bitvector 64) b i \<longleftrightarrow> i < AttestationSubnetCount sample_config \<and> i < bv_Len (list_bitvector 64)"
    by blast
  then show ?thesis by (auto simp: sample_config_def list_bitvector_def)
qed

end
