(* ===== verification/Topics.thy ===== *)
theory Topics
  imports Prysm_Params
begin

text \<open>
  Gossip topics and the switches over them. Three components of the program find the message kind
  of a topic by testing which name it contains, one after the other: the topic group of a record,
  the handler of a subscription and the score parameters. The locale \<^emph>\<open>topic_dispatch\<close> is what such
  a switch does, and the result proved in it holds for each of them.
\<close>

section \<open>Topics\<close>

text \<open>
  What the tests rely on: the names are longer than the other parts of a topic, have no slash,
  do not end like a subnet number, and no name contains an earlier one.
\<close>

definition names_ok :: "string list \<Rightarrow> bool" where
  "names_ok ns \<longleftrightarrow>
     list_all (\<lambda>m. 10 < length m \<and> CHR ''/'' \<notin> set m \<and> last m \<notin> set ''_0123456789'') ns \<and>
     sorted_wrt (\<lambda>earlier later. \<not> Contains later earlier) ns"

text \<open>A gossip topic: the fork digest, the name with an optional subnet number, the encoding.\<close>

definition gossip_topic :: "string \<Rightarrow> string \<Rightarrow> string" where
  "gossip_topic digest name = ''/eth2/'' @ digest @ ''/'' @ name @ ''/ssz_snappy''"

lemma sublist_append_avoid:
  assumes "m \<noteq> []" and "last m \<notin> set y"
  shows "sublist m (x @ y) \<longleftrightarrow> sublist m x"
  using assms(2)
proof (induction y rule: rev_induct)
  case (snoc c y)
  have "\<not> suffix m ((x @ y) @ [c])"
    using snoc.prems assms(1) by (auto simp: suffix_def dest!: arg_cong [where f = last])
  then have "sublist m ((x @ y) @ [c]) \<longleftrightarrow> sublist m (x @ y)"
    unfolding sublist_altdef prefix_snoc by blast
  with snoc show ?case by simp
qed simp

lemma Contains_gossip_topic:
  assumes "length digest \<le> 10" and "10 < length m" and "CHR ''/'' \<notin> set m"
    and "last m \<notin> set ''_0123456789''" and "set sub \<subseteq> set ''_0123456789''"
  shows "Contains (gossip_topic digest (name @ sub)) m \<longleftrightarrow> Contains name m"
proof -
  let ?c = "CHR ''/''"
  have "gossip_topic digest (name @ sub) =
      [] @ ?c # (''eth2'' @ ?c # (digest @ ?c # ((name @ sub) @ ?c # ''ssz_snappy'')))"
    by (simp add: gossip_topic_def)
  then have "Contains (gossip_topic digest (name @ sub)) m \<longleftrightarrow>
      Contains [] m \<or> Contains ''eth2'' m \<or> Contains digest m \<or> Contains (name @ sub) m \<or>
      Contains ''ssz_snappy'' m"
    by (simp only: Contains_around_sep [OF assms(3)])
  moreover have "\<not> Contains [] m" "\<not> Contains ''eth2'' m" "\<not> Contains digest m" "\<not> Contains ''ssz_snappy'' m"
    using assms(1,2) by (auto intro!: Contains_longer)
  moreover have "Contains (name @ sub) m \<longleftrightarrow> Contains name m"
    using assms(2,4,5) unfolding Contains_def by (intro sublist_append_avoid) auto
  ultimately show ?thesis by simp
qed

text \<open>The first test that a gossip topic passes is the one for its own name.\<close>

lemma gossip_first_match:
  assumes "names_ok ns" and "i < length ns"
    and "length digest \<le> 10" and "set sub \<subseteq> set ''_0123456789''"
  shows "Contains (gossip_topic digest (ns ! i @ sub)) (ns ! i)"
    and "\<forall>k < i. \<not> Contains (gossip_topic digest (ns ! i @ sub)) (ns ! k)"
proof -
  have names: "10 < length m \<and> CHR ''/'' \<notin> set m \<and> last m \<notin> set ''_0123456789''" if "m \<in> set ns" for m
    using assms(1) that by (auto simp: names_ok_def list_all_iff)
  have iff: "Contains (gossip_topic digest (ns ! i @ sub)) (ns ! k) \<longleftrightarrow> Contains (ns ! i) (ns ! k)"
    if "k < length ns" for k
    using names [OF nth_mem [OF that]] assms(3,4) by (intro Contains_gossip_topic) auto
  show "Contains (gossip_topic digest (ns ! i @ sub)) (ns ! i)"
    using iff [OF assms(2)] by simp
  show "\<forall>k < i. \<not> Contains (gossip_topic digest (ns ! i @ sub)) (ns ! k)"
    using assms(1,2) iff by (auto simp: names_ok_def sorted_wrt_iff_nth_less)
qed

text \<open>The names in the order in which the gossip package tests them.\<close>

definition handler_names :: "p2p_names \<Rightarrow> string list" where
  "handler_names n =
     [GossipBlockMessage n, GossipBlobSidecarMessage n, GossipAggregateAndProofMessage n,
      GossipAttestationMessage n, GossipContributionAndProofMessage n, GossipSyncCommitteeMessage n,
      GossipProposerSlashingMessage n, GossipAttesterSlashingMessage n, GossipBlsToExecutionChangeMessage n,
      GossipExitMessage n]"

lemma length_handler_names: "length (handler_names n) = 10"
  by (simp add: handler_names_def)

section \<open>Switches over topics\<close>

locale topic_dispatch =
  fixes tests :: "p2p_names \<Rightarrow> string list" and dispatch :: "p2p_names \<Rightarrow> string \<Rightarrow> 'a"
    and results :: "p2p_names \<Rightarrow> 'a list" and otherwise :: 'a
  assumes dispatch_length: "length (results n) = length (tests n)"
    and dispatch_switch: "dispatch n t = first_case (zip (map (Contains t) (tests n)) (results n)) otherwise"
begin

lemma dispatch_gossip:
  assumes "names_ok (tests n)" and "i < length (tests n)"
    and "length digest \<le> 10" and "set sub \<subseteq> set ''_0123456789''"
  shows "dispatch n (gossip_topic digest (tests n ! i @ sub)) = results n ! i"
  unfolding dispatch_switch using gossip_first_match [OF assms] assms(2) dispatch_length [of n]
  by (intro first_case_nth) simp_all

lemma dispatch_unknown:
  assumes "\<forall>m \<in> set (tests n). \<not> Contains t m"
  shows "dispatch n t = otherwise"
proof -
  have "first_case (zip (map (Contains t) ms) rs) otherwise = otherwise" if "\<forall>m \<in> set ms. \<not> Contains t m" for ms rs
    using that
  proof (induction ms arbitrary: rs)
    case (Cons m ms)
    then show ?case by (cases rs) simp_all
  qed simp
  then show ?thesis unfolding dispatch_switch using assms by blast
qed

end

end
