(* ===== verification/Repository.thy ===== *)
theory Repository
  imports Prelude
begin

text \<open>
  The repository package (\<^verbatim>\<open>src/repository\<close>): the stored records (\<^verbatim>\<open>models.go\<close>), the
  ClickHouse implementation (\<^verbatim>\<open>clickhouse.go\<close>) and the option-driven constructor with its adapter
  (\<^verbatim>\<open>repository.go\<close>). The ClickHouse client library is a parameter, the record
  \<^theory_text>\<open>driver\<close>; the columns of the two tables are those of
  \<^verbatim>\<open>migrations/001_init_tables.sql\<close>.
\<close>

section \<open>Records (models.go)\<close>

record GeneralMessageHistory =
  gmh_ArrivalTime :: gotime
  gmh_ForkVersion :: string
  gmh_Topic :: string
  gmh_NodeRegion :: string
  gmh_NodeAlias :: string
  gmh_NodePeerCount :: u32
  gmh_MessageID :: string
  gmh_SizeBytes :: u32

record SlotMessageStats =
  sms_Slot :: u64
  sms_TopicGroup :: string
  sms_ForkVersion :: string
  sms_Topic :: string
  sms_NodeRegion :: string
  sms_NodeAlias :: string
  sms_NodePeerCount :: u32
  sms_MessageID :: string
  sms_SlotStartTime :: gotime
  sms_FirstArrivalTime :: gotime
  sms_LatencyMS :: u32
  sms_SizeBytes :: u32
  sms_SeenCount :: u32

section \<open>The ClickHouse client library (a parameter)\<close>

datatype db_value = VUInt64 u64 | VUInt32 u32 | VString string | VTime gotime

datatype query = InsertInto string "string list"

record clickhouse_Options =
  opt_Addr :: "string list"
  opt_Database :: string
  opt_Username :: string
  opt_Password :: string
  opt_ProtocolNative :: bool
  opt_MaxExecutionTime :: nat
  opt_DialTimeout :: duration
  opt_CompressionLZ4 :: bool
  opt_TLSInsecureSkipVerify :: "bool option"

text \<open>
  The calls the repository makes on the library: \<^verbatim>\<open>'c\<close> is the state of a connection (what the
  server holds included) and \<^verbatim>\<open>'b\<close> a batch under construction.
\<close>

record ('c, 'b) driver =
  drv_Open :: "clickhouse_Options \<Rightarrow> error + 'c"
  drv_Ping :: "'c \<Rightarrow> error option"
  drv_Exec :: "'c \<Rightarrow> query \<Rightarrow> db_value list \<Rightarrow> 'c \<times> error option"
  drv_PrepareBatch :: "'c \<Rightarrow> query \<Rightarrow> error + 'b"
  drv_Append :: "'b \<Rightarrow> db_value list \<Rightarrow> error + 'b"
  drv_Send :: "'c \<Rightarrow> 'b \<Rightarrow> 'c \<times> error option"
  drv_Close :: "'c \<Rightarrow> 'c \<times> error option"

section \<open>ClickHouse repository (clickhouse.go)\<close>

record clickhouseConfig =
  cfg_Host :: string
  cfg_Port :: u16
  cfg_Database :: string
  cfg_Username :: string
  cfg_Password :: string
  cfg_Secure :: bool

definition clickhouse_options :: "clickhouseConfig \<Rightarrow> clickhouse_Options" where
  "clickhouse_options cfg =
     \<lparr> opt_Addr = [cfg_Host cfg @ '':'' @ decimal (unat (cfg_Port cfg))],
       opt_Database = cfg_Database cfg,
       opt_Username = cfg_Username cfg,
       opt_Password = cfg_Password cfg,
       opt_ProtocolNative = True,
       opt_MaxExecutionTime = 60,
       opt_DialTimeout = 5 * second,
       opt_CompressionLZ4 = True,
       opt_TLSInsecureSkipVerify = (if cfg_Secure cfg then Some True else None) \<rparr>"

definition NewClickHouseRepository :: "('c, 'b) driver \<Rightarrow> clickhouseConfig \<Rightarrow> 'c outcome" where
  "NewClickHouseRepository drv cfg =
     and_then (wrap ''failed to connect to ClickHouse'' (outcome_of (drv_Open drv (clickhouse_options cfg))))
       (\<lambda>conn. case drv_Ping drv conn of
           Some err \<Rightarrow> Fails (ErrWrap err ''failed to ping ClickHouse'')
         | None \<Rightarrow> Returns conn)"

definition general_history_query :: query where
  "general_history_query = InsertInto ''general_message_histories''
     [''arrival_time'', ''fork_version'', ''topic'', ''node_region'', ''node_alias'',
      ''node_peer_count'', ''message_id'', ''size_bytes'']"

definition general_history_row :: "GeneralMessageHistory \<Rightarrow> db_value list" where
  "general_history_row h =
     [VTime (gmh_ArrivalTime h), VString (gmh_ForkVersion h), VString (gmh_Topic h),
      VString (gmh_NodeRegion h), VString (gmh_NodeAlias h), VUInt32 (gmh_NodePeerCount h),
      VString (gmh_MessageID h), VUInt32 (gmh_SizeBytes h)]"

definition SaveGeneralMessageHistory ::
  "('c, 'b) driver \<Rightarrow> 'c \<Rightarrow> GeneralMessageHistory option \<Rightarrow> 'c \<times> error option" where
  "SaveGeneralMessageHistory drv conn history =
     (case history of
        None \<Rightarrow> (conn, Some (ErrNew ''history is nil''))
      | Some h \<Rightarrow>
          (case drv_Exec drv conn general_history_query (general_history_row h) of
             (conn', Some err) \<Rightarrow> (conn', Some (ErrWrap err ''failed to save general message history''))
           | (conn', None) \<Rightarrow> (conn', None)))"

definition slot_stats_query :: query where
  "slot_stats_query = InsertInto ''slot_message_stats'' []"

definition slot_stats_row :: "SlotMessageStats \<Rightarrow> db_value list" where
  "slot_stats_row s =
     [VUInt64 (sms_Slot s), VString (sms_TopicGroup s), VString (sms_ForkVersion s),
      VString (sms_Topic s), VString (sms_NodeRegion s), VString (sms_NodeAlias s),
      VUInt32 (sms_NodePeerCount s), VString (sms_MessageID s), VTime (sms_SlotStartTime s),
      VTime (sms_FirstArrivalTime s), VUInt32 (sms_LatencyMS s), VUInt32 (sms_SizeBytes s),
      VUInt32 (sms_SeenCount s)]"

text \<open>The loop of \<^verbatim>\<open>SaveSlotMessageStatsMulti\<close>: it stops at the first failing append.\<close>

fun append_stats :: "('c, 'b) driver \<Rightarrow> 'b \<Rightarrow> SlotMessageStats list \<Rightarrow> error + 'b" where
  "append_stats drv batch [] = Inr batch"
| "append_stats drv batch (stat # stats) =
     (case drv_Append drv batch (slot_stats_row stat) of
        Inl err \<Rightarrow> Inl (ErrWrap err ''failed to append message stats'')
      | Inr batch' \<Rightarrow> append_stats drv batch' stats)"

definition SaveSlotMessageStatsMulti ::
  "('c, 'b) driver \<Rightarrow> 'c \<Rightarrow> SlotMessageStats list \<Rightarrow> 'c \<times> error option" where
  "SaveSlotMessageStatsMulti drv conn stats =
     (if length stats = 0 then (conn, None)
      else
        (case drv_PrepareBatch drv conn slot_stats_query of
           Inl err \<Rightarrow> (conn, Some (ErrWrap err ''failed to prepare batch''))
         | Inr batch \<Rightarrow>
             (case append_stats drv batch stats of
                Inl err \<Rightarrow> (conn, Some err)
              | Inr batch' \<Rightarrow>
                  (case drv_Send drv conn batch' of
                     (conn', Some err) \<Rightarrow> (conn', Some (ErrWrap err ''failed to send batch''))
                   | (conn', None) \<Rightarrow> (conn', None)))))"

definition Close :: "('c, 'b) driver \<Rightarrow> 'c \<Rightarrow> 'c \<times> error option" where
  "Close drv conn = drv_Close drv conn"

section \<open>The Repository interface and its adapter (repository.go)\<close>

text \<open>The Go interface: a record of methods over the state of the store.\<close>

record 'r repository_methods =
  repo_SaveGeneralMessageHistory :: "'r \<Rightarrow> GeneralMessageHistory option \<Rightarrow> 'r \<times> error option"
  repo_SaveSlotMessageStatsMulti :: "'r \<Rightarrow> SlotMessageStats list \<Rightarrow> 'r \<times> error option"
  repo_Close :: "'r \<Rightarrow> 'r \<times> error option"

definition RepositoryTypeClickHouse :: string where
  "RepositoryTypeClickHouse = ''clickhouse''"

record RepositoryOption =
  ro_dbType :: string
  ro_dbName :: string
  ro_dbHost :: string
  ro_dbPort :: "64 word"
  ro_dbUser :: string
  ro_dbPassword :: string
  ro_dbSecure :: bool

type_synonym RepositoryOptionFunc = "RepositoryOption \<Rightarrow> RepositoryOption"

definition WithDBType :: "string \<Rightarrow> RepositoryOptionFunc" where
  "WithDBType dbType o' = o'\<lparr>ro_dbType := dbType\<rparr>"

definition WithDBName :: "string \<Rightarrow> RepositoryOptionFunc" where
  "WithDBName dbName o' = o'\<lparr>ro_dbName := dbName\<rparr>"

definition WithDBHost :: "string \<Rightarrow> RepositoryOptionFunc" where
  "WithDBHost dbHost o' = o'\<lparr>ro_dbHost := dbHost\<rparr>"

definition WithDBPort :: "64 word \<Rightarrow> RepositoryOptionFunc" where
  "WithDBPort dbPort o' = o'\<lparr>ro_dbPort := dbPort\<rparr>"

definition WithDBUser :: "string \<Rightarrow> RepositoryOptionFunc" where
  "WithDBUser dbUser o' = o'\<lparr>ro_dbUser := dbUser\<rparr>"

definition WithDBPassword :: "string \<Rightarrow> RepositoryOptionFunc" where
  "WithDBPassword dbPassword o' = o'\<lparr>ro_dbPassword := dbPassword\<rparr>"

definition WithDBSecure :: "bool \<Rightarrow> RepositoryOptionFunc" where
  "WithDBSecure dbSecure o' = o'\<lparr>ro_dbSecure := dbSecure\<rparr>"

definition default_RepositoryOption :: RepositoryOption where
  "default_RepositoryOption =
     \<lparr> ro_dbType = ''clickhouse'', ro_dbName = ''peekd'', ro_dbHost = ''localhost'', ro_dbPort = 9000,
       ro_dbUser = ''default'', ro_dbPassword = '''', ro_dbSecure = False \<rparr>"

text \<open>The configuration \<^verbatim>\<open>NewRepository\<close> derives from its options; the port is cut to 16 bits.\<close>

definition repository_config :: "RepositoryOption \<Rightarrow> clickhouseConfig" where
  "repository_config o' =
     \<lparr> cfg_Host = ro_dbHost o', cfg_Port = ucast (ro_dbPort o'), cfg_Database = ro_dbName o',
       cfg_Username = ro_dbUser o', cfg_Password = ro_dbPassword o', cfg_Secure = ro_dbSecure o' \<rparr>"

record 'c adapter =
  chRepo :: 'c

definition NewRepository :: "('c, 'b) driver \<Rightarrow> RepositoryOptionFunc list \<Rightarrow> 'c adapter outcome" where
  "NewRepository drv opts =
     (let o' = fold (\<lambda>opt. opt) opts default_RepositoryOption in
      if ro_dbType o' = ''clickhouse'' then
        and_then (wrap ''failed to create ClickHouse repository''
                   (NewClickHouseRepository drv (repository_config o')))
          (\<lambda>ch. Returns \<lparr> chRepo = ch \<rparr>)
      else Fails (ErrNew (''unsupported database type: '' @ ro_dbType o')))"

text \<open>The adapter's methods: each calls the ClickHouse repository's.\<close>

definition adapter_methods :: "('c, 'b) driver \<Rightarrow> 'c adapter repository_methods" where
  "adapter_methods drv =
     \<lparr> repo_SaveGeneralMessageHistory = (\<lambda>a history.
         case SaveGeneralMessageHistory drv (chRepo a) history of (c, e) \<Rightarrow> (a\<lparr>chRepo := c\<rparr>, e)),
       repo_SaveSlotMessageStatsMulti = (\<lambda>a stats.
         case SaveSlotMessageStatsMulti drv (chRepo a) stats of (c, e) \<Rightarrow> (a\<lparr>chRepo := c\<rparr>, e)),
       repo_Close = (\<lambda>a. case Close drv (chRepo a) of (c, e) \<Rightarrow> (a\<lparr>chRepo := c\<rparr>, e)) \<rparr>"

section \<open>The tables (migrations/001_init_tables.sql)\<close>

datatype column_type = CDateTime | CString | CUInt32 | CUInt64

definition general_message_histories_columns :: "(string \<times> column_type) list" where
  "general_message_histories_columns =
     [(''arrival_time'', CDateTime), (''fork_version'', CString), (''topic'', CString),
      (''node_region'', CString), (''node_alias'', CString), (''node_peer_count'', CUInt32),
      (''message_id'', CString), (''size_bytes'', CUInt32)]"

definition slot_message_stats_columns :: "(string \<times> column_type) list" where
  "slot_message_stats_columns =
     [(''slot'', CUInt64), (''topic_group'', CString), (''fork_version'', CString),
      (''topic'', CString), (''node_region'', CString), (''node_alias'', CString),
      (''node_peer_count'', CUInt32), (''message_id'', CString), (''slot_start_time'', CDateTime),
      (''first_arrival_time'', CDateTime), (''latency_ms'', CUInt32), (''size_bytes'', CUInt32),
      (''seen_count'', CUInt32)]"

fun value_type :: "db_value \<Rightarrow> column_type" where
  "value_type (VUInt64 _) = CUInt64"
| "value_type (VUInt32 _) = CUInt32"
| "value_type (VString _) = CString"
| "value_type (VTime _) = CDateTime"

text \<open>A row read back by column name.\<close>

definition column :: "(string \<times> column_type) list \<Rightarrow> db_value list \<Rightarrow> string \<Rightarrow> db_value option" where
  "column cols row = map_of (zip (map fst cols) row)"

section \<open>Lemmas\<close>

subsection \<open>Documented behaviour of the client library\<close>

text \<open>
  \<^verbatim>\<open>rows\<close> is what was inserted in the table of the slot statistics (a table keeps no order),
  \<^verbatim>\<open>batch_rows\<close> what a batch has collected: a new batch is empty, appending adds the row at the
  end, and a batch whose sending reports no error is stored. Of a sending that reports an error
  nothing is assumed: the server may have stored all, some or none of its rows.
\<close>

definition batch_laws ::
  "('c, 'b) driver \<Rightarrow> ('c \<Rightarrow> db_value list multiset) \<Rightarrow> ('b \<Rightarrow> db_value list list) \<Rightarrow> bool" where
  "batch_laws drv rows batch_rows \<longleftrightarrow>
     (\<forall>c q b. drv_PrepareBatch drv c q = Inr b \<longrightarrow> batch_rows b = []) \<and>
     (\<forall>b r b'. drv_Append drv b r = Inr b' \<longrightarrow> batch_rows b' = batch_rows b @ [r]) \<and>
     (\<forall>c b c'. drv_Send drv c b = (c', None) \<longrightarrow> rows c' = rows c + mset (batch_rows b))"

lemma batch_laws_prepare:
  "batch_laws drv rows batch_rows \<Longrightarrow> drv_PrepareBatch drv c q = Inr b \<Longrightarrow> batch_rows b = []"
  by (simp add: batch_laws_def)

lemma batch_laws_send:
  "batch_laws drv rows batch_rows \<Longrightarrow> drv_Send drv c b = (c', None) \<Longrightarrow> rows c' = rows c + mset (batch_rows b)"
  by (simp add: batch_laws_def)

lemma append_stats_rows:
  "batch_laws drv rows batch_rows \<Longrightarrow> append_stats drv b stats = Inr b' \<Longrightarrow>
     batch_rows b' = batch_rows b @ map slot_stats_row stats"
proof (induction stats arbitrary: b)
  case (Cons stat stats)
  then obtain b1 where "drv_Append drv b (slot_stats_row stat) = Inr b1"
    and "append_stats drv b1 stats = Inr b'"
    by (auto split: sum.splits)
  with Cons show ?case by (simp add: batch_laws_def)
qed simp

text \<open>An append that fails: the rows before it are in the batch, its error is wrapped.\<close>

lemma append_stats_error:
  "batch_laws drv rows batch_rows \<Longrightarrow> append_stats drv b stats = Inl err \<Longrightarrow>
     \<exists>k b' aerr. k < length stats \<and> batch_rows b' = batch_rows b @ map slot_stats_row (take k stats) \<and>
       drv_Append drv b' (slot_stats_row (stats ! k)) = Inl aerr \<and> err = ErrWrap aerr ''failed to append message stats''"
proof (induction stats arbitrary: b)
  case (Cons stat stats)
  show ?case
  proof (cases "drv_Append drv b (slot_stats_row stat)")
    case (Inl aerr)
    with Cons.prems show ?thesis by (intro exI [of _ 0] exI [of _ b] exI [of _ aerr]) simp
  next
    case (Inr b1)
    then have "batch_rows b1 = batch_rows b @ [slot_stats_row stat]" "append_stats drv b1 stats = Inl err"
      using Cons.prems by (auto simp: batch_laws_def)
    with Cons.IH [OF Cons.prems(1), of b1] obtain k b' aerr where
      "k < length stats" "batch_rows b' = batch_rows b @ slot_stats_row stat # map slot_stats_row (take k stats)"
      "drv_Append drv b' (slot_stats_row (stats ! k)) = Inl aerr" "err = ErrWrap aerr ''failed to append message stats''"
      by auto
    then show ?thesis by (intro exI [of _ "Suc k"] exI [of _ b'] exI [of _ aerr]) simp
  qed
qed simp

subsection \<open>A driver that keeps the rows in memory\<close>

text \<open>
  Connection state: the stored rows. It refuses a row whose first value is slot 13; sending more
  than two rows stores the first one and then fails. So both failing branches are exercised.
\<close>

definition memory_driver :: "(db_value list list, db_value list list) driver" where
  "memory_driver =
     \<lparr> drv_Open = (\<lambda>_. Inr []), drv_Ping = (\<lambda>_. None),
       drv_Exec = (\<lambda>c q r. (c @ [r], None)),
       drv_PrepareBatch = (\<lambda>_ _. Inr []),
       drv_Append = (\<lambda>b r. case r of VUInt64 s # _ \<Rightarrow> (if s = 13 then Inl (ErrNew ''slot 13'') else Inr (b @ [r]))
                                   | _ \<Rightarrow> Inr (b @ [r])),
       drv_Send = (\<lambda>c b. if length b \<le> 2 then (c @ b, None) else (c @ take 1 b, Some (ErrNew ''timeout''))),
       drv_Close = (\<lambda>c. (c, None)) \<rparr>"

lemma memory_driver_laws: "batch_laws memory_driver mset (\<lambda>b. b)"
  by (auto simp: batch_laws_def memory_driver_def split: list.splits db_value.splits if_splits)

definition sample_stat :: "u64 \<Rightarrow> SlotMessageStats" where
  "sample_stat s =
     \<lparr> sms_Slot = s, sms_TopicGroup = ''beacon_block'', sms_ForkVersion = ''6a95a1a9'',
       sms_Topic = ''beacon_block'', sms_NodeRegion = ''r'', sms_NodeAlias = ''a'',
       sms_NodePeerCount = 1, sms_MessageID = ''00'', sms_SlotStartTime = 0,
       sms_FirstArrivalTime = 0, sms_LatencyMS = 0, sms_SizeBytes = 0, sms_SeenCount = 0 \<rparr>"

section \<open>Properties\<close>

text \<open>
  C11: Slot statistics are saved as one whole batch. When the call returns no error, exactly one
  row per given record was added to the table. When it returns an error there was at least one
  record, and one of three things happened: the batch could not be prepared, or a record was
  refused after exactly the records before it had been appended, and in both cases nothing was
  sent to the server; or the batch of all records, in order, was sent and sending failed, and that
  is the only case in which the server may hold rows of a failed call. The error is that of the
  library, wrapped with the step that failed.
\<close>

theorem SaveSlotMessageStatsMulti_whole_batch:
  assumes "batch_laws drv rows batch_rows"
    and "SaveSlotMessageStatsMulti drv c stats = (c', e)"
  shows "case e of
      None \<Rightarrow> rows c' = rows c + mset (map slot_stats_row stats)
    | Some err \<Rightarrow> stats \<noteq> [] \<and>
        ((\<exists>perr. drv_PrepareBatch drv c slot_stats_query = Inl perr \<and> err = ErrWrap perr ''failed to prepare batch'' \<and> c' = c) \<or>
         (\<exists>k b aerr. k < length stats \<and> batch_rows b = map slot_stats_row (take k stats) \<and>
            drv_Append drv b (slot_stats_row (stats ! k)) = Inl aerr \<and>
            err = ErrWrap aerr ''failed to append message stats'' \<and> c' = c) \<or>
         (\<exists>b serr. batch_rows b = map slot_stats_row stats \<and> drv_Send drv c b = (c', Some serr) \<and>
            err = ErrWrap serr ''failed to send batch''))"
proof (cases "stats = []")
  case True
  with assms(2) show ?thesis by (auto simp: SaveSlotMessageStatsMulti_def)
next
  case False
  show ?thesis
  proof (cases "drv_PrepareBatch drv c slot_stats_query")
    case (Inl perr)
    with False assms(2) show ?thesis by (auto simp: SaveSlotMessageStatsMulti_def)
  next
    case (Inr b)
    note new = batch_laws_prepare [OF assms(1) Inr]
    show ?thesis
    proof (cases "append_stats drv b stats")
      case (Inl err)
      with False Inr assms(2) have "e = Some err" "c' = c" by (auto simp: SaveSlotMessageStatsMulti_def)
      then show ?thesis using append_stats_error [OF assms(1) Inl] False by (auto simp: new)
    next
      case all: (Inr b')
      then have b': "batch_rows b' = map slot_stats_row stats" using append_stats_rows [OF assms(1) all] new by simp
      then show ?thesis
        using False Inr all assms(2) batch_laws_send [OF assms(1), of c b']
        by (auto simp: SaveSlotMessageStatsMulti_def split: prod.splits option.splits)
    qed
  qed
qed

text \<open>Two records are stored; a refused record leaves the table as it was; a failed sending may not.\<close>

theorem SaveSlotMessageStatsMulti_whole_batch_witness:
  "batch_laws memory_driver mset (\<lambda>b. b) \<and>
   fst (SaveSlotMessageStatsMulti memory_driver [] [sample_stat 1, sample_stat 2]) =
     [slot_stats_row (sample_stat 1), slot_stats_row (sample_stat 2)] \<and>
   fst (SaveSlotMessageStatsMulti memory_driver [] [sample_stat 1, sample_stat 13]) = [] \<and>
   (\<exists>serr. drv_Send memory_driver [] (map slot_stats_row [sample_stat 1, sample_stat 2, sample_stat 3]) =
      (fst (SaveSlotMessageStatsMulti memory_driver [] [sample_stat 1, sample_stat 2, sample_stat 3]), Some serr))"
proof -
  let ?two = "[sample_stat 1, sample_stat 2]" and ?bad = "[sample_stat 1, sample_stat 13]"
    and ?three = "[sample_stat 1, sample_stat 2, sample_stat 3]"
  note unfold = SaveSlotMessageStatsMulti_def memory_driver_def slot_stats_row_def sample_stat_def
  have two: "SaveSlotMessageStatsMulti memory_driver [] ?two = (map slot_stats_row ?two, None)"
    and bad: "snd (SaveSlotMessageStatsMulti memory_driver [] ?bad) =
      Some (ErrWrap (ErrNew ''slot 13'') ''failed to append message stats'')"
    and three: "snd (SaveSlotMessageStatsMulti memory_driver [] ?three) =
      Some (ErrWrap (ErrNew ''timeout'') ''failed to send batch'')"
    by (simp_all add: unfold)
  note law = SaveSlotMessageStatsMulti_whole_batch [OF memory_driver_laws prod.collapse [symmetric], of "[]"]
  have "fst (SaveSlotMessageStatsMulti memory_driver [] ?bad) = []" using law [of ?bad] bad by auto
  moreover have "\<exists>serr. drv_Send memory_driver [] (map slot_stats_row ?three) =
      (fst (SaveSlotMessageStatsMulti memory_driver [] ?three), Some serr)"
    using law [of ?three] three by auto
  ultimately show ?thesis using memory_driver_laws two by simp
qed

text \<open>
  C26: The rows match the tables. The batch statement names no columns, so its values must stand
  in the order of the table's columns: every value of a row has the type of the column at its
  position, and reading the row back by column name gives the record's field of that name, for
  every column. The insert into the histories lists exactly its table's columns, its values have
  their types, and reading its row back gives the fields of the history.
\<close>

theorem rows_match_tables:
  "slot_stats_query = InsertInto ''slot_message_stats'' [] \<and>
   map value_type (slot_stats_row s) = map snd slot_message_stats_columns \<and>
   map (column slot_message_stats_columns (slot_stats_row s))
     [''slot'', ''topic_group'', ''fork_version'', ''topic'', ''node_region'', ''node_alias'', ''node_peer_count'',
      ''message_id'', ''slot_start_time'', ''first_arrival_time'', ''latency_ms'', ''size_bytes'', ''seen_count''] =
   map Some
     [VUInt64 (sms_Slot s), VString (sms_TopicGroup s), VString (sms_ForkVersion s), VString (sms_Topic s),
      VString (sms_NodeRegion s), VString (sms_NodeAlias s), VUInt32 (sms_NodePeerCount s), VString (sms_MessageID s),
      VTime (sms_SlotStartTime s), VTime (sms_FirstArrivalTime s), VUInt32 (sms_LatencyMS s),
      VUInt32 (sms_SizeBytes s), VUInt32 (sms_SeenCount s)] \<and>
   general_history_query = InsertInto ''general_message_histories'' (map fst general_message_histories_columns) \<and>
   map value_type (general_history_row h) = map snd general_message_histories_columns \<and>
   map (column general_message_histories_columns (general_history_row h))
     [''arrival_time'', ''fork_version'', ''topic'', ''node_region'', ''node_alias'', ''node_peer_count'',
      ''message_id'', ''size_bytes''] =
   map Some
     [VTime (gmh_ArrivalTime h), VString (gmh_ForkVersion h), VString (gmh_Topic h), VString (gmh_NodeRegion h),
      VString (gmh_NodeAlias h), VUInt32 (gmh_NodePeerCount h), VString (gmh_MessageID h), VUInt32 (gmh_SizeBytes h)]"
  by (simp add: column_def slot_message_stats_columns_def slot_stats_row_def slot_stats_query_def general_history_query_def
      general_message_histories_columns_def general_history_row_def)

end
