(* ===== verification/Seen_Counter.thy ===== *)
theory Seen_Counter
  imports Prelude
begin

text \<open>
  The duplicate counter (\<^verbatim>\<open>src/processor/seen_counter.go\<close>): a map from hexadecimal message
  identifiers to 32-bit counters, guarded by one mutex, so that its two operations are atomic
  and a concurrent execution is some sequence of them. The locale \<^emph>\<open>tally_store\<close> states what the
  message processor relies on; it is interpreted on the code's operations.
\<close>

section \<open>State and operations\<close>

definition hexEncode :: "byte list \<Rightarrow> string" where
  "hexEncode b = hex_bytes b"

record SeenCounter =
  counts :: "(string, u32) gomap"

definition NewSeenCounter :: SeenCounter where
  "NewSeenCounter = \<lparr> counts = [] \<rparr>"

text \<open>\<^verbatim>\<open>sc.counts[msgID]++\<close>: a missing entry reads as zero, the addition wraps.\<close>

definition IncreaseByRawID :: "SeenCounter \<Rightarrow> string \<Rightarrow> SeenCounter" where
  "IncreaseByRawID sc rawID =
     (let msgID = hexEncode (string_bytes rawID);
          value = (case map_of (counts sc) msgID of None \<Rightarrow> 0 | Some v \<Rightarrow> v)
      in sc\<lparr>counts := AList.update msgID (value + 1) (counts sc)\<rparr>)"

definition Pop :: "SeenCounter \<Rightarrow> string \<Rightarrow> (u32 \<times> bool) \<times> SeenCounter" where
  "Pop sc msgID =
     (case map_of (counts sc) msgID of
        Some value \<Rightarrow> ((value, True), sc\<lparr>counts := AList.delete msgID (counts sc)\<rparr>)
      | None \<Rightarrow> ((0, False), sc))"

section \<open>Sequences of operations and what they should count\<close>

datatype seen_op = Increase string | PopID string

fun seen_step :: "SeenCounter \<Rightarrow> seen_op \<Rightarrow> SeenCounter" where
  "seen_step sc (Increase rawID) = IncreaseByRawID sc rawID"
| "seen_step sc (PopID msgID) = snd (Pop sc msgID)"

definition seen_run :: "SeenCounter \<Rightarrow> seen_op list \<Rightarrow> SeenCounter" where
  "seen_run sc ops = fold (\<lambda>op sc. seen_step sc op) ops sc"

text \<open>The number of increases of an identifier since it was last popped, as a natural number.\<close>

fun since_pop :: "seen_op list \<Rightarrow> string \<Rightarrow> nat \<Rightarrow> nat" where
  "since_pop [] k n = n"
| "since_pop (Increase rawID # ops) k n =
     since_pop ops k (if hexEncode (string_bytes rawID) = k then Suc n else n)"
| "since_pop (PopID k' # ops) k n = since_pop ops k (if k' = k then 0 else n)"

section \<open>The interface\<close>

locale tally_store =
  fixes incr :: "'s \<Rightarrow> 'r \<Rightarrow> 's"
    and pop :: "'s \<Rightarrow> 'k \<Rightarrow> (u32 \<times> bool) \<times> 's"
    and key :: "'r \<Rightarrow> 'k"
    and tally :: "'s \<Rightarrow> 'k \<Rightarrow> u32 option"
  assumes tally_incr:
      "tally (incr s r) = (tally s)(key r \<mapsto> (case tally s (key r) of None \<Rightarrow> 1 | Some v \<Rightarrow> v + 1))"
    and tally_pop: "tally (snd (pop s k)) = (tally s)(k := None)"
    and pop_result: "fst (pop s k) = (case tally s k of None \<Rightarrow> (0, False) | Some v \<Rightarrow> (v, True))"
begin

text \<open>Popping several identifiers: every one is gone, no other is touched.\<close>

lemma tally_pops: "tally (fold (\<lambda>k s. snd (pop s k)) ks s) = (tally s) |` (- set ks)"
proof (induction ks arbitrary: s)
  case (Cons k ks)
  then show ?case by (auto simp: tally_pop restrict_map_def fun_eq_iff)
qed (simp add: restrict_map_def)

lemma pop_twice: "fst (pop (snd (pop s k)) k) = (0, False)"
  by (simp add: pop_result tally_pop)

end

section \<open>Lemmas\<close>

lemma hexEncode_eq_iff [simp]:
  "hexEncode (string_bytes a) = hexEncode (string_bytes b) \<longleftrightarrow> a = b"
  by (auto simp: hexEncode_def dest: hex_bytes_inj string_bytes_inj)

interpretation sn: tally_store IncreaseByRawID Pop "\<lambda>rawID. hexEncode (string_bytes rawID)"
  "\<lambda>sc. map_of (counts sc)"
  by unfold_locales
    (auto simp: IncreaseByRawID_def Pop_def Let_def gomap_simps fun_eq_iff split: option.splits)

lemma IncreaseByRawID_as_modify:
  "counts (IncreaseByRawID sc r) =
     (let k = hexEncode (string_bytes r)
      in AList.update k ((\<lambda>v. case v of None \<Rightarrow> 1 | Some n \<Rightarrow> n + 1) (map_of (counts sc) k)) (counts sc))"
  by (simp add: IncreaseByRawID_def Let_def split: option.splits)

lemma counts_increase_many:
  "counts (fold (\<lambda>r sc. IncreaseByRawID sc r) rs sc) =
     fold (\<lambda>k m. AList.update k ((\<lambda>v. case v of None \<Rightarrow> 1 | Some n \<Rightarrow> n + 1) (map_of m k)) m)
       (map (\<lambda>r. hexEncode (string_bytes r)) rs) (counts sc)"
  by (induction rs arbitrary: sc) (simp_all add: IncreaseByRawID_as_modify Let_def)

text \<open>The counters agree with the natural-number count, modulo the width of the counter.\<close>

definition agrees :: "u32 option \<Rightarrow> nat \<Rightarrow> bool" where
  "agrees v n \<longleftrightarrow> v = (if n = 0 then None else Some (of_nat n))"

lemma agrees_step:
  assumes "agrees (map_of (counts sc) k) n"
  shows "agrees (map_of (counts (seen_step sc (Increase r))) k)
           (if hexEncode (string_bytes r) = k then Suc n else n)"
    and "agrees (map_of (counts (seen_step sc (PopID k'))) k) (if k' = k then 0 else n)"
  using assms by (auto simp: agrees_def sn.tally_incr sn.tally_pop ac_simps)

lemma agrees_run:
  "agrees (map_of (counts sc) k) n \<Longrightarrow> agrees (map_of (counts (seen_run sc ops)) k) (since_pop ops k n)"
proof (induction ops k n arbitrary: sc rule: since_pop.induct)
  case (1 k n)
  then show ?case by (simp add: seen_run_def)
next
  case (2 rawID ops k n)
  then show ?case using agrees_step(1) [OF "2.prems"] by (simp add: seen_run_def)
next
  case (3 k' ops k n)
  then show ?case using agrees_step(2) [OF "3.prems"] by (simp add: seen_run_def)
qed

section \<open>Properties\<close>

text \<open>
  C9: After any sequence of increases and pops from a new counter, popping an identifier
  returns the number of increases since its last pop, modulo 2 to the 32, with \<^verbatim>\<open>true\<close>; and zero
  with \<^verbatim>\<open>false\<close> when there was none. The counter map thus implements a natural-number count per
  identifier, up to the counter's width.
\<close>

theorem seen_counter_refines_count:
  "fst (Pop (seen_run NewSeenCounter ops) k) =
     (let n = since_pop ops k 0 in if n = 0 then (0, False) else (of_nat n, True))"
proof -
  have "agrees (map_of (counts (seen_run NewSeenCounter ops)) k) (since_pop ops k 0)"
    by (rule agrees_run) (simp add: agrees_def NewSeenCounter_def)
  then show ?thesis by (simp add: sn.pop_result agrees_def Let_def)
qed

text \<open>
  Increases from concurrent deliveries may be ordered in any way: two sequences with the
  same multiset of raw identifiers leave the same counters, and distinct raw identifiers never
  share a counter, because the hexadecimal encoding is injective.
\<close>

lemma increases_commute:
  "(mset rs = mset rs' \<longrightarrow>
      map_of (counts (fold (\<lambda>r sc. IncreaseByRawID sc r) rs sc)) =
      map_of (counts (fold (\<lambda>r sc. IncreaseByRawID sc r) rs' sc))) \<and>
   (r \<noteq> r' \<longrightarrow>
      map_of (counts (IncreaseByRawID sc r)) (hexEncode (string_bytes r')) =
      map_of (counts sc) (hexEncode (string_bytes r')))"
proof -
  have "map_of (counts (fold (\<lambda>r sc. IncreaseByRawID sc r) rs sc)) =
        map_of (counts (fold (\<lambda>r sc. IncreaseByRawID sc r) rs' sc))" if "mset rs = mset rs'"
    unfolding counts_increase_many by (rule gm.modify_many_order) (simp add: that)
  then show ?thesis by (simp add: sn.tally_incr)
qed

end
