(* ===== verification/Slot_Cache.thy ===== *)
theory Slot_Cache
  imports Prelude Repository
begin

text \<open>
  The per-slot message cache (\<^verbatim>\<open>src/processor/slot_cache.go\<close>, with the type \<^verbatim>\<open>SlotCache\<close> of
  \<^verbatim>\<open>beacon_message_processor.go\<close>). Every operation holds the store's mutex for its whole
  access to the shared maps (\<^verbatim>\<open>DrainSlot\<close> reads the cache it has just unlinked), so operations
  are atomic. The locale \<^emph>\<open>slot_store\<close> is the contract the message processor relies on.
\<close>

section \<open>State and operations\<close>

record SlotCache =
  cache_Slot :: u64
  MessageStats :: "(string, SlotMessageStats) gomap"

record SlotCacheStore =
  caches :: "(u64, SlotCache) gomap"

definition NewSlotCacheStore :: SlotCacheStore where
  "NewSlotCacheStore = \<lparr> caches = [] \<rparr>"

definition Add :: "SlotCacheStore \<Rightarrow> u64 \<Rightarrow> string \<Rightarrow> SlotMessageStats \<Rightarrow> bool \<times> SlotCacheStore" where
  "Add s slot msgID stat =
     (let cache = (case map_of (caches s) slot of
                     Some cache \<Rightarrow> cache
                   | None \<Rightarrow> \<lparr> cache_Slot = slot, MessageStats = [] \<rparr>);
          s' = (case map_of (caches s) slot of
                  Some _ \<Rightarrow> s
                | None \<Rightarrow> s\<lparr>caches := AList.update slot cache (caches s)\<rparr>)
      in case map_of (MessageStats cache) msgID of
           Some _ \<Rightarrow> (False, s')
         | None \<Rightarrow>
             (True, s'\<lparr>caches := AList.update slot
                (cache\<lparr>MessageStats := AList.update msgID stat (MessageStats cache)\<rparr>) (caches s')\<rparr>))"

text \<open>\<^verbatim>\<open>currentSlot-1\<close> is computed in \<^verbatim>\<open>uint64\<close>.\<close>

definition CompletedSlots :: "u64 iter_order \<Rightarrow> SlotCacheStore \<Rightarrow> u64 \<Rightarrow> u64 list" where
  "CompletedSlots ord s currentSlot =
     filter (\<lambda>slot. slot < currentSlot - 1) (visit ord (map fst (caches s)))"

definition DrainSlot ::
  "(string \<times> SlotMessageStats) iter_order \<Rightarrow> SlotCacheStore \<Rightarrow> u64 \<Rightarrow> SlotMessageStats list \<times> SlotCacheStore" where
  "DrainSlot ord s slot =
     (case map_of (caches s) slot of
        None \<Rightarrow> ([], s)
      | Some cache \<Rightarrow>
          (map snd (visit ord (MessageStats cache)), s\<lparr>caches := AList.delete slot (caches s)\<rparr>))"

section \<open>Well-formedness and views\<close>

text \<open>Maps have distinct keys, and a cache is filed under its own slot number and is not empty.\<close>

definition store_ok :: "SlotCacheStore \<Rightarrow> bool" where
  "store_ok s \<longleftrightarrow> gomap_ok (caches s) \<and>
     list_all (\<lambda>(slot, cache). cache_Slot cache = slot \<and> gomap_ok (MessageStats cache) \<and>
       MessageStats cache \<noteq> []) (caches s)"

text \<open>What is cached: per slot, a partial map from message identifiers to records.\<close>

definition contents :: "SlotCacheStore \<Rightarrow> u64 \<Rightarrow> string \<Rightarrow> SlotMessageStats option" where
  "contents s slot =
     (case map_of (caches s) slot of None \<Rightarrow> (\<lambda>_. None) | Some cache \<Rightarrow> map_of (MessageStats cache))"

text \<open>All cached records with their multiplicity.\<close>

definition cached :: "SlotCacheStore \<Rightarrow> SlotMessageStats multiset" where
  "cached s = sum_list (map (\<lambda>(slot, cache). mset (map snd (MessageStats cache))) (caches s))"

section \<open>The interface\<close>

locale slot_store =
  fixes add :: "'s \<Rightarrow> u64 \<Rightarrow> 'k \<Rightarrow> 'v \<Rightarrow> bool \<times> 's"
    and completed :: "'s \<Rightarrow> u64 \<Rightarrow> u64 list"
    and drain :: "'s \<Rightarrow> u64 \<Rightarrow> 'v list \<times> 's"
    and ok :: "'s \<Rightarrow> bool"
    and view :: "'s \<Rightarrow> u64 \<Rightarrow> 'k \<Rightarrow> 'v option"
    and held :: "'s \<Rightarrow> 'v multiset"
  assumes add_result: "ok s \<Longrightarrow> fst (add s slot k v) \<longleftrightarrow> view s slot k = None"
    and add_view: "ok s \<Longrightarrow> view (snd (add s slot k v)) =
          (if view s slot k = None then (view s)(slot := (view s slot)(k \<mapsto> v)) else view s)"
    and add_held: "ok s \<Longrightarrow> held (snd (add s slot k v)) =
          (if view s slot k = None then add_mset v (held s) else held s)"
    and add_ok: "ok s \<Longrightarrow> ok (snd (add s slot k v))"
    and completed_set: "ok s \<Longrightarrow> set (completed s cur) = {slot. slot < cur - 1 \<and> view s slot \<noteq> Map.empty}"
    and completed_distinct: "ok s \<Longrightarrow> distinct (completed s cur)"
    and drain_view: "ok s \<Longrightarrow> view (snd (drain s slot)) = (view s)(slot := Map.empty)"
    and drain_held: "ok s \<Longrightarrow> held s = held (snd (drain s slot)) + mset (fst (drain s slot))"
    and drain_set: "ok s \<Longrightarrow> set (fst (drain s slot)) = ran (view s slot)"
    and drain_ok: "ok s \<Longrightarrow> ok (snd (drain s slot))"
begin

text \<open>Draining several slots, as the flush loop does.\<close>

primrec drains :: "'s \<Rightarrow> u64 list \<Rightarrow> 'v list \<times> 's" where
  "drains s [] = ([], s)"
| "drains s (slot # slots) =
     (fst (drain s slot) @ fst (drains (snd (drain s slot)) slots),
      snd (drains (snd (drain s slot)) slots))"

lemma drains_ok: "ok s \<Longrightarrow> ok (snd (drains s slots))"
  by (induction slots arbitrary: s) (simp_all add: drain_ok)

lemma drains_held:
  "ok s \<Longrightarrow> held s = held (snd (drains s slots)) + mset (fst (drains s slots))"
proof (induction slots arbitrary: s)
  case (Cons slot slots)
  have "ok (snd (drain s slot))" using Cons.prems by (rule drain_ok)
  then show ?case
    using Cons.IH [of "snd (drain s slot)"] drain_held [OF Cons.prems, of slot]
    by (simp add: ac_simps)
qed simp

lemma drains_view:
  "ok s \<Longrightarrow> view (snd (drains s slots)) slot = (if slot \<in> set slots then Map.empty else view s slot)"
proof (induction slots arbitrary: s)
  case (Cons a slots)
  have "ok (snd (drain s a))" using Cons.prems by (rule drain_ok)
  then show ?case
    using Cons.IH [of "snd (drain s a)"] drain_view [OF Cons.prems, of a]
    by auto
qed simp

text \<open>Draining every completed slot leaves exactly the slots that were not completed.\<close>

lemma drains_completed:
  assumes "ok s"
  shows "view (snd (drains s (completed s cur))) slot =
           (if slot < cur - 1 then Map.empty else view s slot)"
  using assms by (auto simp: drains_view completed_set)

lemma drained_once: "ok s \<Longrightarrow> fst (drain s slot) = [] \<longleftrightarrow> view s slot = Map.empty"
  using drain_set [of s slot] 
  by (auto simp: ran_def fun_eq_iff) (metis not_None_eq)

end

section \<open>Lemmas\<close>

lemma store_ok_new [simp]: "store_ok NewSlotCacheStore"
  by (simp add: store_ok_def NewSlotCacheStore_def)

lemma store_okD:
  assumes "store_ok s" and "map_of (caches s) slot = Some cache"
  shows "cache_Slot cache = slot" "gomap_ok (MessageStats cache)" "MessageStats cache \<noteq> []"
  using assms by (auto simp: store_ok_def list_all_iff dest!: map_of_SomeD)

lemma store_ok_update:
  assumes "store_ok s" and "cache_Slot cache = slot" and "gomap_ok (MessageStats cache)"
    and "MessageStats cache \<noteq> []"
  shows "store_ok (s\<lparr>caches := AList.update slot cache (caches s)\<rparr>)"
  using assms set_update_subset [of slot cache "caches s"]
  by (auto simp: store_ok_def list_all_iff distinct_update dest!: subsetD)

lemma store_ok_delete: "store_ok s \<Longrightarrow> store_ok (s\<lparr>caches := AList.delete slot (caches s)\<rparr>)"
  using set_delete_subset [of slot "caches s"]
  by (auto simp: store_ok_def list_all_iff distinct_delete)

text \<open>\<^const>\<open>Add\<close> by cases: the slot is new, the message is a duplicate, the message is new.\<close>

lemma Add_new_slot:
  "map_of (caches s) slot = None \<Longrightarrow>
     Add s slot msgID stat =
       (True, s\<lparr>caches := AList.update slot \<lparr> cache_Slot = slot, MessageStats = [(msgID, stat)] \<rparr>
          (caches s)\<rparr>)"
  by (simp add: Add_def)

lemma Add_duplicate:
  "map_of (caches s) slot = Some cache \<Longrightarrow> map_of (MessageStats cache) msgID = Some old \<Longrightarrow>
     Add s slot msgID stat = (False, s)"
  by (simp add: Add_def)

lemma Add_new_message:
  "map_of (caches s) slot = Some cache \<Longrightarrow> map_of (MessageStats cache) msgID = None \<Longrightarrow>
     Add s slot msgID stat =
       (True, s\<lparr>caches := AList.update slot
          (cache\<lparr>MessageStats := AList.update msgID stat (MessageStats cache)\<rparr>) (caches s)\<rparr>)"
  by (simp add: Add_def)

lemma cached_as_sum:
  "cached s = (\<Sum>(slot, cache) \<in># mset (caches s). mset (map snd (MessageStats cache)))"
  by (simp add: cached_def flip: sum_mset_sum_list)

lemma cached_update:
  assumes "gomap_ok (caches s)"
  shows "cached (s\<lparr>caches := AList.update slot cache (caches s)\<rparr>) =
           mset (map snd (MessageStats cache)) +
           cached (s\<lparr>caches := AList.delete slot (caches s)\<rparr>)"
  by (simp add: cached_as_sum mset_update [OF assms])

lemma cached_delete:
  assumes "gomap_ok (caches s)" and "map_of (caches s) slot = Some cache"
  shows "cached s = mset (map snd (MessageStats cache)) +
           cached (s\<lparr>caches := AList.delete slot (caches s)\<rparr>)"
  by (simp add: cached_as_sum mset_delete [OF assms])

lemmas slot_cache_simps = store_ok_new Add_new_slot Add_duplicate Add_new_message gomap_simps

lemma store_ok_Add: "store_ok s \<Longrightarrow> store_ok (snd (Add s slot msgID stat))"
proof (cases "map_of (caches s) slot")
  case None
  assume ok: "store_ok s"
  have "store_ok (s\<lparr>caches := AList.update slot \<lparr> cache_Slot = slot, MessageStats = [(msgID, stat)] \<rparr>
          (caches s)\<rparr>)"
    by (rule store_ok_update [OF ok]) simp_all
  then show ?thesis using None by (simp add: Add_new_slot)
next
  case (Some cache)
  assume ok: "store_ok s"
  show ?thesis
    using store_okD [OF ok Some] Some ok
    by (cases "map_of (MessageStats cache) msgID")
      (auto simp: slot_cache_simps intro!: store_ok_update)
qed

lemma contents_Add:
  assumes "store_ok s"
  shows "fst (Add s slot msgID stat) \<longleftrightarrow> contents s slot msgID = None"
    and "contents (snd (Add s slot msgID stat)) =
           (if contents s slot msgID = None
            then (contents s)(slot := (contents s slot)(msgID \<mapsto> stat)) else contents s)"
proof -
  consider (none) "map_of (caches s) slot = None"
    | (dup) cache old where "map_of (caches s) slot = Some cache" "map_of (MessageStats cache) msgID = Some old"
    | (fresh) cache where "map_of (caches s) slot = Some cache" "map_of (MessageStats cache) msgID = None"
    by (cases "map_of (caches s) slot"; cases "map_of (MessageStats (the (map_of (caches s) slot))) msgID") auto
  then have "(fst (Add s slot msgID stat) \<longleftrightarrow> contents s slot msgID = None) \<and>
    contents (snd (Add s slot msgID stat)) =
           (if contents s slot msgID = None
            then (contents s)(slot := (contents s slot)(msgID \<mapsto> stat)) else contents s)"
    by cases (auto simp: slot_cache_simps contents_def fun_eq_iff)
  then show "fst (Add s slot msgID stat) \<longleftrightarrow> contents s slot msgID = None"
    and "contents (snd (Add s slot msgID stat)) =
           (if contents s slot msgID = None
            then (contents s)(slot := (contents s slot)(msgID \<mapsto> stat)) else contents s)"
    by blast+
qed

lemma cached_Add:
  assumes "store_ok s"
  shows "cached (snd (Add s slot msgID stat)) =
           (if contents s slot msgID = None then add_mset stat (cached s) else cached s)"
proof (cases "map_of (caches s) slot")
  case None
  have "gomap_ok (caches s)" using assms by (simp add: store_ok_def)
  with None show ?thesis
    by (simp add: Add_new_slot cached_update delete_absent contents_def)
next
  case (Some cache)
  have ok: "gomap_ok (caches s)" "gomap_ok (MessageStats cache)"
    using assms store_okD [OF assms Some] by (simp_all add: store_ok_def)
  show ?thesis
  proof (cases "map_of (MessageStats cache) msgID")
    case None
    have "mset (AList.update msgID stat (MessageStats cache)) = add_mset (msgID, stat) (mset (MessageStats cache))"
      by (simp add: mset_update [OF ok(2)] delete_absent [OF None])
    with None Some ok show ?thesis
      by (simp add: Add_new_message cached_update contents_def cached_delete [OF ok(1) Some])
  next
    case (Some old)
    with \<open>map_of (caches s) slot = Some cache\<close> show ?thesis
      by (simp add: Add_duplicate contents_def)
  qed
qed

lemma contents_nonempty:
  "store_ok s \<Longrightarrow> contents s slot \<noteq> Map.empty \<longleftrightarrow> slot \<in> fst ` set (caches s)"
proof (cases "map_of (caches s) slot")
  case None
  then have "slot \<notin> fst ` set (caches s)" by (simp add: map_of_eq_None_iff)
  with None show "contents s slot \<noteq> Map.empty \<longleftrightarrow> slot \<in> fst ` set (caches s)"
    by (simp add: contents_def)
next
  case (Some cache)
  assume "store_ok s"
  with store_okD [OF this Some] have "map_of (MessageStats cache) \<noteq> Map.empty"
    by simp
  moreover have "slot \<in> fst ` set (caches s)"
    using Some by (force dest: map_of_SomeD)
  ultimately show ?thesis using Some by (simp add: contents_def)
qed

lemma set_CompletedSlots:
  "store_ok s \<Longrightarrow> set (CompletedSlots ord s cur) = {slot. slot < cur - 1 \<and> contents s slot \<noteq> Map.empty}"
  by (auto simp: CompletedSlots_def contents_nonempty)

lemma DrainSlot_facts:
  assumes "store_ok s"
  shows "contents (snd (DrainSlot ord s slot)) = (contents s)(slot := Map.empty)"
    and "cached s = cached (snd (DrainSlot ord s slot)) + mset (fst (DrainSlot ord s slot))"
    and "set (fst (DrainSlot ord s slot)) = ran (contents s slot)"
    and "store_ok (snd (DrainSlot ord s slot))"
proof -
  have ok: "gomap_ok (caches s)" using assms by (simp add: store_ok_def)
  have facts: "contents (snd (DrainSlot ord s slot)) = (contents s)(slot := Map.empty) \<and>
      cached s = cached (snd (DrainSlot ord s slot)) + mset (fst (DrainSlot ord s slot)) \<and>
      set (fst (DrainSlot ord s slot)) = ran (contents s slot)"
  proof (cases "map_of (caches s) slot")
    case None
    then show ?thesis by (auto simp: DrainSlot_def contents_def)
  next
    case (Some cache)
    have "ran (map_of (MessageStats cache)) = snd ` set (MessageStats cache)"
      by (rule ran_distinct) (rule store_okD(2) [OF assms Some])
    with Some cached_delete [OF ok Some] show ?thesis
      by (auto simp: DrainSlot_def contents_def gomap_simps)
  qed
  then show "contents (snd (DrainSlot ord s slot)) = (contents s)(slot := Map.empty)"
    and "cached s = cached (snd (DrainSlot ord s slot)) + mset (fst (DrainSlot ord s slot))"
    and "set (fst (DrainSlot ord s slot)) = ran (contents s slot)"
    by blast+
  show "store_ok (snd (DrainSlot ord s slot))"
    using assms by (auto simp: DrainSlot_def store_ok_delete split: option.split)
qed

text \<open>The store meets the contract, whatever the iteration orders.\<close>

interpretation sl: slot_store Add "CompletedSlots ord" "DrainSlot ord'" store_ok contents cached
  for ord ord'
proof
  show "distinct (CompletedSlots ord s cur)" if "store_ok s" for s cur
    using that by (simp add: CompletedSlots_def store_ok_def)
qed (simp_all add: contents_Add cached_Add store_ok_Add set_CompletedSlots DrainSlot_facts(1,3,4)
      flip: DrainSlot_facts(2))

section \<open>Properties\<close>

text \<open>Sequences of operations on the store, in the order in which they take the mutex.\<close>

datatype cache_op =
    AddOp u64 string SlotMessageStats
  | DrainOp u64

fun cache_step :: "(string \<times> SlotMessageStats) iter_order \<Rightarrow> SlotCacheStore \<Rightarrow> cache_op \<Rightarrow> SlotCacheStore" where
  "cache_step ord s (AddOp slot msgID stat) = snd (Add s slot msgID stat)"
| "cache_step ord s (DrainOp slot) = snd (DrainSlot ord s slot)"

text \<open>
  C3: From an empty store, any sequence of additions and drains keeps the store well formed
  (distinct keys, no empty cache, every cache filed under its own slot), and an addition then
  succeeds exactly when the slot holds no record for that message; a duplicate leaves the first
  record, a new message becomes readable, and no other slot or message changes.
\<close>

theorem cache_keeps_first_record:
  "let s = fold (\<lambda>op s. cache_step ord s op) ops NewSlotCacheStore in
   store_ok s \<and>
   (fst (Add s slot msgID stat) \<longleftrightarrow> contents s slot msgID = None) \<and>
   contents (snd (Add s slot msgID stat)) slot' msgID' =
     (if slot' = slot \<and> msgID' = msgID \<and> contents s slot msgID = None then Some stat
      else contents s slot' msgID')"
proof -
  have "store_ok (fold (\<lambda>op s. cache_step ord s op) ops s0)" if "store_ok s0" for s0
    using that
  proof (induction ops arbitrary: s0)
    case (Cons op ops)
    then show ?case by (cases op) (simp_all add: sl.add_ok sl.drain_ok)
  qed simp
  then have "store_ok (fold (\<lambda>op s. cache_step ord s op) ops NewSlotCacheStore)" by simp
  then show ?thesis by (simp add: Let_def sl.add_result sl.add_view)
qed

text \<open>
  C4: Draining a slot hands over every cached record of that slot exactly once and nothing
  else: the records handed over and those still cached are together the records cached before,
  the slot is empty afterwards, every other slot is unchanged, and draining the slot again
  yields nothing.
\<close>

theorem DrainSlot_moves_out:
  assumes "store_ok s" and "DrainSlot ord s slot = (stats, s')"
  shows "cached s = cached s' + mset stats \<and> set stats = ran (contents s slot) \<and>
    contents s' = (contents s)(slot := Map.empty) \<and> store_ok s' \<and> fst (DrainSlot ord' s' slot) = []"
proof -
  have "contents s' slot = Map.empty" using sl.drain_view [OF assms(1), of ord slot] assms(2) by simp
  moreover have "store_ok s'" using sl.drain_ok [OF assms(1), of ord slot] assms(2) by simp
  ultimately have "fst (DrainSlot ord' s' slot) = []" by (simp add: sl.drained_once)
  then show ?thesis
    using sl.drain_held [OF assms(1), of ord slot] sl.drain_set [OF assms(1), of ord slot]
      sl.drain_view [OF assms(1), of ord slot] \<open>store_ok s'\<close> assms(2) by simp
qed

definition two_slot_store :: SlotCacheStore where
  "two_slot_store =
     snd (Add (snd (Add (snd (Add NewSlotCacheStore 7 ''a'' (sample_stat 7))) 7 ''b'' (sample_stat 7)))
       9 ''c'' (sample_stat 9))"

theorem DrainSlot_moves_out_witness:
  "store_ok two_slot_store \<and>
   length (fst (DrainSlot reversed two_slot_store 7)) = 2 \<and>
   contents (snd (DrainSlot reversed two_slot_store 7)) 7 = Map.empty \<and>
   contents (snd (DrainSlot reversed two_slot_store 7)) 9 ''c'' = Some (sample_stat 9)"
proof -
  have ok: "store_ok two_slot_store"
    by (simp add: two_slot_store_def sl.add_ok)
  have len: "length (fst (DrainSlot reversed two_slot_store 7)) = 2"
    by (simp add: two_slot_store_def DrainSlot_def Add_def NewSlotCacheStore_def)
  have "contents two_slot_store 9 ''c'' = Some (sample_stat 9)"
    by (simp add: two_slot_store_def contents_def Add_def NewSlotCacheStore_def)
  then show ?thesis
    using DrainSlot_moves_out [OF ok surjective_pairing, of reversed 7] ok len by simp
qed

text \<open>
  C15: The completed slots are exactly the cached slots below \<^verbatim>\<open>currentSlot-1\<close>, each listed once.
  The subtraction is in \<^verbatim>\<open>uint64\<close>: for \<^verbatim>\<open>currentSlot = 0\<close> it wraps to the largest value, so every
  cached slot but that one counts as completed.
\<close>

theorem CompletedSlots_exact:
  assumes "store_ok s"
  shows "distinct (CompletedSlots ord s cur) \<and>
    set (CompletedSlots ord s cur) =
      {slot. contents s slot \<noteq> Map.empty \<and>
             (if cur = 0 then slot \<noteq> 2 ^ 64 - 1 else unat slot + 1 < unat cur)}"
proof -
  have "slot < cur - 1 \<longleftrightarrow> (if cur = 0 then slot \<noteq> 2 ^ 64 - 1 else unat slot + 1 < unat cur)"
    for slot :: u64
  proof (cases "cur = 0")
    case True
    have "(2 ^ 64 - 1 :: u64) = - 1" by simp
    moreover have "slot < - 1 \<longleftrightarrow> slot \<noteq> - 1" by (metis word_order.not_eq_extremum)
    ultimately show ?thesis using True by (simp only: diff_0 simp_thms if_True)
  next
    case False
    then show ?thesis by (auto simp: word_less_nat_alt unat_minus_one)
  qed
  then show ?thesis
    using assms by (auto simp: sl.completed_set sl.completed_distinct)
qed

theorem CompletedSlots_exact_witness:
  "set (CompletedSlots as_stored two_slot_store 9) = {7} \<and>
   set (CompletedSlots as_stored two_slot_store 0) = {7, 9}"
proof -
  have ok: "store_ok two_slot_store" by (simp add: two_slot_store_def sl.add_ok)
  have slots: "contents two_slot_store slot \<noteq> Map.empty \<longleftrightarrow> slot = 7 \<or> slot = 9" for slot
    by (simp add: contents_nonempty ok) (auto simp: two_slot_store_def Add_def NewSlotCacheStore_def)
  show ?thesis
    using CompletedSlots_exact [OF ok, of as_stored 9] CompletedSlots_exact [OF ok, of as_stored 0]
    by (auto simp: slots)
qed

end
