(* ===== verification/Slot_Extractor.thy ===== *)
theory Slot_Extractor
  imports Prysm_Params
begin

text \<open>
  The slot extractor registry (\<^verbatim>\<open>src/processor/slot_extractor.go\<close>): two maps keyed by the dynamic
  type of a message, filled by \<^verbatim>\<open>registerDefaults\<close>. An extractor asserts the type of its argument
  and follows pointers; a failed assertion and a nil pointer are panics.
\<close>

section \<open>State and operations\<close>

datatype messageKind = slotMessage | generalMessage

type_synonym slotExtractorFunc = "message \<Rightarrow> slot outcome"

record slotExtractorRegistry =
  slotExtractors :: "(go_type, slotExtractorFunc) gomap"
  generalExtractors :: "(go_type, unit) gomap"

definition registerSlotExtractor ::
  "go_type \<Rightarrow> slotExtractorFunc \<Rightarrow> slotExtractorRegistry \<Rightarrow> slotExtractorRegistry" where
  "registerSlotExtractor t fn r = r\<lparr>slotExtractors := AList.update t fn (slotExtractors r)\<rparr>"

definition registerGeneralMessage :: "go_type \<Rightarrow> slotExtractorRegistry \<Rightarrow> slotExtractorRegistry" where
  "registerGeneralMessage t r = r\<lparr>generalExtractors := AList.update t () (generalExtractors r)\<rparr>"

text \<open>The error text names the type of the message in the source; here it is left out.\<close>

definition registry_extract :: "slotExtractorRegistry \<Rightarrow> message \<Rightarrow> (messageKind \<times> slot) outcome" where
  "registry_extract r msg =
     (let t = TypeOf msg in
      case map_of (slotExtractors r) t of
        Some fn \<Rightarrow> and_then (fn msg) (\<lambda>slot. Returns (slotMessage, slot))
      | None \<Rightarrow>
          (case map_of (generalExtractors r) t of
             Some _ \<Rightarrow> Returns (generalMessage, 0)
           | None \<Rightarrow> Fails (ErrNew ''unsupported message type'')))"

text \<open>The field path of the block extractors, and of the two aggregate extractors.\<close>

definition block_slot :: "block option \<Rightarrow> slot outcome" where
  "block_slot b = deref b (\<lambda>blk. Returns (Block_Slot blk))"

definition aggregate_slot :: "aggregate_and_proof option \<Rightarrow> slot outcome" where
  "aggregate_slot m =
     deref m (\<lambda>msg. deref (Aggregate msg) (\<lambda>agg. deref (Data agg) (\<lambda>d. Returns (Data_Slot d))))"

definition data_slot :: "att_data option \<Rightarrow> slot outcome" where
  "data_slot d = deref d (\<lambda>data. Returns (Data_Slot data))"

definition registerDefaults :: "slotExtractorRegistry \<Rightarrow> slotExtractorRegistry" where
  "registerDefaults r = fold (\<lambda>reg. reg)
     [ registerSlotExtractor T_SignedBeaconBlock
         (\<lambda>msg. case msg of SignedBeaconBlock b \<Rightarrow> block_slot b | _ \<Rightarrow> Panics TypeAssertion),
       registerSlotExtractor T_SignedBeaconBlockAltair
         (\<lambda>msg. case msg of SignedBeaconBlockAltair b \<Rightarrow> block_slot b | _ \<Rightarrow> Panics TypeAssertion),
       registerSlotExtractor T_SignedBeaconBlockBellatrix
         (\<lambda>msg. case msg of SignedBeaconBlockBellatrix b \<Rightarrow> block_slot b | _ \<Rightarrow> Panics TypeAssertion),
       registerSlotExtractor T_SignedBeaconBlockCapella
         (\<lambda>msg. case msg of SignedBeaconBlockCapella b \<Rightarrow> block_slot b | _ \<Rightarrow> Panics TypeAssertion),
       registerSlotExtractor T_SignedBeaconBlockDeneb
         (\<lambda>msg. case msg of SignedBeaconBlockDeneb b \<Rightarrow> block_slot b | _ \<Rightarrow> Panics TypeAssertion),
       registerSlotExtractor T_SignedBeaconBlockElectra
         (\<lambda>msg. case msg of SignedBeaconBlockElectra b \<Rightarrow> block_slot b | _ \<Rightarrow> Panics TypeAssertion),
       registerSlotExtractor T_SignedAggregateAttestationAndProof
         (\<lambda>msg. case msg of SignedAggregateAttestationAndProof m \<Rightarrow> aggregate_slot m | _ \<Rightarrow> Panics TypeAssertion),
       registerSlotExtractor T_SignedAggregateAttestationAndProofElectra
         (\<lambda>msg. case msg of SignedAggregateAttestationAndProofElectra m \<Rightarrow> aggregate_slot m | _ \<Rightarrow> Panics TypeAssertion),
       registerSlotExtractor T_SignedContributionAndProof
         (\<lambda>msg. case msg of
                  SignedContributionAndProof m \<Rightarrow>
                    deref m (\<lambda>c. deref (Contribution_of c) (\<lambda>k. Returns (Contribution_Slot k)))
                | _ \<Rightarrow> Panics TypeAssertion),
       registerSlotExtractor T_Attestation
         (\<lambda>msg. case msg of Attestation d \<Rightarrow> data_slot d | _ \<Rightarrow> Panics TypeAssertion),
       registerSlotExtractor T_AttestationElectra
         (\<lambda>msg. case msg of AttestationElectra d \<Rightarrow> data_slot d | _ \<Rightarrow> Panics TypeAssertion),
       registerSlotExtractor T_SingleAttestation
         (\<lambda>msg. case msg of SingleAttestation d \<Rightarrow> data_slot d | _ \<Rightarrow> Panics TypeAssertion),
       registerSlotExtractor T_SyncCommitteeMessage
         (\<lambda>msg. case msg of SyncCommitteeMessage s \<Rightarrow> Returns s | _ \<Rightarrow> Panics TypeAssertion),
       registerSlotExtractor T_SyncCommitteeContribution
         (\<lambda>msg. case msg of SyncCommitteeContribution s \<Rightarrow> Returns s | _ \<Rightarrow> Panics TypeAssertion),
       registerSlotExtractor T_BlobSidecar
         (\<lambda>msg. case msg of
                  BlobSidecar h \<Rightarrow>
                    deref h (\<lambda>signed. deref (Header signed) (\<lambda>hd'. Returns (Header_Slot hd')))
                | _ \<Rightarrow> Panics TypeAssertion),
       registerGeneralMessage T_ProposerSlashing,
       registerGeneralMessage T_AttesterSlashing,
       registerGeneralMessage T_AttesterSlashingElectra,
       registerGeneralMessage T_VoluntaryExit,
       registerGeneralMessage T_BLSToExecutionChange ] r"

definition newSlotExtractorRegistry :: slotExtractorRegistry where
  "newSlotExtractorRegistry = registerDefaults \<lparr> slotExtractors = [], generalExtractors = [] \<rparr>"

section \<open>Reference: the slot a message carries\<close>

text \<open>
  Independently of the registry: a message carries a slot, or it is one of the five kinds
  without a slot, or it is of a foreign type. \<^theory_text>\<open>payload\<close> gives the block headers, attestation
  data and contributions inside a message; a missing inner pointer has no slot.
\<close>

datatype carried = Carries "slot option" | NoSlot | Foreign

fun carried_slot :: "message \<Rightarrow> carried" where
  "carried_slot (SignedBeaconBlock b) = Carries (map_option Block_Slot b)"
| "carried_slot (SignedBeaconBlockAltair b) = Carries (map_option Block_Slot b)"
| "carried_slot (SignedBeaconBlockBellatrix b) = Carries (map_option Block_Slot b)"
| "carried_slot (SignedBeaconBlockCapella b) = Carries (map_option Block_Slot b)"
| "carried_slot (SignedBeaconBlockDeneb b) = Carries (map_option Block_Slot b)"
| "carried_slot (SignedBeaconBlockElectra b) = Carries (map_option Block_Slot b)"
| "carried_slot (SignedAggregateAttestationAndProof m) =
     Carries (map_option Data_Slot (Option.bind (Option.bind m Aggregate) Data))"
| "carried_slot (SignedAggregateAttestationAndProofElectra m) =
     Carries (map_option Data_Slot (Option.bind (Option.bind m Aggregate) Data))"
| "carried_slot (SignedContributionAndProof m) =
     Carries (map_option Contribution_Slot (Option.bind m Contribution_of))"
| "carried_slot (Attestation d) = Carries (map_option Data_Slot d)"
| "carried_slot (AttestationElectra d) = Carries (map_option Data_Slot d)"
| "carried_slot (SingleAttestation d) = Carries (map_option Data_Slot d)"
| "carried_slot (SyncCommitteeMessage s) = Carries (Some s)"
| "carried_slot (SyncCommitteeContribution s) = Carries (Some s)"
| "carried_slot (BlobSidecar h) = Carries (map_option Header_Slot (Option.bind h Header))"
| "carried_slot (OtherMessage _) = Foreign"
| "carried_slot _ = NoSlot"

section \<open>Lemmas\<close>

lemmas extractor_simps = newSlotExtractorRegistry_def registerDefaults_def registerSlotExtractor_def
  registerGeneralMessage_def registry_extract_def

lemma field_paths:
  "block_slot b = of_option NilDereference (map_option Block_Slot b)"
  "data_slot d = of_option NilDereference (map_option Data_Slot d)"
  "aggregate_slot m =
     of_option NilDereference (map_option Data_Slot (Option.bind (Option.bind m Aggregate) Data))"
  "deref c (\<lambda>k. deref (Contribution_of k) (\<lambda>k. Returns (Contribution_Slot k))) =
     of_option NilDereference (map_option Contribution_Slot (Option.bind c Contribution_of))"
  "deref h (\<lambda>s. deref (Header s) (\<lambda>k. Returns (Header_Slot k))) =
     of_option NilDereference (map_option Header_Slot (Option.bind h Header))"
  by (simp_all add: block_slot_def data_slot_def aggregate_slot_def deref_field deref_path
      map_option_bind comp_def)

lemma extract_reference:
  "registry_extract newSlotExtractorRegistry msg =
     (case carried_slot msg of
        Carries (Some s) \<Rightarrow> Returns (slotMessage, s)
      | Carries None \<Rightarrow> Panics NilDereference
      | NoSlot \<Rightarrow> Returns (generalMessage, 0)
      | Foreign \<Rightarrow> Fails (ErrNew ''unsupported message type''))"
  by (cases msg) (simp_all add: extractor_simps field_paths of_option_def split: option.split)

section \<open>Properties\<close>

text \<open>
  C16: Extraction through the registry equals the reference: a message that carries a slot
  yields that slot with kind \<^verbatim>\<open>slotMessage\<close> (a nil pointer on the path panics), the five kinds
  without a slot yield kind \<^verbatim>\<open>generalMessage\<close>, any other type is an error. In particular no type
  assertion of a registered extractor ever fails.
\<close>

theorem extract_equals_reference:
  "registry_extract newSlotExtractorRegistry msg =
     (case carried_slot msg of
        Carries (Some s) \<Rightarrow> Returns (slotMessage, s)
      | Carries None \<Rightarrow> Panics NilDereference
      | NoSlot \<Rightarrow> Returns (generalMessage, 0)
      | Foreign \<Rightarrow> Fails (ErrNew ''unsupported message type''))"
  by (rule extract_reference)

end
