(* ===== verification/Beacon_Processor.thy ===== *)
theory Beacon_Processor
  imports Eth_Network Topics Repository Seen_Counter Slot_Cache Slot_Extractor
begin

text \<open>
  The beacon message processor (\<^verbatim>\<open>src/processor/beacon_message_processor.go\<close>,
  \<^verbatim>\<open>beacon_messages.go\<close>): it decodes a gossip message, files slot messages in the cache and
  spawns a save for the others, and flushes the cache to the repository. Its background loop
  (\<^verbatim>\<open>Serve\<close>), the gossip handlers that call it and the goroutines it spawns run concurrently; the
  shared state is behind mutexes and a channel, so an execution is a sequence of atomic steps
  (\<^theory_text>\<open>processor_step\<close>).
\<close>

section \<open>Parameters and inputs\<close>

text \<open>
  The libraries: decoding a gossip payload into a message of the type of the destination, and
  the printed form of a peer identifier; the names of the topics.
\<close>

record processor_lib =
  DecodeGossip :: "byte list \<Rightarrow> go_type \<Rightarrow> error + message"
  peer_String :: "string \<Rightarrow> string"
  topic_names :: p2p_names

record pubsub_message =
  ReceivedFrom :: string
  msg_Topic :: string
  msg_ID :: string
  msg_Data :: "byte list"

text \<open>What a call reads from its surroundings: the clock and the number of connected peers.\<close>

record env =
  env_now :: gotime
  env_peers :: "64 word"

section \<open>State\<close>

record GeneralMessageMetadata =
  gm_PeerID :: string
  gm_Topic :: string
  gm_MsgID :: string
  gm_MsgSize :: "64 word"
  gm_MsgArrival :: gotime

record SlotMessageMetadata =
  sm_PeerID :: string
  sm_Topic :: string
  sm_MsgID :: string
  sm_MsgSize :: "64 word"
  sm_MsgArrival :: gotime
  sm_MsgDelayInSlot :: duration
  sm_Slot :: u64

text \<open>
  \<^verbatim>\<open>'r\<close> is the state of the store behind the \<^verbatim>\<open>Repository\<close> interface; \<^verbatim>\<open>None\<close> is a nil interface.
  \<^verbatim>\<open>bp_messageNotify\<close> is the number of items in the buffered channel, \<^verbatim>\<open>bp_spawned\<close> the records of
  the goroutines that have been started and have not saved yet.
\<close>

record 'r BeaconMessageProcessor =
  bp_repo :: "'r option"
  bp_peerCounter :: bool
  bp_beaconConfig :: BeaconChainConfig
  bp_genesisTime :: gotime
  bp_nodeAlias :: string
  bp_nodeRegion :: string
  bp_slotCache :: SlotCacheStore
  bp_seenCounter :: SeenCounter
  bp_extractors :: slotExtractorRegistry
  bp_messageNotify :: nat
  bp_spawned :: "GeneralMessageHistory list"

definition notify_capacity :: nat where
  "notify_capacity = 100"

section \<open>Construction\<close>

record 'r BeaconMessageProcessorOption =
  bo_repo :: "'r option"
  bo_nodeAlias :: string
  bo_nodeRegion :: string
  bo_peerCounter :: bool

type_synonym 'r BeaconMessageProcessorOptionFunc =
  "'r BeaconMessageProcessorOption \<Rightarrow> 'r BeaconMessageProcessorOption"

definition WithRepository :: "'r \<Rightarrow> 'r BeaconMessageProcessorOptionFunc" where
  "WithRepository repo o' = o'\<lparr>bo_repo := Some repo\<rparr>"

definition WithNodeAlias :: "string \<Rightarrow> 'r BeaconMessageProcessorOptionFunc" where
  "WithNodeAlias nodeAlias o' = o'\<lparr>bo_nodeAlias := nodeAlias\<rparr>"

definition WithNodeRegion :: "string \<Rightarrow> 'r BeaconMessageProcessorOptionFunc" where
  "WithNodeRegion nodeRegion o' = o'\<lparr>bo_nodeRegion := nodeRegion\<rparr>"

definition WithPeerCounter :: "'r BeaconMessageProcessorOptionFunc" where
  "WithPeerCounter o' = o'\<lparr>bo_peerCounter := True\<rparr>"

definition NewBeaconMessageProcessor ::
  "eth_params \<Rightarrow> eth_state \<Rightarrow> 'r BeaconMessageProcessorOptionFunc list \<Rightarrow> 'r BeaconMessageProcessor outcome" where
  "NewBeaconMessageProcessor prm st opts =
     (let o' = fold (\<lambda>opt. opt) opts
                 \<lparr> bo_repo = None, bo_nodeAlias = '''', bo_nodeRegion = '''', bo_peerCounter = False \<rparr> in
      and_then (GetBeaconChainConfig prm st) (\<lambda>cfg.
      and_then (GetGenesisConfig prm st) (\<lambda>gen.
        Returns \<lparr> bp_repo = bo_repo o', bp_peerCounter = bo_peerCounter o', bp_beaconConfig = cfg,
          bp_genesisTime = GenesisTime gen, bp_nodeAlias = bo_nodeAlias o',
          bp_nodeRegion = bo_nodeRegion o', bp_slotCache = NewSlotCacheStore,
          bp_seenCounter = NewSeenCounter, bp_extractors = newSlotExtractorRegistry,
          bp_messageNotify = 0, bp_spawned = [] \<rparr>)))"

section \<open>Topics\<close>

definition TopicToTopicGroup :: "p2p_names \<Rightarrow> string \<Rightarrow> string" where
  "TopicToTopicGroup n topic =
     (if Contains topic (GossipBlockMessage n) then GossipBlockMessage n
      else if Contains topic (GossipAggregateAndProofMessage n) then GossipAggregateAndProofMessage n
      else if Contains topic (GossipContributionAndProofMessage n) then GossipContributionAndProofMessage n
      else if Contains topic (GossipProposerSlashingMessage n) then GossipProposerSlashingMessage n
      else if Contains topic (GossipAttesterSlashingMessage n) then GossipAttesterSlashingMessage n
      else if Contains topic (GossipExitMessage n) then GossipExitMessage n
      else if Contains topic (GossipBlsToExecutionChangeMessage n) then GossipBlsToExecutionChangeMessage n
      else if Contains topic (GossipAttestationMessage n) then GossipAttestationMessage n
      else if Contains topic (GossipSyncCommitteeMessage n) then GossipSyncCommitteeMessage n
      else if Contains topic (GossipBlobSidecarMessage n) then GossipBlobSidecarMessage n
      else ''unknown'')"

text \<open>\<^verbatim>\<open>parts[2], parts[3]\<close>: a topic with fewer parts panics.\<close>

definition parseEth2Topic :: "string \<Rightarrow> (string \<times> string) outcome" where
  "parseEth2Topic topic =
     (let parts = Split (CHR ''/'') topic in
      if length parts < 4 then Panics IndexOutOfRange else Returns (parts ! 2, parts ! 3))"

section \<open>Processing a message\<close>

definition slot_start :: "'r BeaconMessageProcessor \<Rightarrow> slot \<Rightarrow> gotime" where
  "slot_start p slot =
     time_Add (bp_genesisTime p) (slot * second * SecondsPerSlot (bp_beaconConfig p))"

definition getDelayInSlot :: "'r BeaconMessageProcessor \<Rightarrow> gotime \<Rightarrow> slot \<Rightarrow> duration" where
  "getDelayInSlot p arrivalTime slot = time_Sub arrivalTime (slot_start p slot)"

definition newGeneralMetadata :: "processor_lib \<Rightarrow> env \<Rightarrow> pubsub_message \<Rightarrow> GeneralMessageMetadata" where
  "newGeneralMetadata lib e msg =
     \<lparr> gm_PeerID = peer_String lib (ReceivedFrom msg), gm_Topic = msg_Topic msg,
       gm_MsgID = hexEncode (string_bytes (msg_ID msg)), gm_MsgSize = of_nat (length (msg_Data msg)),
       gm_MsgArrival = env_now e \<rparr>"

definition newSlotMetadata ::
  "processor_lib \<Rightarrow> env \<Rightarrow> 'r BeaconMessageProcessor \<Rightarrow> pubsub_message \<Rightarrow> slot \<Rightarrow> SlotMessageMetadata" where
  "newSlotMetadata lib e p msg slot =
     \<lparr> sm_PeerID = peer_String lib (ReceivedFrom msg), sm_Topic = msg_Topic msg,
       sm_MsgID = hexEncode (string_bytes (msg_ID msg)), sm_MsgSize = of_nat (length (msg_Data msg)),
       sm_MsgArrival = env_now e, sm_MsgDelayInSlot = getDelayInSlot p (env_now e) slot,
       sm_Slot = slot \<rparr>"

text \<open>\<^verbatim>\<open>uint32(p.peerCounter.TotalPeerCount())\<close>: a nil interface panics.\<close>

definition node_peer_count :: "env \<Rightarrow> 'r BeaconMessageProcessor \<Rightarrow> u32 outcome" where
  "node_peer_count e p = (if bp_peerCounter p then Returns (ucast (env_peers e)) else Panics NilDereference)"

definition processGeneralMessageMetadata ::
  "env \<Rightarrow> 'r BeaconMessageProcessor \<Rightarrow> GeneralMessageMetadata \<Rightarrow> 'r BeaconMessageProcessor outcome" where
  "processGeneralMessageMetadata e p metadata =
     and_then (parseEth2Topic (gm_Topic metadata)) (\<lambda>(forkVersion, messageType).
     and_then (node_peer_count e p) (\<lambda>peers.
       Returns (p\<lparr>bp_spawned := bp_spawned p @
         [\<lparr> gmh_ArrivalTime = gm_MsgArrival metadata, gmh_ForkVersion = forkVersion,
            gmh_Topic = messageType, gmh_NodeRegion = bp_nodeRegion p, gmh_NodeAlias = bp_nodeAlias p,
            gmh_NodePeerCount = peers, gmh_MessageID = gm_MsgID metadata,
            gmh_SizeBytes = ucast (gm_MsgSize metadata) \<rparr>]\<rparr>)))"

text \<open>The record \<^verbatim>\<open>processSlotMessageMetadata\<close> builds; its \<^verbatim>\<open>SeenCount\<close> is still zero.\<close>

definition slot_record ::
  "processor_lib \<Rightarrow> env \<Rightarrow> 'r BeaconMessageProcessor \<Rightarrow> SlotMessageMetadata \<Rightarrow> SlotMessageStats outcome" where
  "slot_record lib e p metadata =
     and_then (parseEth2Topic (sm_Topic metadata)) (\<lambda>(forkVersion, messageType).
     and_then (node_peer_count e p) (\<lambda>peers.
       Returns \<lparr> sms_Slot = sm_Slot metadata,
         sms_TopicGroup = TopicToTopicGroup (topic_names lib) (sm_Topic metadata),
         sms_ForkVersion = forkVersion, sms_Topic = messageType, sms_NodeRegion = bp_nodeRegion p,
         sms_NodeAlias = bp_nodeAlias p, sms_NodePeerCount = peers, sms_MessageID = sm_MsgID metadata,
         sms_SlotStartTime = slot_start p (sm_Slot metadata),
         sms_FirstArrivalTime = sm_MsgArrival metadata,
         sms_LatencyMS = ucast (milliseconds (sm_MsgDelayInSlot metadata)),
         sms_SizeBytes = ucast (sm_MsgSize metadata), sms_SeenCount = 0 \<rparr>))"

text \<open>
  The duplicate is only logged. The notification is a send that gives up when the channel's
  buffer is full.
\<close>

definition processSlotMessageMetadata ::
  "processor_lib \<Rightarrow> env \<Rightarrow> 'r BeaconMessageProcessor \<Rightarrow> SlotMessageMetadata \<Rightarrow> 'r BeaconMessageProcessor outcome" where
  "processSlotMessageMetadata lib e p metadata =
     and_then (slot_record lib e p metadata) (\<lambda>record.
       Returns (p\<lparr>bp_slotCache := snd (Add (bp_slotCache p) (sm_Slot metadata) (sm_MsgID metadata) record),
                  bp_messageNotify := (if bp_messageNotify p < notify_capacity
                                       then bp_messageNotify p + 1 else bp_messageNotify p)\<rparr>))"

definition Process ::
  "processor_lib \<Rightarrow> env \<Rightarrow> 'r BeaconMessageProcessor \<Rightarrow> pubsub_message \<Rightarrow> go_type \<Rightarrow> 'r BeaconMessageProcessor outcome" where
  "Process lib e p msg dst =
     and_then (wrap ''failed to decode gossip message'' (outcome_of (DecodeGossip lib (msg_Data msg) dst)))
       (\<lambda>m. and_then (registry_extract (bp_extractors p) m) (\<lambda>(kind, slot).
          case kind of
            slotMessage \<Rightarrow> processSlotMessageMetadata lib e p (newSlotMetadata lib e p msg slot)
          | generalMessage \<Rightarrow> processGeneralMessageMetadata e p (newGeneralMetadata lib e msg)))"

definition IncreaseSeenCountByRawID ::
  "'r BeaconMessageProcessor \<Rightarrow> string \<Rightarrow> 'r BeaconMessageProcessor" where
  "IncreaseSeenCountByRawID p msgIDRaw = p\<lparr>bp_seenCounter := IncreaseByRawID (bp_seenCounter p) msgIDRaw\<rparr>"

section \<open>Flushing\<close>

definition getSlotDuration :: "'r BeaconMessageProcessor \<Rightarrow> duration" where
  "getSlotDuration p = SecondsPerSlot (bp_beaconConfig p) * second"

definition saveToRepository ::
  "'r repository_methods \<Rightarrow> 'r option \<Rightarrow> SlotMessageStats list \<Rightarrow> ('r option \<times> error option) outcome" where
  "saveToRepository meth repo stats =
     (if length stats = 0 then Returns (repo, None)
      else (case repo of
              None \<Rightarrow> Panics NilDereference
            | Some r \<Rightarrow>
                (case repo_SaveSlotMessageStatsMulti meth r stats of
                   (r', Some err) \<Rightarrow>
                     Returns (Some r', Some (ErrWrap err ''failed to save slot message stats batch''))
                 | (r', None) \<Rightarrow> Returns (Some r', None))))"

text \<open>The inner loop of the flush: pop the duplicate count of every record.\<close>

fun assign_seen_counts :: "SeenCounter \<Rightarrow> SlotMessageStats list \<Rightarrow> SlotMessageStats list \<times> SeenCounter" where
  "assign_seen_counts sc [] = ([], sc)"
| "assign_seen_counts sc (stat # stats) =
     (case Pop sc (sms_MessageID stat) of
        ((seenCount, ok), sc') \<Rightarrow>
          (case assign_seen_counts sc' stats of
             (rest, sc'') \<Rightarrow> (stat\<lparr>sms_SeenCount := (if ok then seenCount else 1)\<rparr> # rest, sc'')))"

text \<open>The outer loop: a save error is logged and the loop goes on.\<close>

fun flush_slots ::
  "'r repository_methods \<Rightarrow> (string \<times> SlotMessageStats) iter_order \<Rightarrow> u64 list \<Rightarrow>
   'r BeaconMessageProcessor \<Rightarrow> 'r BeaconMessageProcessor outcome" where
  "flush_slots meth ord [] p = Returns p"
| "flush_slots meth ord (slot # slots) p =
     (let (stats, cache') = DrainSlot ord (bp_slotCache p) slot;
          p1 = p\<lparr>bp_slotCache := cache'\<rparr>
      in if length stats = 0 then flush_slots meth ord slots p1
         else
           (let (stats', sc') = assign_seen_counts (bp_seenCounter p1) stats
            in and_then (saveToRepository meth (bp_repo p1) stats') (\<lambda>(repo', err).
                 flush_slots meth ord slots (p1\<lparr>bp_seenCounter := sc', bp_repo := repo'\<rparr>))))"

definition current_slot :: "env \<Rightarrow> 'r BeaconMessageProcessor \<Rightarrow> u64 outcome" where
  "current_slot e p = udiv64 (unix_seconds (env_now e)) (whole_seconds (getSlotDuration p))"

definition flushCompletedSlots ::
  "'r repository_methods \<Rightarrow> u64 iter_order \<Rightarrow> (string \<times> SlotMessageStats) iter_order \<Rightarrow> env \<Rightarrow>
   'r BeaconMessageProcessor \<Rightarrow> 'r BeaconMessageProcessor outcome" where
  "flushCompletedSlots meth ord ord' e p =
     and_then (current_slot e p) (\<lambda>currentSlot.
       flush_slots meth ord' (CompletedSlots ord (bp_slotCache p) currentSlot) p)"

text \<open>A spawned goroutine: save one general record; an error is logged.\<close>

definition run_spawned ::
  "'r repository_methods \<Rightarrow> nat \<Rightarrow> 'r BeaconMessageProcessor \<Rightarrow> 'r BeaconMessageProcessor outcome" where
  "run_spawned meth i p =
     (case bp_repo p of
        None \<Rightarrow> Panics NilDereference
      | Some r \<Rightarrow>
          Returns (p\<lparr>bp_repo := Some (fst (repo_SaveGeneralMessageHistory meth r (Some (bp_spawned p ! i)))),
                     bp_spawned := take i (bp_spawned p) @ drop (Suc i) (bp_spawned p)\<rparr>))"

section \<open>The service loop and its interleavings\<close>

text \<open>
  \<^verbatim>\<open>Serve\<close> is one goroutine; its position in the loop is \<^theory_text>\<open>serve_pc\<close>. The boolean says whether
  the flush in progress is the final one. \<^theory_text>\<open>Counting\<close> holds the slots still to drain, the
  records of the drained slot that have their count, and those that do not have it yet.
\<close>

datatype serve_pc =
    Waiting
  | Draining bool "u64 list"
  | Counting bool "u64 list" "SlotMessageStats list" "SlotMessageStats list"
  | Saving bool "u64 list" "SlotMessageStats list"
  | Stopped

text \<open>
  One atomic action of a flush: draining a slot and popping a counter each hold one mutex, the
  save is one call. \<^verbatim>\<open>None\<close> when no flush is in progress.
\<close>

fun serve_next ::
  "'r repository_methods \<Rightarrow> (string \<times> SlotMessageStats) iter_order \<Rightarrow> serve_pc \<Rightarrow>
   'r BeaconMessageProcessor \<Rightarrow> (serve_pc \<times> 'r BeaconMessageProcessor) outcome option" where
  "serve_next meth ord Waiting p = None"
| "serve_next meth ord Stopped p = None"
| "serve_next meth ord (Draining final []) p = Some (Returns (if final then Stopped else Waiting, p))"
| "serve_next meth ord (Draining final (slot # slots)) p =
     (let (stats, cache') = DrainSlot ord (bp_slotCache p) slot;
          p1 = p\<lparr>bp_slotCache := cache'\<rparr>
      in Some (Returns (if length stats = 0 then Draining final slots else Counting final slots [] stats, p1)))"
| "serve_next meth ord (Counting final slots counted (stat # stats)) p =
     (let ((seenCount, ok), sc') = Pop (bp_seenCounter p) (sms_MessageID stat)
      in Some (Returns (Counting final slots
                 (counted @ [stat\<lparr>sms_SeenCount := (if ok then seenCount else 1)\<rparr>]) stats,
                 p\<lparr>bp_seenCounter := sc'\<rparr>)))"
| "serve_next meth ord (Counting final slots counted []) p =
     Some (Returns (Saving final slots counted, p))"
| "serve_next meth ord (Saving final slots stats) p =
     Some (and_then (saveToRepository meth (bp_repo p) stats) (\<lambda>(repo', err).
       Returns (Draining final slots, p\<lparr>bp_repo := repo'\<rparr>)))"

text \<open>
  The whole system: the processor, the service loop, and a history that only the proofs read,
  the records that were filed in the cache. What the repository was handed is not recorded beside
  it: it is read off the repository's own state, which only calls of its methods change.
\<close>

record 'r system =
  sys_proc :: "'r BeaconMessageProcessor"
  sys_pc :: serve_pc
  sys_filed :: "SlotMessageStats multiset"

text \<open>The record a delivered message files: none for a general message and for a duplicate.\<close>

definition filed_by ::
  "processor_lib \<Rightarrow> env \<Rightarrow> 'r BeaconMessageProcessor \<Rightarrow> pubsub_message \<Rightarrow> go_type \<Rightarrow> SlotMessageStats multiset" where
  "filed_by lib e p msg dst =
     (case DecodeGossip lib (msg_Data msg) dst of
        Inl err \<Rightarrow> {#}
      | Inr m \<Rightarrow>
          (case registry_extract (bp_extractors p) m of
             Returns (slotMessage, slot) \<Rightarrow>
               (case slot_record lib e p (newSlotMetadata lib e p msg slot) of
                  Returns record \<Rightarrow>
                    (if fst (Add (bp_slotCache p) slot (hexEncode (string_bytes (msg_ID msg))) record)
                     then {# record #} else {#})
                | _ \<Rightarrow> {#})
           | _ \<Rightarrow> {#}))"

inductive processor_step ::
  "processor_lib \<Rightarrow> 'r repository_methods \<Rightarrow> 'r system \<Rightarrow> 'r system \<Rightarrow> bool"
  for lib :: processor_lib and meth :: "'r repository_methods" where
  deliver:
    "Process lib e (sys_proc s) msg dst = Returns p' \<Longrightarrow>
     processor_step lib meth s
       (s\<lparr>sys_proc := p', sys_filed := sys_filed s + filed_by lib e (sys_proc s) msg dst\<rparr>)"
| duplicate:
    "processor_step lib meth s (s\<lparr>sys_proc := IncreaseSeenCountByRawID (sys_proc s) rawID\<rparr>)"
| save_general:
    "i < length (bp_spawned (sys_proc s)) \<Longrightarrow> run_spawned meth i (sys_proc s) = Returns p' \<Longrightarrow>
     processor_step lib meth s (s\<lparr>sys_proc := p'\<rparr>)"
| notified:
    "sys_pc s = Waiting \<Longrightarrow> bp_messageNotify (sys_proc s) = Suc n \<Longrightarrow>
     processor_step lib meth s (s\<lparr>sys_proc := (sys_proc s)\<lparr>bp_messageNotify := n\<rparr>\<rparr>)"
| flush_start:
    "sys_pc s = Waiting \<Longrightarrow> current_slot e (sys_proc s) = Returns cur \<Longrightarrow>
     processor_step lib meth s
       (s\<lparr>sys_pc := Draining final (CompletedSlots ord (bp_slotCache (sys_proc s)) cur)\<rparr>)"
| flush_next:
    "serve_next meth ord' (sys_pc s) (sys_proc s) = Some (Returns (pc', p')) \<Longrightarrow>
     processor_step lib meth s
       (s\<lparr>sys_pc := pc', sys_proc := p'\<rparr>)"

inductive_cases processor_stepE: "processor_step lib meth s t"

text \<open>The initial systems: a processor as the constructor makes it, the loop not yet in a flush.\<close>

definition system_init :: "'r system \<Rightarrow> bool" where
  "system_init s \<longleftrightarrow>
     bp_slotCache (sys_proc s) = NewSlotCacheStore \<and> bp_seenCounter (sys_proc s) = NewSeenCounter \<and>
     bp_extractors (sys_proc s) = newSlotExtractorRegistry \<and>
     bp_messageNotify (sys_proc s) = 0 \<and> bp_spawned (sys_proc s) = [] \<and>
     sys_pc s = Waiting \<and> sys_filed s = {#}"

section \<open>Invariant of the system\<close>

text \<open>Records up to the duplicate count, which is only known when the slot is flushed.\<close>

definition erase_count :: "SlotMessageStats \<Rightarrow> SlotMessageStats" where
  "erase_count r = r\<lparr>sms_SeenCount := 0\<rparr>"

abbreviation erased :: "SlotMessageStats multiset \<Rightarrow> SlotMessageStats multiset" where
  "erased M \<equiv> image_mset erase_count M"

fun in_flight :: "serve_pc \<Rightarrow> SlotMessageStats multiset" where
  "in_flight (Counting final slots counted stats) = mset counted + mset stats"
| "in_flight (Saving final slots stats) = mset stats"
| "in_flight _ = {#}"

text \<open>Every cached record is filed under its own slot and message identifier.\<close>

definition keyed :: "SlotCacheStore \<Rightarrow> bool" where
  "keyed c \<longleftrightarrow> (\<forall>slot msgID r. contents c slot msgID = Some r \<longrightarrow>
                  sms_Slot r = slot \<and> sms_MessageID r = msgID)"

text \<open>
  The calls a repository received, the state it is in after them, and the slot records they
  handed to it.
\<close>

datatype repo_call = SaveGeneral GeneralMessageHistory | SaveBatch "SlotMessageStats list"

fun call_repo :: "'r repository_methods \<Rightarrow> repo_call \<Rightarrow> 'r \<Rightarrow> 'r" where
  "call_repo meth (SaveGeneral h) r = fst (repo_SaveGeneralMessageHistory meth r (Some h))"
| "call_repo meth (SaveBatch b) r = fst (repo_SaveSlotMessageStatsMulti meth r b)"

definition after_calls :: "'r repository_methods \<Rightarrow> repo_call list \<Rightarrow> 'r \<Rightarrow> 'r" where
  "after_calls meth calls r = fold (call_repo meth) calls r"

fun batch_of :: "repo_call \<Rightarrow> SlotMessageStats list" where
  "batch_of (SaveGeneral h) = []"
| "batch_of (SaveBatch b) = b"

definition handed :: "repo_call list \<Rightarrow> SlotMessageStats multiset" where
  "handed calls = mset (concat (map batch_of calls))"

definition accounted :: "'r repository_methods \<Rightarrow> 'r option \<Rightarrow> 'r system \<Rightarrow> repo_call list \<Rightarrow> bool" where
  "accounted meth r0 s calls \<longleftrightarrow>
     bp_repo (sys_proc s) = map_option (after_calls meth calls) r0 \<and>
     erased (sys_filed s) =
       erased (handed calls) + erased (in_flight (sys_pc s)) + erased (cached (bp_slotCache (sys_proc s)))"

definition system_inv :: "'r repository_methods \<Rightarrow> 'r option \<Rightarrow> 'r system \<Rightarrow> bool" where
  "system_inv meth r0 s \<longleftrightarrow>
     store_ok (bp_slotCache (sys_proc s)) \<and> keyed (bp_slotCache (sys_proc s)) \<and>
     bp_messageNotify (sys_proc s) \<le> notify_capacity \<and> (\<exists>calls. accounted meth r0 s calls)"

section \<open>Lemmas\<close>

subsection \<open>Processing\<close>

lemma erase_count_set [simp]: "erase_count (r\<lparr>sms_SeenCount := n\<rparr>) = erase_count r"
  by (simp add: erase_count_def)

lemma Process_unfold:
  "Process lib e p msg dst =
     (case DecodeGossip lib (msg_Data msg) dst of
        Inl err \<Rightarrow> Fails (ErrWrap err ''failed to decode gossip message'')
      | Inr m \<Rightarrow> and_then (registry_extract (bp_extractors p) m) (\<lambda>(kind, slot).
          case kind of
            slotMessage \<Rightarrow> processSlotMessageMetadata lib e p (newSlotMetadata lib e p msg slot)
          | generalMessage \<Rightarrow> processGeneralMessageMetadata e p (newGeneralMetadata lib e msg)))"
  by (simp add: Process_def split: sum.split)

lemma slot_record_fields:
  "slot_record lib e p metadata = Returns r \<Longrightarrow>
     sms_Slot r = sm_Slot metadata \<and> sms_MessageID r = sm_MsgID metadata \<and> sms_SeenCount r = 0"
  by (auto simp: slot_record_def split: prod.splits)

text \<open>What a successful call does: it spawns one save, or it adds one record to the cache.\<close>

lemma Process_effect:
  assumes "Process lib e p msg dst = Returns p'" and "store_ok (bp_slotCache p)"
  obtains (general) h where "p' = p\<lparr>bp_spawned := bp_spawned p @ [h]\<rparr>" and "filed_by lib e p msg dst = {#}"
  | (filed) slot r where
      "p' = p\<lparr>bp_slotCache := snd (Add (bp_slotCache p) slot (sms_MessageID r) r),
              bp_messageNotify := (if bp_messageNotify p < notify_capacity
                                   then bp_messageNotify p + 1 else bp_messageNotify p)\<rparr>"
      and "filed_by lib e p msg dst =
             (if contents (bp_slotCache p) slot (sms_MessageID r) = None then {# r #} else {#})"
      and "sms_Slot r = slot" "sms_SeenCount r = 0"
proof -
  from assms(1) obtain m kind slot where m: "DecodeGossip lib (msg_Data msg) dst = Inr m"
    and ex: "registry_extract (bp_extractors p) m = Returns (kind, slot)"
    by (auto simp: Process_unfold split: sum.splits)
  show ?thesis
  proof (cases kind)
    case slotMessage
    let ?md = "newSlotMetadata lib e p msg slot"
    from assms(1) m ex slotMessage obtain r where r: "slot_record lib e p ?md = Returns r"
      and p': "p' = p\<lparr>bp_slotCache := snd (Add (bp_slotCache p) (sm_Slot ?md) (sm_MsgID ?md) r),
              bp_messageNotify := (if bp_messageNotify p < notify_capacity
                                   then bp_messageNotify p + 1 else bp_messageNotify p)\<rparr>"
      by (auto simp: Process_unfold processSlotMessageMetadata_def)
    have fields: "sms_Slot r = slot" "sms_MessageID r = hexEncode (string_bytes (msg_ID msg))"
      "sms_SeenCount r = 0"
      using slot_record_fields [OF r] by (simp_all add: newSlotMetadata_def)
    show ?thesis
    proof (rule filed [of slot r])
      show "p' = p\<lparr>bp_slotCache := snd (Add (bp_slotCache p) slot (sms_MessageID r) r),
              bp_messageNotify := (if bp_messageNotify p < notify_capacity
                                   then bp_messageNotify p + 1 else bp_messageNotify p)\<rparr>"
        using p' fields by (simp add: newSlotMetadata_def)
      show "filed_by lib e p msg dst =
             (if contents (bp_slotCache p) slot (sms_MessageID r) = None then {# r #} else {#})"
        using m ex slotMessage r fields assms(2) by (simp add: filed_by_def sl.add_result)
    qed (use fields in simp_all)
  next
    case generalMessage
    from assms(1) m ex generalMessage obtain h where "p' = p\<lparr>bp_spawned := bp_spawned p @ [h]\<rparr>"
      by (auto simp: Process_unfold processGeneralMessageMetadata_def split: prod.splits)
    then show ?thesis
      using m ex generalMessage by (intro general) (simp_all add: filed_by_def)
  qed
qed

lemma keyed_new: "keyed NewSlotCacheStore"
  by (simp add: keyed_def contents_def NewSlotCacheStore_def)

lemma keyed_Add:
  "store_ok c \<Longrightarrow> keyed c \<Longrightarrow> sms_Slot r = slot \<Longrightarrow> keyed (snd (Add c slot (sms_MessageID r) r))"
  by (auto simp: keyed_def sl.add_view split: if_splits)

lemma keyed_Drain: "store_ok c \<Longrightarrow> keyed c \<Longrightarrow> keyed (snd (DrainSlot ord c slot))"
  by (auto simp: keyed_def sl.drain_view split: if_splits)

lemma erased_cached_drain:
  "store_ok c \<Longrightarrow> DrainSlot ord c slot = (stats, c') \<Longrightarrow>
     erased (cached c) = erased (cached c') + erased (mset stats)"
  using sl.drain_held [of c ord slot] by simp

subsection \<open>Preservation\<close>

lemma calls_snoc [simp]:
  "after_calls meth (calls @ [c]) r = call_repo meth c (after_calls meth calls r)"
  "handed (calls @ [c]) = handed calls + mset (batch_of c)"
  "after_calls meth [] r = r" "handed [] = {#}"
  by (simp_all add: after_calls_def handed_def)

lemma saveToRepository_calls:
  assumes "saveToRepository meth repo stats = Returns (repo', err)" and "repo = map_option (after_calls meth calls) r0"
  shows "\<exists>calls'. repo' = map_option (after_calls meth calls') r0 \<and> handed calls' = handed calls + mset stats"
proof (cases "stats = []")
  case True
  with assms show ?thesis by (intro exI [of _ calls]) (simp add: saveToRepository_def)
next
  case False
  with assms obtain r where "r0 = Some r"
    "repo' = Some (fst (repo_SaveSlotMessageStatsMulti meth (after_calls meth calls r) stats))"
    by (auto simp: saveToRepository_def split: option.splits prod.splits)
  then show ?thesis by (intro exI [of _ "calls @ [SaveBatch stats]"]) simp
qed

lemma inv_deliver:
  assumes "system_inv meth r0 s" and "Process lib e (sys_proc s) msg dst = Returns p'"
  shows "system_inv meth r0 (s\<lparr>sys_proc := p', sys_filed := sys_filed s + filed_by lib e (sys_proc s) msg dst\<rparr>)"
proof -
  have ok: "store_ok (bp_slotCache (sys_proc s))" using assms(1) by (simp add: system_inv_def)
  from assms(2) ok show ?thesis
  proof (cases rule: Process_effect)
    case (general h)
    then show ?thesis using assms(1) by (simp add: system_inv_def accounted_def)
  next
    case (filed slot r)
    then show ?thesis
      using assms(1) ok keyed_Add [OF ok _ filed(3)]
      by (simp add: system_inv_def accounted_def sl.add_ok sl.add_held)
  qed
qed

lemma inv_save_general:
  assumes "system_inv meth r0 s" and "run_spawned meth i (sys_proc s) = Returns p'"
  shows "system_inv meth r0 (s\<lparr>sys_proc := p'\<rparr>)"
proof -
  obtain calls where calls: "accounted meth r0 s calls" using assms(1) by (auto simp: system_inv_def)
  let ?calls = "calls @ [SaveGeneral (bp_spawned (sys_proc s) ! i)]"
  have "accounted meth r0 (s\<lparr>sys_proc := p'\<rparr>) ?calls"
    using calls assms(2) by (auto simp: accounted_def run_spawned_def split: option.splits)
  then show ?thesis
    using assms by (auto simp: system_inv_def run_spawned_def split: option.splits)
qed

lemma inv_flush_next:
  assumes "system_inv meth r0 s" and "serve_next meth ord (sys_pc s) (sys_proc s) = Some (Returns (pc', p'))"
  shows "system_inv meth r0 (s\<lparr>sys_pc := pc', sys_proc := p'\<rparr>)"
proof (cases "sys_pc s")
  case (Draining final slots)
  have ok: "store_ok (bp_slotCache (sys_proc s))" and k: "keyed (bp_slotCache (sys_proc s))"
    using assms(1) by (simp_all add: system_inv_def)
  show ?thesis
  proof (cases slots)
    case (Cons slot rest)
    obtain stats c' where d: "DrainSlot ord (bp_slotCache (sys_proc s)) slot = (stats, c')"
      by fastforce
    have "store_ok c'" "keyed c'"
      using sl.drain_ok [OF ok, of ord slot] keyed_Drain [OF ok k, of ord slot] d by simp_all
    then show ?thesis
      using assms Draining Cons d erased_cached_drain [OF ok d]
      by (auto simp: system_inv_def accounted_def ac_simps)
  qed (use assms Draining in \<open>auto simp: system_inv_def accounted_def\<close>)
next
  case (Counting final slots counted stats)
  then show ?thesis
    using assms by (cases stats) (auto simp: system_inv_def accounted_def split: prod.splits)
next
  case (Saving final slots stats)
  obtain calls where calls: "accounted meth r0 s calls" using assms(1) by (auto simp: system_inv_def)
  from assms(2) Saving obtain repo' err where
    save: "saveToRepository meth (bp_repo (sys_proc s)) stats = Returns (repo', err)"
    and next_: "pc' = Draining final slots" "p' = (sys_proc s)\<lparr>bp_repo := repo'\<rparr>"
    by auto
  obtain calls' where "repo' = map_option (after_calls meth calls') r0" "handed calls' = handed calls + mset stats"
    using saveToRepository_calls [OF save] calls by (auto simp: accounted_def)
  then have "accounted meth r0 (s\<lparr>sys_pc := pc', sys_proc := p'\<rparr>) calls'"
    using calls Saving next_ by (simp add: accounted_def ac_simps)
  then show ?thesis using assms(1) next_ by (auto simp: system_inv_def)
qed (use assms in auto)

interpretation ps: invariant_system "\<lambda>s. system_init s \<and> bp_repo (sys_proc s) = r0" "processor_step lib meth"
  "system_inv meth r0" for lib meth r0
proof
  show "system_inv meth r0 s" if "system_init s \<and> bp_repo (sys_proc s) = r0" for s :: "'a system" and r0
  proof -
    have "accounted meth r0 s []"
      using that by (cases r0) (simp_all add: accounted_def system_init_def NewSlotCacheStore_def cached_def)
    then show ?thesis
      using that keyed_new by (auto simp: system_init_def system_inv_def NewSlotCacheStore_def store_ok_def)
  qed
  show "system_inv meth r0 t" if "system_inv meth r0 s" and "processor_step lib meth s t" for s t :: "'a system" and r0
    using that(2,1)
  proof (cases rule: processor_step.cases)
    case (deliver e msg dst p')
    then show ?thesis using that(1) by (simp add: inv_deliver)
  next
    case (save_general i p')
    then show ?thesis using that(1) by (simp add: inv_save_general)
  next
    case (flush_next ord' pc' p')
    then show ?thesis using that(1) by (simp add: inv_flush_next)
  qed (auto simp: system_inv_def accounted_def IncreaseSeenCountByRawID_def)
qed

subsection \<open>Flushing\<close>

text \<open>The duplicate count a record gets: the popped counter, or one when there is none.\<close>

definition seen_count_of :: "SeenCounter \<Rightarrow> string \<Rightarrow> u32" where
  "seen_count_of sc msgID = (case map_of (counts sc) msgID of None \<Rightarrow> 1 | Some v \<Rightarrow> v)"

lemma assign_seen_counts_Cons:
  "assign_seen_counts sc (stat # stats) =
     (stat\<lparr>sms_SeenCount := seen_count_of sc (sms_MessageID stat)\<rparr> #
        fst (assign_seen_counts (snd (Pop sc (sms_MessageID stat))) stats),
      snd (assign_seen_counts (snd (Pop sc (sms_MessageID stat))) stats))"
proof -
  obtain v ok sc' where pop: "Pop sc (sms_MessageID stat) = ((v, ok), sc')"
    by (metis surj_pair)
  then have "(v, ok) = (case map_of (counts sc) (sms_MessageID stat) of None \<Rightarrow> (0, False) | Some v \<Rightarrow> (v, True))"
    using sn.pop_result [of sc "sms_MessageID stat"] by simp
  then have "(if ok then v else 1) = seen_count_of sc (sms_MessageID stat)"
    by (simp add: seen_count_of_def split: option.splits)
  then show ?thesis using pop by (simp split: prod.split)
qed

declare assign_seen_counts.simps(2) [simp del]
declare assign_seen_counts_Cons [simp]

lemma assign_seen_counts_counter:
  "snd (assign_seen_counts sc stats) = fold (\<lambda>k sc. snd (Pop sc k)) (map sms_MessageID stats) sc"
  by (induction stats arbitrary: sc) simp_all

lemma assign_seen_counts_erased [simp]:
  "map erase_count (fst (assign_seen_counts sc stats)) = map erase_count stats"
  "length (fst (assign_seen_counts sc stats)) = length stats"
  by (induction stats arbitrary: sc) simp_all

lemma seen_count_of_popped:
  "k \<noteq> k' \<Longrightarrow> seen_count_of (snd (Pop sc k')) k = seen_count_of sc k"
  by (simp add: seen_count_of_def sn.tally_pop)

lemma assign_seen_counts_distinct:
  "distinct (map sms_MessageID stats) \<Longrightarrow>
     fst (assign_seen_counts sc stats) =
       map (\<lambda>r. r\<lparr>sms_SeenCount := seen_count_of sc (sms_MessageID r)\<rparr>) stats"
proof (induction stats arbitrary: sc)
  case (Cons stat stats)
  have "seen_count_of (snd (Pop sc (sms_MessageID stat))) (sms_MessageID r) = seen_count_of sc (sms_MessageID r)"
    if "r \<in> set stats" for r
  proof (rule seen_count_of_popped)
    have "sms_MessageID r \<in> sms_MessageID ` set stats" using that by (rule imageI)
    with Cons.prems show "sms_MessageID r \<noteq> sms_MessageID stat" by auto
  qed
  then show ?case using Cons by simp
qed simp

lemma map_MessageID_assigned [simp]:
  "map sms_MessageID (fst (assign_seen_counts sc stats)) = map sms_MessageID stats"
  by (induction stats arbitrary: sc) simp_all

text \<open>Handing batches to the repository one after the other, whatever errors it returns.\<close>

definition hand_over :: "'r repository_methods \<Rightarrow> SlotMessageStats list list \<Rightarrow> 'r \<Rightarrow> 'r" where
  "hand_over meth batches r = fold (\<lambda>b r. fst (repo_SaveSlotMessageStatsMulti meth r b)) batches r"

lemma saveToRepository_present:
  "\<exists>err. saveToRepository meth (Some r) stats =
     Returns (Some (if stats = [] then r else fst (repo_SaveSlotMessageStatsMulti meth r stats)), err)"
  by (auto simp: saveToRepository_def split: prod.split option.split)

abbreviation drain_all ::
  "(string \<times> SlotMessageStats) iter_order \<Rightarrow> SlotCacheStore \<Rightarrow> u64 list \<Rightarrow> SlotMessageStats list \<times> SlotCacheStore" where
  "drain_all ord \<equiv> slot_store.drains (DrainSlot ord)"

lemma flush_slots_total:
  assumes "store_ok (bp_slotCache p)" and "bp_repo p = Some r"
  shows "\<exists>batches sc. flush_slots meth ord slots p =
      Returns (p\<lparr>bp_slotCache := snd (drain_all ord (bp_slotCache p) slots),
                 bp_seenCounter := sc, bp_repo := Some (hand_over meth batches r)\<rparr>) \<and>
    map erase_count (concat batches) = map erase_count (fst (drain_all ord (bp_slotCache p) slots)) \<and>
    map_of (counts sc) = map_of (counts (bp_seenCounter p)) |`
        (- (sms_MessageID ` set (fst (drain_all ord (bp_slotCache p) slots)))) \<and>
    [] \<notin> set batches"
  using assms
proof (induction slots arbitrary: p r)
  case Nil
  have "p = p\<lparr>bp_slotCache := bp_slotCache p, bp_seenCounter := bp_seenCounter p, bp_repo := Some r\<rparr>"
    using Nil by simp
  then show ?case
    by (auto intro!: exI [of _ "[]"] exI [of _ "bp_seenCounter p"] simp: hand_over_def restrict_map_def)
next
  case (Cons slot slots)
  obtain stats c' where d: "DrainSlot ord (bp_slotCache p) slot = (stats, c')" by fastforce
  have ok: "store_ok c'" using sl.drain_ok [OF Cons.prems(1), of ord slot] d by simp
  show ?case
  proof (cases "stats = []")
    case True
    have "store_ok (bp_slotCache (p\<lparr>bp_slotCache := c'\<rparr>))" "bp_repo (p\<lparr>bp_slotCache := c'\<rparr>) = Some r"
      using ok Cons.prems by simp_all
    from Cons.IH [OF this] d True show ?thesis by simp
  next
    case False
    let ?st = "fst (assign_seen_counts (bp_seenCounter p) stats)"
    let ?sc = "snd (assign_seen_counts (bp_seenCounter p) stats)"
    let ?r = "fst (repo_SaveSlotMessageStatsMulti meth r ?st)"
    let ?p = "p\<lparr>bp_slotCache := c', bp_seenCounter := ?sc, bp_repo := Some ?r\<rparr>"
    have ne: "?st \<noteq> []"
      using False assign_seen_counts_erased(2) [of "bp_seenCounter p" stats] by (metis length_0_conv)
    obtain err where "saveToRepository meth (Some r) ?st = Returns (Some ?r, err)"
      using saveToRepository_present [of meth r ?st] ne by auto
    then have flush: "flush_slots meth ord (slot # slots) p = flush_slots meth ord slots ?p"
      using d False Cons.prems by (simp add: case_prod_unfold Let_def)
    have "store_ok (bp_slotCache ?p)" "bp_repo ?p = Some ?r" using ok by simp_all
    from Cons.IH [OF this] obtain batches sc where
      IH: "flush_slots meth ord slots ?p =
          Returns (?p\<lparr>bp_slotCache := snd (drain_all ord c' slots), bp_seenCounter := sc,
                      bp_repo := Some (hand_over meth batches ?r)\<rparr>)"
        "map erase_count (concat batches) = map erase_count (fst (drain_all ord c' slots))"
        "map_of (counts sc) = map_of (counts ?sc) |` (- (sms_MessageID ` set (fst (drain_all ord c' slots))))"
        "[] \<notin> set batches"
      by auto
    have "map_of (counts ?sc) = map_of (counts (bp_seenCounter p)) |` (- (sms_MessageID ` set stats))"
      by (simp add: assign_seen_counts_counter sn.tally_pops)
    then show ?thesis
      using flush IH d ne
      by (intro exI [of _ "?st # batches"] exI [of _ sc]) (simp add: hand_over_def image_Un)
  qed
qed

lemma current_slot_Returns:
  "whole_seconds (getSlotDuration p) \<noteq> 0 \<Longrightarrow>
     current_slot e p = Returns (unix_seconds (env_now e) div whole_seconds (getSlotDuration p))"
  by (simp add: current_slot_def)

text \<open>An uninterrupted flush of the service loop is the sequential flush.\<close>

definition flush_action ::
  "'r repository_methods \<Rightarrow> (string \<times> SlotMessageStats) iter_order \<Rightarrow>
   serve_pc \<times> 'r BeaconMessageProcessor \<Rightarrow> serve_pc \<times> 'r BeaconMessageProcessor \<Rightarrow> bool" where
  "flush_action meth ord x y \<longleftrightarrow> serve_next meth ord (fst x) (snd x) = Some (Returns y)"

lemma flush_action_trans:
  "flush_action meth ord x y \<Longrightarrow> (flush_action meth ord)\<^sup>*\<^sup>* y z \<Longrightarrow> (flush_action meth ord)\<^sup>*\<^sup>* x z"
  by (rule converse_rtranclp_into_rtranclp)

lemma counting_run:
  "(flush_action meth ord)\<^sup>*\<^sup>* (Counting final slots counted stats, p)
     (Saving final slots (counted @ fst (assign_seen_counts (bp_seenCounter p) stats)),
      p\<lparr>bp_seenCounter := snd (assign_seen_counts (bp_seenCounter p) stats)\<rparr>)"
proof (induction stats arbitrary: counted p)
  case Nil
  then show ?case by (auto simp: flush_action_def)
next
  case (Cons stat stats)
  let ?stat = "stat\<lparr>sms_SeenCount := seen_count_of (bp_seenCounter p) (sms_MessageID stat)\<rparr>"
  let ?p = "p\<lparr>bp_seenCounter := snd (Pop (bp_seenCounter p) (sms_MessageID stat))\<rparr>"
  have "fst (Pop (bp_seenCounter p) (sms_MessageID stat)) =
      (case map_of (counts (bp_seenCounter p)) (sms_MessageID stat) of
         None \<Rightarrow> (0, False) | Some v \<Rightarrow> (v, True))"
    by (rule sn.pop_result)
  then have "flush_action meth ord (Counting final slots counted (stat # stats), p)
      (Counting final slots (counted @ [?stat]) stats, ?p)"
    by (auto simp: flush_action_def seen_count_of_def split: prod.splits option.splits)
  then show ?case
    by (rule flush_action_trans) (use Cons.IH [of "counted @ [?stat]" ?p] in simp)
qed

lemma draining_run:
  "flush_slots meth ord slots p = Returns p' \<Longrightarrow>
     (flush_action meth ord)\<^sup>*\<^sup>* (Draining final slots, p) (if final then Stopped else Waiting, p')"
proof (induction slots arbitrary: p)
  case Nil
  then show ?case by (auto simp: flush_action_def)
next
  case (Cons slot slots)
  obtain stats c' where d: "DrainSlot ord (bp_slotCache p) slot = (stats, c')" by fastforce
  let ?p1 = "p\<lparr>bp_slotCache := c'\<rparr>"
  show ?case
  proof (cases "stats = []")
    case True
    with Cons d have "(flush_action meth ord)\<^sup>*\<^sup>* (Draining final slots, ?p1) (if final then Stopped else Waiting, p')"
      by simp
    then show ?thesis by (rule flush_action_trans [rotated]) (simp add: flush_action_def d True)
  next
    case False
    obtain stats' sc' where a: "assign_seen_counts (bp_seenCounter p) stats = (stats', sc')" by fastforce
    let ?p2 = "?p1\<lparr>bp_seenCounter := sc'\<rparr>"
    from Cons.prems d False a obtain repo' err where
      save: "saveToRepository meth (bp_repo p) stats' = Returns (repo', err)"
      and rest: "flush_slots meth ord slots (?p2\<lparr>bp_repo := repo'\<rparr>) = Returns p'"
      by auto
    have "flush_action meth ord (Draining final (slot # slots), p) (Counting final slots [] stats, ?p1)"
      by (simp add: flush_action_def d False)
    moreover have "(flush_action meth ord)\<^sup>*\<^sup>* (Counting final slots [] stats, ?p1) (Saving final slots stats', ?p2)"
      using counting_run [of meth ord final slots "[]" stats ?p1] a by simp
    moreover have "flush_action meth ord (Saving final slots stats', ?p2) (Draining final slots, ?p2\<lparr>bp_repo := repo'\<rparr>)"
      by (simp add: flush_action_def save)
    ultimately show ?thesis
      using Cons.IH [OF rest] by (meson flush_action_trans rtranclp_trans)
  qed
qed

text \<open>Actions of a flush are steps of the system.\<close>

lemma flush_actions_are_steps:
  "(flush_action meth ord)\<^sup>*\<^sup>* x y \<Longrightarrow> x = (sys_pc s, sys_proc s) \<Longrightarrow>
     \<exists>t. (processor_step lib meth)\<^sup>*\<^sup>* s t \<and> y = (sys_pc t, sys_proc t)"
proof (induction arbitrary: s rule: converse_rtranclp_induct)
  case base
  then show ?case by blast
next
  case (step x z)
  obtain pc' p' where z: "z = (pc', p')" by (cases z)
  let ?t = "s\<lparr>sys_pc := pc', sys_proc := p'\<rparr>"
  have "processor_step lib meth s ?t"
    using step.hyps(1) step.prems z by (intro flush_next [of meth ord]) (simp add: flush_action_def)
  moreover obtain t where "(processor_step lib meth)\<^sup>*\<^sup>* ?t t" and "y = (sys_pc t, sys_proc t)"
    using step.IH [of ?t] z by auto
  ultimately show ?case by (blast intro: converse_rtranclp_into_rtranclp)
qed

subsection \<open>Topics\<close>

text \<open>The names in the order in which \<^const>\<open>TopicToTopicGroup\<close> tests them.\<close>

definition topic_tests :: "p2p_names \<Rightarrow> string list" where
  "topic_tests n =
     [GossipBlockMessage n, GossipAggregateAndProofMessage n, GossipContributionAndProofMessage n,
      GossipProposerSlashingMessage n, GossipAttesterSlashingMessage n, GossipExitMessage n,
      GossipBlsToExecutionChangeMessage n, GossipAttestationMessage n, GossipSyncCommitteeMessage n,
      GossipBlobSidecarMessage n]"

interpretation tg: topic_dispatch topic_tests TopicToTopicGroup topic_tests "''unknown''"
  by unfold_locales (simp_all add: TopicToTopicGroup_def topic_tests_def)

subsection \<open>Times\<close>

text \<open>The start of a slot as an exact date: nanoseconds since the epoch, without overflow.\<close>

definition exact_slot_start :: "'r BeaconMessageProcessor \<Rightarrow> slot \<Rightarrow> int" where
  "exact_slot_start p slot =
     bp_genesisTime p + uint slot * uint (SecondsPerSlot (bp_beaconConfig p)) * 10 ^ 9"

lemma slot_start_exact:
  assumes "uint slot * uint (SecondsPerSlot (bp_beaconConfig p)) * 10 ^ 9 < 2 ^ 63"
  shows "slot_start p slot = exact_slot_start p slot"
proof -
  let ?k = "uint slot * uint (SecondsPerSlot (bp_beaconConfig p)) * 10 ^ 9"
  have "slot * second * SecondsPerSlot (bp_beaconConfig p) = word_of_int ?k"
    by (simp add: second_def ac_simps wi_hom_mult [symmetric])
  moreover have "sint (word_of_int ?k :: 64 word) = ?k"
    using assms by (intro sint_word_of_int_64) (simp_all add: order_trans [of _ 0])
  ultimately show ?thesis by (simp add: slot_start_def time_Add_def exact_slot_start_def)
qed

lemma latency_exact:
  assumes "- (2 ^ 63) \<le> (d :: int)" and "d < 2 ^ 63"
  shows "uint (ucast (milliseconds (word_of_int d)) :: u32) = (d sdiv 1000000) mod 2 ^ 32"
proof -
  have "uint (ucast (milliseconds (word_of_int d)) :: u32) = uint (word_of_int (d sdiv 1000000) :: 64 word) mod 2 ^ 32"
    using sint_word_of_int_64 [OF assms] by (simp add: milliseconds_def unsigned_ucast_eq take_bit_eq_mod)
  also have "\<dots> = (d sdiv 1000000) mod 2 ^ 32"
    by (simp add: uint_word_of_int mod_mod_cancel)
  finally show ?thesis .
qed

lemma current_slot_value:
  assumes "0 < SecondsPerSlot (bp_beaconConfig p)"
    and "uint (SecondsPerSlot (bp_beaconConfig p)) * 10 ^ 9 < 2 ^ 63"
    and "0 \<le> env_now e" and "env_now e div 10 ^ 9 < 2 ^ 63"
  shows "\<exists>cur. current_slot e p = Returns cur \<and>
           uint cur = env_now e div 10 ^ 9 div uint (SecondsPerSlot (bp_beaconConfig p))"
proof -
  let ?n = "uint (SecondsPerSlot (bp_beaconConfig p))"
  have pos: "0 < ?n" using assms(1) by (simp add: word_less_def)
  have d: "getSlotDuration p = word_of_int (?n * 10 ^ 9)"
    by (simp add: getSlotDuration_def second_def wi_hom_mult [symmetric])
  have "sint (getSlotDuration p) = ?n * 10 ^ 9"
    unfolding d using assms(2) pos by (intro sint_word_of_int_64) auto
  then have w: "whole_seconds (getSlotDuration p) = SecondsPerSlot (bp_beaconConfig p)"
    using pos by (simp add: whole_seconds_def sdiv_nonneg)
  moreover have "uint (unix_seconds (env_now e)) = env_now e div 10 ^ 9"
    unfolding unix_seconds_def using assms(3,4) by (intro uint_word_of_int_64) auto
  ultimately show ?thesis
    using assms(1) by (simp add: current_slot_Returns uint_div)
qed

section \<open>Concrete instances\<close>

text \<open>The first byte of the payload is the slot of a block; an empty payload does not decode.\<close>

definition sample_lib :: processor_lib where
  "sample_lib =
     \<lparr> DecodeGossip = (\<lambda>data dst.
         case data of [] \<Rightarrow> Inl (ErrNew ''empty'')
         | b # _ \<Rightarrow> (case dst of
             T_SignedBeaconBlock \<Rightarrow> Inr (SignedBeaconBlock (Some (Block (ucast b))))
           | T_ProposerSlashing \<Rightarrow> Inr ProposerSlashing
           | _ \<Rightarrow> Inr (OtherMessage ''x''))),
       peer_String = (\<lambda>p. p), topic_names = sample_names \<rparr>"

text \<open>A repository that keeps the batches it was handed, and reports an error for every batch.\<close>

definition recorder :: "SlotMessageStats list list repository_methods" where
  "recorder =
     \<lparr> repo_SaveGeneralMessageHistory = (\<lambda>r h. (r, None)),
       repo_SaveSlotMessageStatsMulti = (\<lambda>r b. (r @ [b], Some (ErrNew ''unavailable''))),
       repo_Close = (\<lambda>r. (r, None)) \<rparr>"

definition sample_processor :: "SlotMessageStats list list BeaconMessageProcessor" where
  "sample_processor =
     \<lparr> bp_repo = Some [], bp_peerCounter = True, bp_beaconConfig = sample_config,
       bp_genesisTime = time_Unix 1606824023, bp_nodeAlias = ''a'', bp_nodeRegion = ''r'',
       bp_slotCache = NewSlotCacheStore, bp_seenCounter = NewSeenCounter,
       bp_extractors = newSlotExtractorRegistry, bp_messageNotify = 0, bp_spawned = [] \<rparr>"

definition sample_message :: "byte \<Rightarrow> pubsub_message" where
  "sample_message b =
     \<lparr> ReceivedFrom = ''p'', msg_Topic = gossip_topic ''6a95a1a9'' ''beacon_block'',
       msg_ID = ''m'', msg_Data = [b] \<rparr>"

text \<open>A message for slot 5 that arrives half a second into the slot.\<close>

definition sample_env :: env where
  "sample_env = \<lparr> env_now = (1606824023 + 60) * 10 ^ 9 + 500000000, env_peers = 3 \<rparr>"

definition sample_record :: "u64 \<Rightarrow> SlotMessageStats" where
  "sample_record n =
     \<lparr> sms_Slot = n, sms_TopicGroup = ''beacon_block'', sms_ForkVersion = ''6a95a1a9'',
       sms_Topic = ''beacon_block'', sms_NodeRegion = ''r'', sms_NodeAlias = ''a'',
       sms_NodePeerCount = 3, sms_MessageID = ''6d'', sms_SlotStartTime = (1606824023 + 12 * uint n) * 10 ^ 9,
       sms_FirstArrivalTime = (1606824023 + 60) * 10 ^ 9 + 500000000,
       sms_LatencyMS = 500, sms_SizeBytes = 1, sms_SeenCount = 0 \<rparr>"

definition filled_processor :: "SlotMessageStats list list BeaconMessageProcessor" where
  "filled_processor =
     sample_processor\<lparr>bp_slotCache := snd (Add NewSlotCacheStore 5 ''6d'' (sample_record 5)),
                      bp_messageNotify := 1\<rparr>"

lemma sample_processor_fields [simp]:
  "bp_repo sample_processor = Some []" "bp_peerCounter sample_processor"
  "bp_beaconConfig sample_processor = sample_config" "bp_genesisTime sample_processor = time_Unix 1606824023"
  "bp_nodeAlias sample_processor = ''a''" "bp_nodeRegion sample_processor = ''r''"
  "bp_slotCache sample_processor = NewSlotCacheStore" "bp_seenCounter sample_processor = NewSeenCounter"
  "bp_extractors sample_processor = newSlotExtractorRegistry" "bp_messageNotify sample_processor = 0"
  "bp_spawned sample_processor = []"
  by (simp_all add: sample_processor_def)

lemma sample_names_ok: "names_ok (topic_tests sample_names)"
  by (simp add: names_ok_def topic_tests_def sample_names_def Contains_def sublist_Cons_right)

lemma sample_parse:
  "parseEth2Topic (gossip_topic ''6a95a1a9'' ''beacon_block'') = Returns (''6a95a1a9'', ''beacon_block'')"
  by (simp add: parseEth2Topic_def gossip_topic_def)

lemma sample_group: "TopicToTopicGroup sample_names (gossip_topic ''6a95a1a9'' ''beacon_block'') = ''beacon_block''"
  by (simp add: TopicToTopicGroup_def gossip_topic_def sample_names_def Contains_def sublist_Cons_right)

lemma sample_hex: "hexEncode (string_bytes ''m'') = ''6d''"
  by (simp add: hexEncode_def string_bytes_def hex_byte_def hex_digit_def of_char_def)

lemma sample_slot_record:
  "slot_record sample_lib sample_env sample_processor
     (newSlotMetadata sample_lib sample_env sample_processor (sample_message 5) 5) = Returns (sample_record 5)"
proof -
  have start: "slot_start sample_processor 5 = (1606824023 + 60) * 10 ^ 9"
    by (simp add: slot_start_exact exact_slot_start_def sample_config_def time_Unix_def)
  have "milliseconds (time_Sub (env_now sample_env) (slot_start sample_processor 5)) = 500"
    unfolding start by (simp add: sample_env_def time_Sub_def milliseconds_def sdiv_nonneg)
  then show ?thesis
    by (simp add: slot_record_def newSlotMetadata_def getDelayInSlot_def node_peer_count_def start
        sample_parse sample_group sample_hex sample_message_def sample_lib_def sample_record_def
        sample_env_def)
qed

lemma sample_Process:
  "Process sample_lib sample_env sample_processor (sample_message 5) T_SignedBeaconBlock =
     Returns filled_processor"
proof -
  have "DecodeGossip sample_lib (msg_Data (sample_message 5)) T_SignedBeaconBlock =
      Inr (SignedBeaconBlock (Some (Block 5)))"
    by (simp add: sample_lib_def sample_message_def)
  moreover have "registry_extract (bp_extractors sample_processor) (SignedBeaconBlock (Some (Block 5))) =
      Returns (slotMessage, 5)"
    by (simp add: extractor_simps field_paths)
  ultimately show ?thesis
    using sample_slot_record
    by (simp add: Process_unfold processSlotMessageMetadata_def newSlotMetadata_def sample_message_def
        sample_hex filled_processor_def notify_capacity_def)
qed

lemma sample_current_slot:
  "current_slot sample_env filled_processor = Returns 133902006"
  by (simp add: current_slot_def filled_processor_def getSlotDuration_def
      sample_config_def second_def whole_seconds_def unix_seconds_def sample_env_def sdiv_nonneg)

lemma sample_flush:
  "flushCompletedSlots recorder as_stored as_stored sample_env filled_processor =
     Returns (filled_processor\<lparr>bp_slotCache := NewSlotCacheStore, bp_repo :=
       Some [[(sample_record 5)\<lparr>sms_SeenCount := 1\<rparr>]]\<rparr>)"
  by (simp add: flushCompletedSlots_def sample_current_slot CompletedSlots_def)
    (simp add: filled_processor_def Add_def NewSlotCacheStore_def DrainSlot_def saveToRepository_def
      recorder_def Pop_def NewSeenCounter_def seen_count_of_def)

lemma filled_processor_ok:
  "store_ok (bp_slotCache filled_processor)" "bp_repo filled_processor = Some []"
  "keyed (bp_slotCache filled_processor)"
  "DrainSlot as_stored (bp_slotCache filled_processor) 5 = ([sample_record 5], NewSlotCacheStore)"
  by (simp_all add: filled_processor_def sl.add_ok)
    (simp_all add: keyed_def contents_def Add_def NewSlotCacheStore_def sample_record_def DrainSlot_def)

section \<open>Properties\<close>

text \<open>
  C1: No filed record is lost or saved twice, under any interleaving of deliveries, duplicate
  notices, background saves, ticks, and the atomic actions of flushes, and for any repository:
  at every moment the repository is in the state that some sequence of save calls leaves, and the
  records filed so far are, with multiplicity and up to the duplicate count, those in the batches
  of these calls, those in the batch being flushed, and those in the cache. The cache stays well
  formed, each record under its own slot and identifier, and the notification channel never
  exceeds its buffer.
\<close>

theorem no_record_lost:
  assumes "system_init s" and "(processor_step lib meth)\<^sup>*\<^sup>* s t"
  shows "\<exists>calls. bp_repo (sys_proc t) = map_option (after_calls meth calls) (bp_repo (sys_proc s)) \<and>
    erased (sys_filed t) =
      erased (handed calls) + erased (in_flight (sys_pc t)) + erased (cached (bp_slotCache (sys_proc t))) \<and>
    store_ok (bp_slotCache (sys_proc t)) \<and> keyed (bp_slotCache (sys_proc t)) \<and>
    bp_messageNotify (sys_proc t) \<le> notify_capacity"
proof -
  have "system_inv meth (bp_repo (sys_proc s)) s" using assms(1) by (simp add: ps.inv_init)
  from ps.run_inv [OF this assms(2)] show ?thesis by (auto simp: system_inv_def accounted_def)
qed

definition sample_system :: "SlotMessageStats list list system" where
  "sample_system = \<lparr> sys_proc = sample_processor, sys_pc = Waiting, sys_filed = {#} \<rparr>"

lemma recorder_calls: "after_calls recorder calls r = r @ concat (map (\<lambda>c. case c of SaveGeneral h \<Rightarrow> [] | SaveBatch b \<Rightarrow> [b]) calls)"
  by (induction calls arbitrary: r) (auto simp: after_calls_def recorder_def split: repo_call.split)

lemma recorder_handed: "handed calls = mset (concat (after_calls recorder calls []))"
  by (induction calls) (auto simp: handed_def recorder_calls split: repo_call.split)

text \<open>One message for slot 5 is delivered, then a flush runs to its end: the repository holds its record.\<close>

lemma sample_run:
  "\<exists>t. (processor_step sample_lib recorder)\<^sup>*\<^sup>* sample_system t \<and> sys_pc t = Waiting \<and>
       sys_proc t = filled_processor\<lparr>bp_slotCache := NewSlotCacheStore, bp_repo := Some [[(sample_record 5)\<lparr>sms_SeenCount := 1\<rparr>]]\<rparr>"
proof -
  let ?s1 = "sample_system\<lparr>sys_proc := filled_processor,
      sys_filed := sys_filed sample_system +
        filed_by sample_lib sample_env (sys_proc sample_system) (sample_message 5) T_SignedBeaconBlock\<rparr>"
  have s1: "processor_step sample_lib recorder sample_system ?s1"
    by (rule deliver) (simp add: sample_system_def sample_Process)
  let ?slots = "CompletedSlots as_stored (bp_slotCache (sys_proc ?s1)) 133902006"
  let ?s2 = "?s1\<lparr>sys_pc := Draining False ?slots\<rparr>"
  have s2: "processor_step sample_lib recorder ?s1 ?s2"
    by (rule flush_start [of _ sample_env]) (simp_all add: sample_system_def sample_current_slot)
  have "flush_slots recorder as_stored ?slots filled_processor =
      Returns (filled_processor\<lparr>bp_slotCache := NewSlotCacheStore, bp_repo := Some [[(sample_record 5)\<lparr>sms_SeenCount := 1\<rparr>]]\<rparr>)"
    using sample_flush by (simp add: flushCompletedSlots_def sample_current_slot)
  from flush_actions_are_steps [OF draining_run [OF this, of False], where s = ?s2 and lib = sample_lib] obtain t where
    t: "(processor_step sample_lib recorder)\<^sup>*\<^sup>* ?s2 t" "sys_pc t = Waiting"
      "sys_proc t = filled_processor\<lparr>bp_slotCache := NewSlotCacheStore, bp_repo := Some [[(sample_record 5)\<lparr>sms_SeenCount := 1\<rparr>]]\<rparr>"
    by auto
  then show ?thesis using s1 s2 by (meson converse_rtranclp_into_rtranclp)
qed

theorem no_record_lost_witness:
  "\<exists>t. (processor_step sample_lib recorder)\<^sup>*\<^sup>* sample_system t \<and> sys_pc t = Waiting \<and>
       bp_repo (sys_proc t) = Some [[(sample_record 5)\<lparr>sms_SeenCount := 1\<rparr>]] \<and>
       cached (bp_slotCache (sys_proc t)) = {#} \<and> erased (sys_filed t) = erased {# sample_record 5 #}"
proof -
  obtain t where t: "(processor_step sample_lib recorder)\<^sup>*\<^sup>* sample_system t" "sys_pc t = Waiting"
    "sys_proc t = filled_processor\<lparr>bp_slotCache := NewSlotCacheStore, bp_repo := Some [[(sample_record 5)\<lparr>sms_SeenCount := 1\<rparr>]]\<rparr>"
    using sample_run by blast
  have init: "system_init sample_system" "bp_repo (sys_proc sample_system) = Some []"
    by (simp_all add: system_init_def sample_system_def)
  have empty: "cached NewSlotCacheStore = {#}" by (simp add: cached_def NewSlotCacheStore_def)
  from no_record_lost [OF init(1) t(1)] obtain calls where
    "after_calls recorder calls [] = [[(sample_record 5)\<lparr>sms_SeenCount := 1\<rparr>]]"
    "erased (sys_filed t) = erased (handed calls)"
    using t init empty by auto
  then show ?thesis using t empty by (intro exI [of _ t]) (simp add: recorder_handed)
qed

text \<open>
  C2: A flush hands over the completed slots and nothing else. Whatever the repository
  answers (a failed save is only logged), the flush returns; the batches handed to the
  repository and the records still cached are together what was cached; every slot below
  \<^verbatim>\<open>currentSlot-1\<close> is empty afterwards, every other slot is untouched; no batch is empty; the
  counters of the flushed messages are gone, all others, and the rest of the processor, are
  unchanged.
\<close>

theorem flush_hands_over:
  assumes "store_ok (bp_slotCache p)" and "bp_repo p = Some r" and "current_slot e p = Returns cur"
  shows "\<exists>batches p'. flushCompletedSlots meth ord ord' e p = Returns p' \<and>
    bp_repo p' = Some (hand_over meth batches r) \<and> [] \<notin> set batches \<and>
    erased (cached (bp_slotCache p)) = erased (mset (concat batches)) + erased (cached (bp_slotCache p')) \<and>
    contents (bp_slotCache p') = (\<lambda>slot. if slot < cur - 1 then Map.empty else contents (bp_slotCache p) slot) \<and>
    map_of (counts (bp_seenCounter p')) =
      map_of (counts (bp_seenCounter p)) |` (- (sms_MessageID ` set (concat batches))) \<and>
    p' = p\<lparr>bp_slotCache := bp_slotCache p', bp_seenCounter := bp_seenCounter p', bp_repo := bp_repo p'\<rparr>"
proof -
  let ?slots = "CompletedSlots ord (bp_slotCache p) cur"
  let ?d = "drain_all ord' (bp_slotCache p) ?slots"
  obtain batches sc where f: "flush_slots meth ord' ?slots p =
      Returns (p\<lparr>bp_slotCache := snd ?d, bp_seenCounter := sc, bp_repo := Some (hand_over meth batches r)\<rparr>)"
    "map erase_count (concat batches) = map erase_count (fst ?d)"
    "map_of (counts sc) = map_of (counts (bp_seenCounter p)) |` (- (sms_MessageID ` set (fst ?d)))"
    "[] \<notin> set batches"
    using flush_slots_total [OF assms(1,2), of meth ord' ?slots] by blast
  have "erased (mset (concat batches)) = erased (mset (fst ?d))"
    by (metis f(2) mset_map)
  moreover have "sms_MessageID ` set (concat batches) = sms_MessageID ` set (fst ?d)"
  proof -
    have "sms_MessageID r = sms_MessageID (erase_count r)" for r by (simp add: erase_count_def)
    then have "sms_MessageID ` set rs = sms_MessageID ` set (map erase_count rs)" for rs
      by (simp add: image_image)
    with f(2) show ?thesis by metis
  qed
  moreover have "contents (snd ?d) = (\<lambda>slot. if slot < cur - 1 then Map.empty else contents (bp_slotCache p) slot)"
    by (rule ext) (rule sl.drains_completed [OF assms(1)])
  moreover have "cached (bp_slotCache p) = mset (fst ?d) + cached (snd ?d)"
    using sl.drains_held [OF assms(1), of ord' ?slots] by (simp add: ac_simps)
  moreover have "flushCompletedSlots meth ord ord' e p =
      Returns (p\<lparr>bp_slotCache := snd ?d, bp_seenCounter := sc, bp_repo := Some (hand_over meth batches r)\<rparr>)"
    using f(1) assms(3) by (simp add: flushCompletedSlots_def)
  ultimately show ?thesis
    using f(3,4)
    by (intro exI [of _ batches] exI [of _ "p\<lparr>bp_slotCache := snd ?d, bp_seenCounter := sc,
          bp_repo := Some (hand_over meth batches r)\<rparr>"]) simp
qed

theorem flush_hands_over_witness:
  "\<exists>batches p'. flushCompletedSlots recorder as_stored as_stored sample_env filled_processor = Returns p' \<and>
     bp_repo p' = Some (hand_over recorder batches []) \<and>
     erased (mset (concat batches)) = erased {# sample_record 5 #} \<and>
     contents (bp_slotCache p') 5 = Map.empty"
proof -
  have cached: "cached (bp_slotCache filled_processor) = {# sample_record 5 #}"
    by (simp add: filled_processor_def Add_def NewSlotCacheStore_def cached_def)
  have empty: "contents (bp_slotCache filled_processor) slot = Map.empty" if "slot \<noteq> 5" for slot
    using that by (simp add: filled_processor_def contents_def Add_def NewSlotCacheStore_def)
  obtain batches p' where *: "flushCompletedSlots recorder as_stored as_stored sample_env filled_processor = Returns p'"
    "bp_repo p' = Some (hand_over recorder batches [])"
    "erased {# sample_record 5 #} = erased (mset (concat batches)) + erased (cached (bp_slotCache p'))"
    "contents (bp_slotCache p') =
       (\<lambda>slot. if slot < 133902006 - 1 then Map.empty else contents (bp_slotCache filled_processor) slot)"
    using flush_hands_over [OF filled_processor_ok(1,2) sample_current_slot, of recorder as_stored as_stored] unfolding cached by blast
  have "contents (bp_slotCache p') slot = Map.empty" for slot
    using *(4) empty [of slot] by (cases "slot = 5") simp_all
  then show ?thesis using * sample_flush by (intro exI) (auto simp: NewSlotCacheStore_def cached_def)
qed

end
