(* ===== verification/Processor_Properties.thy ===== *)
theory Processor_Properties
  imports Beacon_Processor
begin

text \<open>
  Further properties of the message processor: the duplicate counts a flush assigns, that a
  flush of the service loop completes and is the sequential flush, the effect of a call on
  every branch, the recorded times, the parsing and grouping of topics, and which slots a flush
  takes for completed.
\<close>

section \<open>Lemmas\<close>

lemma drained_ids_distinct:
  assumes "store_ok c" and "keyed c" and "DrainSlot ord c slot = (stats, c')"
  shows "distinct (map sms_MessageID stats)"
proof (cases "map_of (caches c) slot")
  case None
  with assms(3) show ?thesis by (simp add: DrainSlot_def)
next
  case (Some cache)
  let ?entries = "visit ord (MessageStats cache)"
  have stats: "stats = map snd ?entries" using assms(3) Some by (simp add: DrainSlot_def)
  have ok: "gomap_ok (MessageStats cache)" using store_okD [OF assms(1) Some] by simp
  have "sms_MessageID r = k" if "(k, r) \<in> set ?entries" for k r
  proof -
    have "contents c slot k = Some r" using that Some ok by (simp add: contents_def gomap_lookup)
    with assms(2) show ?thesis unfolding keyed_def by blast
  qed
  then have "map sms_MessageID stats = map fst ?entries"
    unfolding stats by (auto simp: comp_def)
  moreover have "mset (map fst ?entries) = mset (map fst (MessageStats cache))"
    by (simp add: mset_map)
  ultimately show ?thesis
    using ok by (metis mset_eq_imp_distinct_iff)
qed

lemma parse_parts:
  assumes "CHR ''/'' \<notin> set a" and "CHR ''/'' \<notin> set d" and "CHR ''/'' \<notin> set m"
  shows "parseEth2Topic (''/'' @ a @ ''/'' @ d @ ''/'' @ m @ ''/'' @ rest) = Returns (d, m)"
proof -
  let ?rest = "''/'' @ a @ ''/'' @ d @ ''/'' @ m @ ''/'' @ rest"
  have "Split (CHR ''/'') ?rest = [] # a # d # m # Split (CHR ''/'') rest"
    using assms by (simp add: Split_append_sep)
  then show ?thesis
    unfolding parseEth2Topic_def Let_def by (simp only: list.size) (simp add: numeral_3_eq_3)
qed

section \<open>Properties\<close>

text \<open>
  C10: The duplicate counts of a flushed slot: every record gets the counter of its own
  message, or one when the message was never counted; the counters of exactly these messages are
  removed.
\<close>

theorem seen_counts_at_flush:
  assumes "store_ok c" and "keyed c" and "DrainSlot ord c slot = (stats, c')"
    and "assign_seen_counts sc stats = (stats', sc')"
  shows "stats' = map (\<lambda>r. r\<lparr>sms_SeenCount :=
            (case map_of (counts sc) (sms_MessageID r) of None \<Rightarrow> 1 | Some v \<Rightarrow> v)\<rparr>) stats \<and>
    map_of (counts sc') = map_of (counts sc) |` (- (sms_MessageID ` set stats))"
  using assign_seen_counts_distinct [OF drained_ids_distinct [OF assms(1-3)], of sc]
    assign_seen_counts_counter [of sc stats] assms(4)
  by (simp add: sn.tally_pops seen_count_of_def)

theorem seen_counts_at_flush_witness:
  "assign_seen_counts (IncreaseByRawID (IncreaseByRawID NewSeenCounter ''m'') ''m'') [sample_record 5] =
     ([(sample_record 5)\<lparr>sms_SeenCount := 2\<rparr>], NewSeenCounter)"
proof -
  let ?sc = "IncreaseByRawID (IncreaseByRawID NewSeenCounter ''m'') ''m''"
  obtain stats' sc' where a: "assign_seen_counts ?sc [sample_record 5] = (stats', sc')" by fastforce
  have "map_of (counts ?sc) ''6d'' = Some 2"
    using sn.tally_incr [of "IncreaseByRawID NewSeenCounter ''m''" "''m''"] sn.tally_incr [of NewSeenCounter "''m''"]
    by (simp add: sample_hex NewSeenCounter_def)
  moreover have "snd (Pop ?sc ''6d'') = NewSeenCounter"
    by (simp add: Pop_def IncreaseByRawID_def sample_hex NewSeenCounter_def)
  ultimately show ?thesis
    using seen_counts_at_flush [OF filled_processor_ok(1,3,4) a] a by (auto simp: sample_record_def)
qed

text \<open>
  C8: A flush always comes to its end. With a repository present and a slot duration of at least a
  second, from any state in which the loop waits a tick has a run of the loop's atomic actions
  that ends waiting again (a shutdown one that ends stopped), and what this run does to the
  processor is the sequential flush.
\<close>

theorem flush_completes:
  assumes "sys_pc s = Waiting" and "store_ok (bp_slotCache (sys_proc s))"
    and "bp_repo (sys_proc s) \<noteq> None" and "whole_seconds (getSlotDuration (sys_proc s)) \<noteq> 0"
  shows "\<exists>t. (processor_step lib meth)\<^sup>*\<^sup>* s t \<and>
      sys_pc t = (if final then Stopped else Waiting) \<and>
      flushCompletedSlots meth ord ord' e (sys_proc s) = Returns (sys_proc t)"
proof -
  obtain r where r: "bp_repo (sys_proc s) = Some r" using assms(3) by blast
  obtain cur where cur: "current_slot e (sys_proc s) = Returns cur"
    using current_slot_Returns [OF assms(4)] by blast
  let ?slots = "CompletedSlots ord (bp_slotCache (sys_proc s)) cur"
  let ?s1 = "s\<lparr>sys_pc := Draining final ?slots\<rparr>"
  obtain p' where p': "flush_slots meth ord' ?slots (sys_proc s) = Returns p'"
    using flush_slots_total [OF assms(2) r] by blast
  have "processor_step lib meth s ?s1" by (rule flush_start [OF assms(1) cur])
  moreover obtain t where "(processor_step lib meth)\<^sup>*\<^sup>* ?s1 t"
    "(if final then Stopped else Waiting, p') = (sys_pc t, sys_proc t)"
    using flush_actions_are_steps [OF draining_run [OF p'], where s = ?s1] by auto
  ultimately show ?thesis
    using p' cur by (intro exI [of _ t]) (simp add: flushCompletedSlots_def)
qed

theorem flush_completes_witness:
  "\<exists>t. (processor_step sample_lib recorder)\<^sup>*\<^sup>* (sample_system\<lparr>sys_proc := filled_processor\<rparr>) t \<and>
       sys_pc t = Stopped \<and> bp_repo (sys_proc t) = Some [[(sample_record 5)\<lparr>sms_SeenCount := 1\<rparr>]]"
proof -
  let ?s = "sample_system\<lparr>sys_proc := filled_processor\<rparr>"
  have "sys_pc ?s = Waiting" "store_ok (bp_slotCache (sys_proc ?s))" "bp_repo (sys_proc ?s) \<noteq> None"
    "whole_seconds (getSlotDuration (sys_proc ?s)) \<noteq> 0"
    by (simp_all add: sample_system_def filled_processor_def sl.add_ok getSlotDuration_def sample_config_def
        second_def whole_seconds_def sdiv_nonneg)
  from flush_completes [OF this, of sample_lib recorder True as_stored as_stored sample_env]
  obtain t where t: "(processor_step sample_lib recorder)\<^sup>*\<^sup>* ?s t" "sys_pc t = Stopped"
    "flushCompletedSlots recorder as_stored as_stored sample_env filled_processor = Returns (sys_proc t)"
    by auto
  then have "sys_proc t = filled_processor\<lparr>bp_slotCache := NewSlotCacheStore,
      bp_repo := Some [[(sample_record 5)\<lparr>sms_SeenCount := 1\<rparr>]]\<rparr>"
    by (simp add: sample_flush)
  with t show ?thesis by (intro exI [of _ t]) simp
qed

text \<open>
  C7: The effect of processing a message, on every branch. An undecodable payload and an
  unsupported type are errors, a nil pointer on the way to the slot panics; a general message
  spawns exactly one save, of a record with the message's data, and touches nothing else; a slot
  message is readable in the cache afterwards under its slot and identifier, with the data of
  the first delivery, and no other entry changes.
\<close>

theorem Process_dispatch:
  assumes "bp_extractors p = newSlotExtractorRegistry" and "store_ok (bp_slotCache p)"
    and "parseEth2Topic (msg_Topic msg) = Returns (fork, typ)" and "bp_peerCounter p"
  shows "case DecodeGossip lib (msg_Data msg) dst of
      Inl err \<Rightarrow> Process lib e p msg dst = Fails (ErrWrap err ''failed to decode gossip message'')
    | Inr m \<Rightarrow> (case carried_slot m of
        Foreign \<Rightarrow> Process lib e p msg dst = Fails (ErrNew ''unsupported message type'')
      | Carries None \<Rightarrow> Process lib e p msg dst = Panics NilDereference
      | NoSlot \<Rightarrow> Process lib e p msg dst =
          Returns (p\<lparr>bp_spawned := bp_spawned p @
            [\<lparr> gmh_ArrivalTime = env_now e, gmh_ForkVersion = fork, gmh_Topic = typ,
               gmh_NodeRegion = bp_nodeRegion p, gmh_NodeAlias = bp_nodeAlias p,
               gmh_NodePeerCount = ucast (env_peers e),
               gmh_MessageID = hexEncode (string_bytes (msg_ID msg)),
               gmh_SizeBytes = ucast (of_nat (length (msg_Data msg)) :: 64 word) \<rparr>]\<rparr>)
      | Carries (Some slot) \<Rightarrow>
          (\<exists>p' r. Process lib e p msg dst = Returns p' \<and>
             sms_Slot r = slot \<and> sms_MessageID r = hexEncode (string_bytes (msg_ID msg)) \<and>
             sms_ForkVersion r = fork \<and> sms_Topic r = typ \<and> sms_FirstArrivalTime r = env_now e \<and>
             sms_TopicGroup r = TopicToTopicGroup (topic_names lib) (msg_Topic msg) \<and>
             sms_SizeBytes r = ucast (of_nat (length (msg_Data msg)) :: 64 word) \<and>
             contents (bp_slotCache p') =
               (if contents (bp_slotCache p) slot (sms_MessageID r) = None
                then (contents (bp_slotCache p))(slot := (contents (bp_slotCache p) slot)(sms_MessageID r \<mapsto> r))
                else contents (bp_slotCache p)) \<and>
             bp_spawned p' = bp_spawned p \<and> bp_seenCounter p' = bp_seenCounter p \<and> bp_repo p' = bp_repo p))"
proof (cases "DecodeGossip lib (msg_Data msg) dst")
  case (Inl err)
  then show ?thesis by (simp add: Process_unfold)
next
  case (Inr m)
  note run = Process_unfold extract_reference processGeneralMessageMetadata_def newGeneralMetadata_def
    node_peer_count_def processSlotMessageMetadata_def newSlotMetadata_def slot_record_def
  show ?thesis
  proof (cases "carried_slot m")
    case (Carries s)
    show ?thesis
    proof (cases s)
      case (Some slot)
      let ?md = "newSlotMetadata lib e p msg slot"
      obtain r where r: "slot_record lib e p ?md = Returns r"
        "sms_Slot r = slot" "sms_MessageID r = hexEncode (string_bytes (msg_ID msg))"
        "sms_ForkVersion r = fork" "sms_Topic r = typ" "sms_FirstArrivalTime r = env_now e"
        "sms_TopicGroup r = TopicToTopicGroup (topic_names lib) (msg_Topic msg)"
        "sms_SizeBytes r = ucast (of_nat (length (msg_Data msg)) :: 64 word)"
        using assms(3,4) by (simp add: slot_record_def newSlotMetadata_def node_peer_count_def)
      then have "Process lib e p msg dst =
          Returns (p\<lparr>bp_slotCache := snd (Add (bp_slotCache p) slot (sms_MessageID r) r),
                     bp_messageNotify := (if bp_messageNotify p < notify_capacity
                                          then bp_messageNotify p + 1 else bp_messageNotify p)\<rparr>)"
        using Inr Carries Some assms(1)
        by (simp add: Process_unfold extract_reference processSlotMessageMetadata_def)
          (simp add: newSlotMetadata_def)
      then show ?thesis
        using Inr Carries Some r sl.add_view [OF assms(2), of slot "sms_MessageID r" r]
        by (simp only: sum.case carried.case option.case) auto
    qed (use Inr Carries assms in \<open>simp add: run\<close>)
  qed (use Inr assms in \<open>simp_all add: run\<close>)
qed

theorem Process_dispatch_witness:
  "Process sample_lib sample_env sample_processor ((sample_message 5)\<lparr>msg_Data := []\<rparr>) T_SignedBeaconBlock =
     Fails (ErrWrap (ErrNew ''empty'') ''failed to decode gossip message'') \<and>
   Process sample_lib sample_env sample_processor (sample_message 5) T_BlobSidecar =
     Fails (ErrNew ''unsupported message type'') \<and>
   (\<exists>p' r. Process sample_lib sample_env sample_processor (sample_message 5) T_SignedBeaconBlock = Returns p' \<and>
      contents (bp_slotCache p') 5 ''6d'' = Some r \<and> sms_FirstArrivalTime r = env_now sample_env)"
proof -
  have ok: "bp_extractors sample_processor = newSlotExtractorRegistry" "store_ok (bp_slotCache sample_processor)"
    "bp_peerCounter sample_processor"
    by simp_all
  have parse: "parseEth2Topic (msg_Topic (sample_message 5)) = Returns (''6a95a1a9'', ''beacon_block'')"
    "parseEth2Topic (msg_Topic ((sample_message 5)\<lparr>msg_Data := []\<rparr>)) = Returns (''6a95a1a9'', ''beacon_block'')"
    by (simp_all add: sample_message_def sample_parse)
  have no_entry: "contents NewSlotCacheStore 5 ''6d'' = None"
    by (simp add: contents_def NewSlotCacheStore_def)
  note dispatch = Process_dispatch [OF ok(1,2) _ ok(3), where lib = sample_lib and e = sample_env]
  show ?thesis
  proof (intro conjI)
    show "Process sample_lib sample_env sample_processor ((sample_message 5)\<lparr>msg_Data := []\<rparr>) T_SignedBeaconBlock =
        Fails (ErrWrap (ErrNew ''empty'') ''failed to decode gossip message'')"
      using dispatch [OF parse(2), of T_SignedBeaconBlock] by (simp add: sample_lib_def sample_message_def)
    show "Process sample_lib sample_env sample_processor (sample_message 5) T_BlobSidecar =
        Fails (ErrNew ''unsupported message type'')"
      using dispatch [OF parse(1), of T_BlobSidecar] by (simp add: sample_lib_def sample_message_def)
    have "DecodeGossip sample_lib (msg_Data (sample_message 5)) T_SignedBeaconBlock =
        Inr (SignedBeaconBlock (Some (Block 5)))" "msg_ID (sample_message 5) = ''m''"
      by (simp_all add: sample_lib_def sample_message_def)
    with dispatch [OF parse(1), of T_SignedBeaconBlock]
    show "\<exists>p' r. Process sample_lib sample_env sample_processor (sample_message 5) T_SignedBeaconBlock = Returns p' \<and>
        contents (bp_slotCache p') 5 ''6d'' = Some r \<and> sms_FirstArrivalTime r = env_now sample_env"
      by (auto simp: sample_hex no_entry)
  qed
qed

text \<open>
  C23: The recorded times. As long as the slot's offset from genesis fits a duration (about 292
  years), the recorded slot start is the exact date genesis + slot * seconds-per-slot and the
  latency is the arrival's distance from it in milliseconds. The latency is stored in an
  unsigned 32-bit field: a message that arrives before its slot starts gets a value near the
  largest one, not a negative or zero latency.
\<close>

theorem slot_record_times:
  assumes "slot_record lib e p (newSlotMetadata lib e p msg slot) = Returns r"
    and "uint slot * uint (SecondsPerSlot (bp_beaconConfig p)) * 10 ^ 9 < 2 ^ 63"
    and "env_now e - exact_slot_start p slot = d"
  shows "sms_SlotStartTime r = exact_slot_start p slot \<and> sms_FirstArrivalTime r = env_now e \<and>
    (0 \<le> d \<and> d < 2 ^ 32 * 10 ^ 6 \<longrightarrow> uint (sms_LatencyMS r) = d div 10 ^ 6) \<and>
    (- (2 ^ 32 * 10 ^ 6) < d \<and> d \<le> - (10 ^ 6) \<longrightarrow> uint (sms_LatencyMS r) = 2 ^ 32 - - d div 10 ^ 6)"
proof -
  have start: "slot_start p slot = exact_slot_start p slot" by (rule slot_start_exact [OF assms(2)])
  have fields: "sms_SlotStartTime r = slot_start p slot" "sms_FirstArrivalTime r = env_now e"
    "sms_LatencyMS r = ucast (milliseconds (time_Sub (env_now e) (slot_start p slot)))"
    using assms(1) by (auto simp: slot_record_def newSlotMetadata_def getDelayInSlot_def split: prod.splits)
  have lat: "uint (sms_LatencyMS r) = (d sdiv 1000000) mod 2 ^ 32" if "- (2 ^ 32 * 10 ^ 6) < d" "d < 2 ^ 32 * 10 ^ 6"
    using that assms(3) latency_exact [of d] by (simp add: fields start time_Sub_def)
  have "uint (sms_LatencyMS r) = d div 10 ^ 6" if "0 \<le> d" "d < 2 ^ 32 * 10 ^ 6"
    using lat that by (simp add: sdiv_nonneg)
  moreover have "uint (sms_LatencyMS r) = 2 ^ 32 - - d div 10 ^ 6" if "- (2 ^ 32 * 10 ^ 6) < d" "d \<le> - (10 ^ 6)"
  proof -
    have pos: "0 < - d div 1000000" "- d div 1000000 < 2 ^ 32" using that by auto
    have "(- (- d div 1000000)) mod 2 ^ 32 = (2 ^ 32 - - d div 1000000 :: int)"
      using minus_mod_self1 [of "2 ^ 32" "- d div 1000000"] mod_pos_pos_trivial [of "2 ^ 32 - - d div 1000000" "2 ^ 32"] pos
      by linarith
    then show ?thesis using lat that by (simp add: sdiv_neg)
  qed
  ultimately show ?thesis using fields(1,2) start by metis
qed

theorem slot_record_times_witness:
  "uint (sms_LatencyMS (sample_record 5)) = 500 \<and> sms_SlotStartTime (sample_record 5) = 1606824083 * 10 ^ 9"
proof -
  have "uint (5 :: slot) * uint (SecondsPerSlot (bp_beaconConfig sample_processor)) * 10 ^ 9 < 2 ^ 63"
    by (simp add: sample_config_def)
  note * = slot_record_times [OF sample_slot_record this refl]
  have "exact_slot_start sample_processor 5 = 1606824083 * 10 ^ 9"
    by (simp add: exact_slot_start_def time_Unix_def sample_config_def)
  with * show ?thesis by (simp add: sample_env_def)
qed

lemma parseEth2Topic_gossip:
  assumes "CHR ''/'' \<notin> set digest" and "CHR ''/'' \<notin> set name"
  shows "parseEth2Topic (gossip_topic digest name) = Returns (digest, name)"
  using parse_parts [of "''eth2''" digest name "''ssz_snappy''"] assms by (simp add: gossip_topic_def)

text \<open>
  C39: Parsing a topic of the form \<^verbatim>\<open>/eth2/<digest>/<name>/<encoding>\<close> gives back the digest and the
  name, and a topic with fewer than three slashes panics (index out of range).
\<close>

theorem parseEth2Topic_topic:
  "(parseEth2Topic topic = Panics IndexOutOfRange \<longleftrightarrow> count_list topic (CHR ''/'') < 3) \<and>
   (CHR ''/'' \<notin> set digest \<and> CHR ''/'' \<notin> set name \<longrightarrow>
      parseEth2Topic (gossip_topic digest name) = Returns (digest, name))"
  using parseEth2Topic_gossip by (simp add: parseEth2Topic_def Let_def length_Split)

theorem parseEth2Topic_topic_witness:
  "parseEth2Topic (gossip_topic ''6a95a1a9'' ''beacon_attestation_7'') =
     Returns (''6a95a1a9'', ''beacon_attestation_7'') \<and>
   parseEth2Topic ''/eth2/beacon_block'' = Panics IndexOutOfRange"
  using parseEth2Topic_topic [of "''/eth2/beacon_block''" "''6a95a1a9''" "''beacon_attestation_7''"] by simp

text \<open>
  The topic group of a gossip topic is the message name in it, with or without a subnet
  number: no part of the topic and no other name is mistaken for it, because the tests run in
  an order in which a name that is contained in another (the sync committee's in the
  contribution's) is tested later.
\<close>

lemma TopicToTopicGroup_exact:
  assumes "names_ok (topic_tests n)" and "name \<in> set (topic_tests n)"
    and "length digest \<le> 10" and "set sub \<subseteq> set ''_0123456789''"
  shows "TopicToTopicGroup n (gossip_topic digest (name @ sub)) = name"
  using tg.dispatch_gossip [OF assms(1) _ assms(3,4)] assms(2) by (metis in_set_conv_nth)

text \<open>
  C27: A flush counts the current slot from the Unix epoch, not from genesis. So once genesis
  lies at least two slot lengths after the epoch (every real network), a flush empties every slot
  that has begun, the running one included: records of a slot whose messages are still arriving
  are handed over with the duplicate counts of that moment.
\<close>

theorem flush_drains_running_slot:
  assumes "store_ok (bp_slotCache p)" and "bp_repo p \<noteq> None"
    and "0 < SecondsPerSlot (bp_beaconConfig p)"
    and "uint (SecondsPerSlot (bp_beaconConfig p)) * 10 ^ 9 < 2 ^ 63"
    and "2 * uint (SecondsPerSlot (bp_beaconConfig p)) * 10 ^ 9 \<le> bp_genesisTime p"
    and "exact_slot_start p slot \<le> env_now e" and "env_now e div 10 ^ 9 < 2 ^ 63"
  shows "\<exists>p'. flushCompletedSlots meth ord ord' e p = Returns p' \<and> contents (bp_slotCache p') slot = Map.empty"
proof -
  let ?n = "uint (SecondsPerSlot (bp_beaconConfig p))"
  have n: "0 < ?n" using assms(3) by (simp add: word_less_def)
  have late: "(uint slot + 2) * ?n * 10 ^ 9 \<le> env_now e"
    using assms(5,6) by (simp add: exact_slot_start_def algebra_simps)
  then have "0 \<le> env_now e" using n by (meson mult_nonneg_nonneg add_nonneg_nonneg order_trans less_imp_le
        uint_ge_0 zero_le_numeral zero_le_power)
  then obtain cur where cur: "current_slot e p = Returns cur" "uint cur = env_now e div 10 ^ 9 div ?n"
    using current_slot_value [OF assms(3,4) _ assms(7)] by blast
  have "(uint slot + 2) * ?n \<le> env_now e div 10 ^ 9"
    using late by (simp add: pos_imp_zdiv_nonneg_iff zdiv_mono1 [of "(uint slot + 2) * ?n * 10 ^ 9" "env_now e" "10 ^ 9", simplified])
  then have "uint slot + 2 \<le> uint cur"
    unfolding cur(2) using n zdiv_mono1 [of "(uint slot + 2) * ?n" "env_now e div 10 ^ 9" ?n] by simp
  then have "slot < cur - 1"
    using uint_sub_lem [of 1 cur] uint_ge_0 [of slot] unfolding word_less_def by simp
  moreover obtain r where "bp_repo p = Some r" using assms(2) by blast
  then obtain batches sc where "flush_slots meth ord' (CompletedSlots ord (bp_slotCache p) cur) p =
      Returns (p\<lparr>bp_slotCache := snd (drain_all ord' (bp_slotCache p) (CompletedSlots ord (bp_slotCache p) cur)),
        bp_seenCounter := sc, bp_repo := Some (hand_over meth batches r)\<rparr>)"
    using flush_slots_total [OF assms(1)] by blast
  ultimately show ?thesis
    by (simp add: flushCompletedSlots_def cur(1) sl.drains_completed [OF assms(1)])
qed

theorem flush_drains_running_slot_witness:
  "exact_slot_start filled_processor 5 \<le> env_now sample_env \<and>
   env_now sample_env < exact_slot_start filled_processor 6 \<and>
   (\<exists>p'. flushCompletedSlots recorder as_stored as_stored sample_env filled_processor = Returns p' \<and>
      contents (bp_slotCache p') 5 = Map.empty)"
proof -
  have running: "exact_slot_start filled_processor 5 \<le> env_now sample_env"
    "env_now sample_env < exact_slot_start filled_processor 6"
    by (simp_all add: exact_slot_start_def filled_processor_def sample_config_def sample_env_def time_Unix_def)
  have "\<exists>p'. flushCompletedSlots recorder as_stored as_stored sample_env filled_processor = Returns p' \<and>
      contents (bp_slotCache p') 5 = Map.empty"
    by (rule flush_drains_running_slot [OF filled_processor_ok(1) _ _ _ _ running(1)])
      (simp_all add: filled_processor_def sample_config_def time_Unix_def sample_env_def)
  with running show ?thesis by blast
qed

end
