(* ===== verification/Go_Float.thy ===== *)
theory Go_Float
  imports Complex_Main Prelude
begin

text \<open>
  Go's \<^verbatim>\<open>float64\<close> as the peer scores use it: a real number, the two infinities or not-a-number,
  with the operations and comparisons of the language. Rounding is not modelled (a finite
  operation gives the exact real) and there is one zero; division by it gives the infinity of
  the numerator's sign, as it does in the code, where every zero that is divided by is positive.
\<close>

section \<open>Values and operations\<close>

datatype float64 = Fin real | PosInf | NegInf | NaN

text \<open>The infinity with the sign of a real; zero gives not-a-number.\<close>

definition signed_inf :: "real \<Rightarrow> float64" where
  "signed_inf a = (if 0 < a then PosInf else if a < 0 then NegInf else NaN)"

text \<open>Division.\<close>

fun float_div :: "float64 \<Rightarrow> float64 \<Rightarrow> float64" where
  "float_div (Fin a) (Fin b) = (if b = 0 then signed_inf a else Fin (a / b))"
| "float_div NaN y = NaN"
| "float_div x NaN = NaN"
| "float_div (Fin a) y = Fin 0"
| "float_div PosInf (Fin b) = (if b < 0 then NegInf else PosInf)"
| "float_div NegInf (Fin b) = (if b < 0 then PosInf else NegInf)"
| "float_div x y = NaN"

instantiation float64 :: "{zero, one, uminus, minus, times, inverse, ord}"
begin

definition zero_float64 :: float64 where
  "0 = Fin 0"

definition one_float64 :: float64 where
  "1 = Fin 1"

fun uminus_float64 :: "float64 \<Rightarrow> float64" where
  "- Fin a = Fin (- a)"
| "- PosInf = NegInf"
| "- NegInf = PosInf"
| "- NaN = NaN"

fun minus_float64 :: "float64 \<Rightarrow> float64 \<Rightarrow> float64" where
  "Fin a - Fin b = Fin (a - b)"
| "NaN - y = NaN"
| "x - NaN = NaN"
| "PosInf - PosInf = NaN"
| "NegInf - NegInf = NaN"
| "PosInf - y = PosInf"
| "NegInf - y = NegInf"
| "x - PosInf = NegInf"
| "x - NegInf = PosInf"

fun times_float64 :: "float64 \<Rightarrow> float64 \<Rightarrow> float64" where
  "Fin a * Fin b = Fin (a * b)"
| "NaN * y = NaN"
| "x * NaN = NaN"
| "PosInf * Fin b = signed_inf b"
| "NegInf * Fin b = signed_inf (- b)"
| "Fin a * PosInf = signed_inf a"
| "Fin a * NegInf = signed_inf (- a)"
| "PosInf * PosInf = PosInf"
| "NegInf * NegInf = PosInf"
| "PosInf * NegInf = NegInf"
| "NegInf * PosInf = NegInf"

definition divide_float64 :: "float64 \<Rightarrow> float64 \<Rightarrow> float64" where
  "x div y = float_div x y"

definition inverse_float64 :: "float64 \<Rightarrow> float64" where
  "inverse x = float_div (Fin 1) x"

text \<open>Comparisons are false on not-a-number.\<close>

fun less_float64 :: "float64 \<Rightarrow> float64 \<Rightarrow> bool" where
  "Fin a < Fin b \<longleftrightarrow> a < b"
| "NegInf < Fin b \<longleftrightarrow> True"
| "NegInf < PosInf \<longleftrightarrow> True"
| "Fin a < PosInf \<longleftrightarrow> True"
| "(x :: float64) < y \<longleftrightarrow> False"

definition less_eq_float64 :: "float64 \<Rightarrow> float64 \<Rightarrow> bool" where
  "x \<le> y \<longleftrightarrow> x < (y :: float64) \<or> x = y \<and> x \<noteq> NaN"

instance ..

end

text \<open>Conversions \<^verbatim>\<open>float64(x)\<close> of an \<^verbatim>\<open>int64\<close> and of a \<^verbatim>\<open>uint64\<close>.\<close>

definition float_of_int64 :: "64 word \<Rightarrow> float64" where
  "float_of_int64 w = Fin (real_of_int (sint w))"

definition float_of_uint64 :: "u64 \<Rightarrow> float64" where
  "float_of_uint64 w = Fin (real_of_int (uint w))"

text \<open>\<^verbatim>\<open>math.Pow\<close> for a base strictly between zero and one.\<close>

fun math_Pow :: "real \<Rightarrow> float64 \<Rightarrow> float64" where
  "math_Pow x (Fin y) = Fin (x powr y)"
| "math_Pow x PosInf = Fin 0"
| "math_Pow x NegInf = PosInf"
| "math_Pow x NaN = NaN"

section \<open>Lemmas\<close>

lemma float_divide [simp]: "x / y = float_div x y"
  by (simp add: divide_float64_def)

lemma float_le_Fin [simp]: "Fin a \<le> Fin b \<longleftrightarrow> a \<le> b"
  by (auto simp: less_eq_float64_def)

lemma signed_inf_simps [simp]:
  "0 < a \<Longrightarrow> signed_inf a = PosInf" "a < 0 \<Longrightarrow> signed_inf a = NegInf" "signed_inf 0 = NaN"
  by (simp_all add: signed_inf_def)

text \<open>Away from not-a-number the comparison is a linear order.\<close>

lemma float_less_irrefl [simp]: "\<not> (x :: float64) < x"
  by (cases x) simp_all

lemma float_less_NaN [simp]: "\<not> NaN < x" "\<not> x < NaN"
  by (cases x; simp)+

lemma float_less_trans: "(x :: float64) < y \<Longrightarrow> y < z \<Longrightarrow> x < z"
  by (cases x; cases y; cases z) simp_all

lemma float_less_linear: "x \<noteq> NaN \<Longrightarrow> y \<noteq> NaN \<Longrightarrow> (x :: float64) < y \<or> x = y \<or> y < x"
  by (cases x; cases y) auto

lemma float_not_less_trans:
  "x \<noteq> NaN \<Longrightarrow> y \<noteq> NaN \<Longrightarrow> z \<noteq> NaN \<Longrightarrow> \<not> (y :: float64) < x \<Longrightarrow> \<not> z < y \<Longrightarrow> \<not> z < x"
  by (cases x; cases y; cases z) auto

lemma pow_in_unit_interval:
  assumes "0 < x" and "x < 1" and "0 < y"
  shows "0 < x powr y" and "x powr y < (1 :: real)"
  using assms powr_less_mono2 [of y x 1] by simp_all

end
