(* ===== verification/Go_Net.thy ===== *)
theory Go_Net
  imports Prelude
begin

text \<open>
  The IP addresses of Go's package \<^verbatim>\<open>net\<close> as the host and the discovery use them: the four-byte and
  sixteen-byte forms, the private ranges, printing (\<^verbatim>\<open>IP.String\<close>) and parsing (\<^verbatim>\<open>net.ParseIP\<close>), and that
  the printed form of an IPv4 address parses back to it and is the only text without a colon that
  parses at all.
\<close>

section \<open>Forms\<close>

text \<open>An address is a byte slice; nil is the empty one.\<close>

type_synonym net_IP = "byte list"

definition v4InV6Prefix :: "byte list" where
  "v4InV6Prefix = replicate 10 0 @ [255, 255]"

definition To4 :: "net_IP \<Rightarrow> net_IP option" where
  "To4 ip =
     (if length ip = 4 then Some ip
      else if length ip = 16 \<and> take 12 ip = v4InV6Prefix then Some (drop 12 ip)
      else None)"

definition To16 :: "net_IP \<Rightarrow> net_IP option" where
  "To16 ip =
     (if length ip = 4 then Some (v4InV6Prefix @ ip)
      else if length ip = 16 then Some ip
      else None)"

unbundle bit_operations_syntax

definition IsPrivate :: "net_IP \<Rightarrow> bool" where
  "IsPrivate ip =
     (case To4 ip of
        Some ip4 \<Rightarrow> ip4 ! 0 = 10 \<or> (ip4 ! 0 = 172 \<and> ip4 ! 1 AND 0xf0 = 16) \<or> (ip4 ! 0 = 192 \<and> ip4 ! 1 = 168)
      | None \<Rightarrow> length ip = 16 \<and> ip ! 0 AND 0xfe = 0xfc)"

section \<open>Printing\<close>

fun join_with :: "string \<Rightarrow> string list \<Rightarrow> string" where
  "join_with sep [] = []"
| "join_with sep [x] = x"
| "join_with sep (x # xs) = x @ sep @ join_with sep xs"

definition dotted :: "byte list \<Rightarrow> string" where
  "dotted bs = join_with ''.'' (map (decimal \<circ> unat) bs)"

fun hex_nat :: "nat \<Rightarrow> string" where
  "hex_nat n = (if n < 16 then [hex_digit n] else hex_nat (n div 16) @ [hex_digit (n mod 16)])"

declare hex_nat.simps [simp del]

fun groups :: "byte list \<Rightarrow> nat list" where
  "groups (a # b # bs) = (unat a * 256 + unat b) # groups bs"
| "groups bs = []"

text \<open>The first longest run of at least two zero groups: its start and its end.\<close>

definition zero_run :: "nat list \<Rightarrow> (nat \<times> nat) option" where
  "zero_run gs =
     fold (\<lambda>i best. (let l = length (takeWhile (\<lambda>g. g = 0) (drop i gs)) in
             if 2 \<le> l \<and> (case best of None \<Rightarrow> True | Some (a, b) \<Rightarrow> b - a < l) then Some (i, i + l) else best))
       [0..<length gs] None"

definition colons :: "nat list \<Rightarrow> string" where
  "colons gs =
     (case zero_run gs of
        None \<Rightarrow> join_with '':'' (map hex_nat gs)
      | Some (a, b) \<Rightarrow> join_with '':'' (map hex_nat (take a gs)) @ ''::'' @ join_with '':'' (map hex_nat (drop b gs)))"

definition ip_String :: "net_IP \<Rightarrow> string" where
  "ip_String ip =
     (if ip = [] then ''<nil>''
      else if length ip \<noteq> 4 \<and> length ip \<noteq> 16 then ''?'' @ hex_bytes ip
      else (case To4 ip of Some ip4 \<Rightarrow> dotted ip4 | None \<Rightarrow> colons (groups ip)))"

section \<open>Parsing\<close>

definition digit_val :: "char \<Rightarrow> nat option" where
  "digit_val c = (if 48 \<le> (of_char c :: nat) \<and> (of_char c :: nat) \<le> 57 then Some (of_char c - 48) else None)"

definition hex_val :: "char \<Rightarrow> nat option" where
  "hex_val c =
     (if 97 \<le> (of_char c :: nat) \<and> (of_char c :: nat) \<le> 102 then Some (of_char c - 87)
      else if 65 \<le> (of_char c :: nat) \<and> (of_char c :: nat) \<le> 70 then Some (of_char c - 55)
      else digit_val c)"

text \<open>The fields read so far, the value of the current field and its number of digits.\<close>

fun ipv4_fields :: "string \<Rightarrow> byte list \<Rightarrow> nat \<Rightarrow> nat \<Rightarrow> byte list option" where
  "ipv4_fields [] fs v n = (if length fs < 3 then None else Some (fs @ [of_nat v]))"
| "ipv4_fields (c # s) fs v n =
     (case digit_val c of
        Some d \<Rightarrow>
          (if n = 1 \<and> v = 0 then None
           else if 255 < v * 10 + d then None
           else ipv4_fields s fs (v * 10 + d) (Suc n))
      | None \<Rightarrow>
          (if c \<noteq> CHR ''.'' then None
           else if n = 0 \<or> s = [] then None
           else if length fs = 3 then None
           else ipv4_fields s (fs @ [of_nat v]) 0 0))"

text \<open>A group of at most four hexadecimal digits: their number, the value and the rest.\<close>

fun hex_group :: "string \<Rightarrow> nat \<Rightarrow> nat \<Rightarrow> (nat \<times> nat \<times> string) option" where
  "hex_group [] off acc = Some (off, acc, [])"
| "hex_group (c # s) off acc =
     (case hex_val c of
        None \<Rightarrow> Some (off, acc, c # s)
      | Some d \<Rightarrow> if 3 < off then None else hex_group s (Suc off) (acc * 16 + d))"

text \<open>
  The loop over the groups, at most eight: the bytes read, the position of the ellipsis and the
  rest of the text.
\<close>

fun v6_loop :: "nat \<Rightarrow> byte list \<Rightarrow> nat option \<Rightarrow> string \<Rightarrow> (byte list \<times> nat option \<times> string) option" where
  "v6_loop 0 bs ell s = Some (bs, ell, s)"
| "v6_loop (Suc k) bs ell s =
     (case hex_group s 0 0 of
        None \<Rightarrow> None
      | Some (off, acc, s') \<Rightarrow>
          if off = 0 then None
          else if s' \<noteq> [] \<and> hd s' = CHR ''.'' then
            (if ell = None \<and> length bs \<noteq> 12 then None
             else if 16 < length bs + 4 then None
             else map_option (\<lambda>f. (bs @ f, ell, [])) (ipv4_fields s [] 0 0))
          else
            (let bs' = bs @ [of_nat (acc div 256), of_nat (acc mod 256)] in
             case s' of
               [] \<Rightarrow> Some (bs', ell, [])
             | [c] \<Rightarrow> None
             | c # d # s'' \<Rightarrow>
                 if c \<noteq> CHR '':'' then None
                 else if d = CHR '':'' then
                   (if ell \<noteq> None then None
                    else if s'' = [] then Some (bs', Some (length bs'), [])
                    else v6_loop k bs' (Some (length bs')) s'')
                 else v6_loop k bs' ell (d # s'')))"

text \<open>A text with a zone is refused by \<^verbatim>\<open>net.ParseIP\<close>, whatever the zone is.\<close>

definition parse_v6 :: "string \<Rightarrow> net_IP option" where
  "parse_v6 s =
     (if CHR ''%'' \<in> set s then None
      else
        (let lead = (take 2 s = ''::''); s1 = (if lead then drop 2 s else s)
         in if lead \<and> s1 = [] then Some (replicate 16 0)
            else
              (case v6_loop 8 [] (if lead then Some 0 else None) s1 of
                 None \<Rightarrow> None
               | Some (bs, ell, rest) \<Rightarrow>
                   if rest \<noteq> [] then None
                   else if length bs < 16 then
                     map_option (\<lambda>e. take e bs @ replicate (16 - length bs) 0 @ drop e bs) ell
                   else if ell \<noteq> None then None
                   else Some bs)))"

definition ParseIP :: "string \<Rightarrow> net_IP option" where
  "ParseIP s =
     (case find (\<lambda>c. c \<in> {CHR ''.'', CHR '':'', CHR ''%''}) s of
        None \<Rightarrow> None
      | Some c \<Rightarrow>
          if c = CHR ''.'' then map_option (\<lambda>f. v4InV6Prefix @ f) (ipv4_fields s [] 0 0)
          else if c = CHR '':'' then parse_v6 s
          else None)"

section \<open>Lemmas\<close>

lemma length_v4InV6Prefix [simp]: "length v4InV6Prefix = 12"
  by (simp add: v4InV6Prefix_def)

lemma To4_mapped [simp]: "length bs = 4 \<Longrightarrow> To4 (v4InV6Prefix @ bs) = Some bs"
  by (simp add: To4_def)

lemma digit_val_digit: "n < 10 \<Longrightarrow> digit_val (char_of (48 + n)) = Some n"
  by (simp add: digit_val_def)

text \<open>Reading a printed field: no leading zero, no overflow.\<close>

lemma ipv4_fields_decimal:
  assumes "a < 256"
  shows "\<exists>n. 0 < n \<and> ipv4_fields (decimal a @ s) fs 0 0 = ipv4_fields s fs a n"
proof -
  consider "a < 10" | "10 \<le> a" "a < 100" | "100 \<le> a" by linarith
  then show ?thesis
  proof cases
    case 1
    then show ?thesis by (intro exI [of _ 1]) (simp add: decimal.simps [of a] digit_val_digit)
  next
    case 2
    then have "decimal a = [char_of (48 + a div 10), char_of (48 + a mod 10)]" "a div 10 < 10" "a div 10 \<noteq> 0"
      by (simp_all add: decimal.simps [of a] decimal.simps [of "a div 10"])
    with assms show ?thesis
      by (intro exI [of _ "Suc (Suc 0)"]) (simp add: digit_val_digit)
  next
    case 3
    have hundreds: "a div 10 div 10 = a div 100" by (simp add: div_mult2_eq [symmetric])
    have "\<not> a < 10" "\<not> a div 10 < 10" "a div 100 < 10" using 3 assms by linarith+
    then have "decimal a = [char_of (48 + a div 100), char_of (48 + a div 10 mod 10), char_of (48 + a mod 10)]"
      by (simp add: decimal.simps [of a] decimal.simps [of "a div 10"] decimal.simps [of "a div 100"] hundreds)
    moreover have "a div 100 < 10" "a div 100 \<noteq> 0" using 3 assms by auto
    moreover have "a div 100 * 10 + a div 10 mod 10 = a div 10"
      using div_mult_mod_eq [of "a div 10" 10] by (simp add: hundreds)
    moreover have "a div 10 * 10 + a mod 10 = a" by (rule div_mult_mod_eq)
    ultimately show ?thesis
      using assms div_le_dividend [of a 10]
      by (intro exI [of _ "Suc (Suc (Suc 0))"]) (simp add: digit_val_digit, linarith)
  qed
qed

lemma ipv4_fields_dot:
  "0 < n \<Longrightarrow> s \<noteq> [] \<Longrightarrow> length fs < 3 \<Longrightarrow> ipv4_fields (CHR ''.'' # s) fs v n = ipv4_fields s (fs @ [of_nat v]) 0 0"
  by (simp add: digit_val_def)

lemma decimal_not_Nil [simp]: "decimal n \<noteq> []"
  by (subst decimal.simps) simp

lemma ipv4_fields_dotted: "ipv4_fields (dotted [a, b, c, d]) [] 0 0 = Some [a, b, c, d]"
proof -
  have field: "\<exists>n > 0. ipv4_fields (decimal (unat x) @ s) fs 0 0 = ipv4_fields s fs (unat x) n" for x :: byte and s fs
    using ipv4_fields_decimal [of "unat x" s fs] unsigned_less [of x] by auto
  have next_field: "ipv4_fields (decimal (unat x) @ CHR ''.'' # s) fs 0 0 = ipv4_fields s (fs @ [x]) 0 0"
    if "s \<noteq> []" "length fs < 3" for x :: byte and s fs
    using field [of x "CHR ''.'' # s" fs] ipv4_fields_dot [OF _ that] by auto
  have last_field: "ipv4_fields (decimal (unat d)) [a, b, c] 0 0 = Some [a, b, c, d]"
    using field [of d "[]" "[a, b, c]"] by auto
  show ?thesis
    using last_field by (simp add: dotted_def next_field)
qed

text \<open>The first separator of a dotted text is a dot.\<close>

lemma find_dotted: "find (\<lambda>c. c \<in> {CHR ''.'', CHR '':'', CHR ''%''}) (dotted [a, b, c, d]) = Some CHR ''.''"
proof -
  have digit: "x \<notin> {CHR ''.'', CHR '':'', CHR ''%''}" if "x \<in> set (decimal n)" for x n
    using subsetD [OF digits_of_decimal that] by auto
  have "find P (xs @ y # ys) = Some y" if "\<forall>x \<in> set xs. \<not> P x" "P y" for P xs ys and y :: char
    using that by (induction xs) auto
  from this [of "decimal (unat a)" "\<lambda>c. c \<in> {CHR ''.'', CHR '':'', CHR ''%''}" "CHR ''.''"] digit
  show ?thesis by (simp add: dotted_def)
qed

lemma ParseIP_dotted: "ParseIP (dotted [a, b, c, d]) = Some (v4InV6Prefix @ [a, b, c, d])"
  unfolding ParseIP_def find_dotted by (simp add: ipv4_fields_dotted)

lemma ParseIP_String:
  assumes "To4 ip = Some ip4"
  shows "ParseIP (ip_String ip) = Some (v4InV6Prefix @ ip4)"
proof -
  have len: "length ip4 = 4" "length ip = 4 \<or> length ip = 16" using assms by (auto simp: To4_def split: if_splits)
  then obtain a b c d where "ip4 = [a, b, c, d]" by (auto simp: length_Suc_conv numeral_eq_Suc)
  moreover have "ip_String ip = dotted ip4" using len assms by (auto simp: ip_String_def)
  ultimately show ?thesis by (simp add: ParseIP_dotted)
qed

text \<open>
  The parser accepts no other text: from any position in the text, what is still to be read
  prints the fields that are returned. A field has at least one digit and no leading zero.
\<close>

lemma digit_val_char: "digit_val c = Some d \<Longrightarrow> d < 10 \<and> c = char_of (48 + d)"
  by (auto simp: digit_val_def split: if_splits)

lemma decimal_step: "0 < v \<Longrightarrow> d < 10 \<Longrightarrow> decimal (v * 10 + d) = decimal v @ [char_of (48 + d)]"
  by (subst decimal.simps) (simp add: div_mult_self3)

lemma decimal_digit: "d < 10 \<Longrightarrow> decimal d = [char_of (48 + d)]"
  by (subst decimal.simps) simp

lemma dotted_Cons: "xs \<noteq> [] \<Longrightarrow> dotted (x # xs) = decimal (unat x) @ CHR ''.'' # dotted xs"
  by (cases xs) (simp_all add: dotted_def)

lemma ipv4_fields_text:
  assumes "ipv4_fields s fs v n = Some r" and "v < 256" and "length fs \<le> 3"
    and "n = 0 \<Longrightarrow> v = 0 \<and> s \<noteq> []" and "0 < n \<Longrightarrow> v = 0 \<Longrightarrow> n = 1"
  shows "\<exists>xs. r = fs @ xs \<and> length r = 4 \<and> xs \<noteq> [] \<and> (if n = 0 then s else decimal v @ s) = dotted xs"
  using assms
proof (induction s fs v n rule: ipv4_fields.induct)
  case (1 fs v n)
  then have "length fs = 3" "r = fs @ [of_nat v]" "0 < n" by (auto split: if_splits)
  then show ?case
    using 1 by (intro exI [of _ "[of_nat v]"]) (simp add: dotted_def unsigned_of_nat take_bit_nat_eq_self)
next
  case (2 c s fs v n)
  show ?case
  proof (cases "digit_val c")
    case (Some d)
    note d = digit_val_char [OF Some]
    have guards: "\<not> (n = 1 \<and> v = 0)" "\<not> 255 < v * 10 + d"
      and rest: "ipv4_fields s fs (v * 10 + d) (Suc n) = Some r"
      using "2.prems"(1) Some by (simp_all split: if_splits)
    have pos: "0 < v" if "0 < n" using that guards(1) "2.prems"(5) by auto
    then have printed: "(if n = 0 then c # s else decimal v @ c # s) = decimal (v * 10 + d) @ s"
      using d "2.prems"(4) by (auto simp: decimal_step decimal_digit)
    have "v * 10 + d < 256" "Suc n = 1" if "v * 10 + d = 0" using guards(2) pos that by auto
    then have "\<exists>xs. r = fs @ xs \<and> length r = 4 \<and> xs \<noteq> [] \<and> (if Suc n = 0 then s else decimal (v * 10 + d) @ s) = dotted xs"
      using guards(2) by (intro "2.IH"(2) [OF Some guards rest]) (use "2.prems"(3) in auto)
    then show ?thesis unfolding printed by simp
  next
    case None
    then have c: "c = CHR ''.''" "0 < n" "s \<noteq> []" "length fs < 3" "ipv4_fields s (fs @ [of_nat v]) 0 0 = Some r"
      using "2.prems"(1,3) None by (auto split: if_splits)
    have "\<exists>xs. r = (fs @ [of_nat v]) @ xs \<and> length r = 4 \<and> xs \<noteq> [] \<and> (if (0 :: nat) = 0 then s else decimal 0 @ s) = dotted xs"
      by (rule "2.IH"(1) [OF None]) (use c in simp_all)
    then obtain xs where xs: "r = (fs @ [of_nat v]) @ xs" "length r = 4" "xs \<noteq> []" "s = dotted xs" by auto
    then show ?thesis
      using c "2.prems"(2) by (intro exI [of _ "of_nat v # xs"]) (simp add: dotted_Cons unsigned_of_nat take_bit_nat_eq_self)
  qed
qed

lemma ParseIP_no_colon:
  assumes "CHR '':'' \<notin> set s"
  shows "ParseIP s = Some ip \<longleftrightarrow> (\<exists>a b c d. s = dotted [a, b, c, d] \<and> ip = v4InV6Prefix @ [a, b, c, d])"
proof
  assume ip: "ParseIP s = Some ip"
  obtain c where c: "find (\<lambda>c. c \<in> {CHR ''.'', CHR '':'', CHR ''%''}) s = Some c"
    using ip by (auto simp: ParseIP_def split: option.splits)
  have "c \<in> set s" using c nth_mem unfolding find_Some_iff by metis
  then have "c \<noteq> CHR '':''" using assms by blast
  with ip c obtain f where f: "ipv4_fields s [] 0 0 = Some f" "ip = v4InV6Prefix @ f"
    by (auto simp: ParseIP_def split: if_splits)
  have "s \<noteq> []" using c by auto
  with ipv4_fields_text [OF f(1)] have "length f = 4" "s = dotted f" by auto
  then show "\<exists>a b c d. s = dotted [a, b, c, d] \<and> ip = v4InV6Prefix @ [a, b, c, d]"
    using f(2) by (auto simp: length_Suc_conv numeral_eq_Suc)
qed (auto simp: ParseIP_dotted)

end
