(* ===== verification/Host_Model.thy ===== *)
theory Host_Model
  imports Go_Float Go_Net
begin

text \<open>
  The libp2p host (\<^verbatim>\<open>src/host/host.go\<close>, \<^verbatim>\<open>notify.go\<close>): its options and construction, the service that
  registers the callbacks and listens, and the three peer counts over the open connections. What
  the package calls in libp2p, the resource manager, the multiaddress parser and the key generator
  is in the parameter record \<^theory_text>\<open>host_lib\<close>. The notification callbacks only write log lines.
\<close>

section \<open>Parameters and state\<close>

type_synonym host_peer = string

datatype direction = DirUnknown | DirInbound | DirOutbound

record connection =
  RemotePeer :: host_peer
  Direction :: direction

text \<open>
  \<^verbatim>\<open>'k\<close> is a private key, \<^verbatim>\<open>'m\<close> a resource manager, \<^verbatim>\<open>'c\<close> a connection manager, \<^verbatim>\<open>'a\<close> a multiaddress,
  \<^verbatim>\<open>'n\<close> a libp2p host.
\<close>

record ('k, 'm, 'c, 'a, 'n) host_lib =
  lib_GenerateKey :: "error + 'k"
  lib_NewResourceManager :: "error + 'm"
  lib_NullConnMgr :: 'c
  lib_NewMultiaddr :: "string \<Rightarrow> error + 'a"
  lib_libp2p_New :: "'a \<Rightarrow> 'k \<Rightarrow> string \<Rightarrow> 'm \<Rightarrow> 'c \<Rightarrow> error + 'n"

record ('k, 'm, 'c) HostOption =
  ho_listenIP :: string
  ho_port :: "64 word"
  ho_privateKey :: "'k option"
  ho_userAgent :: string
  ho_targetPeers :: "64 word"
  ho_rcMgr :: "'m option"
  ho_connMgr :: 'c

type_synonym ('k, 'm, 'c) HostOptionFunc = "('k, 'm, 'c) HostOption \<Rightarrow> ('k, 'm, 'c) HostOption"

definition host_WithListenIP :: "string \<Rightarrow> ('k, 'm, 'c) HostOptionFunc" where
  "host_WithListenIP ip o' = o'\<lparr>ho_listenIP := ip\<rparr>"

definition host_WithPort :: "64 word \<Rightarrow> ('k, 'm, 'c) HostOptionFunc" where
  "host_WithPort port o' = o'\<lparr>ho_port := port\<rparr>"

definition host_WithPrivateKey :: "'k \<Rightarrow> ('k, 'm, 'c) HostOptionFunc" where
  "host_WithPrivateKey key o' = o'\<lparr>ho_privateKey := Some key\<rparr>"

definition host_WithUserAgent :: "string \<Rightarrow> ('k, 'm, 'c) HostOptionFunc" where
  "host_WithUserAgent userAgent o' = o'\<lparr>ho_userAgent := userAgent\<rparr>"

definition host_WithTargetPeers :: "64 word \<Rightarrow> ('k, 'm, 'c) HostOptionFunc" where
  "host_WithTargetPeers targetPeers o' = o'\<lparr>ho_targetPeers := targetPeers\<rparr>"

definition host_WithResourceManager :: "'m \<Rightarrow> ('k, 'm, 'c) HostOptionFunc" where
  "host_WithResourceManager rcMgr o' = o'\<lparr>ho_rcMgr := Some rcMgr\<rparr>"

definition host_WithConnMgr :: "'c \<Rightarrow> ('k, 'm, 'c) HostOptionFunc" where
  "host_WithConnMgr connMgr o' = o'\<lparr>ho_connMgr := connMgr\<rparr>"

record 'n Host =
  libp2p_Host :: 'n
  host_targetPeers :: "64 word"

section \<open>Construction\<close>

definition default_HostOption :: "('k, 'm, 'c, 'a, 'n) host_lib \<Rightarrow> ('k, 'm, 'c) HostOption" where
  "default_HostOption lib =
     \<lparr> ho_listenIP = ''127.0.0.1'', ho_port = 9090, ho_privateKey = None, ho_userAgent = ''libp2p-host'',
       ho_targetPeers = 80, ho_rcMgr = None, ho_connMgr = lib_NullConnMgr lib \<rparr>"

text \<open>\<^verbatim>\<open>%d\<close> of an \<^verbatim>\<open>int\<close>.\<close>

definition decimal_int :: "64 word \<Rightarrow> string" where
  "decimal_int w = (if sint w < 0 then ''-'' @ decimal (nat (- sint w)) else decimal (nat (sint w)))"

definition NewHost ::
  "('k, 'm, 'c, 'a, 'n) host_lib \<Rightarrow> ('k, 'm, 'c) HostOptionFunc list \<Rightarrow> 'n Host outcome" where
  "NewHost lib opts =
     (let o' = fold (\<lambda>opt. opt) opts (default_HostOption lib) in
      and_then (case ho_privateKey o' of
                  None \<Rightarrow> wrap ''failed to generate secp256k1 private key'' (outcome_of (lib_GenerateKey lib))
                | Some key \<Rightarrow> Returns key) (\<lambda>key.
      and_then (case ho_rcMgr o' of
                  None \<Rightarrow> wrap ''failed to create libp2p resource manager'' (outcome_of (lib_NewResourceManager lib))
                | Some rc \<Rightarrow> Returns rc) (\<lambda>rc.
      case ParseIP (ho_listenIP o') of
        None \<Rightarrow> Fails (ErrNew ''failed to parse ip address'')
      | Some parsed \<Rightarrow>
          if To4 parsed = None then Fails (ErrNew ''ip address should be ipv4'')
          else
            and_then (wrap ''failed to parse tcp multiaddr''
              (outcome_of (lib_NewMultiaddr lib (''/ip4/'' @ ho_listenIP o' @ ''/tcp/'' @ decimal_int (ho_port o')))))
            (\<lambda>addr.
            and_then (wrap ''failed to create libp2p host''
              (outcome_of (lib_libp2p_New lib addr key (ho_userAgent o') rc (ho_connMgr o')))) (\<lambda>n.
              Returns \<lparr> libp2p_Host = n, host_targetPeers = ho_targetPeers o' \<rparr>)))))"

section \<open>Service\<close>

text \<open>
  The service: register the callbacks, listen, then wait for the end of the context; the
  callbacks are unregistered on every return. \<^verbatim>\<open>Listen\<close> is the library's answer; the result is
  whether the callbacks are registered afterwards and the error returned, \<^verbatim>\<open>None\<close> while it waits.
\<close>

definition host_Serve :: "error option \<Rightarrow> error option \<Rightarrow> bool \<times> error option option" where
  "host_Serve listen ctx_err =
     (case listen of
        Some err \<Rightarrow> (False, Some (Some (ErrWrap err ''failed to start libp2p network'')))
      | None \<Rightarrow> (case ctx_err of None \<Rightarrow> (True, None) | Some err \<Rightarrow> (False, Some (Some err))))"

section \<open>Peer counts\<close>

definition TargetPeerCount :: "'n Host \<Rightarrow> 64 word" where
  "TargetPeerCount h = host_targetPeers h"

text \<open>The set of peers is a Go map with empty values; the count is its length.\<close>

definition peer_set :: "connection list \<Rightarrow> (host_peer, unit) gomap" where
  "peer_set conns = fold (\<lambda>conn peers. AList.update (RemotePeer conn) () peers) conns []"

definition TotalPeerCount :: "connection list \<Rightarrow> 64 word" where
  "TotalPeerCount conns = of_nat (length (peer_set conns))"

definition InboundPeerCount :: "connection list \<Rightarrow> 64 word" where
  "InboundPeerCount conns = of_nat (length (peer_set (filter (\<lambda>conn. Direction conn = DirInbound) conns)))"

definition OutboundPeerCount :: "connection list \<Rightarrow> 64 word" where
  "OutboundPeerCount conns = of_nat (length (peer_set (filter (\<lambda>conn. Direction conn = DirOutbound) conns)))"

section \<open>Lemmas\<close>

lemma peer_set_fold:
  "gomap_ok m \<Longrightarrow> gomap_ok (fold (\<lambda>conn peers. AList.update (RemotePeer conn) () peers) conns m) \<and>
     fst ` set (fold (\<lambda>conn peers. AList.update (RemotePeer conn) () peers) conns m) =
     fst ` set m \<union> RemotePeer ` set conns"
proof (induction conns arbitrary: m)
  case (Cons conn conns)
  have "gomap_ok (AList.update (RemotePeer conn) () m)" using Cons.prems by (rule distinct_update)
  from Cons.IH [OF this] show ?case by (auto simp: dom_update)
qed simp

lemma length_peer_set: "length (peer_set conns) = card (RemotePeer ` set conns)"
proof -
  have "gomap_ok (peer_set conns)" "fst ` set (peer_set conns) = RemotePeer ` set conns"
    using peer_set_fold [of "[]" conns] by (simp_all add: peer_set_def)
  then show ?thesis
    by (metis distinct_card length_map list.set_map)
qed

section \<open>Properties\<close>

text \<open>
  C37: The counts are numbers of distinct peers, not of connections: a peer with several
  connections counts once, the inbound and the outbound peers are among all peers, and together
  they cover them unless a connection has no known direction.
\<close>

theorem peer_counts:
  "TotalPeerCount conns = of_nat (card (RemotePeer ` set conns)) \<and>
   InboundPeerCount conns = of_nat (card {RemotePeer c | c. c \<in> set conns \<and> Direction c = DirInbound}) \<and>
   OutboundPeerCount conns = of_nat (card {RemotePeer c | c. c \<in> set conns \<and> Direction c = DirOutbound}) \<and>
   (DirUnknown \<notin> Direction ` set conns \<longrightarrow>
      length (peer_set conns) \<le>
        length (peer_set (filter (\<lambda>c. Direction c = DirInbound) conns)) +
        length (peer_set (filter (\<lambda>c. Direction c = DirOutbound) conns)))"
proof -
  let ?by = "\<lambda>d. RemotePeer ` {c \<in> set conns. Direction c = d}"
  have set_form: "?by d = {RemotePeer c | c. c \<in> set conns \<and> Direction c = d}" for d by auto
  have "RemotePeer ` set conns \<subseteq> ?by DirInbound \<union> ?by DirOutbound" if "DirUnknown \<notin> Direction ` set conns"
  proof
    fix p
    assume "p \<in> RemotePeer ` set conns"
    then obtain c where "c \<in> set conns" "p = RemotePeer c" by blast
    with that show "p \<in> ?by DirInbound \<union> ?by DirOutbound" by (cases "Direction c") (force, auto)
  qed
  then have "card (RemotePeer ` set conns) \<le> card (?by DirInbound \<union> ?by DirOutbound)"
    if "DirUnknown \<notin> Direction ` set conns"
    using that by (intro card_mono) auto
  then have "card (RemotePeer ` set conns) \<le> card (?by DirInbound) + card (?by DirOutbound)"
    if "DirUnknown \<notin> Direction ` set conns"
    using that card_Un_le order_trans by blast
  then show ?thesis
    by (simp add: TotalPeerCount_def InboundPeerCount_def OutboundPeerCount_def length_peer_set
        flip: set_form)
qed

theorem peer_counts_witness:
  "(let conns = [\<lparr> RemotePeer = ''a'', Direction = DirInbound \<rparr>, \<lparr> RemotePeer = ''a'', Direction = DirOutbound \<rparr>,
                 \<lparr> RemotePeer = ''b'', Direction = DirInbound \<rparr>]
    in TotalPeerCount conns = 2 \<and> InboundPeerCount conns = 2 \<and> OutboundPeerCount conns = 1)"
proof -
  let ?conns = "[\<lparr> RemotePeer = ''a'', Direction = DirInbound \<rparr>, \<lparr> RemotePeer = ''a'', Direction = DirOutbound \<rparr>,
                 \<lparr> RemotePeer = ''b'', Direction = DirInbound \<rparr>]"
  have "TotalPeerCount ?conns = of_nat (card (RemotePeer ` set ?conns))" using peer_counts by blast
  then show ?thesis
    by (simp add: InboundPeerCount_def OutboundPeerCount_def peer_set_def)
qed

text \<open>
  C36: Which listen addresses a host accepts. For a configured address without a colon, a host
  is constructed exactly when the address is the dotted decimal form of four bytes and the library
  accepts what it is given: the multiaddress \<^verbatim>\<open>/ip4/a.b.c.d/tcp/port\<close>, the configured key (a
  generated one only when none is configured), agent name, resource manager and connection
  manager; the host keeps the configured target. Any other such address (a host name, a field
  above 255, a leading zero, a missing field) is reported as an address that does not parse, never
  as one that is not IPv4.
\<close>

theorem NewHost_listen_address:
  fixes lib :: "('k, 'm, 'c, 'a, 'n) host_lib"
  assumes "CHR '':'' \<notin> set (ho_listenIP (fold (\<lambda>opt. opt) opts (default_HostOption lib)))"
    and "0 \<le> sint (ho_port (fold (\<lambda>opt. opt) opts (default_HostOption lib)))"
  defines "opt \<equiv> fold (\<lambda>opt. opt) opts (default_HostOption lib)"
  shows "(NewHost lib opts = Returns h \<longleftrightarrow>
      (\<exists>a b c d addr key rc. ho_listenIP opt = dotted [a, b, c, d] \<and>
         lib_NewMultiaddr lib (''/ip4/'' @ dotted [a, b, c, d] @ ''/tcp/'' @ decimal (nat (sint (ho_port opt)))) = Inr addr \<and>
         (if ho_privateKey opt = None then lib_GenerateKey lib = Inr key else ho_privateKey opt = Some key) \<and>
         (if ho_rcMgr opt = None then lib_NewResourceManager lib = Inr rc else ho_rcMgr opt = Some rc) \<and>
         lib_libp2p_New lib addr key (ho_userAgent opt) rc (ho_connMgr opt) = Inr (libp2p_Host h) \<and>
         host_targetPeers h = ho_targetPeers opt)) \<and>
    ((\<nexists>a b c d. ho_listenIP opt = dotted [a, b, c, d]) \<and>
       (ho_privateKey opt = None \<longrightarrow> lib_GenerateKey lib = Inr key0) \<and>
       (ho_rcMgr opt = None \<longrightarrow> lib_NewResourceManager lib = Inr rc0) \<longrightarrow>
       NewHost lib opts = Fails (ErrNew ''failed to parse ip address'')) \<and>
    NewHost lib opts \<noteq> Fails (ErrNew ''ip address should be ipv4'')"
proof -
  have port: "decimal_int (ho_port opt) = decimal (nat (sint (ho_port opt)))"
    using assms(2) unfolding opt_def by (simp add: decimal_int_def)
  note ip = ParseIP_no_colon [OF assms(1), folded opt_def]
  have fails: "ParseIP (ho_listenIP opt) = None \<longleftrightarrow> (\<nexists>a b c d. ho_listenIP opt = dotted [a, b, c, d])"
    using ip by (metis not_Some_eq)
  show ?thesis
  proof (cases "ParseIP (ho_listenIP opt)")
    case None
    then show ?thesis
      using fails
      by (auto simp: NewHost_def opt_def [symmetric] Let_def and_then_eq_Fails split: option.splits)
  next
    case (Some addr)
    then obtain a b c d where abcd: "ho_listenIP opt = dotted [a, b, c, d]" "addr = v4InV6Prefix @ [a, b, c, d]"
      using ip by blast
    have v4: "To4 addr \<noteq> None" using abcd(2) by simp
    have h: "h = \<lparr> libp2p_Host = n, host_targetPeers = t \<rparr> \<longleftrightarrow> libp2p_Host h = n \<and> host_targetPeers h = t" for n t
      by (cases h) auto
    have pick: "P (ho_listenIP opt) \<longleftrightarrow> (\<exists>a b c d. ho_listenIP opt = dotted [a, b, c, d] \<and> P (dotted [a, b, c, d]))" for P
      using abcd(1) by metis
    let ?run = "\<lambda>ip. \<exists>addr key rc.
         lib_NewMultiaddr lib (''/ip4/'' @ ip @ ''/tcp/'' @ decimal (nat (sint (ho_port opt)))) = Inr addr \<and>
         (if ho_privateKey opt = None then lib_GenerateKey lib = Inr key else ho_privateKey opt = Some key) \<and>
         (if ho_rcMgr opt = None then lib_NewResourceManager lib = Inr rc else ho_rcMgr opt = Some rc) \<and>
         lib_libp2p_New lib addr key (ho_userAgent opt) rc (ho_connMgr opt) = Inr (libp2p_Host h) \<and>
         host_targetPeers h = ho_targetPeers opt"
    have "NewHost lib opts = Returns h \<longleftrightarrow> ?run (ho_listenIP opt)"
      using Some v4 by (auto simp: NewHost_def opt_def [symmetric] Let_def port h split: option.splits)
    moreover have "?run (ho_listenIP opt) \<longleftrightarrow> (\<exists>a b c d. ho_listenIP opt = dotted [a, b, c, d] \<and> ?run (dotted [a, b, c, d]))"
      by (rule pick)
    moreover have "NewHost lib opts \<noteq> Fails (ErrNew ''ip address should be ipv4'')"
      using Some v4 by (auto simp: NewHost_def opt_def [symmetric] Let_def and_then_eq_Fails split: option.splits)
    ultimately show ?thesis using abcd(1) by blast
  qed
qed

definition sample_host_lib :: "(string, unit, unit, string, string) host_lib" where
  "sample_host_lib =
     \<lparr> lib_GenerateKey = Inr ''key'', lib_NewResourceManager = Inr (), lib_NullConnMgr = (),
       lib_NewMultiaddr = Inr, lib_libp2p_New = (\<lambda>a k u m c. Inr a) \<rparr>"

theorem NewHost_listen_address_witness:
  "NewHost sample_host_lib [host_WithPort 9000] =
     Returns \<lparr> libp2p_Host = ''/ip4/127.0.0.1/tcp/9000'', host_targetPeers = 80 \<rparr> \<and>
   NewHost sample_host_lib [host_WithListenIP ''127.0.0.256''] = Fails (ErrNew ''failed to parse ip address'')"
proof -
  have local: "dotted [127, 0, 0, 1] = ''127.0.0.1''" by code_simp
  have dec: "decimal 9000 = ''9000''" by (simp add: decimal.simps char_of_def bit_0)
  have "ParseIP ''127.0.0.256'' = None" by code_simp
  then have bad: "\<nexists>a b c d. ''127.0.0.256'' = dotted [a, b, c, d]" using ParseIP_dotted by fastforce
  have "NewHost sample_host_lib [host_WithPort 9000] =
     Returns \<lparr> libp2p_Host = ''/ip4/127.0.0.1/tcp/9000'', host_targetPeers = 80 \<rparr>"
  proof (subst NewHost_listen_address [THEN conjunct1], goal_cases)
    case 3
    show ?case
      by (rule exI [of _ 127], rule exI [of _ 0], rule exI [of _ 0], rule exI [of _ 1])
        (simp add: default_HostOption_def host_WithPort_def sample_host_lib_def local dec)
  qed (simp_all add: default_HostOption_def host_WithPort_def)
  moreover have "NewHost sample_host_lib [host_WithListenIP ''127.0.0.256''] = Fails (ErrNew ''failed to parse ip address'')"
    using NewHost_listen_address [of "[host_WithListenIP ''127.0.0.256'']" sample_host_lib _ "''key''" "()"] bad
    by (simp add: default_HostOption_def host_WithListenIP_def sample_host_lib_def)
  ultimately show ?thesis ..
qed

end
