(* ===== verification/Watcher_Options.thy ===== *)
theory Watcher_Options
  imports Eth_Network Host_Model
begin

text \<open>
  The options of the watcher (\<^verbatim>\<open>src/watcher/watcher.go\<close>) and the flags of the command that set them
  (\<^verbatim>\<open>src/cmd/cmd_watcher.go\<close>), with the value every option gets from a command line.
\<close>

section \<open>Options\<close>

record WatcherOption =
  wo_ecdsaPrivateKeyHex :: string
  wo_listenIP :: string
  wo_portUDP :: "64 word"
  wo_portTCP :: "64 word"
  wo_targetPeers :: "64 word"
  wo_ethNetwork :: string
  wo_estimateActiveValidators :: u64
  wo_dbType :: string
  wo_dbName :: string
  wo_dbHost :: string
  wo_dbPort :: "64 word"
  wo_dbUser :: string
  wo_dbPassword :: string
  wo_dbSecure :: bool
  wo_nodeAlias :: string
  wo_nodeRegion :: string

type_synonym WatcherOptionFunc = "WatcherOption \<Rightarrow> WatcherOption"

definition watcher_WithECDSAPrivateKeyHex :: "string \<Rightarrow> WatcherOptionFunc" where
  "watcher_WithECDSAPrivateKeyHex ecdsaPrivateKeyHex o' = o'\<lparr>wo_ecdsaPrivateKeyHex := ecdsaPrivateKeyHex\<rparr>"

definition watcher_WithListenIP :: "string \<Rightarrow> WatcherOptionFunc" where
  "watcher_WithListenIP listenIP o' = o'\<lparr>wo_listenIP := listenIP\<rparr>"

definition watcher_WithPortUDP :: "64 word \<Rightarrow> WatcherOptionFunc" where
  "watcher_WithPortUDP portUDP o' = o'\<lparr>wo_portUDP := portUDP\<rparr>"

definition watcher_WithPortTCP :: "64 word \<Rightarrow> WatcherOptionFunc" where
  "watcher_WithPortTCP portTCP o' = o'\<lparr>wo_portTCP := portTCP\<rparr>"

definition watcher_WithTargetPeers :: "64 word \<Rightarrow> WatcherOptionFunc" where
  "watcher_WithTargetPeers targetPeers o' = o'\<lparr>wo_targetPeers := targetPeers\<rparr>"

definition watcher_WithEthNetwork :: "string \<Rightarrow> WatcherOptionFunc" where
  "watcher_WithEthNetwork ethNetwork o' = o'\<lparr>wo_ethNetwork := ethNetwork\<rparr>"

definition watcher_WithEstimateActiveValidators :: "u64 \<Rightarrow> WatcherOptionFunc" where
  "watcher_WithEstimateActiveValidators est o' = o'\<lparr>wo_estimateActiveValidators := est\<rparr>"

definition watcher_WithDBType :: "string \<Rightarrow> WatcherOptionFunc" where
  "watcher_WithDBType dbType o' = o'\<lparr>wo_dbType := dbType\<rparr>"

definition watcher_WithDBName :: "string \<Rightarrow> WatcherOptionFunc" where
  "watcher_WithDBName dbName o' = o'\<lparr>wo_dbName := dbName\<rparr>"

definition watcher_WithDBHost :: "string \<Rightarrow> WatcherOptionFunc" where
  "watcher_WithDBHost dbHost o' = o'\<lparr>wo_dbHost := dbHost\<rparr>"

definition watcher_WithDBPort :: "64 word \<Rightarrow> WatcherOptionFunc" where
  "watcher_WithDBPort dbPort o' = o'\<lparr>wo_dbPort := dbPort\<rparr>"

definition watcher_WithDBUser :: "string \<Rightarrow> WatcherOptionFunc" where
  "watcher_WithDBUser dbUser o' = o'\<lparr>wo_dbUser := dbUser\<rparr>"

definition watcher_WithDBPassword :: "string \<Rightarrow> WatcherOptionFunc" where
  "watcher_WithDBPassword dbPassword o' = o'\<lparr>wo_dbPassword := dbPassword\<rparr>"

definition watcher_WithDBSecure :: "bool \<Rightarrow> WatcherOptionFunc" where
  "watcher_WithDBSecure dbSecure o' = o'\<lparr>wo_dbSecure := dbSecure\<rparr>"

definition watcher_WithNodeAlias :: "string \<Rightarrow> WatcherOptionFunc" where
  "watcher_WithNodeAlias nodeAlias o' = o'\<lparr>wo_nodeAlias := nodeAlias\<rparr>"

definition watcher_WithNodeRegion :: "string \<Rightarrow> WatcherOptionFunc" where
  "watcher_WithNodeRegion nodeRegion o' = o'\<lparr>wo_nodeRegion := nodeRegion\<rparr>"

text \<open>The fields that the literal of \<^verbatim>\<open>NewWatcher\<close> leaves out have their zero value.\<close>

definition default_WatcherOption :: "eth_params \<Rightarrow> WatcherOption" where
  "default_WatcherOption prm =
     \<lparr> wo_ecdsaPrivateKeyHex = '''', wo_listenIP = ''127.0.0.1'', wo_portUDP = 9090, wo_portTCP = 9090,
       wo_targetPeers = 80, wo_ethNetwork = MainnetName prm, wo_estimateActiveValidators = 0,
       wo_dbType = '''', wo_dbName = '''', wo_dbHost = '''', wo_dbPort = 0, wo_dbUser = '''',
       wo_dbPassword = '''', wo_dbSecure = False, wo_nodeAlias = '''', wo_nodeRegion = '''' \<rparr>"

section \<open>Flags\<close>

datatype flag_kind = StringFlag | IntFlag | UintFlag | BoolFlag

text \<open>A flag: its kind and name, the environment variable it is read from, and the default it shows.\<close>

record cli_flag =
  fl_Kind :: flag_kind
  fl_Name :: string
  fl_EnvVar :: string
  fl_DefaultText :: string

definition EnvPrefix :: string where
  "EnvPrefix = ''PEEKD''"

abbreviation mk_flag :: "flag_kind \<Rightarrow> string \<Rightarrow> string \<Rightarrow> string \<Rightarrow> cli_flag" where
  "mk_flag k name env shown \<equiv>
     \<lparr> fl_Kind = k, fl_Name = name, fl_EnvVar = EnvPrefix @ ''_'' @ env, fl_DefaultText = shown \<rparr>"

definition cmdWatcher_Flags :: "eth_params \<Rightarrow> cli_flag list" where
  "cmdWatcher_Flags prm =
     [mk_flag StringFlag ''log-level'' ''LOG_LEVEL'' '''',
      mk_flag StringFlag ''ecdsa-private-key-hex'' ''ECDSA_PRIVATE_KEY_HEX'' '''',
      mk_flag StringFlag ''listen-ip'' ''LISTEN_IP'' ''127.0.0.1'',
      mk_flag IntFlag ''udp-port'' ''UDP_PORT'' ''9090'',
      mk_flag IntFlag ''tcp-port'' ''TCP_PORT'' ''9090'',
      mk_flag IntFlag ''target-peers'' ''TARGET_PEERS'' ''100'',
      mk_flag StringFlag ''network'' ''NETWORK'' (MainnetName prm),
      mk_flag UintFlag ''estimate-active-validators'' ''ESTIMATE_ACTIVE_VALIDATORS'' ''0'',
      mk_flag StringFlag ''db-type'' ''DB_TYPE'' ''clickhouse'',
      mk_flag StringFlag ''db-host'' ''DB_HOST'' ''localhost'',
      mk_flag IntFlag ''db-port'' ''DB_PORT'' ''9000'',
      mk_flag StringFlag ''db-name'' ''DB_NAME'' ''peekd'',
      mk_flag StringFlag ''db-user'' ''DB_USER'' ''default'',
      mk_flag StringFlag ''db-password'' ''DB_PASSWORD'' '''',
      mk_flag BoolFlag ''db-secure'' ''DB_SECURE'' ''false'',
      mk_flag StringFlag ''node-alias'' ''NODE_ALIAS'' '''',
      mk_flag StringFlag ''node-region'' ''NODE_REGION'' '''']"

section \<open>Command line\<close>

text \<open>The parsed command line: which flags are set, and their values.\<close>

record command =
  cmd_IsSet :: "string \<Rightarrow> bool"
  cmd_String :: "string \<Rightarrow> string"
  cmd_Int :: "string \<Rightarrow> 64 word"
  cmd_Uint :: "string \<Rightarrow> u64"
  cmd_Bool :: "string \<Rightarrow> bool"

datatype log_level = LevelDebug | LevelInfo | LevelWarn | LevelError

definition to_lower :: "string \<Rightarrow> string" where
  "to_lower s = map (\<lambda>c. if 65 \<le> (of_char c :: nat) \<and> (of_char c :: nat) \<le> 90 then char_of ((of_char c :: nat) + 32) else c) s"

text \<open>The level of the default logger, when the flag asks for a new one.\<close>

definition launch_log_level :: "command \<Rightarrow> log_level option" where
  "launch_log_level cmd =
     (if cmd_IsSet cmd ''log-level'' then
        Some (let l = to_lower (cmd_String cmd ''log-level'') in
              if l = ''debug'' then LevelDebug
              else if l = ''info'' then LevelInfo
              else if l = ''warn'' then LevelWarn
              else if l = ''error'' then LevelError
              else LevelInfo)
      else None)"

definition when_set :: "command \<Rightarrow> string \<Rightarrow> WatcherOptionFunc \<Rightarrow> WatcherOptionFunc list" where
  "when_set cmd flag opt = (if cmd_IsSet cmd flag then [opt] else [])"

definition launch_options :: "command \<Rightarrow> WatcherOptionFunc list" where
  "launch_options cmd =
     when_set cmd ''ecdsa-private-key-hex'' (watcher_WithECDSAPrivateKeyHex (cmd_String cmd ''ecdsa-private-key-hex'')) @
     when_set cmd ''listen-ip'' (watcher_WithListenIP (cmd_String cmd ''listen-ip'')) @
     when_set cmd ''udp-port'' (watcher_WithPortUDP (cmd_Int cmd ''udp-port'')) @
     when_set cmd ''tcp-port'' (watcher_WithPortTCP (cmd_Int cmd ''tcp-port'')) @
     when_set cmd ''target-peers'' (watcher_WithTargetPeers (cmd_Int cmd ''target-peers'')) @
     when_set cmd ''network'' (watcher_WithEthNetwork (cmd_String cmd ''network'')) @
     when_set cmd ''estimate-active-validators'' (watcher_WithEstimateActiveValidators (cmd_Uint cmd ''estimate-active-validators'')) @
     when_set cmd ''db-type'' (watcher_WithDBType (cmd_String cmd ''db-type'')) @
     when_set cmd ''db-host'' (watcher_WithDBHost (cmd_String cmd ''db-host'')) @
     when_set cmd ''db-port'' (watcher_WithDBPort (cmd_Int cmd ''db-port'')) @
     when_set cmd ''db-name'' (watcher_WithDBName (cmd_String cmd ''db-name'')) @
     when_set cmd ''db-user'' (watcher_WithDBUser (cmd_String cmd ''db-user'')) @
     when_set cmd ''db-password'' (watcher_WithDBPassword (cmd_String cmd ''db-password'')) @
     when_set cmd ''db-secure'' (watcher_WithDBSecure (cmd_Bool cmd ''db-secure'')) @
     when_set cmd ''node-alias'' (watcher_WithNodeAlias (cmd_String cmd ''node-alias'')) @
     when_set cmd ''node-region'' (watcher_WithNodeRegion (cmd_String cmd ''node-region''))"

section \<open>Lemmas\<close>

text \<open>The value of an option: the flag's when it is set, the default otherwise.\<close>

definition flag_or :: "command \<Rightarrow> string \<Rightarrow> 'a \<Rightarrow> 'a \<Rightarrow> 'a" where
  "flag_or cmd flag val d = (if cmd_IsSet cmd flag then val else d)"

lemmas watcher_options = watcher_WithECDSAPrivateKeyHex_def watcher_WithListenIP_def watcher_WithPortUDP_def
  watcher_WithPortTCP_def watcher_WithTargetPeers_def watcher_WithEthNetwork_def
  watcher_WithEstimateActiveValidators_def watcher_WithDBType_def watcher_WithDBName_def watcher_WithDBHost_def
  watcher_WithDBPort_def watcher_WithDBUser_def watcher_WithDBPassword_def watcher_WithDBSecure_def
  watcher_WithNodeAlias_def watcher_WithNodeRegion_def

lemma when_set_steps:
  "fold (\<lambda>opt. opt) (when_set cmd flag (watcher_WithECDSAPrivateKeyHex vECDSAPrivateKeyHex) @ opts) o' =
     fold (\<lambda>opt. opt) opts (wo_ecdsaPrivateKeyHex_update (flag_or cmd flag vECDSAPrivateKeyHex) o')"
  "fold (\<lambda>opt. opt) (when_set cmd flag (watcher_WithListenIP vListenIP) @ opts) o' =
     fold (\<lambda>opt. opt) opts (wo_listenIP_update (flag_or cmd flag vListenIP) o')"
  "fold (\<lambda>opt. opt) (when_set cmd flag (watcher_WithPortUDP vPortUDP) @ opts) o' =
     fold (\<lambda>opt. opt) opts (wo_portUDP_update (flag_or cmd flag vPortUDP) o')"
  "fold (\<lambda>opt. opt) (when_set cmd flag (watcher_WithPortTCP vPortTCP) @ opts) o' =
     fold (\<lambda>opt. opt) opts (wo_portTCP_update (flag_or cmd flag vPortTCP) o')"
  "fold (\<lambda>opt. opt) (when_set cmd flag (watcher_WithTargetPeers vTargetPeers) @ opts) o' =
     fold (\<lambda>opt. opt) opts (wo_targetPeers_update (flag_or cmd flag vTargetPeers) o')"
  "fold (\<lambda>opt. opt) (when_set cmd flag (watcher_WithEthNetwork vEthNetwork) @ opts) o' =
     fold (\<lambda>opt. opt) opts (wo_ethNetwork_update (flag_or cmd flag vEthNetwork) o')"
  "fold (\<lambda>opt. opt) (when_set cmd flag (watcher_WithEstimateActiveValidators vEstimateActiveValidators) @ opts) o' =
     fold (\<lambda>opt. opt) opts (wo_estimateActiveValidators_update (flag_or cmd flag vEstimateActiveValidators) o')"
  "fold (\<lambda>opt. opt) (when_set cmd flag (watcher_WithDBType vDBType) @ opts) o' =
     fold (\<lambda>opt. opt) opts (wo_dbType_update (flag_or cmd flag vDBType) o')"
  "fold (\<lambda>opt. opt) (when_set cmd flag (watcher_WithDBName vDBName) @ opts) o' =
     fold (\<lambda>opt. opt) opts (wo_dbName_update (flag_or cmd flag vDBName) o')"
  "fold (\<lambda>opt. opt) (when_set cmd flag (watcher_WithDBHost vDBHost) @ opts) o' =
     fold (\<lambda>opt. opt) opts (wo_dbHost_update (flag_or cmd flag vDBHost) o')"
  "fold (\<lambda>opt. opt) (when_set cmd flag (watcher_WithDBPort vDBPort) @ opts) o' =
     fold (\<lambda>opt. opt) opts (wo_dbPort_update (flag_or cmd flag vDBPort) o')"
  "fold (\<lambda>opt. opt) (when_set cmd flag (watcher_WithDBUser vDBUser) @ opts) o' =
     fold (\<lambda>opt. opt) opts (wo_dbUser_update (flag_or cmd flag vDBUser) o')"
  "fold (\<lambda>opt. opt) (when_set cmd flag (watcher_WithDBPassword vDBPassword) @ opts) o' =
     fold (\<lambda>opt. opt) opts (wo_dbPassword_update (flag_or cmd flag vDBPassword) o')"
  "fold (\<lambda>opt. opt) (when_set cmd flag (watcher_WithDBSecure vDBSecure) @ opts) o' =
     fold (\<lambda>opt. opt) opts (wo_dbSecure_update (flag_or cmd flag vDBSecure) o')"
  "fold (\<lambda>opt. opt) (when_set cmd flag (watcher_WithNodeAlias vNodeAlias) @ opts) o' =
     fold (\<lambda>opt. opt) opts (wo_nodeAlias_update (flag_or cmd flag vNodeAlias) o')"
  "fold (\<lambda>opt. opt) (when_set cmd flag (watcher_WithNodeRegion vNodeRegion) @ opts) o' =
     fold (\<lambda>opt. opt) opts (wo_nodeRegion_update (flag_or cmd flag vNodeRegion) o')"
  by (cases o', simp add: when_set_def flag_or_def watcher_options)+

text \<open>All options of a command line.\<close>

definition launched :: "eth_params \<Rightarrow> command \<Rightarrow> WatcherOption" where
  "launched prm cmd =
     \<lparr> wo_ecdsaPrivateKeyHex = flag_or cmd ''ecdsa-private-key-hex'' (cmd_String cmd ''ecdsa-private-key-hex'') '''',
       wo_listenIP = flag_or cmd ''listen-ip'' (cmd_String cmd ''listen-ip'') ''127.0.0.1'',
       wo_portUDP = flag_or cmd ''udp-port'' (cmd_Int cmd ''udp-port'') 9090,
       wo_portTCP = flag_or cmd ''tcp-port'' (cmd_Int cmd ''tcp-port'') 9090,
       wo_targetPeers = flag_or cmd ''target-peers'' (cmd_Int cmd ''target-peers'') 80,
       wo_ethNetwork = flag_or cmd ''network'' (cmd_String cmd ''network'') (MainnetName prm),
       wo_estimateActiveValidators = flag_or cmd ''estimate-active-validators'' (cmd_Uint cmd ''estimate-active-validators'') 0,
       wo_dbType = flag_or cmd ''db-type'' (cmd_String cmd ''db-type'') '''',
       wo_dbName = flag_or cmd ''db-name'' (cmd_String cmd ''db-name'') '''',
       wo_dbHost = flag_or cmd ''db-host'' (cmd_String cmd ''db-host'') '''',
       wo_dbPort = flag_or cmd ''db-port'' (cmd_Int cmd ''db-port'') 0,
       wo_dbUser = flag_or cmd ''db-user'' (cmd_String cmd ''db-user'') '''',
       wo_dbPassword = flag_or cmd ''db-password'' (cmd_String cmd ''db-password'') '''',
       wo_dbSecure = flag_or cmd ''db-secure'' (cmd_Bool cmd ''db-secure'') False,
       wo_nodeAlias = flag_or cmd ''node-alias'' (cmd_String cmd ''node-alias'') '''',
       wo_nodeRegion = flag_or cmd ''node-region'' (cmd_String cmd ''node-region'') '''' \<rparr>"

lemma launched_options:
  "fold (\<lambda>opt. opt) (launch_options cmd) (default_WatcherOption prm) = launched prm cmd"
proof -
  have "fold (\<lambda>opt. opt) (launch_options cmd @ []) (default_WatcherOption prm) = launched prm cmd"
    unfolding launch_options_def append_assoc when_set_steps default_WatcherOption_def launched_def
    by (simp only: fold_simps id_apply WatcherOption.simps)
  then show ?thesis by (simp only: append_Nil2)
qed


section \<open>Properties\<close>

text \<open>The options as the flags would show them, by the name of the flag.\<close>

definition option_texts :: "WatcherOption \<Rightarrow> (string \<times> string) list" where
  "option_texts opt =
     [(''ecdsa-private-key-hex'', wo_ecdsaPrivateKeyHex opt),
      (''listen-ip'', wo_listenIP opt),
      (''udp-port'', decimal_int (wo_portUDP opt)),
      (''tcp-port'', decimal_int (wo_portTCP opt)),
      (''target-peers'', decimal_int (wo_targetPeers opt)),
      (''network'', wo_ethNetwork opt),
      (''estimate-active-validators'', decimal (unat (wo_estimateActiveValidators opt))),
      (''db-type'', wo_dbType opt),
      (''db-name'', wo_dbName opt),
      (''db-host'', wo_dbHost opt),
      (''db-port'', decimal_int (wo_dbPort opt)),
      (''db-user'', wo_dbUser opt),
      (''db-password'', wo_dbPassword opt),
      (''db-secure'', (if wo_dbSecure opt then ''true'' else ''false'')),
      (''node-alias'', wo_nodeAlias opt),
      (''node-region'', wo_nodeRegion opt)]"

text \<open>
  C40: The defaults the command shows and the ones it has. The flags have different names and
  environment variables; and when no flag is set, the options that differ from the default shown
  by their flag are exactly the target number of peers (80, not 100) and the type, host, port,
  name and user of the database (empty or zero).
\<close>

theorem flag_defaults:
  "distinct (map fl_Name (cmdWatcher_Flags prm)) \<and> distinct (map fl_EnvVar (cmdWatcher_Flags prm)) \<and>
   map fl_Name (filter (\<lambda>f. case map_of (option_texts (fold (\<lambda>opt. opt) (launch_options (cmd\<lparr>cmd_IsSet := \<lambda>f. False\<rparr>))
         (default_WatcherOption prm))) (fl_Name f) of None \<Rightarrow> False | Some text \<Rightarrow> text \<noteq> fl_DefaultText f)
      (cmdWatcher_Flags prm)) =
     [''target-peers'', ''db-type'', ''db-host'', ''db-port'', ''db-name'', ''db-user'']"
proof -
  have dec: "decimal_int 9090 = ''9090''" "decimal_int 80 = ''80''" "decimal_int 0 = ''0''" "decimal 0 = ''0''"
    by (simp_all add: decimal_int_def decimal.simps char_of_def bit_0)
  have opts: "option_texts (fold (\<lambda>opt. opt) (launch_options (cmd\<lparr>cmd_IsSet := \<lambda>f. False\<rparr>)) (default_WatcherOption prm)) =
      option_texts (default_WatcherOption prm)"
    by (simp add: launch_options_def when_set_def)
  have "distinct (map fl_Name (cmdWatcher_Flags prm))" by code_simp
  moreover have "distinct (map fl_EnvVar (cmdWatcher_Flags prm))" by code_simp
  moreover have "map fl_Name (filter (\<lambda>f. case map_of (option_texts (default_WatcherOption prm)) (fl_Name f) of
      None \<Rightarrow> False | Some text \<Rightarrow> text \<noteq> fl_DefaultText f) (cmdWatcher_Flags prm)) =
     [''target-peers'', ''db-type'', ''db-host'', ''db-port'', ''db-name'', ''db-user'']"
    unfolding cmdWatcher_Flags_def option_texts_def default_WatcherOption_def WatcherOption.simps
    by (simp add: dec)
  ultimately show ?thesis unfolding opts by blast
qed

end
