(* ===== verification/Peer_Score.thy ===== *)
theory Peer_Score
  imports Go_Float Eth_Network Topics
begin

text \<open>
  Peer scoring (\<^verbatim>\<open>src/gossip/peer_score.go\<close>): the snapshot of peer scores with its two accessors,
  and the construction of the score parameters of every subscribed topic from the beacon chain
  configuration. The parameter functions that the source writes as methods read the network's
  configuration through \<^verbatim>\<open>eth\<close>; here they take it as an argument, and \<^theory_text>\<open>peer_params\<close> fetches
  it. Integer division panics on zero, so do the source's three explicit checks.
\<close>

section \<open>Constants\<close>

definition blockWeight :: real where "blockWeight = 0.8"
definition aggregateWeight :: real where "aggregateWeight = 0.5"
definition syncContributionWeight :: real where "syncContributionWeight = 0.2"
definition attestationTotalWeight :: real where "attestationTotalWeight = 1"
definition syncCommitteesTotalWeight :: real where "syncCommitteesTotalWeight = 0.4"
definition attesterSlashingWeight :: real where "attesterSlashingWeight = 0.05"
definition proposerSlashingWeight :: real where "proposerSlashingWeight = 0.05"
definition voluntaryExitWeight :: real where "voluntaryExitWeight = 0.05"
definition blsToExecutionChangeWeight :: real where "blsToExecutionChangeWeight = 0.05"
definition maxInMeshScore :: real where "maxInMeshScore = 10"
definition maxFirstDeliveryScore :: real where "maxFirstDeliveryScore = 40"
definition decayToZero :: real where "decayToZero = 0.01"
definition dampeningFactor :: u64 where "dampeningFactor = 90"
definition gossipSubD :: u64 where "gossipSubD = 6"

lemmas weight_defs = blockWeight_def aggregateWeight_def syncContributionWeight_def
  attestationTotalWeight_def syncCommitteesTotalWeight_def attesterSlashingWeight_def
  proposerSlashingWeight_def voluntaryExitWeight_def blsToExecutionChangeWeight_def
  maxInMeshScore_def maxFirstDeliveryScore_def

definition maxScore :: real where
  "maxScore = (maxInMeshScore + maxFirstDeliveryScore) *
     (blockWeight + aggregateWeight + syncContributionWeight + attestationTotalWeight +
      syncContributionWeight + attesterSlashingWeight + proposerSlashingWeight + voluntaryExitWeight +
      blsToExecutionChangeWeight)"

section \<open>State\<close>

type_synonym peer_ID = string

record PeerScoreSnapshot =
  Score :: float64

record peerScore =
  estimateActiveValidators :: u64
  ps_topics :: "string list"
  inspectPeriod :: duration
  snapshots :: "(peer_ID, PeerScoreSnapshot) gomap"

definition newPeerScore :: "u64 \<Rightarrow> string list \<Rightarrow> duration \<Rightarrow> peerScore" where
  "newPeerScore est topics period =
     \<lparr> estimateActiveValidators = est, ps_topics = topics, inspectPeriod = period, snapshots = [] \<rparr>"

definition peer_inspect :: "peerScore \<Rightarrow> (peer_ID, PeerScoreSnapshot) gomap \<Rightarrow> peerScore" where
  "peer_inspect ps scores = ps\<lparr>snapshots := scores\<rparr>"

definition peer_get :: "peerScore \<Rightarrow> peer_ID \<Rightarrow> float64" where
  "peer_get ps pid = (case map_of (snapshots ps) pid of Some snapshot \<Rightarrow> Score snapshot | None \<Rightarrow> 0)"

section \<open>Score functions\<close>

definition scoreDecay :: "BeaconChainConfig \<Rightarrow> duration \<Rightarrow> float64 outcome" where
  "scoreDecay cfg totalDecay =
     and_then (sdiv64 totalDecay (slot_duration cfg)) (\<lambda>cnt.
       Returns (math_Pow decayToZero (Fin 1 / float_of_int64 cnt)))"

definition decayLimit :: "float64 \<Rightarrow> float64 \<Rightarrow> float64 outcome" where
  "decayLimit decayRate rate =
     (if Fin 1 \<le> decayRate then Panics (PanicWith ''got an invalid decayLimit rate'')
      else Returns (rate / (Fin 1 - decayRate)))"

definition decayThreshold :: "float64 \<Rightarrow> float64 \<Rightarrow> float64 outcome" where
  "decayThreshold decayRate rate = and_then (decayLimit decayRate rate) (\<lambda>l. Returns (l * decayRate))"

definition scoreByWeight :: "float64 \<Rightarrow> float64 \<Rightarrow> float64" where
  "scoreByWeight weight threshold = Fin maxScore / (weight * threshold * threshold)"

definition inMeshUnitTime :: "BeaconChainConfig \<Rightarrow> duration" where
  "inMeshUnitTime cfg = slot_duration cfg"

definition inMeshCapTime :: "BeaconChainConfig \<Rightarrow> float64 outcome" where
  "inMeshCapTime cfg =
     and_then (sdiv64 (1 * hour) (inMeshUnitTime cfg)) (\<lambda>n. Returns (float_of_int64 n))"

definition invalidDecayPeriod :: "BeaconChainConfig \<Rightarrow> duration" where
  "invalidDecayPeriod cfg = 50 * epoch_duration cfg"

section \<open>Topic parameters\<close>

record TopicScoreParams =
  TopicWeight :: float64
  TimeInMeshWeight :: float64
  TimeInMeshQuantum :: duration
  TimeInMeshCap :: float64
  FirstMessageDeliveriesWeight :: float64
  FirstMessageDeliveriesDecay :: float64
  FirstMessageDeliveriesCap :: float64
  MeshMessageDeliveriesWeight :: float64
  MeshMessageDeliveriesDecay :: float64
  MeshMessageDeliveriesCap :: float64
  MeshMessageDeliveriesThreshold :: float64
  MeshMessageDeliveriesWindow :: duration
  MeshMessageDeliveriesActivation :: duration
  MeshFailurePenaltyWeight :: float64
  MeshFailurePenaltyDecay :: float64
  InvalidMessageDeliveriesWeight :: float64
  InvalidMessageDeliveriesDecay :: float64

text \<open>\<^verbatim>\<open>&pubsub.TopicScoreParams{}\<close>.\<close>

definition zero_TopicScoreParams :: TopicScoreParams where
  "zero_TopicScoreParams =
     \<lparr> TopicWeight = 0, TimeInMeshWeight = 0, TimeInMeshQuantum = 0, TimeInMeshCap = 0,
       FirstMessageDeliveriesWeight = 0, FirstMessageDeliveriesDecay = 0, FirstMessageDeliveriesCap = 0,
       MeshMessageDeliveriesWeight = 0, MeshMessageDeliveriesDecay = 0, MeshMessageDeliveriesCap = 0,
       MeshMessageDeliveriesThreshold = 0, MeshMessageDeliveriesWindow = 0,
       MeshMessageDeliveriesActivation = 0, MeshFailurePenaltyWeight = 0, MeshFailurePenaltyDecay = 0,
       InvalidMessageDeliveriesWeight = 0, InvalidMessageDeliveriesDecay = 0 \<rparr>"

definition defaultTopicParams :: "BeaconChainConfig \<Rightarrow> TopicScoreParams outcome" where
  "defaultTopicParams cfg =
     (let decayEpoch = (5 :: u64);
          twentyEpochDuration = 20 * epoch_duration cfg;
          blocksPerEpoch = SlotsPerEpoch cfg;
          meshWeight = Fin (- 0.717)
      in and_then (inMeshCapTime cfg) (\<lambda>cap.
         and_then (scoreDecay cfg twentyEpochDuration) (\<lambda>firstDecay.
         and_then (scoreDecay cfg (decayEpoch * epoch_duration cfg)) (\<lambda>meshDecay.
         and_then (scoreDecay cfg (invalidDecayPeriod cfg)) (\<lambda>invalidDecay.
           Returns
             \<lparr> TopicWeight = Fin blockWeight,
               TimeInMeshWeight = Fin maxInMeshScore / cap,
               TimeInMeshQuantum = inMeshUnitTime cfg,
               TimeInMeshCap = cap,
               FirstMessageDeliveriesWeight = Fin 1,
               FirstMessageDeliveriesDecay = firstDecay,
               FirstMessageDeliveriesCap = Fin 23,
               MeshMessageDeliveriesWeight = meshWeight,
               MeshMessageDeliveriesDecay = meshDecay,
               MeshMessageDeliveriesCap = float_of_uint64 (blocksPerEpoch * decayEpoch),
               MeshMessageDeliveriesThreshold = float_of_uint64 (blocksPerEpoch * decayEpoch) / Fin 10,
               MeshMessageDeliveriesWindow = 2 * second,
               MeshMessageDeliveriesActivation = 4 * epoch_duration cfg,
               MeshFailurePenaltyWeight = meshWeight,
               MeshFailurePenaltyDecay = meshDecay,
               InvalidMessageDeliveriesWeight = Fin (- 140.4475),
               InvalidMessageDeliveriesDecay = invalidDecay \<rparr>)))))"

text \<open>
  The part the aggregate, attestation, sync contribution and sync subnet parameters share: the
  literal that the four functions end with, from the topic's weight, the decays, the cap of the
  first deliveries and the threshold of the mesh deliveries; and the computation of these.
\<close>

definition rated_literal ::
  "BeaconChainConfig \<Rightarrow> float64 \<Rightarrow> float64 \<Rightarrow> float64 \<Rightarrow> float64 \<Rightarrow> float64 \<Rightarrow> float64 \<Rightarrow> float64 \<Rightarrow> TopicScoreParams" where
  "rated_literal cfg topicWeight cap firstDecay firstMsgCap meshDecay meshThreshold invalidDecay =
     (let firstMsgWeight = Fin maxFirstDeliveryScore / firstMsgCap;
          meshWeight = - scoreByWeight topicWeight meshThreshold;
          meshCap = Fin 4 * meshThreshold
      in \<lparr> TopicWeight = topicWeight,
           TimeInMeshWeight = Fin maxInMeshScore / cap,
           TimeInMeshQuantum = inMeshUnitTime cfg,
           TimeInMeshCap = cap,
           FirstMessageDeliveriesWeight = firstMsgWeight,
           FirstMessageDeliveriesDecay = firstDecay,
           FirstMessageDeliveriesCap = firstMsgCap,
           MeshMessageDeliveriesWeight = meshWeight,
           MeshMessageDeliveriesDecay = meshDecay,
           MeshMessageDeliveriesCap = meshCap,
           MeshMessageDeliveriesThreshold = meshThreshold,
           MeshMessageDeliveriesWindow = 2 * second,
           MeshMessageDeliveriesActivation = 1 * epoch_duration cfg,
           MeshFailurePenaltyWeight = meshWeight,
           MeshFailurePenaltyDecay = meshDecay,
           InvalidMessageDeliveriesWeight = - Fin maxScore / topicWeight,
           InvalidMessageDeliveriesDecay = invalidDecay \<rparr>)"

definition rated_topic_params ::
  "BeaconChainConfig \<Rightarrow> float64 \<Rightarrow> duration \<Rightarrow> float64 \<Rightarrow> duration \<Rightarrow> float64 \<Rightarrow> TopicScoreParams outcome" where
  "rated_topic_params cfg topicWeight firstPeriod rate meshPeriod meshRate =
     and_then (scoreDecay cfg firstPeriod) (\<lambda>firstDecay.
     and_then (decayLimit firstDecay rate) (\<lambda>firstMsgCap.
     and_then (scoreDecay cfg meshPeriod) (\<lambda>meshDecay.
     and_then (decayThreshold meshDecay meshRate) (\<lambda>meshThreshold.
     and_then (inMeshCapTime cfg) (\<lambda>cap.
     and_then (scoreDecay cfg (invalidDecayPeriod cfg)) (\<lambda>invalidDecay.
       Returns (rated_literal cfg topicWeight cap firstDecay firstMsgCap meshDecay meshThreshold invalidDecay)))))))"

text \<open>The committees per slot, as both functions that use them compute them.\<close>

definition committees :: "BeaconChainConfig \<Rightarrow> u64 \<Rightarrow> u64 outcome" where
  "committees cfg est =
     and_then (udiv64 est (SlotsPerEpoch cfg)) (\<lambda>perSlot.
     and_then (udiv64 perSlot (TargetCommitteeSize cfg)) (\<lambda>comms.
       Returns (if comms > MaxCommitteesPerSlot cfg then MaxCommitteesPerSlot cfg else 1)))"

definition defaultAggregateTopicParams :: "BeaconChainConfig \<Rightarrow> peerScore \<Rightarrow> TopicScoreParams outcome" where
  "defaultAggregateTopicParams cfg ps =
     and_then (committees cfg (estimateActiveValidators ps)) (\<lambda>comms.
       (let aggPerSlot = comms * TargetAggregatorsPerCommittee cfg
        in rated_topic_params cfg (Fin aggregateWeight)
             (epoch_duration cfg) (float_of_uint64 (aggPerSlot * 2 div gossipSubD))
             (epoch_duration cfg) (float_of_uint64 aggPerSlot / float_of_uint64 dampeningFactor)))"

definition defaultAttestationTopicParams :: "BeaconChainConfig \<Rightarrow> peerScore \<Rightarrow> TopicScoreParams outcome" where
  "defaultAttestationTopicParams cfg ps =
     (let subnetCnt = AttestationSubnetCount cfg;
          topicWeight = Fin attestationTotalWeight / float_of_uint64 subnetCnt
      in and_then (udiv64 (estimateActiveValidators ps) subnetCnt) (\<lambda>subnetWeight.
         if subnetWeight = 0 then Panics (PanicWith ''subnet weight cannot be 0'')
         else and_then (udiv64 subnetWeight (SlotsPerEpoch cfg)) (\<lambda>valsPerSlot.
         if valsPerSlot = 0 then Panics (PanicWith ''number of validators cannot be 0'')
         else and_then (committees cfg (estimateActiveValidators ps)) (\<lambda>comms.
         and_then (udiv64 (2 * subnetCnt) (SlotsPerEpoch cfg)) (\<lambda>bound.
           (let firstDecay = (if comms \<ge> bound then 4 else 1);
                meshDecay = (if comms \<ge> bound then 16 else 4);
                rate = valsPerSlot * 2 div gossipSubD
            in if rate = 0 then Panics (PanicWith ''rate cannot be 0'')
               else rated_topic_params cfg topicWeight
                      (firstDecay * epoch_duration cfg) (float_of_uint64 rate)
                      (meshDecay * epoch_duration cfg) (float_of_uint64 (valsPerSlot div dampeningFactor))))))))"

definition defaultSyncContributionTopicParams :: "BeaconChainConfig \<Rightarrow> TopicScoreParams outcome" where
  "defaultSyncContributionTopicParams cfg =
     (let aggPerSlot = SyncCommitteeSubnetCount cfg * TargetAggregatorsPerSyncSubcommittee cfg
      in rated_topic_params cfg (Fin syncContributionWeight)
           (epoch_duration cfg) (float_of_uint64 (aggPerSlot * 2 div gossipSubD))
           (epoch_duration cfg) (float_of_uint64 aggPerSlot / float_of_uint64 dampeningFactor))"

text \<open>This one writes the estimate back.\<close>

definition clamp_estimate :: "BeaconChainConfig \<Rightarrow> peerScore \<Rightarrow> peerScore" where
  "clamp_estimate cfg ps =
     (if estimateActiveValidators ps > SyncCommitteeSize cfg
      then ps\<lparr>estimateActiveValidators := SyncCommitteeSize cfg\<rparr> else ps)"

definition defaultSyncSubnetTopicParams ::
  "BeaconChainConfig \<Rightarrow> peerScore \<Rightarrow> (TopicScoreParams \<times> peerScore) outcome" where
  "defaultSyncSubnetTopicParams cfg ps =
     (let ps' = clamp_estimate cfg ps;
          subnetCnt = SyncCommitteeSubnetCount cfg;
          topicWeight = Fin syncCommitteesTotalWeight / float_of_uint64 subnetCnt
      in and_then (udiv64 (estimateActiveValidators ps') subnetCnt) (\<lambda>subnetWeight.
         if subnetWeight = 0 then Panics (PanicWith ''subnet weight cannot be 0'')
         else (let firstDecay = 1; meshDecay = 4; rate = subnetWeight * 2 div gossipSubD
               in if rate = 0 then Panics (PanicWith ''rate cannot be 0'')
                  else and_then (rated_topic_params cfg topicWeight
                         (firstDecay * epoch_duration cfg) (float_of_uint64 rate)
                         (meshDecay * epoch_duration cfg) (float_of_uint64 (subnetWeight div dampeningFactor)))
                       (\<lambda>prms. Returns (prms, ps')))))"

text \<open>The four literals that differ only in weight and first-delivery reward.\<close>

definition rare_topic_params :: "BeaconChainConfig \<Rightarrow> real \<Rightarrow> real \<Rightarrow> real \<Rightarrow> TopicScoreParams outcome" where
  "rare_topic_params cfg weight firstWeight firstCap =
     and_then (inMeshCapTime cfg) (\<lambda>cap.
     and_then (scoreDecay cfg (100 * epoch_duration cfg)) (\<lambda>firstDecay.
     and_then (scoreDecay cfg (invalidDecayPeriod cfg)) (\<lambda>invalidDecay.
       Returns (zero_TopicScoreParams
         \<lparr> TopicWeight := Fin weight,
           TimeInMeshWeight := Fin maxInMeshScore / cap,
           TimeInMeshQuantum := inMeshUnitTime cfg,
           TimeInMeshCap := cap,
           FirstMessageDeliveriesWeight := Fin firstWeight,
           FirstMessageDeliveriesDecay := firstDecay,
           FirstMessageDeliveriesCap := Fin firstCap,
           InvalidMessageDeliveriesWeight := Fin (- 2000),
           InvalidMessageDeliveriesDecay := invalidDecay \<rparr>))))"

definition defaultProposerSlashingTopicParams :: "BeaconChainConfig \<Rightarrow> TopicScoreParams outcome" where
  "defaultProposerSlashingTopicParams cfg = rare_topic_params cfg proposerSlashingWeight 36 1"

definition defaultAttesterSlashingTopicParams :: "BeaconChainConfig \<Rightarrow> TopicScoreParams outcome" where
  "defaultAttesterSlashingTopicParams cfg = rare_topic_params cfg attesterSlashingWeight 36 1"

definition defaultBlsToExecutionChangeTopicParams :: "BeaconChainConfig \<Rightarrow> TopicScoreParams outcome" where
  "defaultBlsToExecutionChangeTopicParams cfg = rare_topic_params cfg blsToExecutionChangeWeight 2 5"

definition defaultVoluntaryExitTopicParams :: "BeaconChainConfig \<Rightarrow> TopicScoreParams outcome" where
  "defaultVoluntaryExitTopicParams cfg = rare_topic_params cfg voluntaryExitWeight 2 5"

section \<open>All topics\<close>

text \<open>The body of the loop over the topics: the parameters of one topic, and the new estimate.\<close>

definition one_topic_params ::
  "p2p_names \<Rightarrow> BeaconChainConfig \<Rightarrow> peerScore \<Rightarrow> string \<Rightarrow> (TopicScoreParams \<times> peerScore) outcome" where
  "one_topic_params n cfg ps topic =
     (let keep = (\<lambda>r. and_then r (\<lambda>prms. Returns (prms, ps))) in
      if Contains topic (GossipBlockMessage n) then keep (defaultTopicParams cfg)
      else if Contains topic (GossipBlobSidecarMessage n) then keep (defaultTopicParams cfg)
      else if Contains topic (GossipAggregateAndProofMessage n) then keep (defaultAggregateTopicParams cfg ps)
      else if Contains topic (GossipAttestationMessage n) then keep (defaultAttestationTopicParams cfg ps)
      else if Contains topic (GossipContributionAndProofMessage n) then keep (defaultSyncContributionTopicParams cfg)
      else if Contains topic (GossipSyncCommitteeMessage n) then defaultSyncSubnetTopicParams cfg ps
      else if Contains topic (GossipProposerSlashingMessage n) then keep (defaultProposerSlashingTopicParams cfg)
      else if Contains topic (GossipAttesterSlashingMessage n) then keep (defaultAttesterSlashingTopicParams cfg)
      else if Contains topic (GossipBlsToExecutionChangeMessage n) then keep (defaultBlsToExecutionChangeTopicParams cfg)
      else if Contains topic (GossipExitMessage n) then keep (defaultVoluntaryExitTopicParams cfg)
      else Returns (zero_TopicScoreParams, ps))"

fun topics_params ::
  "p2p_names \<Rightarrow> BeaconChainConfig \<Rightarrow> string list \<Rightarrow> (string, TopicScoreParams) gomap \<Rightarrow> peerScore \<Rightarrow>
   ((string, TopicScoreParams) gomap \<times> peerScore) outcome" where
  "topics_params n cfg [] acc ps = Returns (acc, ps)"
| "topics_params n cfg (topic # topics) acc ps =
     and_then (one_topic_params n cfg ps topic) (\<lambda>(prms, ps').
       topics_params n cfg topics (AList.update topic prms acc) ps')"

record PeerScoreParams =
  Topics :: "(string, TopicScoreParams) gomap"
  TopicScoreCap :: float64
  AppSpecificScore :: "peer_ID \<Rightarrow> float64"
  AppSpecificWeight :: float64
  IPColocationFactorWeight :: float64
  IPColocationFactorThreshold :: "64 word"
  BehaviourPenaltyWeight :: float64
  BehaviourPenaltyThreshold :: float64
  BehaviourPenaltyDecay :: float64
  DecayInterval :: duration
  DecayToZero :: float64
  RetainScore :: duration

record PeerScoreThresholds =
  GossipThreshold :: float64
  PublishThreshold :: float64
  GraylistThreshold :: float64
  AcceptPXThreshold :: float64
  OpportunisticGraftThreshold :: float64

definition peer_thresholds :: PeerScoreThresholds where
  "peer_thresholds =
     \<lparr> GossipThreshold = Fin (- 4000), PublishThreshold = Fin (- 8000), GraylistThreshold = Fin (- 16000),
       AcceptPXThreshold = Fin 100, OpportunisticGraftThreshold = Fin 5 \<rparr>"

definition peer_params ::
  "p2p_names \<Rightarrow> eth_params \<Rightarrow> eth_state \<Rightarrow> peerScore \<Rightarrow>
   ((PeerScoreParams \<times> PeerScoreThresholds) \<times> peerScore) outcome" where
  "peer_params n prm st ps =
     and_then (GetBeaconChainConfig prm st) (\<lambda>cfg.
     and_then (topics_params n cfg (ps_topics ps) [] ps) (\<lambda>(topicParams, ps').
     and_then (scoreDecay cfg (10 * epoch_duration cfg)) (\<lambda>penaltyDecay.
       Returns
         ((\<lparr> Topics = topicParams, TopicScoreCap = Fin 32.72, AppSpecificScore = (\<lambda>p. 0),
             AppSpecificWeight = Fin 1, IPColocationFactorWeight = Fin (- 35.11),
             IPColocationFactorThreshold = 10, BehaviourPenaltyWeight = Fin (- 15.92),
             BehaviourPenaltyThreshold = Fin 6, BehaviourPenaltyDecay = penaltyDecay,
             DecayInterval = epoch_duration cfg, DecayToZero = Fin decayToZero,
             RetainScore = 100 * epoch_duration cfg \<rparr>, peer_thresholds), ps'))))"

section \<open>Lemmas\<close>

text \<open>Reals of machine integers stay in the form that arithmetic can read.\<close>

declare of_int_uint [simp del] of_int_sint [simp del]
declare word_of_int_uint [simp]

text \<open>
  A configuration whose durations do not overflow: a slot is at least a second and at most an
  hour, an epoch has at least one slot, and the longest decay period (a hundred epochs) fits.
\<close>

definition config_ok :: "BeaconChainConfig \<Rightarrow> bool" where
  "config_ok cfg \<longleftrightarrow> 0 < uint (SecondsPerSlot cfg) \<and> uint (SecondsPerSlot cfg) \<le> 3600 \<and>
     0 < uint (SlotsPerEpoch cfg) \<and>
     100 * (uint (SlotsPerEpoch cfg) * uint (SecondsPerSlot cfg)) * 10 ^ 9 < 2 ^ 63"

text \<open>The decay per slot that brings a counter to one percent after \<^verbatim>\<open>k\<close> epochs.\<close>

definition epochs_decay :: "BeaconChainConfig \<Rightarrow> int \<Rightarrow> real" where
  "epochs_decay cfg k = decayToZero powr (1 / real_of_int (k * uint (SlotsPerEpoch cfg)))"

lemma epochs_decay_bounds:
  assumes "config_ok cfg" and "0 < k"
  shows "0 < epochs_decay cfg k" and "epochs_decay cfg k < 1"
  using assms pow_in_unit_interval [of decayToZero "1 / real_of_int (k * uint (SlotsPerEpoch cfg))"]
  by (simp_all add: epochs_decay_def decayToZero_def config_ok_def)

lemma slot_duration_value:
  assumes "config_ok cfg"
  shows "sint (slot_duration cfg) = uint (SecondsPerSlot cfg) * 10 ^ 9"
proof -
  have d: "slot_duration cfg = word_of_int (uint (SecondsPerSlot cfg) * 10 ^ 9)"
    by (simp add: slot_duration_def second_def wi_hom_mult [symmetric])
  show ?thesis
    unfolding d using assms by (intro sint_word_of_int_64) (auto simp: config_ok_def)
qed

lemma epochs_value:
  assumes "config_ok cfg" and "0 < k" and "k \<le> 100"
  shows "sint (word_of_int k * epoch_duration cfg) =
           k * (uint (SlotsPerEpoch cfg) * uint (SecondsPerSlot cfg)) * 10 ^ 9"
proof -
  let ?e = "uint (SlotsPerEpoch cfg) * uint (SecondsPerSlot cfg)"
  have d: "word_of_int k * epoch_duration cfg = word_of_int (k * ?e * 10 ^ 9)"
    by (simp add: epoch_duration_def slot_duration_def second_def ac_simps wi_hom_mult [symmetric])
  have "0 < ?e" using assms(1) by (simp add: config_ok_def)
  then have "k * ?e \<le> 100 * ?e" using assms(3) by (intro mult_right_mono) auto
  moreover have "100 * ?e * 10 ^ 9 < 2 ^ 63" using assms(1) by (simp add: config_ok_def)
  ultimately have "k * ?e * 10 ^ 9 < 2 ^ 63" by (smt (verit) mult_right_mono zero_le_power)
  moreover have "0 \<le> k * ?e * 10 ^ 9" using assms(2) \<open>0 < ?e\<close> by simp
  ultimately show ?thesis unfolding d by (intro sint_word_of_int_64) auto
qed

lemma slot_duration_nonzero: "config_ok cfg \<Longrightarrow> slot_duration cfg \<noteq> 0"
  using slot_duration_value [of cfg] by (auto simp: config_ok_def)

lemma scoreDecay_count:
  assumes "sint t sdiv sint (slot_duration cfg) = c" and "0 < c" and "c < 2 ^ 63" and "slot_duration cfg \<noteq> 0"
  shows "scoreDecay cfg t = Returns (Fin (decayToZero powr (1 / real_of_int c)))"
  using assms by (simp add: scoreDecay_def float_of_int64_def sint_word_of_int_64)

lemma scoreDecay_epochs:
  assumes "config_ok cfg" and "0 < k" and "k \<le> 100"
  shows "scoreDecay cfg (word_of_int k * epoch_duration cfg) = Returns (Fin (epochs_decay cfg k))"
proof -
  let ?n = "uint (SecondsPerSlot cfg)" and ?S = "uint (SlotsPerEpoch cfg)"
  have n: "0 < ?n" "0 < ?S" using assms(1) by (simp_all add: config_ok_def)
  have "sint (word_of_int k * epoch_duration cfg) = (k * ?S) * (?n * 10 ^ 9)"
    using epochs_value [OF assms] by (simp add: ac_simps)
  moreover have pos: "0 < k * ?S" using assms(2) n by simp
  ultimately have "sint (word_of_int k * epoch_duration cfg) sdiv sint (slot_duration cfg) = k * ?S"
    using n by (simp add: slot_duration_value [OF assms(1)] sdiv_nonneg)
  moreover have "k * ?S < 2 ^ 63"
  proof -
    have "k * ?S * 1 \<le> k * ?S * (?n * 10 ^ 9)" using pos n by (intro mult_left_mono) auto
    also have "\<dots> = sint (word_of_int k * epoch_duration cfg)"
      using epochs_value [OF assms] by (simp add: ac_simps)
    also have "\<dots> < 2 ^ 63" using sint_range_64 by blast
    finally show ?thesis by simp
  qed
  ultimately show ?thesis
    unfolding epochs_decay_def using slot_duration_nonzero [OF assms(1)] pos by (intro scoreDecay_count)
qed

lemma scoreDecay_one_epoch:
  "config_ok cfg \<Longrightarrow> scoreDecay cfg (epoch_duration cfg) = Returns (Fin (epochs_decay cfg 1))"
  using scoreDecay_epochs [of cfg 1] by simp

lemma scoreDecay_numeral:
  "config_ok cfg \<Longrightarrow> (numeral k :: int) \<le> 100 \<Longrightarrow>
     scoreDecay cfg (numeral k * epoch_duration cfg) = Returns (Fin (epochs_decay cfg (numeral k)))"
  using scoreDecay_epochs [of cfg "numeral k"] by simp

lemmas scoreDecay_values = scoreDecay_one_epoch scoreDecay_numeral

text \<open>The number of slots of an hour, the cap of the time in the mesh.\<close>

lemma inMeshCapTime_value:
  assumes "config_ok cfg"
  shows "inMeshCapTime cfg = Returns (Fin (real_of_int (3600 div uint (SecondsPerSlot cfg))))"
    and "0 < 3600 div uint (SecondsPerSlot cfg)"
proof -
  let ?n = "uint (SecondsPerSlot cfg)"
  have n: "0 < ?n" "?n \<le> 3600" using assms by (simp_all add: config_ok_def)
  then show "0 < 3600 div ?n" by (simp add: pos_imp_zdiv_pos_iff)
  have "sint hour = 3600 * 10 ^ 9" by (simp add: hour_def second_def)
  then have "sint hour sdiv sint (slot_duration cfg) = 3600 div ?n"
    using n by (simp add: slot_duration_value [OF assms] sdiv_nonneg)
  moreover have "3600 div ?n \<le> 3600 div 1" using n by (intro zdiv_mono2) auto
  moreover have "0 \<le> 3600 div ?n" using n by (simp add: pos_imp_zdiv_nonneg_iff)
  ultimately show "inMeshCapTime cfg = Returns (Fin (real_of_int (3600 div ?n)))"
    using slot_duration_nonzero [OF assms]
    by (simp add: inMeshCapTime_def inMeshUnitTime_def float_of_int64_def sint_word_of_int_64)
qed

text \<open>The limit of a decaying counter is its steady state.\<close>

lemma decayLimit_value:
  assumes "d < 1"
  shows "decayLimit (Fin d) (Fin r) = Returns (Fin (r / (1 - d)))"
    and "decayThreshold (Fin d) (Fin r) = Returns (Fin (r / (1 - d) * d))"
  using assms by (simp_all add: decayLimit_def decayThreshold_def)

lemma maxScore_value: "maxScore = 145"
  by (simp add: maxScore_def weight_defs)

subsection \<open>Topic parameters\<close>

text \<open>A decay factor of a counter: strictly between zero and one.\<close>

definition decays :: "float64 \<Rightarrow> bool" where
  "decays x \<longleftrightarrow> Fin 0 < x \<and> x < Fin 1"

lemma decays_epochs [simp]: "config_ok cfg \<Longrightarrow> 0 < k \<Longrightarrow> decays (Fin (epochs_decay cfg k))"
  by (simp add: decays_def epochs_decay_bounds)

text \<open>
  What every topic's parameters promise: the time spent in the mesh is worth at most ten points,
  and the counters of first and of invalid deliveries decay.
\<close>

definition fair_params :: "TopicScoreParams \<Rightarrow> bool" where
  "fair_params t \<longleftrightarrow> TimeInMeshWeight t * TimeInMeshCap t = Fin maxInMeshScore \<and>
     decays (FirstMessageDeliveriesDecay t) \<and> decays (InvalidMessageDeliveriesDecay t)"

text \<open>
  What the rated topics promise in addition: first deliveries are worth at most forty points; a
  peer that delivers nothing to the mesh loses as many points as the best score has, and so does
  one invalid message.
\<close>

definition balanced_first :: "TopicScoreParams \<Rightarrow> bool" where
  "balanced_first t \<longleftrightarrow>
     FirstMessageDeliveriesWeight t * FirstMessageDeliveriesCap t = Fin maxFirstDeliveryScore"

definition balanced_mesh :: "TopicScoreParams \<Rightarrow> bool" where
  "balanced_mesh t \<longleftrightarrow>
     TopicWeight t * MeshMessageDeliveriesWeight t * MeshMessageDeliveriesThreshold t *
       MeshMessageDeliveriesThreshold t = Fin (- maxScore) \<and>
     MeshMessageDeliveriesWeight t < Fin 0 \<and>
     TopicWeight t * InvalidMessageDeliveriesWeight t = Fin (- maxScore)"

lemma mesh_share [simp]:
  assumes "config_ok cfg"
  shows "Fin maxInMeshScore / Fin (real_of_int (3600 div uint (SecondsPerSlot cfg))) *
           Fin (real_of_int (3600 div uint (SecondsPerSlot cfg))) = Fin maxInMeshScore"
  using inMeshCapTime_value(2) [OF assms] by simp

lemmas period_simps = scoreDecay_values inMeshCapTime_value(1) invalidDecayPeriod_def

lemma defaultTopicParams_fair:
  "config_ok cfg \<Longrightarrow> \<exists>t. defaultTopicParams cfg = Returns t \<and> fair_params t"
  by (simp add: defaultTopicParams_def Let_def period_simps fair_params_def del: float_divide)

lemma rare_topic_params_fair:
  "config_ok cfg \<Longrightarrow> \<exists>t. rare_topic_params cfg w a b = Returns t \<and> fair_params t"
  by (simp add: rare_topic_params_def Let_def period_simps fair_params_def del: float_divide)

lemma rated_literal_balanced:
  "0 < cap \<Longrightarrow> balanced_first (rated_literal cfg w c x (Fin cap) y t z)"
  "0 < v \<Longrightarrow> 0 < th \<Longrightarrow> balanced_mesh (rated_literal cfg (Fin v) c x k y (Fin th) z)"
  "MeshMessageDeliveriesWeight (rated_literal cfg (Fin v) c x k y (Fin 0) z) = NegInf"
  by (simp_all add: balanced_first_def balanced_mesh_def rated_literal_def scoreByWeight_def maxScore_value Let_def)

lemma rated_topic_params_value:
  assumes "config_ok cfg" and "0 < k" "k \<le> 100" and "0 < j" "j \<le> 100"
  shows "rated_topic_params cfg w (word_of_int k * epoch_duration cfg) (Fin r)
           (word_of_int j * epoch_duration cfg) (Fin m) =
         Returns (rated_literal cfg w (Fin (real_of_int (3600 div uint (SecondsPerSlot cfg))))
           (Fin (epochs_decay cfg k)) (Fin (r / (1 - epochs_decay cfg k)))
           (Fin (epochs_decay cfg j)) (Fin (m / (1 - epochs_decay cfg j) * epochs_decay cfg j))
           (Fin (epochs_decay cfg 50)))"
  using epochs_decay_bounds [OF assms(1)] assms
  by (simp add: rated_topic_params_def scoreDecay_epochs decayLimit_value period_simps)

lemma rated_topic_params_fair:
  assumes "config_ok cfg" and "0 < k" "k \<le> 100" and "0 < j" "j \<le> 100"
  shows "\<exists>t. rated_topic_params cfg (Fin v) (word_of_int k * epoch_duration cfg) (Fin r)
               (word_of_int j * epoch_duration cfg) (Fin m) = Returns t \<and> fair_params t \<and>
             (0 < r \<longrightarrow> balanced_first t) \<and> (0 < v \<and> 0 < m \<longrightarrow> balanced_mesh t) \<and>
             (m = 0 \<longrightarrow> MeshMessageDeliveriesWeight t = NegInf)"
proof -
  have b: "epochs_decay cfg k < 1" "0 < epochs_decay cfg j" "epochs_decay cfg j < 1"
    using epochs_decay_bounds [OF assms(1)] assms by simp_all
  have "fair_params (rated_literal cfg (Fin v) (Fin (real_of_int (3600 div uint (SecondsPerSlot cfg))))
      (Fin (epochs_decay cfg k)) x y z (Fin (epochs_decay cfg 50)))" for x y z
    using assms by (simp add: fair_params_def rated_literal_def Let_def del: float_divide)
  then show ?thesis
    using b by (simp add: rated_topic_params_value [OF assms] rated_literal_balanced)
qed

lemma rated_fair:
  assumes "rated_topic_params cfg w (word_of_int k * epoch_duration cfg) (Fin r)
             (word_of_int j * epoch_duration cfg) (Fin m) = Returns t"
    and "config_ok cfg" and "0 < k" "k \<le> 100" and "0 < j" "j \<le> 100"
  shows "fair_params t"
  using assms(1) assms(2-)
  by (auto simp: rated_topic_params_value [OF assms(2-)] fair_params_def rated_literal_def Let_def
      simp del: float_divide)

lemma aggregate_fair:
  "config_ok cfg \<Longrightarrow> defaultAggregateTopicParams cfg ps = Returns t \<Longrightarrow> fair_params t"
  by (auto simp: defaultAggregateTopicParams_def Let_def float_of_uint64_def dampeningFactor_def
      intro: rated_fair [where k = 1 and j = 1, simplified])

lemma sync_contribution_fair:
  "config_ok cfg \<Longrightarrow> defaultSyncContributionTopicParams cfg = Returns t \<Longrightarrow> fair_params t"
  by (auto simp: defaultSyncContributionTopicParams_def Let_def float_of_uint64_def dampeningFactor_def
      intro: rated_fair [where k = 1 and j = 1, simplified])

lemma attestation_fair:
  "config_ok cfg \<Longrightarrow> defaultAttestationTopicParams cfg ps = Returns t \<Longrightarrow> fair_params t"
  by (auto simp: defaultAttestationTopicParams_def Let_def float_of_uint64_def split: if_splits
      intro: rated_fair [where k = 1 and j = 4, simplified] rated_fair [where k = 4 and j = 16, simplified])

lemma sync_subnet_fair:
  "config_ok cfg \<Longrightarrow> defaultSyncSubnetTopicParams cfg ps = Returns (t, ps') \<Longrightarrow>
     fair_params t \<and> ps' = clamp_estimate cfg ps"
  by (auto simp: defaultSyncSubnetTopicParams_def Let_def float_of_uint64_def split: if_splits
      intro: rated_fair [where k = 1 and j = 4, simplified])

text \<open>
  The weight of a topic, by the first message name it contains: the single topics have a weight of
  their own, the subnets of the attestations and of the sync committee share one.
\<close>

definition kind_weights :: "BeaconChainConfig \<Rightarrow> float64 list" where
  "kind_weights cfg =
     [Fin 0.8, Fin 0.8, Fin 0.5, Fin 1 / float_of_uint64 (AttestationSubnetCount cfg), Fin 0.2,
      Fin 0.4 / float_of_uint64 (SyncCommitteeSubnetCount cfg), Fin 0.05, Fin 0.05, Fin 0.05, Fin 0.05]"

definition topic_weight :: "p2p_names \<Rightarrow> BeaconChainConfig \<Rightarrow> string \<Rightarrow> float64" where
  "topic_weight n cfg topic = first_case (zip (map (Contains topic) (handler_names n)) (kind_weights cfg)) 0"

definition known_topic :: "p2p_names \<Rightarrow> string \<Rightarrow> bool" where
  "known_topic n topic \<longleftrightarrow> (\<exists>name \<in> set (handler_names n). Contains topic name)"

definition suits :: "p2p_names \<Rightarrow> BeaconChainConfig \<Rightarrow> string \<Rightarrow> TopicScoreParams \<Rightarrow> bool" where
  "suits n cfg topic t \<longleftrightarrow> (if known_topic n topic then fair_params t else t = zero_TopicScoreParams) \<and>
     TopicWeight t = topic_weight n cfg topic"

lemma rated_weight: "rated_topic_params cfg w p r q m = Returns t \<Longrightarrow> TopicWeight t = w"
  by (auto simp: rated_topic_params_def rated_literal_def Let_def)

lemma params_weights:
  "defaultTopicParams cfg = Returns t \<Longrightarrow> TopicWeight t = Fin 0.8"
  "defaultAggregateTopicParams cfg ps = Returns t \<Longrightarrow> TopicWeight t = Fin 0.5"
  "defaultAttestationTopicParams cfg ps = Returns t \<Longrightarrow> TopicWeight t = Fin 1 / float_of_uint64 (AttestationSubnetCount cfg)"
  "defaultSyncContributionTopicParams cfg = Returns t \<Longrightarrow> TopicWeight t = Fin 0.2"
  "defaultSyncSubnetTopicParams cfg ps = Returns (t, ps') \<Longrightarrow>
     TopicWeight t = Fin 0.4 / float_of_uint64 (SyncCommitteeSubnetCount cfg)"
  "rare_topic_params cfg w a b = Returns t \<Longrightarrow> TopicWeight t = Fin w"
  by (auto simp: defaultTopicParams_def defaultAggregateTopicParams_def defaultAttestationTopicParams_def
      defaultSyncContributionTopicParams_def defaultSyncSubnetTopicParams_def rare_topic_params_def weight_defs Let_def
      split: if_splits dest!: rated_weight)

text \<open>The score parameters by the position of the message name.\<close>

definition params_list :: "BeaconChainConfig \<Rightarrow> peerScore \<Rightarrow> (TopicScoreParams \<times> peerScore) outcome list" where
  "params_list cfg ps =
     (let keep = (\<lambda>r. and_then r (\<lambda>prms. Returns (prms, ps))) in
      [keep (defaultTopicParams cfg), keep (defaultTopicParams cfg), keep (defaultAggregateTopicParams cfg ps),
       keep (defaultAttestationTopicParams cfg ps), keep (defaultSyncContributionTopicParams cfg),
       defaultSyncSubnetTopicParams cfg ps, keep (defaultProposerSlashingTopicParams cfg),
       keep (defaultAttesterSlashingTopicParams cfg), keep (defaultBlsToExecutionChangeTopicParams cfg),
       keep (defaultVoluntaryExitTopicParams cfg)])"

interpretation tp: topic_dispatch handler_names "\<lambda>n. one_topic_params n cfg ps" "\<lambda>n. params_list cfg ps"
  "Returns (zero_TopicScoreParams, ps)" for cfg ps
  by unfold_locales (simp_all add: one_topic_params_def handler_names_def params_list_def Let_def)

text \<open>The topics whose parameters depend on the estimate, by the tests that select them.\<close>

definition attestation_topic :: "p2p_names \<Rightarrow> string \<Rightarrow> bool" where
  "attestation_topic n topic \<longleftrightarrow> Contains topic (GossipAttestationMessage n) \<and>
     \<not> Contains topic (GossipBlockMessage n) \<and> \<not> Contains topic (GossipBlobSidecarMessage n) \<and>
     \<not> Contains topic (GossipAggregateAndProofMessage n)"

definition sync_subnet_topic :: "p2p_names \<Rightarrow> string \<Rightarrow> bool" where
  "sync_subnet_topic n topic \<longleftrightarrow> Contains topic (GossipSyncCommitteeMessage n) \<and>
     \<not> Contains topic (GossipBlockMessage n) \<and> \<not> Contains topic (GossipBlobSidecarMessage n) \<and>
     \<not> Contains topic (GossipAggregateAndProofMessage n) \<and> \<not> Contains topic (GossipAttestationMessage n) \<and>
     \<not> Contains topic (GossipContributionAndProofMessage n)"

lemma one_topic_attestation:
  "attestation_topic n topic \<Longrightarrow>
     one_topic_params n cfg ps topic =
       and_then (defaultAttestationTopicParams cfg ps) (\<lambda>prms. Returns (prms, ps))"
  by (simp add: one_topic_params_def attestation_topic_def)

lemma one_topic_sync:
  "sync_subnet_topic n topic \<Longrightarrow> one_topic_params n cfg ps topic = defaultSyncSubnetTopicParams cfg ps"
  by (simp add: one_topic_params_def sync_subnet_topic_def)

lemmas plain_params_defs = defaultProposerSlashingTopicParams_def defaultAttesterSlashingTopicParams_def
  defaultBlsToExecutionChangeTopicParams_def defaultVoluntaryExitTopicParams_def

lemma one_topic_params_facts:
  assumes "config_ok cfg" and "one_topic_params n cfg ps topic = Returns (t, ps')"
  shows "suits n cfg topic t"
    and "ps' = (if sync_subnet_topic n topic then clamp_estimate cfg ps else ps)"
proof -
  have plain: "fair_params t" if "defaultTopicParams cfg = Returns t" for t
    using defaultTopicParams_fair [OF assms(1)] that by auto
  have rare: "fair_params t" if "rare_topic_params cfg w a b = Returns t" for t w a b
    using rare_topic_params_fair [OF assms(1)] that by (metis outcome.inject(3))
  have "if known_topic n topic then fair_params t else t = zero_TopicScoreParams"
    using assms plain rare
    by (auto simp: one_topic_params_def known_topic_def handler_names_def Let_def plain_params_defs split: if_splits
        dest: aggregate_fair attestation_fair sync_contribution_fair sync_subnet_fair)
  moreover have "TopicWeight t = topic_weight n cfg topic"
    using assms(2)
    by (auto simp: one_topic_params_def topic_weight_def handler_names_def kind_weights_def Let_def plain_params_defs
        weight_defs zero_TopicScoreParams_def split: if_splits dest!: params_weights)
  ultimately show "suits n cfg topic t" by (simp add: suits_def)
  show "ps' = (if sync_subnet_topic n topic then clamp_estimate cfg ps else ps)"
  proof (cases "sync_subnet_topic n topic")
    case True
    with assms show ?thesis by (auto simp: one_topic_sync dest: sync_subnet_fair)
  next
    case False
    with assms(2) show ?thesis
      by (auto simp: one_topic_params_def Let_def sync_subnet_topic_def split: if_splits)
  qed
qed

lemma clamp_estimate_facts [simp]:
  "estimateActiveValidators (clamp_estimate cfg ps) = min (estimateActiveValidators ps) (SyncCommitteeSize cfg)"
  "ps_topics (clamp_estimate cfg ps) = ps_topics ps"
  by (auto simp: clamp_estimate_def min_def)

lemma clamp_twice [simp]: "clamp_estimate cfg (clamp_estimate cfg ps) = clamp_estimate cfg ps"
  by (simp add: clamp_estimate_def)

lemma topics_params_facts:
  assumes "config_ok cfg" and "topics_params n cfg topics acc ps = Returns (acc', ps')"
    and "\<forall>topic t. map_of acc topic = Some t \<longrightarrow> suits n cfg topic t"
  shows "dom (map_of acc') = dom (map_of acc) \<union> set topics"
    and "\<forall>topic t. map_of acc' topic = Some t \<longrightarrow> suits n cfg topic t"
    and "ps' = (if \<exists>topic \<in> set topics. sync_subnet_topic n topic then clamp_estimate cfg ps else ps)"
proof -
  have "dom (map_of acc') = dom (map_of acc) \<union> set topics \<and>
      (\<forall>topic t. map_of acc' topic = Some t \<longrightarrow> suits n cfg topic t) \<and>
      ps' = (if \<exists>topic \<in> set topics. sync_subnet_topic n topic then clamp_estimate cfg ps else ps)"
    using assms(2,3)
  proof (induction topics arbitrary: acc ps)
    case (Cons topic topics)
    then obtain t ps1 where one: "one_topic_params n cfg ps topic = Returns (t, ps1)"
      and rest: "topics_params n cfg topics (AList.update topic t acc) ps1 = Returns (acc', ps')"
      by auto
    have "\<forall>k v. map_of (AList.update topic t acc) k = Some v \<longrightarrow> suits n cfg k v"
      using Cons.prems(2) one_topic_params_facts(1) [OF assms(1) one] by (simp add: gomap_simps)
    from Cons.IH [OF rest this] one_topic_params_facts(2) [OF assms(1) one] show ?case
      by (auto simp: gomap_simps)
  qed simp
  then show "dom (map_of acc') = dom (map_of acc) \<union> set topics"
    and "\<forall>topic t. map_of acc' topic = Some t \<longrightarrow> suits n cfg topic t"
    and "ps' = (if \<exists>topic \<in> set topics. sync_subnet_topic n topic then clamp_estimate cfg ps else ps)"
    by blast+
qed

subsection \<open>Panics\<close>

text \<open>None of these functions returns an error: it returns or it panics.\<close>

definition no_error :: "'a outcome \<Rightarrow> bool" where
  "no_error m \<longleftrightarrow> (\<forall>e. m \<noteq> Fails e)"

lemma no_error_simps [simp]:
  "no_error (Returns x)" "no_error (Panics p)" "\<not> no_error (Fails e)"
  "no_error (sdiv64 a b)" "no_error (udiv64 a b)" "no_error (decayLimit d r)"
  by (simp_all add: no_error_def sdiv64_def udiv64_def decayLimit_def)

lemma no_error_and_then [simp]: "no_error m \<Longrightarrow> (\<And>x. no_error (f x)) \<Longrightarrow> no_error (and_then m f)"
  by (cases m) simp_all

lemmas score_defs = scoreDecay_def decayThreshold_def inMeshCapTime_def rated_topic_params_def
  committees_def rare_topic_params_def defaultTopicParams_def defaultAggregateTopicParams_def
  defaultAttestationTopicParams_def defaultSyncContributionTopicParams_def
  defaultSyncSubnetTopicParams_def plain_params_defs

lemma no_error_one_topic: "no_error (one_topic_params n cfg ps topic)"
  by (simp add: one_topic_params_def score_defs Let_def)

lemma no_error_topics: "no_error (topics_params n cfg topics acc ps)"
  by (induction topics arbitrary: acc ps) (simp_all add: no_error_one_topic split: prod.split)

text \<open>With fewer than three validators per slot and subnet the attestation parameters panic.\<close>

lemma attestation_panics:
  assumes "estimateActiveValidators ps div AttestationSubnetCount cfg div SlotsPerEpoch cfg < 3"
  shows "\<exists>p. defaultAttestationTopicParams cfg ps = Panics p"
proof -
  let ?v = "estimateActiveValidators ps div AttestationSubnetCount cfg div SlotsPerEpoch cfg"
  have "?v = 0 \<or> ?v = 1 \<or> ?v = 2"
    using assms by (auto simp: word_less_nat_alt word_unat_eq_iff)
  then have "?v * 2 div gossipSubD = 0" by (auto simp: gossipSubD_def)
  then show ?thesis
    by (cases "committees cfg (estimateActiveValidators ps)")
      (auto simp: defaultAttestationTopicParams_def udiv64_def committees_def Let_def split: if_splits)
qed

lemma topics_params_panic:
  assumes "config_ok cfg" and "topic \<in> set topics" and "attestation_topic n topic"
    and "estimateActiveValidators ps \<le> est" and "est div AttestationSubnetCount cfg div SlotsPerEpoch cfg < 3"
  shows "\<exists>p. topics_params n cfg topics acc ps = Panics p"
  using assms(2,4)
proof (induction topics arbitrary: acc ps)
  case (Cons a topics)
  show ?case
  proof (cases "one_topic_params n cfg ps a")
    case (Returns r)
    obtain t ps1 where r: "r = (t, ps1)" by (cases r)
    have small: "estimateActiveValidators ps1 \<le> est"
      using one_topic_params_facts(2) [OF assms(1), of n ps a t ps1] Returns r Cons.prems(2)
      by (auto simp: min_le_iff_disj)
    have "a \<noteq> topic"
    proof
      assume "a = topic"
      have "estimateActiveValidators ps div AttestationSubnetCount cfg div SlotsPerEpoch cfg \<le>
          est div AttestationSubnetCount cfg div SlotsPerEpoch cfg"
        using Cons.prems(2) by (simp add: word_le_nat_alt unat_div div_le_mono)
      with assms(5) have "estimateActiveValidators ps div AttestationSubnetCount cfg div SlotsPerEpoch cfg < 3"
        by (rule order.strict_trans1 [rotated])
      with attestation_panics [of ps cfg] \<open>a = topic\<close> Returns show False
        by (auto simp: one_topic_attestation [OF assms(3)])
    qed
    then show ?thesis using Cons.IH [OF _ small] Cons.prems(1) Returns r by simp
  next
    case (Fails e)
    then show ?thesis using no_error_one_topic [of n cfg ps a] by simp
  qed simp
qed simp

lemma attestation_run:
  assumes "0 < AttestationSubnetCount cfg" and "SlotsPerEpoch cfg \<noteq> 0" and "TargetCommitteeSize cfg \<noteq> 0"
    and "v = estimateActiveValidators ps div AttestationSubnetCount cfg div SlotsPerEpoch cfg"
    and "v \<noteq> 0" and "rate = v * 2 div gossipSubD" and "rate \<noteq> 0"
  obtains k j where "0 < k" "k \<le> 100" "0 < j" "j \<le> 100" and
    "defaultAttestationTopicParams cfg ps =
      rated_topic_params cfg (Fin (1 / real_of_int (uint (AttestationSubnetCount cfg))))
        (word_of_int k * epoch_duration cfg) (Fin (real_of_int (uint rate)))
        (word_of_int j * epoch_duration cfg) (Fin (real_of_int (uint (v div dampeningFactor))))"
proof -
  let ?w = "estimateActiveValidators ps div AttestationSubnetCount cfg"
  have nz: "AttestationSubnetCount cfg \<noteq> 0" "?w \<noteq> 0" "uint (AttestationSubnetCount cfg) \<noteq> 0"
    using assms by (auto simp: word_less_def)
  obtain comms where comms: "committees cfg (estimateActiveValidators ps) = Returns comms"
    using assms by (simp add: committees_def)
  note run = defaultAttestationTopicParams_def attestationTotalWeight_def float_of_uint64_def Let_def
  show ?thesis
  proof (cases "2 * AttestationSubnetCount cfg div SlotsPerEpoch cfg \<le> comms")
    case True
    show ?thesis
      by (rule that [of 4 16])
        (use nz comms assms(2,3,5,7) True in \<open>simp_all add: run flip: assms(4,6)\<close>)
  next
    case False
    show ?thesis
      by (rule that [of 1 4])
        (use nz comms assms(2,3,5,7) False in \<open>simp_all add: run flip: assms(4,6)\<close>)
  qed
qed

lemma dampened:
  "90 \<le> v \<Longrightarrow> 0 < uint (v div dampeningFactor)" "v < 90 \<Longrightarrow> v div dampeningFactor = 0"
  by (auto simp: dampeningFactor_def uint_div word_le_def word_less_def pos_imp_zdiv_pos_iff
      word_uint_eq_iff div_pos_pos_trivial)

lemma attestation_rate:
  assumes "3 \<le> v" and "v < 2 ^ 63"
  shows "v * 2 div gossipSubD \<noteq> 0" and "0 < uint (v * 2 div gossipSubD)"
proof -
  let ?r = "v * 2 div gossipSubD"
  have "unat v * 2 < 2 ^ 64" using assms(2) by (simp add: word_less_nat_alt)
  then have "unat ?r = unat v * 2 div 6"
    by (simp add: gossipSubD_def unat_div unat_word_ariths)
  moreover have "3 \<le> unat v" using assms(1) by (simp add: word_le_nat_alt)
  ultimately show nz: "?r \<noteq> 0" by auto
  then show "0 < uint ?r" by (metis word_neq_0_conv word_less_def unsigned_0)
qed

subsection \<open>A concrete subscription\<close>

definition sample_score :: peerScore where
  "sample_score =
     newPeerScore 1000000
       [''/eth2/6a95a1a9/beacon_attestation_0/ssz_snappy'', ''/eth2/6a95a1a9/sync_committee_0/ssz_snappy'']
       (12 * second)"

lemma sample_config_ok: "config_ok sample_config"
  by (simp add: config_ok_def sample_config_def)

lemma sample_score_topics:
  "attestation_topic sample_names ''/eth2/6a95a1a9/beacon_attestation_0/ssz_snappy''"
  "sync_subnet_topic sample_names ''/eth2/6a95a1a9/sync_committee_0/ssz_snappy''"
  by (simp_all add: attestation_topic_def sync_subnet_topic_def sample_names_def Contains_def sublist_Cons_right)

lemma sample_eth_config: "GetBeaconChainConfig sample_params sample_eth = Returns sample_config"
  by (simp add: GetBeaconChainConfig_supported sample_params_def sample_eth_def)

lemma sample_attestation: "\<exists>t. defaultAttestationTopicParams sample_config sample_score = Returns t"
proof -
  have *: "0 < AttestationSubnetCount sample_config" "SlotsPerEpoch sample_config \<noteq> 0"
    "TargetCommitteeSize sample_config \<noteq> 0"
    "488 = estimateActiveValidators sample_score div AttestationSubnetCount sample_config div SlotsPerEpoch sample_config"
    "(162 :: u64) = 488 * 2 div gossipSubD"
    by (simp_all add: sample_config_def sample_score_def newPeerScore_def gossipSubD_def)
  obtain k j where kj: "0 < k" "k \<le> 100" "0 < j" "j \<le> 100" and
    "defaultAttestationTopicParams sample_config sample_score =
      rated_topic_params sample_config (Fin (1 / real_of_int (uint (AttestationSubnetCount sample_config))))
        (word_of_int k * epoch_duration sample_config) (Fin (real_of_int (uint (162 :: u64))))
        (word_of_int j * epoch_duration sample_config) (Fin (real_of_int (uint (488 div dampeningFactor))))"
    by (rule attestation_run [OF *(1-4) _ *(5)]) simp_all
  then show ?thesis using rated_topic_params_fair [OF sample_config_ok kj] by metis
qed

lemma sample_sync:
  "\<exists>t. defaultSyncSubnetTopicParams sample_config sample_score =
     Returns (t, clamp_estimate sample_config sample_score)"
proof -
  obtain t where "rated_topic_params sample_config (Fin (1 / 10)) (word_of_int 1 * epoch_duration sample_config) (Fin 42)
      (word_of_int 4 * epoch_duration sample_config) (Fin 1) = Returns t"
    using rated_topic_params_fair [OF sample_config_ok, of 1 4 "1 / 10" 42 1] by auto
  moreover have "SyncCommitteeSubnetCount sample_config = 4" "SyncCommitteeSize sample_config = 512"
    "estimateActiveValidators sample_score = 1000000"
    by (simp_all add: sample_config_def sample_score_def newPeerScore_def)
  ultimately show ?thesis
    by (simp add: defaultSyncSubnetTopicParams_def Let_def float_of_uint64_def syncCommitteesTotalWeight_def
        gossipSubD_def dampeningFactor_def)
qed

lemma sample_peer_params:
  "\<exists>sp. peer_params sample_names sample_params sample_eth sample_score =
     Returns ((sp, peer_thresholds), clamp_estimate sample_config sample_score)"
proof -
  have "ps_topics sample_score =
      [''/eth2/6a95a1a9/beacon_attestation_0/ssz_snappy'', ''/eth2/6a95a1a9/sync_committee_0/ssz_snappy'']"
    by (simp add: sample_score_def newPeerScore_def)
  moreover obtain t where "defaultAttestationTopicParams sample_config sample_score = Returns t"
    using sample_attestation by blast
  moreover obtain t' where "defaultSyncSubnetTopicParams sample_config sample_score =
      Returns (t', clamp_estimate sample_config sample_score)"
    using sample_sync by blast
  ultimately show ?thesis
    by (simp add: peer_params_def sample_eth_config one_topic_attestation [OF sample_score_topics(1)]
        one_topic_sync [OF sample_score_topics(2)] scoreDecay_values sample_config_ok)
qed

lemma second_call_panics:
  assumes "GetBeaconChainConfig prm st = Returns cfg" and "config_ok cfg"
    and "topic \<in> set (ps_topics ps)" and "sync_subnet_topic n topic"
    and "topic' \<in> set (ps_topics ps)" and "attestation_topic n topic'"
    and "SyncCommitteeSize cfg div AttestationSubnetCount cfg div SlotsPerEpoch cfg < 3"
    and "peer_params n prm st ps = Returns (x, ps')"
  shows "\<exists>p. peer_params n prm st ps' = Panics p"
proof -
  from assms(1,8) obtain acc where run: "topics_params n cfg (ps_topics ps) [] ps = Returns (acc, ps')"
    by (auto simp: peer_params_def)
  have ps': "ps' = clamp_estimate cfg ps"
    using topics_params_facts(3) [OF assms(2) run] assms(3,4) by auto
  obtain p where "topics_params n cfg (ps_topics ps') [] ps' = Panics p"
    using topics_params_panic [OF assms(2) _ assms(6) _ assms(7), of "ps_topics ps'" ps' "[]"] assms(5) ps'
    by auto
  then show ?thesis using assms(1) by (simp add: peer_params_def)
qed

section \<open>Properties\<close>

text \<open>
  C24: When the score parameters are built they cover exactly the subscribed topics. Every
  topic that contains a message name has fair parameters (time in the mesh is worth at most ten
  points, the counters of first and invalid deliveries decay by a factor strictly between zero and
  one) and the weight of its kind, where the attestation subnets share the weight one and the sync
  committee subnets 0.4; only a topic without a known name has the empty parameters. Building them
  lowers the validator estimate to the size of the sync committee as soon as one sync committee
  topic is subscribed, and changes nothing else.
\<close>

theorem params_cover_topics:
  assumes "GetBeaconChainConfig prm st = Returns cfg" and "config_ok cfg"
    and "peer_params n prm st ps = Returns ((sp, th), ps')"
  shows "dom (map_of (Topics sp)) = set (ps_topics ps) \<and>
    (\<forall>topic t. map_of (Topics sp) topic = Some t \<longrightarrow>
       (if known_topic n topic then fair_params t else t = zero_TopicScoreParams) \<and>
       TopicWeight t = topic_weight n cfg topic) \<and>
    ps' = (if \<exists>topic \<in> set (ps_topics ps). sync_subnet_topic n topic then clamp_estimate cfg ps else ps) \<and>
    decays (BehaviourPenaltyDecay sp)"
proof -
  from assms(1,3) have run: "topics_params n cfg (ps_topics ps) [] ps = Returns (Topics sp, ps')"
    and pen: "scoreDecay cfg (10 * epoch_duration cfg) = Returns (BehaviourPenaltyDecay sp)"
    by (auto simp: peer_params_def)
  have "decays (BehaviourPenaltyDecay sp)"
    using pen scoreDecay_epochs [OF assms(2), of 10] decays_epochs [OF assms(2), of 10] by simp
  then show ?thesis
    using topics_params_facts [OF assms(2) run] by (simp add: suits_def)
qed

theorem params_cover_topics_witness:
  "\<exists>sp ps' t. peer_params sample_names sample_params sample_eth sample_score = Returns ((sp, peer_thresholds), ps') \<and>
     map_of (Topics sp) ''/eth2/6a95a1a9/beacon_attestation_0/ssz_snappy'' = Some t \<and>
     fair_params t \<and> TopicWeight t = Fin (1 / 64) \<and>
     estimateActiveValidators ps' = 512 \<and> decays (BehaviourPenaltyDecay sp)"
proof -
  let ?topic = "''/eth2/6a95a1a9/beacon_attestation_0/ssz_snappy''"
  obtain sp where sp: "peer_params sample_names sample_params sample_eth sample_score =
      Returns ((sp, peer_thresholds), clamp_estimate sample_config sample_score)"
    using sample_peer_params by blast
  note law = params_cover_topics [OF sample_eth_config sample_config_ok sp]
  have topics: "?topic \<in> set (ps_topics sample_score)"
    "estimateActiveValidators sample_score = 1000000" "SyncCommitteeSize sample_config = 512"
    by (simp_all add: sample_score_def newPeerScore_def sample_config_def)
  have known: "known_topic sample_names ?topic" "topic_weight sample_names sample_config ?topic = Fin (1 / 64)"
    using sample_score_topics(1)
    by (simp_all add: attestation_topic_def known_topic_def topic_weight_def handler_names_def kind_weights_def
        float_of_uint64_def sample_config_def)
  from law topics(1) obtain t where "map_of (Topics sp) ?topic = Some t" by blast
  with law known have "map_of (Topics sp) ?topic = Some t \<and> fair_params t \<and> TopicWeight t = Fin (1 / 64)" by simp
  then show ?thesis using sp topics law by (intro exI [of _ sp]) auto
qed

text \<open>
  The score parameters can be built only once. If a sync committee topic and an
  attestation topic are subscribed and the sync committee is too small to give three validators
  per slot and attestation subnet (512 of them do not, with 64 subnets and 32 slots), then after
  one successful call the next call panics: the first one has overwritten the validator estimate.
  The service that builds them is restarted by its supervisor, so no restart can succeed.
\<close>

lemma params_second_call_panics:
  assumes "GetBeaconChainConfig prm st = Returns cfg" and "config_ok cfg"
    and "topic \<in> set (ps_topics ps)" and "sync_subnet_topic n topic"
    and "topic' \<in> set (ps_topics ps)" and "attestation_topic n topic'"
    and "SyncCommitteeSize cfg div AttestationSubnetCount cfg div SlotsPerEpoch cfg < 3"
    and "peer_params n prm st ps = Returns (x, ps')"
  shows "\<exists>p. peer_params n prm st ps' = Panics p"
  by (rule second_call_panics [OF assms])

text \<open>
  C25: The attestation parameters, by the number \<^verbatim>\<open>v\<close> of validators per slot and subnet: with fewer
  than three the call panics; otherwise it returns, and first deliveries are worth at most forty
  points. From ninety on, a peer that delivers nothing loses the maximal score of 145 points,
  and so does one invalid message; below ninety the integer division by the dampening factor is
  zero, and the weight of the mesh deliveries is minus infinity.
\<close>

theorem attestation_params:
  fixes ps :: peerScore
  assumes "config_ok cfg" and "0 < AttestationSubnetCount cfg" and "0 < TargetCommitteeSize cfg"
    and "v = estimateActiveValidators ps div AttestationSubnetCount cfg div SlotsPerEpoch cfg"
    and "v < 2 ^ 63"
  shows "(v < 3 \<longrightarrow> (\<exists>p. defaultAttestationTopicParams cfg ps = Panics p)) \<and>
    (3 \<le> v \<longrightarrow> (\<exists>t. defaultAttestationTopicParams cfg ps = Returns t \<and> fair_params t \<and> balanced_first t \<and>
       (90 \<le> v \<longrightarrow> balanced_mesh t) \<and> (v < 90 \<longrightarrow> MeshMessageDeliveriesWeight t = NegInf)))"
proof (intro conjI impI)
  assume "v < 3"
  then show "\<exists>p. defaultAttestationTopicParams cfg ps = Panics p"
    using attestation_panics [of ps cfg] assms(4) by simp
next
  assume v3: "3 \<le> v"
  let ?rate = "v * 2 div gossipSubD" and ?cnt = "AttestationSubnetCount cfg"
  have nz: "SlotsPerEpoch cfg \<noteq> 0" "TargetCommitteeSize cfg \<noteq> 0" "v \<noteq> 0" "0 < real_of_int (uint ?cnt)"
    using assms v3 by (auto simp: config_ok_def word_less_def)
  note rate = attestation_rate [OF v3 assms(5)]
  obtain k j where kj: "0 < k" "k \<le> 100" "0 < j" "j \<le> 100" and
    run: "defaultAttestationTopicParams cfg ps =
      rated_topic_params cfg (Fin (1 / real_of_int (uint ?cnt)))
        (word_of_int k * epoch_duration cfg) (Fin (real_of_int (uint ?rate)))
        (word_of_int j * epoch_duration cfg) (Fin (real_of_int (uint (v div dampeningFactor))))"
    by (rule attestation_run [OF assms(2) nz(1,2) assms(4) nz(3) refl rate(1)])
  show "\<exists>t. defaultAttestationTopicParams cfg ps = Returns t \<and> fair_params t \<and> balanced_first t \<and>
       (90 \<le> v \<longrightarrow> balanced_mesh t) \<and> (v < 90 \<longrightarrow> MeshMessageDeliveriesWeight t = NegInf)"
    using rated_topic_params_fair [OF assms(1) kj, of "1 / real_of_int (uint (AttestationSubnetCount cfg))"
        "real_of_int (uint ?rate)" "real_of_int (uint (v div dampeningFactor))"] rate(2) dampened [of v] nz(4)
    unfolding run by auto
qed

theorem attestation_params_witness:
  "(\<exists>t. defaultAttestationTopicParams sample_config sample_score = Returns t \<and> balanced_mesh t) \<and>
   (\<exists>t. defaultAttestationTopicParams sample_config (sample_score\<lparr>estimateActiveValidators := 100000\<rparr>) = Returns t \<and>
      MeshMessageDeliveriesWeight t = NegInf)"
proof -
  have "0 < AttestationSubnetCount sample_config" "0 < TargetCommitteeSize sample_config"
    by (simp_all add: sample_config_def)
  note * = attestation_params [OF sample_config_ok this]
  have "488 = estimateActiveValidators sample_score div AttestationSubnetCount sample_config div SlotsPerEpoch sample_config"
    "48 = estimateActiveValidators (sample_score\<lparr>estimateActiveValidators := 100000\<rparr>) div
       AttestationSubnetCount sample_config div SlotsPerEpoch sample_config"
    by (simp_all add: sample_score_def newPeerScore_def sample_config_def)
  then show ?thesis using * [of 488 sample_score] * [of 48 "sample_score\<lparr>estimateActiveValidators := 100000\<rparr>"]
    by auto
qed

end
