(* ===== verification/Gossip_Handler.thy ===== *)
theory Gossip_Handler
  imports Beacon_Processor Peer_Score Host_Model
begin

text \<open>
  The gossip handlers (\<^verbatim>\<open>src/gossip/handler.go\<close>): the choice of the handler of a topic, and the ten
  handlers, each of which chooses the message type by the fork version and passes the message to
  the processor. The state is the \<^verbatim>\<open>GossipSub\<close> service (\<^verbatim>\<open>gossipsub.go\<close>) with the processor it points
  to.
\<close>

section \<open>State\<close>

text \<open>The supervisor is shared with the watcher; it is identified by its name.\<close>

record ('r, 'n) GossipSub =
  gs_supervisor :: string
  gs_host :: "'n Host"
  gs_peerScore :: peerScore
  gs_topics :: "string list"
  gs_forkVersion :: "byte list"
  gs_beaconConfig :: BeaconChainConfig
  gs_messageProcessor :: "'r BeaconMessageProcessor option"

type_synonym ('r, 'n) TopicHandler =
  "processor_lib \<Rightarrow> env \<Rightarrow> ('r, 'n) GossipSub \<Rightarrow> pubsub_message \<Rightarrow> ('r, 'n) GossipSub outcome"

text \<open>\<^verbatim>\<open>gs.messageProcessor.Process(ctx, msg, dst)\<close> with its error wrapped; a nil processor panics.\<close>

definition process_as :: "string \<Rightarrow> go_type \<Rightarrow> ('r, 'n) TopicHandler" where
  "process_as text dst lib e gs msg =
     and_then (of_option NilDereference (gs_messageProcessor gs)) (\<lambda>p.
       and_then (wrap text (Process lib e p msg dst)) (\<lambda>p'.
         Returns (gs\<lparr>gs_messageProcessor := Some p'\<rparr>)))"

text \<open>\<^verbatim>\<open>bytes.Equal(gs.forkVersion[:], v)\<close> for one of the versions of the configuration.\<close>

definition on_fork :: "('r, 'n) GossipSub \<Rightarrow> (BeaconChainConfig \<Rightarrow> byte list) \<Rightarrow> bool" where
  "on_fork gs v \<longleftrightarrow> gs_forkVersion gs = v (gs_beaconConfig gs)"

section \<open>Handlers\<close>

definition noopHandler :: "('r, 'n) TopicHandler" where
  "noopHandler lib e gs msg = Returns gs"

definition beaconBlockHandler :: "('r, 'n) TopicHandler" where
  "beaconBlockHandler lib e gs msg =
     (if on_fork gs GenesisForkVersion then
        process_as ''failed to process block message'' T_SignedBeaconBlock lib e gs msg
      else if on_fork gs AltairForkVersion then
        process_as ''failed to process block message'' T_SignedBeaconBlockAltair lib e gs msg
      else if on_fork gs BellatrixForkVersion then
        process_as ''failed to process block message'' T_SignedBeaconBlockBellatrix lib e gs msg
      else if on_fork gs CapellaForkVersion then
        process_as ''failed to process block message'' T_SignedBeaconBlockCapella lib e gs msg
      else if on_fork gs DenebForkVersion then
        process_as ''failed to process block message'' T_SignedBeaconBlockDeneb lib e gs msg
      else if on_fork gs ElectraForkVersion then
        process_as ''failed to process block message'' T_SignedBeaconBlockElectra lib e gs msg
      else Fails (ErrNew ''unknown fork version for handling block''))"

definition blobSidecarHandler :: "('r, 'n) TopicHandler" where
  "blobSidecarHandler lib e gs msg =
     (if on_fork gs DenebForkVersion \<or> on_fork gs ElectraForkVersion then
        process_as ''failed to process blob message'' T_BlobSidecar lib e gs msg
      else Fails (ErrNew ''unknown fork version for handling blob''))"

text \<open>The two cases the remaining handlers test: the versions up to Deneb, and all versions.\<close>

definition up_to_Deneb :: "('r, 'n) GossipSub \<Rightarrow> bool" where
  "up_to_Deneb gs \<longleftrightarrow> on_fork gs GenesisForkVersion \<or> on_fork gs AltairForkVersion \<or>
     on_fork gs BellatrixForkVersion \<or> on_fork gs CapellaForkVersion \<or> on_fork gs DenebForkVersion"

definition up_to_Electra :: "('r, 'n) GossipSub \<Rightarrow> bool" where
  "up_to_Electra gs \<longleftrightarrow> up_to_Deneb gs \<or> on_fork gs ElectraForkVersion"

definition beaconAggregateAndProofHandler :: "('r, 'n) TopicHandler" where
  "beaconAggregateAndProofHandler lib e gs msg =
     (if up_to_Deneb gs then
        process_as ''failed to process aggregate proof message'' T_SignedAggregateAttestationAndProof lib e gs msg
      else if on_fork gs ElectraForkVersion then
        process_as ''failed to process aggregate proof message'' T_SignedAggregateAttestationAndProofElectra lib e gs msg
      else Fails (ErrNew ''unknown fork version for handling aggregate proof''))"

definition beaconAttestationHandler :: "('r, 'n) TopicHandler" where
  "beaconAttestationHandler lib e gs msg =
     (if up_to_Deneb gs then
        process_as ''failed to process attestation message'' T_Attestation lib e gs msg
      else if on_fork gs ElectraForkVersion then
        process_as ''failed to process attestation message'' T_SingleAttestation lib e gs msg
      else Fails (ErrNew ''unknown fork version for handling attestation''))"

definition syncCommitteeContributionAndProofHandler :: "('r, 'n) TopicHandler" where
  "syncCommitteeContributionAndProofHandler lib e gs msg =
     (if up_to_Electra gs then
        process_as ''failed to process contribution proof message'' T_SignedContributionAndProof lib e gs msg
      else Fails (ErrNew ''unknown fork version for handling contribution proof''))"

definition syncCommitteeHandler :: "('r, 'n) TopicHandler" where
  "syncCommitteeHandler lib e gs msg =
     (if up_to_Electra gs then
        process_as ''failed to process sync committee message'' T_SyncCommitteeMessage lib e gs msg
      else Fails (ErrNew ''unknown fork version for handling sync committee''))"

definition proposerSlashingHandler :: "('r, 'n) TopicHandler" where
  "proposerSlashingHandler lib e gs msg =
     (if up_to_Electra gs then
        process_as ''failed to process proposer slashing message'' T_ProposerSlashing lib e gs msg
      else Fails (ErrNew ''unknown fork version for handling proposer slashing''))"

definition attesterSlashingHandler :: "('r, 'n) TopicHandler" where
  "attesterSlashingHandler lib e gs msg =
     (if up_to_Electra gs then
        process_as ''failed to process attester slashing message'' T_AttesterSlashing lib e gs msg
      else if on_fork gs ElectraForkVersion then
        process_as ''failed to process attester slashing message'' T_AttesterSlashingElectra lib e gs msg
      else Fails (ErrNew ''unknown fork version for handling attester slashing''))"

definition blsToExecutionChangeHandler :: "('r, 'n) TopicHandler" where
  "blsToExecutionChangeHandler lib e gs msg =
     (if up_to_Electra gs then
        process_as ''failed to process bls execution change message'' T_BLSToExecutionChange lib e gs msg
      else Fails (ErrNew ''unknown fork version for handling bls execution change''))"

definition voluntaryExitHandler :: "('r, 'n) TopicHandler" where
  "voluntaryExitHandler lib e gs msg =
     (if up_to_Electra gs then
        process_as ''failed to process voluntary exit message'' T_VoluntaryExit lib e gs msg
      else Fails (ErrNew ''unknown fork version for handling voluntary exit''))"

section \<open>Choice of the handler\<close>

definition mappingTopicToHandler :: "p2p_names \<Rightarrow> string \<Rightarrow> ('r, 'n) TopicHandler" where
  "mappingTopicToHandler n topic =
     (if Contains topic (GossipBlockMessage n) then beaconBlockHandler
      else if Contains topic (GossipBlobSidecarMessage n) then blobSidecarHandler
      else if Contains topic (GossipAggregateAndProofMessage n) then beaconAggregateAndProofHandler
      else if Contains topic (GossipAttestationMessage n) then beaconAttestationHandler
      else if Contains topic (GossipContributionAndProofMessage n) then syncCommitteeContributionAndProofHandler
      else if Contains topic (GossipSyncCommitteeMessage n) then syncCommitteeHandler
      else if Contains topic (GossipProposerSlashingMessage n) then proposerSlashingHandler
      else if Contains topic (GossipAttesterSlashingMessage n) then attesterSlashingHandler
      else if Contains topic (GossipBlsToExecutionChangeMessage n) then blsToExecutionChangeHandler
      else if Contains topic (GossipExitMessage n) then voluntaryExitHandler
      else noopHandler)"

section \<open>Reference: the message type of a topic at a fork\<close>

text \<open>The handlers in the order of the tests.\<close>

definition handler_list :: "('r, 'n) TopicHandler list" where
  "handler_list =
     [beaconBlockHandler, blobSidecarHandler, beaconAggregateAndProofHandler, beaconAttestationHandler,
      syncCommitteeContributionAndProofHandler, syncCommitteeHandler, proposerSlashingHandler,
      attesterSlashingHandler, blsToExecutionChangeHandler, voluntaryExitHandler]"

text \<open>
  The forks in order, and the message types they gossip under each name, as in the list of
  names. \<^verbatim>\<open>None\<close> where the fork has no such topic.
\<close>

datatype fork = Phase0 | Altair | Bellatrix | Capella | Deneb | Electra

definition fork_type :: "fork \<Rightarrow> nat \<Rightarrow> go_type option" where
  "fork_type f i =
     (if i = 0 then Some (case f of Phase0 \<Rightarrow> T_SignedBeaconBlock | Altair \<Rightarrow> T_SignedBeaconBlockAltair
         | Bellatrix \<Rightarrow> T_SignedBeaconBlockBellatrix | Capella \<Rightarrow> T_SignedBeaconBlockCapella
         | Deneb \<Rightarrow> T_SignedBeaconBlockDeneb | Electra \<Rightarrow> T_SignedBeaconBlockElectra)
      else if i = 1 then (if f = Deneb \<or> f = Electra then Some T_BlobSidecar else None)
      else if i = 2 then Some (if f = Electra then T_SignedAggregateAttestationAndProofElectra
                               else T_SignedAggregateAttestationAndProof)
      else if i = 3 then Some (if f = Electra then T_SingleAttestation else T_Attestation)
      else if i = 4 then Some T_SignedContributionAndProof
      else if i = 5 then Some T_SyncCommitteeMessage
      else if i = 6 then Some T_ProposerSlashing
      else if i = 7 then Some T_AttesterSlashing
      else if i = 8 then Some T_BLSToExecutionChange
      else Some T_VoluntaryExit)"

fun version_at :: "BeaconChainConfig \<Rightarrow> fork \<Rightarrow> byte list" where
  "version_at cfg Phase0 = GenesisForkVersion cfg"
| "version_at cfg Altair = AltairForkVersion cfg"
| "version_at cfg Bellatrix = BellatrixForkVersion cfg"
| "version_at cfg Capella = CapellaForkVersion cfg"
| "version_at cfg Deneb = DenebForkVersion cfg"
| "version_at cfg Electra = ElectraForkVersion cfg"

section \<open>Lemmas\<close>

lemmas handler_defs = beaconBlockHandler_def blobSidecarHandler_def beaconAggregateAndProofHandler_def
  beaconAttestationHandler_def syncCommitteeContributionAndProofHandler_def syncCommitteeHandler_def
  proposerSlashingHandler_def attesterSlashingHandler_def blsToExecutionChangeHandler_def
  voluntaryExitHandler_def

lemma below_ten:
  "(i :: nat) < 10 \<Longrightarrow> i \<in> {0, 1, 2, 3, 4, 5, 6, 7, 8, 9}"
  by auto

interpretation gh: topic_dispatch handler_names "mappingTopicToHandler :: p2p_names \<Rightarrow> string \<Rightarrow> ('r, 'n) TopicHandler"
  "\<lambda>n. handler_list" noopHandler
  by unfold_locales (simp_all add: mappingTopicToHandler_def handler_names_def handler_list_def)

text \<open>A type the handlers ask for is one the extractor registry knows.\<close>

lemma fork_type_supported: "fork_type f i = Some (TypeOf m) \<Longrightarrow> carried_slot m \<noteq> Foreign"
proof
  assume known: "fork_type f i = Some (TypeOf m)" and "carried_slot m = Foreign"
  then obtain x where "m = OtherMessage x" by (cases m) simp_all
  with known show False by (simp add: fork_type_def split: if_splits fork.splits)
qed

lemma version_at_cases:
  "on_fork gs GenesisForkVersion \<longleftrightarrow> gs_forkVersion gs = version_at (gs_beaconConfig gs) Phase0"
  "on_fork gs AltairForkVersion \<longleftrightarrow> gs_forkVersion gs = version_at (gs_beaconConfig gs) Altair"
  "on_fork gs BellatrixForkVersion \<longleftrightarrow> gs_forkVersion gs = version_at (gs_beaconConfig gs) Bellatrix"
  "on_fork gs CapellaForkVersion \<longleftrightarrow> gs_forkVersion gs = version_at (gs_beaconConfig gs) Capella"
  "on_fork gs DenebForkVersion \<longleftrightarrow> gs_forkVersion gs = version_at (gs_beaconConfig gs) Deneb"
  "on_fork gs ElectraForkVersion \<longleftrightarrow> gs_forkVersion gs = version_at (gs_beaconConfig gs) Electra"
  by (simp_all add: on_fork_def)

lemma handlers_at:
  assumes "inj (version_at (gs_beaconConfig gs))"
    and "gs_forkVersion gs = version_at (gs_beaconConfig gs) f"
  shows "on_fork gs GenesisForkVersion \<longleftrightarrow> f = Phase0" "on_fork gs AltairForkVersion \<longleftrightarrow> f = Altair"
    "on_fork gs BellatrixForkVersion \<longleftrightarrow> f = Bellatrix" "on_fork gs CapellaForkVersion \<longleftrightarrow> f = Capella"
    "on_fork gs DenebForkVersion \<longleftrightarrow> f = Deneb" "on_fork gs ElectraForkVersion \<longleftrightarrow> f = Electra"
    "up_to_Deneb gs \<longleftrightarrow> f \<noteq> Electra" "up_to_Electra gs"
proof -
  have at: "version_at (gs_beaconConfig gs) f = version_at (gs_beaconConfig gs) f' \<longleftrightarrow> f = f'" for f'
    using assms(1) by (auto dest: injD)
  show forks: "on_fork gs GenesisForkVersion \<longleftrightarrow> f = Phase0" "on_fork gs AltairForkVersion \<longleftrightarrow> f = Altair"
    "on_fork gs BellatrixForkVersion \<longleftrightarrow> f = Bellatrix" "on_fork gs CapellaForkVersion \<longleftrightarrow> f = Capella"
    "on_fork gs DenebForkVersion \<longleftrightarrow> f = Deneb" "on_fork gs ElectraForkVersion \<longleftrightarrow> f = Electra"
    unfolding version_at_cases assms(2) at by simp_all
  show "up_to_Deneb gs \<longleftrightarrow> f \<noteq> Electra" unfolding up_to_Deneb_def forks by (cases f) simp_all
  then show "up_to_Electra gs" by (simp add: up_to_Electra_def forks)
qed

text \<open>What a handler does at a fork: process as a given type, or reject.\<close>

definition handles_as :: "go_type option \<Rightarrow> ('r, 'n) GossipSub outcome \<Rightarrow>
    (string \<Rightarrow> go_type \<Rightarrow> ('r, 'n) GossipSub outcome) \<Rightarrow> bool" where
  "handles_as dst result process \<longleftrightarrow>
     (case dst of Some t \<Rightarrow> (\<exists>text. result = process text t) | None \<Rightarrow> (\<exists>text. result = Fails (ErrNew text)))"

lemma handler_at_fork:
  assumes "inj (version_at (gs_beaconConfig gs))"
    and "gs_forkVersion gs = version_at (gs_beaconConfig gs) f" and "i < 10"
  shows "handles_as (fork_type f i) ((handler_list ! i) lib e gs msg)
           (\<lambda>text dst. process_as text dst lib e gs msg)"
proof -
  note at = handlers_at [OF assms(1,2)]
  have block: "handles_as (fork_type f 0) (beaconBlockHandler lib e gs msg)
      (\<lambda>text dst. process_as text dst lib e gs msg)"
    by (cases f) (simp_all add: at beaconBlockHandler_def handles_as_def fork_type_def, blast+)
  have blob: "handles_as (fork_type f 1) (blobSidecarHandler lib e gs msg)
      (\<lambda>text dst. process_as text dst lib e gs msg)"
    by (cases f) (simp_all add: at blobSidecarHandler_def handles_as_def fork_type_def, blast+)
  have two: "handles_as (fork_type f 2) (beaconAggregateAndProofHandler lib e gs msg)
      (\<lambda>text dst. process_as text dst lib e gs msg)"
    "handles_as (fork_type f 3) (beaconAttestationHandler lib e gs msg)
      (\<lambda>text dst. process_as text dst lib e gs msg)"
    by (cases "f = Electra"; simp add: at handler_defs handles_as_def fork_type_def; blast)+
  have rest: "handles_as (fork_type f i) ((handler_list ! i) lib e gs msg)
      (\<lambda>text dst. process_as text dst lib e gs msg)" if "i \<in> {4, 5, 6, 7, 8, 9}"
    using that by (elim insertE emptyE; simp add: at handler_list_def handler_defs handles_as_def fork_type_def; blast)
  show ?thesis
    using below_ten [OF assms(3)] block blob two rest
    by (elim insertE emptyE) (simp_all add: handler_list_def)
qed

section \<open>Concrete instances\<close>

definition sample_gossip :: "(SlotMessageStats list list, nat) GossipSub" where
  "sample_gossip =
     \<lparr> gs_supervisor = ''watcher'', gs_host = \<lparr> libp2p_Host = 0, host_targetPeers = 80 \<rparr>, gs_peerScore = sample_score,
       gs_topics = ps_topics sample_score, gs_forkVersion = [5, 0, 0, 0], gs_beaconConfig = sample_config,
       gs_messageProcessor = Some sample_processor \<rparr>"

lemma sample_gossip_inj: "inj (version_at (gs_beaconConfig sample_gossip))"
proof (rule injI)
  fix f g
  assume "version_at (gs_beaconConfig sample_gossip) f = version_at (gs_beaconConfig sample_gossip) g"
  then show "f = g" by (cases f; cases g; simp add: sample_gossip_def sample_config_def)
qed

text \<open>A decoder that returns a message of the requested type, with every pointer set and slot five.\<close>

fun blank_message :: "go_type \<Rightarrow> message" where
  "blank_message T_SignedBeaconBlock = SignedBeaconBlock (Some (Block 5))"
| "blank_message T_SignedBeaconBlockAltair = SignedBeaconBlockAltair (Some (Block 5))"
| "blank_message T_SignedBeaconBlockBellatrix = SignedBeaconBlockBellatrix (Some (Block 5))"
| "blank_message T_SignedBeaconBlockCapella = SignedBeaconBlockCapella (Some (Block 5))"
| "blank_message T_SignedBeaconBlockDeneb = SignedBeaconBlockDeneb (Some (Block 5))"
| "blank_message T_SignedBeaconBlockElectra = SignedBeaconBlockElectra (Some (Block 5))"
| "blank_message T_SignedAggregateAttestationAndProof =
     SignedAggregateAttestationAndProof (Some (AggregateAndProof (Some (AttestationOf (Some (AttestationData 5))))))"
| "blank_message T_SignedAggregateAttestationAndProofElectra =
     SignedAggregateAttestationAndProofElectra (Some (AggregateAndProof (Some (AttestationOf (Some (AttestationData 5))))))"
| "blank_message T_SignedContributionAndProof =
     SignedContributionAndProof (Some (ContributionAndProof (Some (Contribution 5))))"
| "blank_message T_Attestation = Attestation (Some (AttestationData 5))"
| "blank_message T_AttestationElectra = AttestationElectra (Some (AttestationData 5))"
| "blank_message T_SingleAttestation = SingleAttestation (Some (AttestationData 5))"
| "blank_message T_SyncCommitteeMessage = SyncCommitteeMessage 5"
| "blank_message T_SyncCommitteeContribution = SyncCommitteeContribution 5"
| "blank_message T_BlobSidecar = BlobSidecar (Some (SignedBeaconBlockHeader (Some (BeaconBlockHeader 5))))"
| "blank_message T_ProposerSlashing = ProposerSlashing"
| "blank_message T_AttesterSlashing = AttesterSlashing"
| "blank_message T_AttesterSlashingElectra = AttesterSlashingElectra"
| "blank_message T_VoluntaryExit = VoluntaryExit"
| "blank_message T_BLSToExecutionChange = BLSToExecutionChange"
| "blank_message (T_Other name) = OtherMessage name"

definition typed_lib :: processor_lib where
  "typed_lib = sample_lib\<lparr>DecodeGossip := (\<lambda>data dst. Inr (blank_message dst))\<rparr>"

lemma typed_lib_types: "\<forall>dst m. DecodeGossip typed_lib data dst = Inr m \<longrightarrow> TypeOf m = dst"
proof -
  have "TypeOf (blank_message dst) = dst" for dst by (cases dst) simp_all
  then show ?thesis by (auto simp: typed_lib_def)
qed

section \<open>Properties\<close>

text \<open>
  The handler of a gossip topic is the handler of the message name in it, with or without
  a subnet number.
\<close>

lemma handler_of_topic:
  assumes "names_ok (handler_names n)" and "i < 10"
    and "length digest \<le> 10" and "set sub \<subseteq> set ''_0123456789''"
  shows "(mappingTopicToHandler n (gossip_topic digest (handler_names n ! i @ sub)) :: ('r, 'n) TopicHandler) =
           handler_list ! i"
  using assms by (intro gh.dispatch_gossip) (simp_all add: length_handler_names)

lemma sample_handler_names_ok: "names_ok (handler_names sample_names)"
  by (simp add: names_ok_def handler_names_def sample_names_def Contains_def sublist_Cons_right)

text \<open>
  C17: What the handlers decode. When the fork versions of the configuration differ, each handler
  passes the message to the processor with the message type of its topic at the current fork, or
  rejects it when the fork has no such topic; under an unknown fork version every handler rejects
  the message. The Electra attester slashing type is never used: that case of its handler
  repeats a version that the previous case already takes.
\<close>

theorem handlers_by_fork:
  fixes gs :: "('r, 'n) GossipSub"
  assumes "inj (version_at (gs_beaconConfig gs))" and "i < 10"
  shows "(gs_forkVersion gs = version_at (gs_beaconConfig gs) f \<longrightarrow>
      (case fork_type f i of
         Some dst \<Rightarrow> (\<exists>text. (handler_list ! i) lib e gs msg = process_as text dst lib e gs msg)
       | None \<Rightarrow> (\<exists>text. (handler_list ! i) lib e gs msg = Fails (ErrNew text)))) \<and>
    (gs_forkVersion gs \<notin> range (version_at (gs_beaconConfig gs)) \<longrightarrow>
      (\<exists>text. (handler_list ! i) lib e gs msg = Fails (ErrNew text)))"
proof -
  have "\<exists>text. (handler_list ! i) lib e gs msg = Fails (ErrNew text)"
    if "gs_forkVersion gs \<notin> range (version_at (gs_beaconConfig gs))"
  proof -
    have "gs_forkVersion gs \<noteq> version_at (gs_beaconConfig gs) f'" for f' using that by blast
    note no_fork = this [of Phase0] this [of Altair] this [of Bellatrix] this [of Capella] this [of Deneb]
      this [of Electra]
    have "\<not> on_fork gs GenesisForkVersion" "\<not> on_fork gs AltairForkVersion" "\<not> on_fork gs BellatrixForkVersion"
      "\<not> on_fork gs CapellaForkVersion" "\<not> on_fork gs DenebForkVersion" "\<not> on_fork gs ElectraForkVersion"
      using no_fork unfolding version_at_cases by simp_all
    then show ?thesis
      using below_ten [OF assms(2)]
      by (elim insertE emptyE; simp add: handler_list_def handler_defs up_to_Electra_def up_to_Deneb_def)
  qed
  then show ?thesis
    using handler_at_fork [OF assms(1) _ assms(2), of f lib e msg] by (auto simp: handles_as_def)
qed

theorem handlers_by_fork_witness:
  "\<exists>text. (handler_list ! 7) sample_lib sample_env sample_gossip (sample_message 5) =
     process_as text T_AttesterSlashing sample_lib sample_env sample_gossip (sample_message 5)"
proof -
  have "gs_forkVersion sample_gossip = version_at (gs_beaconConfig sample_gossip) Electra"
    by (simp add: sample_gossip_def sample_config_def)
  then show ?thesis
    using handlers_by_fork [OF sample_gossip_inj, of 7 Electra sample_lib sample_env "sample_message 5"]
    by (simp add: fork_type_def)
qed

text \<open>
  A handler's message type is always one the extractor registry supports: with a decoder
  that returns a message of the requested type, no gossip message is rejected as unsupported.
\<close>

lemma handled_types_supported:
  fixes gs :: "('r, 'n) GossipSub"
  assumes "inj (version_at (gs_beaconConfig gs))" and "i < 10"
    and "gs_forkVersion gs = version_at (gs_beaconConfig gs) f"
    and "gs_messageProcessor gs = Some p" and "bp_extractors p = newSlotExtractorRegistry"
    and "\<forall>dst m. DecodeGossip lib (msg_Data msg) dst = Inr m \<longrightarrow> TypeOf m = dst"
  shows "(handler_list ! i) lib e gs msg \<noteq> Fails (ErrWrap (ErrNew ''unsupported message type'') text)"
proof (cases "fork_type f i")
  case None
  then show ?thesis using handler_at_fork [OF assms(1,3,2), of lib e msg] by (auto simp: handles_as_def)
next
  case (Some dst)
  have "Process lib e p msg dst \<noteq> Fails (ErrNew ''unsupported message type'')"
  proof (cases "DecodeGossip lib (msg_Data msg) dst")
    case (Inl err)
    then show ?thesis by (simp add: Process_unfold)
  next
    case (Inr m)
    then have "TypeOf m = dst" using assms(6) by blast
    then have "carried_slot m \<noteq> Foreign" using fork_type_supported [of f i m] Some by simp
    with Inr assms(5) show ?thesis
      by (cases "carried_slot m")
        (auto simp: Process_unfold extract_reference processSlotMessageMetadata_def slot_record_def
          processGeneralMessageMetadata_def parseEth2Topic_def node_peer_count_def Let_def
          split: option.split)
  qed
  moreover obtain text' where "(handler_list ! i) lib e gs msg = process_as text' dst lib e gs msg"
    using handler_at_fork [OF assms(1,3,2), of lib e msg] Some by (auto simp: handles_as_def)
  ultimately show ?thesis
    by (cases "Process lib e p msg dst") (simp_all add: process_as_def assms(4))
qed

end
