(* ===== verification/Gossip_Sub.thy ===== *)
theory Gossip_Sub
  imports Gossip_Handler
begin

text \<open>
  The gossip service (\<^verbatim>\<open>src/gossip/gossipsub.go\<close>, \<^verbatim>\<open>subscription.go\<close>): its options and constructor with
  the generation of all topic names, the service that builds the router and joins the topics,
  the subscription loop, and the pruning of peers. The pubsub library, the fork digest and the
  encoder are parameters, in the record \<^theory_text>\<open>gossip_lib\<close>.
\<close>

section \<open>Formatting\<close>

text \<open>
  \<^verbatim>\<open>fmt.Sprintf\<close> for the verbs of the topic formats: \<^verbatim>\<open>%x\<close> of a byte array and \<^verbatim>\<open>%d\<close> of an unsigned
  integer. Go marks a wrong verb and a missing or left-over argument in the output.
\<close>

datatype fmt_arg = ArgBytes "byte list" | ArgUint nat

fun print_arg :: "char \<Rightarrow> fmt_arg \<Rightarrow> string" where
  "print_arg v (ArgBytes b) = (if v = CHR ''x'' then hex_bytes b else ''%!'' @ [v])"
| "print_arg v (ArgUint n) = (if v = CHR ''d'' then decimal n else ''%!'' @ [v])"

fun Sprintf :: "string \<Rightarrow> fmt_arg list \<Rightarrow> string" where
  "Sprintf [] args = (if args = [] then [] else ''%!(EXTRA)'')"
| "Sprintf (c # s) args =
     (if c = CHR ''%'' then
        (case s of
           [] \<Rightarrow> ''%!(NOVERB)''
         | v # s' \<Rightarrow>
             (case args of
                [] \<Rightarrow> ''%!'' @ [v] @ ''(MISSING)'' @ Sprintf s' []
              | a # args' \<Rightarrow> print_arg v a @ Sprintf s' args'))
      else c # Sprintf s args)"

section \<open>Parameters and options\<close>

record GossipSubParams =
  D :: "64 word"
  Dlo :: "64 word"
  Dhi :: "64 word"
  HistoryLength :: "64 word"
  HistoryGossip :: "64 word"
  HeartbeatInterval :: duration

text \<open>\<^verbatim>\<open>'z\<close> is the part of the router's parameters that the service does not set.\<close>

record ('m, 'z) gossip_lib =
  gl_CreateForkDigest :: "gotime \<Rightarrow> byte list \<Rightarrow> error + byte list"
  gl_suffix :: string
  gl_formats :: p2p_formats
  gl_names :: p2p_names
  gl_MsgID :: "byte list \<Rightarrow> 'm \<Rightarrow> string"
  gl_MaxCompressedLen :: "u64 \<Rightarrow> u64"
  gl_DefaultGossipSubParams :: "'z GossipSubParams_scheme"
  gl_New :: "'z GossipSubParams_scheme \<Rightarrow> 64 word \<Rightarrow> PeerScoreParams \<Rightarrow> PeerScoreThresholds \<Rightarrow> error option"
  gl_Join :: "string \<Rightarrow> error option"
  gl_Subscribe :: "string \<Rightarrow> error option"

definition gossipThreshold :: float64 where
  "gossipThreshold = Fin (- 100)"

record ('r, 'n) GossipSubOption =
  go_supervisor :: string
  go_host :: "'n Host option"
  go_topics :: "string list"
  go_estimateActiveValidators :: u64
  go_peerScoreInspectPeriod :: duration
  go_messageProcessor :: "'r BeaconMessageProcessor option"

type_synonym ('r, 'n) GossipSubOptionFunc = "('r, 'n) GossipSubOption \<Rightarrow> ('r, 'n) GossipSubOption"

definition gossip_WithEstimateActiveValidators :: "u64 \<Rightarrow> ('r, 'n) GossipSubOptionFunc" where
  "gossip_WithEstimateActiveValidators est o' = o'\<lparr>go_estimateActiveValidators := est\<rparr>"

definition gossip_WithTopics :: "string list \<Rightarrow> ('r, 'n) GossipSubOptionFunc" where
  "gossip_WithTopics topics o' = o'\<lparr>go_topics := topics\<rparr>"

definition gossip_WithPeerScoreInspectPeriod :: "duration \<Rightarrow> ('r, 'n) GossipSubOptionFunc" where
  "gossip_WithPeerScoreInspectPeriod period o' = o'\<lparr>go_peerScoreInspectPeriod := period\<rparr>"

definition gossip_WithSupervisor :: "string \<Rightarrow> ('r, 'n) GossipSubOptionFunc" where
  "gossip_WithSupervisor svcs o' = o'\<lparr>go_supervisor := svcs\<rparr>"

definition gossip_WithHost :: "'n Host option \<Rightarrow> ('r, 'n) GossipSubOptionFunc" where
  "gossip_WithHost h o' = o'\<lparr>go_host := h\<rparr>"

definition gossip_WithMessageProcessor :: "'r BeaconMessageProcessor \<Rightarrow> ('r, 'n) GossipSubOptionFunc" where
  "gossip_WithMessageProcessor p o' = o'\<lparr>go_messageProcessor := Some p\<rparr>"

definition default_GossipSubOption :: "('r, 'n) GossipSubOption" where
  "default_GossipSubOption =
     \<lparr> go_supervisor = ''gossipSub'', go_host = None, go_topics = [], go_estimateActiveValidators = 0,
       go_peerScoreInspectPeriod = 12 * second, go_messageProcessor = None \<rparr>"

section \<open>Construction\<close>

definition raw_topics :: "p2p_formats \<Rightarrow> string list" where
  "raw_topics f =
     [BlockSubnetTopicFormat f, BlobSubnetTopicFormat f, AggregateAndProofSubnetTopicFormat f,
      AttestationSubnetTopicFormat f, SyncContributionAndProofSubnetTopicFormat f,
      SyncCommitteeSubnetTopicFormat f, ProposerSlashingSubnetTopicFormat f,
      AttesterSlashingSubnetTopicFormat f, BlsToExecutionChangeSubnetTopicFormat f, ExitSubnetTopicFormat f]"

text \<open>The body of the loop over the raw topics, and the loop.\<close>

definition topics_of ::
  "('m, 'z) gossip_lib \<Rightarrow> eth_params \<Rightarrow> eth_state \<Rightarrow> byte list \<Rightarrow> string \<Rightarrow> string list outcome" where
  "topics_of lib prm st digest rawTopic =
     and_then (HasSubnets prm (gl_formats lib) st rawTopic) (\<lambda>(subnetCnt, hasSubnet).
       Returns (if hasSubnet
         then map (\<lambda>i. Sprintf rawTopic [ArgBytes digest, ArgUint (unat i)] @ ''/'' @ gl_suffix lib) (for_range subnetCnt)
         else [Sprintf rawTopic [ArgBytes digest] @ ''/'' @ gl_suffix lib]))"

fun all_topics ::
  "('m, 'z) gossip_lib \<Rightarrow> eth_params \<Rightarrow> eth_state \<Rightarrow> byte list \<Rightarrow> string list \<Rightarrow> string list outcome" where
  "all_topics lib prm st digest [] = Returns []"
| "all_topics lib prm st digest (rawTopic # raws) =
     and_then (topics_of lib prm st digest rawTopic) (\<lambda>ts.
     and_then (all_topics lib prm st digest raws) (\<lambda>rest. Returns (ts @ rest)))"

definition NewGossipSub ::
  "('m, 'z) gossip_lib \<Rightarrow> eth_params \<Rightarrow> eth_state \<Rightarrow> gotime \<Rightarrow> ('r, 'n) GossipSubOptionFunc list \<Rightarrow>
   ('r, 'n) GossipSub outcome" where
  "NewGossipSub lib prm st now opts =
     (let o' = fold (\<lambda>opt. opt) opts default_GossipSubOption in
      case go_host o' of
        None \<Rightarrow> Fails (ErrNew ''host must be configured when creating gossipSub'')
      | Some h \<Rightarrow>
          if go_estimateActiveValidators o' = 0 then
            Fails (ErrNew ''number of estimate active validators must be more than 0 when creating gossipSub'')
          else
            and_then
              (if length (go_topics o') = 0 then
                 and_then (GetGenesisConfig prm st) (\<lambda>genesisConfig.
                 and_then (wrap ''failed to create fork digest''
                   (outcome_of (gl_CreateForkDigest lib (GenesisTime genesisConfig) (GenesisValidatorRoot genesisConfig))))
                   (\<lambda>forkDigest. all_topics lib prm st forkDigest (raw_topics (gl_formats lib))))
               else Returns (go_topics o')) (\<lambda>topics.
            and_then (GetCurrentForkVersion prm st now) (\<lambda>forkVersion.
            and_then (GetBeaconChainConfig prm st) (\<lambda>cfg.
              Returns \<lparr> gs_supervisor = go_supervisor o', gs_host = h,
                gs_peerScore = newPeerScore (go_estimateActiveValidators o') topics (go_peerScoreInspectPeriod o'),
                gs_topics = topics, gs_forkVersion = forkVersion, gs_beaconConfig = cfg,
                gs_messageProcessor = go_messageProcessor o' \<rparr>))))"

section \<open>Service\<close>

definition gossipSubParams :: "('m, 'z) gossip_lib \<Rightarrow> 'z GossipSubParams_scheme" where
  "gossipSubParams lib =
     (gl_DefaultGossipSubParams lib)
       \<lparr> D := gossipSubD, Dlo := 5, Dhi := 9, HistoryLength := 6, HistoryGossip := 3,
         HeartbeatInterval := 700 * 1000000 \<rparr>"

definition maxMessageSize :: "('m, 'z) gossip_lib \<Rightarrow> BeaconChainConfig \<Rightarrow> 64 word" where
  "maxMessageSize lib cfg =
     (let maxCompressedLen = gl_MaxCompressedLen lib (MaxPayloadSize cfg)
      in max (maxCompressedLen + 1024) (1024 * 1024))"

text \<open>The identifier function of the router counts every sighting of a message.\<close>

definition message_id_fn ::
  "('m, 'z) gossip_lib \<Rightarrow> ('r, 'n) GossipSub \<Rightarrow> 'm \<Rightarrow> (string \<times> ('r, 'n) GossipSub) outcome" where
  "message_id_fn lib gs pmsg =
     (let msgID = gl_MsgID lib (GenesisValidatorsRoot (gs_beaconConfig gs)) pmsg in
      and_then (of_option NilDereference (gs_messageProcessor gs)) (\<lambda>p.
        Returns (msgID, gs\<lparr>gs_messageProcessor := Some (IncreaseSeenCountByRawID p msgID)\<rparr>)))"

record ('r, 'n) Subscription =
  sub_hostID :: string
  sub_topic :: string
  sub_handler :: "('r, 'n) TopicHandler"

definition newSubscription :: "string \<Rightarrow> string \<Rightarrow> ('r, 'n) TopicHandler \<Rightarrow> ('r, 'n) Subscription" where
  "newSubscription hostID subscription handler =
     \<lparr> sub_hostID = hostID, sub_topic = subscription, sub_handler = handler \<rparr>"

text \<open>
  The loop that joins the topics: it adds a subscription to the supervisor for each topic, and
  stops at the first error.
\<close>

fun join_topics ::
  "('m, 'z) gossip_lib \<Rightarrow> string \<Rightarrow> string list \<Rightarrow> ('r, 'n) Subscription list \<Rightarrow>
   ('r, 'n) Subscription list \<times> error option" where
  "join_topics lib hostID [] svcs = (svcs, None)"
| "join_topics lib hostID (topicName # topics) svcs =
     (case gl_Join lib topicName of
        Some err \<Rightarrow> (svcs, Some (ErrWrap err (''failed to join topic '' @ topicName)))
      | None \<Rightarrow>
          (case gl_Subscribe lib topicName of
             Some err \<Rightarrow> (svcs, Some (ErrWrap err (''failed to subscribe topic '' @ topicName)))
           | None \<Rightarrow>
               join_topics lib hostID topics
                 (svcs @ [newSubscription hostID topicName (mappingTopicToHandler (gl_names lib) topicName)])))"

text \<open>
  \<^verbatim>\<open>Serve\<close> up to its wait for the end of the context: the error it returns, or \<^verbatim>\<open>None\<close> when it waits
  with the pruning goroutine running.
\<close>

definition gossip_Serve ::
  "('m, 'z) gossip_lib \<Rightarrow> eth_params \<Rightarrow> eth_state \<Rightarrow> string \<Rightarrow> ('r, 'n) GossipSub \<Rightarrow> ('r, 'n) Subscription list \<Rightarrow>
   (('r, 'n) GossipSub \<times> ('r, 'n) Subscription list \<times> error option) outcome" where
  "gossip_Serve lib prm st hostID gs svcs =
     and_then (GetBeaconChainConfig prm st) (\<lambda>cfg.
     and_then (peer_params (gl_names lib) prm st (gs_peerScore gs)) (\<lambda>((scoreParams, thresholds), ps').
       (let gs' = gs\<lparr>gs_peerScore := ps'\<rparr>
        in case gl_New lib (gossipSubParams lib) (maxMessageSize lib cfg) scoreParams thresholds of
             Some err \<Rightarrow> Returns (gs', svcs, Some (ErrWrap err ''failed to create gossipSub''))
           | None \<Rightarrow>
               (case join_topics lib hostID (gs_topics gs) svcs of (svcs', err) \<Rightarrow> Returns (gs', svcs', err)))))"

section \<open>The subscription loop\<close>

text \<open>
  What a subscription sees: the end of its context, or the next message or error of the router.
  The loop handles them in order; \<^verbatim>\<open>Listening\<close> when the events are used up.
\<close>

datatype sub_event = ContextDone | NextMessage "error + pubsub_message"

datatype serve_status = Listening | Stopped_with "error option"

fun subscription_Serve ::
  "processor_lib \<Rightarrow> ('r, 'n) Subscription \<Rightarrow> (env \<times> sub_event) list \<Rightarrow> ('r, 'n) GossipSub \<Rightarrow>
   (('r, 'n) GossipSub \<times> serve_status) outcome" where
  "subscription_Serve lib s [] gs = Returns (gs, Listening)"
| "subscription_Serve lib s ((e, ContextDone) # events) gs = Returns (gs, Stopped_with None)"
| "subscription_Serve lib s ((e, NextMessage (Inl err)) # events) gs =
     Returns (gs, Stopped_with (Some (ErrWrap err ''failed to get next gossip subscription message'')))"
| "subscription_Serve lib s ((e, NextMessage (Inr msg)) # events) gs =
     (if ReceivedFrom msg = sub_hostID s then subscription_Serve lib s events gs
      else
        (case sub_handler s lib e gs msg of
           Panics p \<Rightarrow> Panics p
         | Fails err \<Rightarrow> subscription_Serve lib s events gs
         | Returns gs' \<Rightarrow> subscription_Serve lib s events gs'))"

section \<open>Pruning\<close>

definition isBadPeer :: "peerScore \<Rightarrow> peer_ID \<Rightarrow> bool" where
  "isBadPeer ps pid \<longleftrightarrow> peer_get ps pid < gossipThreshold"

definition score_conn :: "peerScore \<Rightarrow> connection \<Rightarrow> (peer_ID, float64) gomap \<Rightarrow> (peer_ID, float64) gomap" where
  "score_conn ps conn scores =
     (let pid = RemotePeer conn; score = peer_get ps pid
      in case map_of scores pid of
           None \<Rightarrow> AList.update pid score scores
         | Some prev \<Rightarrow> (if score < prev then AList.update pid score scores else scores))"

definition peer_scores :: "peerScore \<Rightarrow> connection list \<Rightarrow> (peer_ID, float64) gomap" where
  "peer_scores ps conns = fold (score_conn ps) conns []"

text \<open>
  \<^verbatim>\<open>sort.Slice\<close> by score. It is not stable, but it sorts the entries of a map, which come in an
  arbitrary order: a stable sort of an arbitrary order gives every order it may give.
\<close>

fun insert_pair :: "peer_ID \<times> float64 \<Rightarrow> (peer_ID \<times> float64) list \<Rightarrow> (peer_ID \<times> float64) list" where
  "insert_pair x [] = [x]"
| "insert_pair x (y # ys) = (if snd y < snd x then y # insert_pair x ys else x # y # ys)"

definition sort_pairs :: "(peer_ID \<times> float64) list \<Rightarrow> (peer_ID \<times> float64) list" where
  "sort_pairs xs = foldr insert_pair xs []"

text \<open>The closing loop: it stops at the first peer that is neither in excess nor bad.\<close>

fun close_peers :: "peerScore \<Rightarrow> 64 word \<Rightarrow> nat \<Rightarrow> (peer_ID \<times> float64) list \<Rightarrow> peer_ID list" where
  "close_peers ps excess i [] = []"
| "close_peers ps excess i (p # pairs) =
     (if \<not> (int i < sint excess \<or> isBadPeer ps (fst p)) then []
      else fst p # close_peers ps excess (Suc i) pairs)"

text \<open>
  The connections are read twice, for the scores and for the count; \<^verbatim>\<open>None\<close> is a nil network. The
  result is the peers that are closed, in order.
\<close>

definition prune ::
  "(peer_ID \<times> float64) iter_order \<Rightarrow> ('r, 'n) GossipSub \<Rightarrow> (connection list \<times> connection list) option \<Rightarrow> peer_ID list" where
  "prune ord gs nw =
     (case nw of
        None \<Rightarrow> []
      | Some (conns, conns') \<Rightarrow>
          (let pairs = sort_pairs (visit ord (peer_scores (gs_peerScore gs) conns));
               excess = TotalPeerCount conns' - TargetPeerCount (gs_host gs)
           in close_peers (gs_peerScore gs) excess 0 pairs))"

section \<open>Lemmas\<close>

subsection \<open>Sorting and pruning\<close>

lemma mset_insert_pair [simp]: "mset (insert_pair x ys) = add_mset x (mset ys)"
  by (induction ys) auto

lemma mset_sort_pairs [simp]: "mset (sort_pairs xs) = mset xs"
  unfolding sort_pairs_def by (induction xs) simp_all

lemma set_sort_pairs [simp]: "set (sort_pairs xs) = set xs"
  by (metis mset_sort_pairs set_mset_mset)

abbreviation ascending :: "(peer_ID \<times> float64) list \<Rightarrow> bool" where
  "ascending \<equiv> sorted_wrt (\<lambda>x y. \<not> snd y < snd x)"

lemma set_insert_pair [simp]: "set (insert_pair x ys) = insert x (set ys)"
  by (induction ys) auto

lemma ascending_insert:
  assumes "ascending ys" and "\<forall>y \<in> insert x (set ys). snd y \<noteq> NaN"
  shows "ascending (insert_pair x ys)"
  using assms
proof (induction ys)
  case (Cons y ys)
  show ?case
  proof (cases "snd y < snd x")
    case True
    have "\<not> snd x < snd y" using True float_less_trans float_less_irrefl by blast
    with True Cons show ?thesis by simp
  next
    case False
    have "\<not> snd z < snd x" if "z \<in> set ys" for z
      using that False Cons.prems float_not_less_trans [of "snd x" "snd y" "snd z"] by simp
    with False Cons show ?thesis by simp
  qed
qed simp

lemma ascending_sort: "\<forall>x \<in> set xs. snd x \<noteq> NaN \<Longrightarrow> ascending (sort_pairs xs)"
proof (induction xs)
  case (Cons x xs)
  then have "ascending (sort_pairs xs)" "\<forall>y \<in> insert x (set (sort_pairs xs)). snd y \<noteq> NaN" by simp_all
  then have "ascending (insert_pair x (sort_pairs xs))" by (rule ascending_insert)
  then show ?case by (simp add: sort_pairs_def)
qed (simp add: sort_pairs_def)

lemma score_conn_facts:
  assumes "gomap_ok m" and "\<forall>p s. map_of m p = Some s \<longrightarrow> s = peer_get ps p"
  shows "gomap_ok (score_conn ps conn m)"
    and "map_of (score_conn ps conn m) = (map_of m)(RemotePeer conn \<mapsto> peer_get ps (RemotePeer conn))"
proof -
  show "gomap_ok (score_conn ps conn m)"
    using assms(1) by (simp add: score_conn_def Let_def gomap_simps split: option.split)
  show "map_of (score_conn ps conn m) = (map_of m)(RemotePeer conn \<mapsto> peer_get ps (RemotePeer conn))"
  proof (cases "map_of m (RemotePeer conn)")
    case None
    then show ?thesis by (simp add: score_conn_def Let_def gomap_simps)
  next
    case (Some prev)
    with assms(2) have "prev = peer_get ps (RemotePeer conn)" by blast
    with Some show ?thesis by (simp add: score_conn_def Let_def fun_upd_triv [symmetric]) (simp add: fun_eq_iff)
  qed
qed

lemma peer_scores_fold:
  assumes "gomap_ok m" and "\<forall>p s. map_of m p = Some s \<longrightarrow> s = peer_get ps p"
  shows "gomap_ok (fold (score_conn ps) conns m) \<and>
    map_of (fold (score_conn ps) conns m) =
      (\<lambda>p. if p \<in> RemotePeer ` set conns then Some (peer_get ps p) else map_of m p)"
  using assms
proof (induction conns arbitrary: m)
  case (Cons conn conns)
  note m = score_conn_facts [OF Cons.prems, of conn]
  have "\<forall>p s. map_of (score_conn ps conn m) p = Some s \<longrightarrow> s = peer_get ps p"
    unfolding m(2) using Cons.prems(2) by (auto split: if_splits)
  from Cons.IH [OF m(1) this] show ?case unfolding m(2) by (auto simp: fun_eq_iff)
qed simp

lemma peer_scores_facts:
  "gomap_ok (peer_scores ps conns)"
  "set (peer_scores ps conns) = {(p, peer_get ps p) | p. p \<in> RemotePeer ` set conns}"
proof -
  have facts: "gomap_ok (peer_scores ps conns) \<and>
      map_of (peer_scores ps conns) = (\<lambda>p. if p \<in> RemotePeer ` set conns then Some (peer_get ps p) else None)"
    using peer_scores_fold [of "[]" ps conns] by (simp add: peer_scores_def fun_eq_iff)
  then show ok: "gomap_ok (peer_scores ps conns)" by blast
  have "(p, s) \<in> set (peer_scores ps conns) \<longleftrightarrow> p \<in> RemotePeer ` set conns \<and> s = peer_get ps p" for p s
    using gomap_lookup [OF ok, of p s] facts by (auto split: if_splits)
  then show "set (peer_scores ps conns) = {(p, peer_get ps p) | p. p \<in> RemotePeer ` set conns}" by auto
qed

lemma close_peers_take:
  assumes "\<forall>j < length pairs. isBadPeer ps (fst (pairs ! j)) \<longleftrightarrow> j < b"
  shows "close_peers ps excess i pairs = map fst (take (max (nat (sint excess) - i) b) pairs)"
  using assms
proof (induction pairs arbitrary: i b)
  case (Cons p pairs)
  have bad: "isBadPeer ps (fst p) \<longleftrightarrow> 0 < b" using Cons.prems by (metis length_greater_0_conv list.discI nth_Cons_0)
  have "\<forall>j < length pairs. isBadPeer ps (fst (pairs ! j)) \<longleftrightarrow> j < b - 1"
    using Cons.prems by (metis Suc_less_eq length_Cons less_diff_conv Suc_eq_plus1 nth_Cons_Suc)
  note IH = Cons.IH [OF this, of "Suc i"]
  let ?n = "max (nat (sint excess) - i) b"
  have "max (nat (sint excess) - Suc i) (b - 1) = ?n - 1" by auto
  moreover have "int i < sint excess \<or> isBadPeer ps (fst p) \<longleftrightarrow> 0 < ?n" using bad by auto
  ultimately show ?case using IH by (simp add: take_Cons')
qed simp

lemma prefix_predicate:
  assumes "\<forall>j k. j < k \<longrightarrow> k < n \<longrightarrow> P k \<longrightarrow> P j" and "j < n"
  shows "P j \<longleftrightarrow> j < card {i. i < n \<and> P i}"
proof
  assume "P j"
  then have "P i" if "i \<le> j" for i using that assms by (metis le_neq_implies_less)
  then have "{..j} \<subseteq> {i. i < n \<and> P i}" using assms(2) by auto
  then have "card {..j} \<le> card {i. i < n \<and> P i}" by (intro card_mono) auto
  then show "j < card {i. i < n \<and> P i}" by simp
next
  assume less: "j < card {i. i < n \<and> P i}"
  show "P j"
  proof (rule ccontr)
    assume "\<not> P j"
    have "i < j" if "i < n" "P i" for i
    proof (rule ccontr)
      assume "\<not> i < j"
      with that \<open>\<not> P j\<close> have "j < i" by (cases "i = j") auto
      with that assms(1) \<open>\<not> P j\<close> show False by blast
    qed
    then have "{i. i < n \<and> P i} \<subseteq> {..<j}" by blast
    then have "card {i. i < n \<and> P i} \<le> card {..<j}" by (intro card_mono) auto
    with less show False by simp
  qed
qed

lemma sorted_peers:
  assumes "\<forall>pid. peer_get ps pid \<noteq> NaN" and "pairs = sort_pairs (visit ord (peer_scores ps conns))"
  shows "ascending pairs" and "distinct (map fst pairs)" and "set (map fst pairs) = RemotePeer ` set conns"
    and "\<forall>x \<in> set pairs. snd x = peer_get ps (fst x)"
proof -
  have m: "mset pairs = mset (peer_scores ps conns)" by (simp add: assms(2))
  then have set: "set pairs = {(p, peer_get ps p) | p. p \<in> RemotePeer ` set conns}"
    using peer_scores_facts(2) by (metis set_mset_mset)
  then show "set (map fst pairs) = RemotePeer ` set conns" "\<forall>x \<in> set pairs. snd x = peer_get ps (fst x)"
    by (auto simp: image_iff)
  show "distinct (map fst pairs)"
    using peer_scores_facts(1) m by (metis mset_eq_imp_distinct_iff mset_map)
  show "ascending pairs"
    unfolding assms(2) using set assms by (intro ascending_sort) auto
qed

text \<open>In the order of the scores the bad peers come first.\<close>

lemma bad_first:
  assumes "\<forall>pid. peer_get ps pid \<noteq> NaN" and "pairs = sort_pairs (visit ord (peer_scores ps conns))"
    and "j < length pairs"
  shows "isBadPeer ps (fst (pairs ! j)) \<longleftrightarrow> j < card {p \<in> RemotePeer ` set conns. isBadPeer ps p}"
proof -
  note sorted = sorted_peers [OF assms(1,2)]
  let ?P = "\<lambda>j. isBadPeer ps (fst (pairs ! j))"
  have score: "snd (pairs ! i) = peer_get ps (fst (pairs ! i))" if "i < length pairs" for i
    using sorted(4) that by simp
  have down: "\<forall>j k. j < k \<longrightarrow> k < length pairs \<longrightarrow> ?P k \<longrightarrow> ?P j"
  proof (intro allI impI)
    fix j k
    assume jk: "j < k" "k < length pairs" "?P k"
    then have "\<not> snd (pairs ! k) < snd (pairs ! j)" using sorted(1) by (simp add: sorted_wrt_iff_nth_less)
    then have "\<not> peer_get ps (fst (pairs ! k)) < peer_get ps (fst (pairs ! j))" using jk by (simp add: score)
    with jk(3) show "?P j"
      unfolding isBadPeer_def
      using float_less_linear [of "peer_get ps (fst (pairs ! j))" "peer_get ps (fst (pairs ! k))"] assms(1)
      by (auto dest: float_less_trans)
  qed
  have "{p \<in> RemotePeer ` set conns. isBadPeer ps p} = set (filter (isBadPeer ps) (map fst pairs))"
    using sorted(3) by auto
  then have "card {p \<in> RemotePeer ` set conns. isBadPeer ps p} = length (filter (isBadPeer ps) (map fst pairs))"
    using sorted(2) by (metis distinct_card distinct_filter)
  also have "\<dots> = card {i. i < length pairs \<and> ?P i}"
    by (simp add: length_filter_conv_card cong: conj_cong)
  finally show ?thesis using prefix_predicate [OF down assms(3)] by simp
qed

lemma excess_value:
  assumes "length conns < 2 ^ 63" and "0 \<le> sint target"
  shows "nat (sint (TotalPeerCount conns - target)) = card (RemotePeer ` set conns) - nat (sint target)"
proof -
  let ?c = "card (RemotePeer ` set conns)"
  have "?c \<le> length conns" by (metis card_image_le card_length finite_set order_trans)
  then have "?c < 2 ^ 63" using assms(1) by (rule order.strict_trans1)
  then have c: "int ?c < 2 ^ 63" by (simp only: of_nat_less_iff [where ?'a = int, symmetric]) simp
  have "TotalPeerCount conns - target = word_of_int (int ?c - sint target)"
    by (simp add: TotalPeerCount_def length_peer_set)
  moreover have "- (2 ^ 63) \<le> int ?c - sint target" "int ?c - sint target < 2 ^ 63"
    using c assms(2) sint_range_64 [of target] by linarith+
  ultimately have "sint (TotalPeerCount conns - target) = int ?c - sint target"
    by (simp only: sint_word_of_int_64)
  then show ?thesis using assms(2) by (simp add: nat_diff_distrib')
qed

lemma prune_take:
  assumes "\<forall>pid. peer_get (gs_peerScore gs) pid \<noteq> NaN" and "0 \<le> sint (TargetPeerCount (gs_host gs))"
    and "length conns < 2 ^ 63"
    and "pairs = sort_pairs (visit ord (peer_scores (gs_peerScore gs) conns))"
  shows "prune ord gs (Some (conns, conns)) =
    map fst (take (max (card (RemotePeer ` set conns) - nat (sint (TargetPeerCount (gs_host gs))))
                       (card {p \<in> RemotePeer ` set conns. isBadPeer (gs_peerScore gs) p})) pairs)"
proof -
  let ?bad = "card {p \<in> RemotePeer ` set conns. isBadPeer (gs_peerScore gs) p}"
  have "\<forall>j < length pairs. isBadPeer (gs_peerScore gs) (fst (pairs ! j)) \<longleftrightarrow> j < ?bad"
    using bad_first [OF assms(1,4)] by blast
  from close_peers_take [OF this, of "TotalPeerCount conns - TargetPeerCount (gs_host gs)" 0]
  show ?thesis
    by (simp only: prune_def Let_def option.case prod.case assms(4) [symmetric] excess_value [OF assms(3,2)] diff_zero)
qed

section \<open>Properties\<close>

text \<open>
  C5: Pruning closes the right peers. With scores that are numbers and a target that is not
  negative: every closed peer is connected and closed once; every connected bad peer is closed;
  no closed peer has a better score than one that is kept; exactly as many are closed as the
  excess over the target demands, or all bad ones when these are more; so at most the target
  remains.
\<close>

theorem prune_correct:
  fixes gs :: "('r, 'n) GossipSub"
  assumes "\<forall>pid. peer_get (gs_peerScore gs) pid \<noteq> NaN" and "0 \<le> sint (TargetPeerCount (gs_host gs))"
    and "length conns < 2 ^ 63"
  shows "let closed = prune ord gs (Some (conns, conns)); peers = RemotePeer ` set conns;
             target = nat (sint (TargetPeerCount (gs_host gs)));
             bad = {p \<in> peers. isBadPeer (gs_peerScore gs) p}
    in distinct closed \<and> set closed \<subseteq> peers \<and> bad \<subseteq> set closed \<and>
       (\<forall>p \<in> set closed. \<forall>q \<in> peers - set closed.
          \<not> peer_get (gs_peerScore gs) q < peer_get (gs_peerScore gs) p) \<and>
       length closed = max (card peers - target) (card bad) \<and> card (peers - set closed) \<le> target"
proof -
  let ?ps = "gs_peerScore gs" and ?peers = "RemotePeer ` set conns"
  let ?target = "nat (sint (TargetPeerCount (gs_host gs)))" and ?bad = "{p \<in> ?peers. isBadPeer ?ps p}"
  define pairs where "pairs = sort_pairs (visit ord (peer_scores ?ps conns))"
  define k where "k = max (card ?peers - ?target) (card ?bad)"
  note sorted = sorted_peers [OF assms(1) pairs_def]
  have closed: "prune ord gs (Some (conns, conns)) = map fst (take k pairs)"
    unfolding k_def by (rule prune_take [OF assms pairs_def])
  have n: "length pairs = card ?peers" using sorted(2,3) by (metis distinct_card length_map)
  have k: "k \<le> length pairs" unfolding n k_def by (simp add: card_mono)
  have kept: "?peers - set (map fst (take k pairs)) = set (map fst (drop k pairs))"
  proof -
    have "map fst pairs = map fst (take k pairs) @ map fst (drop k pairs)" by (simp flip: map_append)
    then show ?thesis using sorted(2) unfolding sorted(3) [symmetric] by (simp only: distinct_append set_append) blast
  qed
  have "?bad \<subseteq> set (map fst (take k pairs))"
  proof
    fix p
    assume p: "p \<in> ?bad"
    then obtain j where j: "j < length pairs" "p = fst (pairs ! j)"
      using sorted(3) by (metis (no_types, lifting) in_set_conv_nth length_map mem_Collect_eq nth_map)
    with p have "j < k" using bad_first [OF assms(1) pairs_def j(1)] by (simp add: k_def less_max_iff_disj)
    then have "pairs ! j \<in> set (take k pairs)" using j(1) k by (metis in_set_conv_nth length_take min.absorb2 nth_take)
    then show "p \<in> set (map fst (take k pairs))" using j(2) by simp
  qed
  moreover have "\<not> peer_get ?ps q < peer_get ?ps p"
    if mem: "p \<in> set (map fst (take k pairs))" "q \<in> set (map fst (drop k pairs))" for p q
  proof -
    obtain x y where xy: "x \<in> set (take k pairs)" "p = fst x" "y \<in> set (drop k pairs)" "q = fst y"
      using mem unfolding list.set_map by blast
    have "ascending (take k pairs @ drop k pairs)" using sorted(1) by simp
    then have "\<not> snd y < snd x" using xy(1,3) unfolding sorted_wrt_append by blast
    then show ?thesis using sorted(4) xy by (metis in_set_takeD in_set_dropD)
  qed
  moreover have "card (set (map fst (drop k pairs))) \<le> ?target"
  proof -
    have "card (set (map fst (drop k pairs))) \<le> length pairs - k"
      by (metis card_length length_drop length_map)
    then show ?thesis unfolding n k_def by linarith
  qed
  moreover have "distinct (map fst (take k pairs))" using sorted(2) by (simp add: distinct_take flip: take_map)
  moreover have "set (map fst (take k pairs)) \<subseteq> ?peers"
    using sorted(3) by (metis list.set_map image_mono set_take_subset)
  ultimately show ?thesis
    using k by (simp only: Let_def closed kept) (auto simp: k_def)
qed

definition sample_conns :: "connection list" where
  "sample_conns = map (\<lambda>p. \<lparr> RemotePeer = p, Direction = DirInbound \<rparr>) [''a'', ''b'', ''c'', ''a'']"

theorem prune_correct_witness:
  "(let gs = sample_gossip\<lparr>gs_host := \<lparr> libp2p_Host = 0, host_targetPeers = 2 \<rparr>,
               gs_peerScore := peer_inspect sample_score [(''c'', \<lparr> Score = Fin (- 200) \<rparr>)]\<rparr>
    in prune as_stored gs (Some (sample_conns, sample_conns)) = [''c''] \<and>
       card (RemotePeer ` set sample_conns - set (prune as_stored gs (Some (sample_conns, sample_conns)))) \<le> 2)"
proof -
  let ?gs = "sample_gossip\<lparr>gs_host := \<lparr> libp2p_Host = 0, host_targetPeers = 2 \<rparr>,
               gs_peerScore := peer_inspect sample_score [(''c'', \<lparr> Score = Fin (- 200) \<rparr>)]\<rparr>"
  have get: "peer_get (peer_inspect sample_score [(''c'', \<lparr> Score = Fin (- 200) \<rparr>)]) pid = (if pid = ''c'' then Fin (- 200) else Fin 0)" for pid
    by (simp add: peer_get_def peer_inspect_def zero_float64_def)
  have "prune as_stored ?gs (Some (sample_conns, sample_conns)) = [''c'']"
    by (simp add: prune_def sample_conns_def peer_scores_def score_conn_def get sort_pairs_def Let_def
        TotalPeerCount_def peer_set_def TargetPeerCount_def isBadPeer_def gossipThreshold_def)
  moreover have "\<forall>pid. peer_get (gs_peerScore ?gs) pid \<noteq> NaN" by (simp add: get)
  ultimately show ?thesis
    using prune_correct [of ?gs sample_conns as_stored]
    by (simp add: Let_def TargetPeerCount_def sample_conns_def)
qed

end
