(* ===== verification/Gossip_Properties.thy ===== *)
theory Gossip_Properties
  imports Gossip_Sub
begin

text \<open>
  Properties of the gossip service: the generated topic names, the outcomes of the constructor
  and of the service's set-up, and the subscription loop.
\<close>

section \<open>Reference: the topics of a network\<close>

text \<open>The suffixes of the topics with the given position in the list of names: one per subnet, or one empty.\<close>

definition subnet_suffixes :: "BeaconChainConfig \<Rightarrow> nat \<Rightarrow> string list" where
  "subnet_suffixes cfg i =
     (if i = 1 then map (\<lambda>k. ''_'' @ decimal k) [0..<unat (BlobsidecarSubnetCount cfg)]
      else if i = 3 then map (\<lambda>k. ''_'' @ decimal k) [0..<unat (AttestationSubnetCount cfg)]
      else if i = 5 then map (\<lambda>k. ''_'' @ decimal k) [0..<unat (SyncCommitteeSubnetCount cfg)]
      else [[]])"

definition topics_at :: "p2p_names \<Rightarrow> BeaconChainConfig \<Rightarrow> byte list \<Rightarrow> nat \<Rightarrow> string list" where
  "topics_at n cfg digest i =
     map (\<lambda>sub. gossip_topic (hex_bytes digest) (handler_names n ! i @ sub)) (subnet_suffixes cfg i)"

definition network_topics :: "p2p_names \<Rightarrow> BeaconChainConfig \<Rightarrow> byte list \<Rightarrow> string list" where
  "network_topics n cfg digest = concat (map (topics_at n cfg digest) [0..<10])"

text \<open>
  Documented form of the formats: \<^verbatim>\<open>/eth2/%x/<name>\<close>, followed by \<^verbatim>\<open>_%d\<close> for the three that have
  subnets; names have no percent sign, and the suffix is the encoding's.
\<close>

definition topic_format :: "p2p_names \<Rightarrow> nat \<Rightarrow> string" where
  "topic_format n i = ''/eth2/%x/'' @ handler_names n ! i @ (if i \<in> {1, 3, 5} then ''_%d'' else [])"

definition formats_ok :: "('m, 'z) gossip_lib \<Rightarrow> bool" where
  "formats_ok lib \<longleftrightarrow> raw_topics (gl_formats lib) = map (topic_format (gl_names lib)) [0..<10] \<and>
     distinct (raw_topics (gl_formats lib)) \<and> list_all (\<lambda>m. CHR ''%'' \<notin> set m) (handler_names (gl_names lib)) \<and>
     gl_suffix lib = ''ssz_snappy''"

section \<open>Lemmas\<close>

subsection \<open>Formatting\<close>

lemma Sprintf_literal: "CHR ''%'' \<notin> set s \<Longrightarrow> Sprintf (s @ t) args = s @ Sprintf t args"
  by (induction s) auto

lemma subnet_suffix_chars: "sub \<in> set (subnet_suffixes cfg i) \<Longrightarrow> set sub \<subseteq> set ''_0123456789''"
  by (auto simp: subnet_suffixes_def split: if_splits dest!: subsetD [OF digits_of_decimal])

lemma Sprintf_topic:
  assumes "CHR ''%'' \<notin> set name"
  shows "Sprintf (''/eth2/%x/'' @ name) [ArgBytes d] = ''/eth2/'' @ hex_bytes d @ ''/'' @ name"
    and "Sprintf (''/eth2/%x/'' @ name @ ''_%d'') [ArgBytes d, ArgUint k] =
           ''/eth2/'' @ hex_bytes d @ ''/'' @ name @ ''_'' @ decimal k"
  using Sprintf_literal [OF assms, of "[]" "[]"] Sprintf_literal [OF assms, of "''_%d''" "[ArgUint k]"] by simp_all

subsection \<open>Generated topics\<close>

lemma raw_topics_nth: "formats_ok lib \<Longrightarrow> i < 10 \<Longrightarrow> raw_topics (gl_formats lib) ! i = topic_format (gl_names lib) i"
  by (simp add: formats_ok_def)

lemma subnets_of_format:
  assumes "formats_ok lib" and "i < 10"
  shows "subnets_of cfg (gl_formats lib) (topic_format (gl_names lib) i) =
    (if i = 1 then (BlobsidecarSubnetCount cfg, True)
     else if i = 3 then (AttestationSubnetCount cfg, True)
     else if i = 5 then (SyncCommitteeSubnetCount cfg, True) else (0, False))"
proof -
  let ?r = "raw_topics (gl_formats lib)"
  have at: "BlobSubnetTopicFormat (gl_formats lib) = ?r ! 1" "AttestationSubnetTopicFormat (gl_formats lib) = ?r ! 3"
    "SyncCommitteeSubnetTopicFormat (gl_formats lib) = ?r ! 5"
    by (simp_all add: raw_topics_def)
  have len: "length ?r = 10" by (simp add: raw_topics_def)
  have "distinct ?r" using assms(1) unfolding formats_ok_def by blast
  then have eq: "?r ! i = ?r ! k \<longleftrightarrow> i = k" if "k < 10" for k
    using assms(2) that len by (simp only: nth_eq_iff_index_eq)
  show ?thesis
    unfolding subnets_of_def raw_topics_nth [OF assms, symmetric] at by (simp add: eq)
qed

lemma topics_of_format:
  assumes "formats_ok lib" and "GetBeaconChainConfig prm st = Returns cfg" and "i < 10"
  shows "topics_of lib prm st digest (topic_format (gl_names lib) i) = Returns (topics_at (gl_names lib) cfg digest i)"
proof -
  have "handler_names (gl_names lib) ! i \<in> set (handler_names (gl_names lib))"
    using assms(3) by (intro nth_mem) (simp add: handler_names_def)
  then have name: "CHR ''%'' \<notin> set (handler_names (gl_names lib) ! i)" and suffix: "gl_suffix lib = ''ssz_snappy''"
    using assms(1) by (auto simp: formats_ok_def list_all_iff)
  define nm where "nm = handler_names (gl_names lib) ! i"
  note sprintf = Sprintf_topic [OF name, folded nm_def]
  have run: "topics_of lib prm st digest (topic_format (gl_names lib) i) = Returns
      (if i = 1 then map (\<lambda>k. gossip_topic (hex_bytes digest) (nm @ ''_'' @ decimal k)) [0..<unat (BlobsidecarSubnetCount cfg)]
       else if i = 3 then map (\<lambda>k. gossip_topic (hex_bytes digest) (nm @ ''_'' @ decimal k)) [0..<unat (AttestationSubnetCount cfg)]
       else if i = 5 then map (\<lambda>k. gossip_topic (hex_bytes digest) (nm @ ''_'' @ decimal k)) [0..<unat (SyncCommitteeSubnetCount cfg)]
       else [gossip_topic (hex_bytes digest) nm])"
    unfolding topics_of_def HasSubnets_def assms(2) and_then.simps subnets_of_format [OF assms(1,3)]
    unfolding topic_format_def suffix gossip_topic_def nm_def [symmetric]
    by (simp add: for_range_def sprintf del: append.simps Sprintf.simps)
  show ?thesis
    unfolding run topics_at_def subnet_suffixes_def by (simp add: nm_def)
qed


lemma all_topics_formats:
  assumes "formats_ok lib" and "GetBeaconChainConfig prm st = Returns cfg" and "\<forall>i \<in> set ks. i < 10"
  shows "all_topics lib prm st digest (map (topic_format (gl_names lib)) ks) =
    Returns (concat (map (topics_at (gl_names lib) cfg digest) ks))"
  using assms(3) by (induction ks) (simp_all add: topics_of_format [OF assms(1,2)])

lemma all_topics_network:
  assumes "formats_ok lib" and "GetBeaconChainConfig prm st = Returns cfg"
  shows "all_topics lib prm st digest (raw_topics (gl_formats lib)) =
    Returns (network_topics (gl_names lib) cfg digest)"
proof -
  have "raw_topics (gl_formats lib) = map (topic_format (gl_names lib)) [0..<10]"
    using assms(1) unfolding formats_ok_def by blast
  then show ?thesis
    using all_topics_formats [OF assms, of "[0..<10]"] by (simp add: network_topics_def del: upt_rec_numeral)
qed

lemma in_network_topics:
  "t \<in> set (network_topics n cfg digest) \<longleftrightarrow>
     (\<exists>i < 10. \<exists>sub \<in> set (subnet_suffixes cfg i). t = gossip_topic (hex_bytes digest) (handler_names n ! i @ sub))"
  by (auto simp: network_topics_def topics_at_def simp del: upt_rec_numeral)

lemma length_network_topics:
  "length (network_topics n cfg digest) =
     7 + unat (BlobsidecarSubnetCount cfg) + unat (AttestationSubnetCount cfg) + unat (SyncCommitteeSubnetCount cfg)"
proof -
  have "[0..<10] = [0, 1, 2, 3, 4, 5, 6, 7, 8, 9 :: nat]" by code_simp
  then show ?thesis by (simp add: network_topics_def topics_at_def subnet_suffixes_def)
qed

subsection \<open>The names are distinct\<close>

lemma char_of_digit:
  assumes "(m :: nat) < 10" and "n < 10"
  shows "char_of (48 + m) = char_of (48 + n) \<longleftrightarrow> m = n"
proof -
  have "of_char (char_of (48 + k)) = 48 + k" if "k < 10" for k :: nat using that by simp
  then show ?thesis using assms by (metis add_left_cancel)
qed

lemma decimal_inject: "decimal m = decimal n \<longleftrightarrow> m = n"
proof (induction m arbitrary: n rule: decimal.induct)
  case (1 m)
  have ne: "decimal k \<noteq> []" for k by (subst decimal.simps) simp
  show ?case
  proof (cases "m < 10 \<or> n < 10")
    case True
    then show ?thesis
      by (subst (1 2) decimal.simps) (auto simp: char_of_digit ne ne [symmetric])
  next
    case False
    then have "decimal (m div 10) = decimal (n div 10) \<longleftrightarrow> m div 10 = n div 10" using 1 by blast
    then show ?thesis
      using False by (subst (1 2) decimal.simps) (auto simp: char_of_digit, metis div_mod_decomp)
  qed
qed

lemma distinct_suffixes: "distinct (subnet_suffixes cfg i)"
  by (simp add: subnet_suffixes_def distinct_map inj_on_def decimal_inject)

lemma gossip_topic_inject:
  assumes "names_ok (handler_names n)" and "length digest \<le> 10" and "i < 10" and "j < 10"
    and "set sub \<subseteq> set ''_0123456789''" and "set sub' \<subseteq> set ''_0123456789''"
    and "gossip_topic digest (handler_names n ! i @ sub) = gossip_topic digest (handler_names n ! j @ sub')"
  shows "i = j \<and> sub = sub'"
proof -
  have len: "length (handler_names n) = 10" by (simp add: handler_names_def)
  note mi = gossip_first_match [OF assms(1) _ assms(2,5), of i]
    and mj = gossip_first_match [OF assms(1) _ assms(2,6), of j]
  have "\<not> i < j" "\<not> j < i" using mi mj assms(3,4,7) len by metis+
  then have "i = j" by simp
  with assms(7) show ?thesis by (simp add: gossip_topic_def)
qed

lemma distinct_network_topics:
  assumes "names_ok (handler_names n)" and "length digest = 4"
  shows "distinct (network_topics n cfg digest)"
proof -
  have len: "length (hex_bytes digest) \<le> 10" using assms(2) by (simp add: length_hex_bytes)
  note inject = gossip_topic_inject [OF assms(1) len]
  have at: "distinct (topics_at n cfg digest i)" if "i < 10" for i
    unfolding topics_at_def distinct_map
    using distinct_suffixes inject [OF that that] subnet_suffix_chars [of _ cfg i] by (auto intro!: inj_onI)
  have apart: "set (topics_at n cfg digest i) \<inter> set (topics_at n cfg digest j) = {}" if "i < 10" "j < 10" "i \<noteq> j" for i j
    using inject [OF that(1,2)] that(3) subnet_suffix_chars unfolding topics_at_def by fastforce
  have "distinct (concat (map (topics_at n cfg digest) ks))" if "distinct ks" "set ks \<subseteq> {..<10}" for ks
    using that
  proof (induction ks)
    case (Cons k ks)
    have "set (topics_at n cfg digest k) \<inter> set (concat (map (topics_at n cfg digest) ks)) = {}"
      using Cons.prems apart by fastforce
    with Cons at [of k] show ?case by simp
  qed simp
  moreover have "set [0..<10] \<subseteq> {..<10 :: nat}" by auto
  ultimately show ?thesis unfolding network_topics_def using distinct_upt by blast
qed


subsection \<open>Construction and set-up\<close>

abbreviation applied :: "('r, 'n) GossipSubOptionFunc list \<Rightarrow> ('r, 'n) GossipSubOption" where
  "applied opts \<equiv> fold (\<lambda>opt. opt) opts default_GossipSubOption"

lemma NewGossipSub_topics:
  assumes "NewGossipSub lib prm st now opts = Returns gs" and "go_topics (applied opts) = []"
    and "formats_ok lib" and "GetBeaconChainConfig prm st = Returns cfg"
  obtains gen digest where "GetGenesisConfig prm st = Returns gen"
    and "gl_CreateForkDigest lib (GenesisTime gen) (GenesisValidatorRoot gen) = Inr digest"
    and "gs_topics gs = network_topics (gl_names lib) cfg digest" and "ps_topics (gs_peerScore gs) = gs_topics gs"
  using assms(1,2) all_topics_network [OF assms(3,4)]
  by (auto simp: NewGossipSub_def Let_def newPeerScore_def split: option.splits if_splits)

text \<open>A topic can be served when it can be joined and subscribed to.\<close>

definition joinable :: "('m, 'z) gossip_lib \<Rightarrow> string \<Rightarrow> bool" where
  "joinable lib t \<longleftrightarrow> gl_Join lib t = None \<and> gl_Subscribe lib t = None"

definition join_error :: "('m, 'z) gossip_lib \<Rightarrow> string \<Rightarrow> error" where
  "join_error lib t =
     (case gl_Join lib t of
        Some err \<Rightarrow> ErrWrap err (''failed to join topic '' @ t)
      | None \<Rightarrow> ErrWrap (the (gl_Subscribe lib t)) (''failed to subscribe topic '' @ t))"

definition service_of :: "p2p_names \<Rightarrow> string \<Rightarrow> string \<Rightarrow> ('r, 'n) Subscription" where
  "service_of n hostID t = newSubscription hostID t (mappingTopicToHandler n t)"

lemma join_topics_result:
  "join_topics lib hostID topics svcs =
     (svcs @ map (service_of (gl_names lib) hostID) (takeWhile (joinable lib) topics),
      map_option (join_error lib) (find (\<lambda>t. \<not> joinable lib t) topics))"
  by (induction topics arbitrary: svcs)
    (auto simp: joinable_def join_error_def service_of_def split: option.splits)

text \<open>What a subscription handles: the messages before the first stop that come from other peers.\<close>

fun accepted :: "string \<Rightarrow> (env \<times> sub_event) list \<Rightarrow> (env \<times> pubsub_message) list" where
  "accepted hostID ((e, NextMessage (Inr msg)) # events) =
     (if ReceivedFrom msg = hostID then accepted hostID events else (e, msg) # accepted hostID events)"
| "accepted hostID events = []"

fun stop_reason :: "(env \<times> sub_event) list \<Rightarrow> serve_status" where
  "stop_reason [] = Listening"
| "stop_reason ((e, ContextDone) # events) = Stopped_with None"
| "stop_reason ((e, NextMessage (Inl err)) # events) =
     Stopped_with (Some (ErrWrap err ''failed to get next gossip subscription message''))"
| "stop_reason ((e, NextMessage (Inr msg)) # events) = stop_reason events"

text \<open>The state after a message: the handler's, or the old one when it fails.\<close>

definition keep_on_error :: "'a \<Rightarrow> 'a outcome \<Rightarrow> 'a" where
  "keep_on_error x r = (case r of Returns y \<Rightarrow> y | _ \<Rightarrow> x)"

lemma subscription_fold:
  assumes "\<forall>e g msg. I g \<longrightarrow> P msg \<longrightarrow> (\<forall>p. sub_handler s lib e g msg \<noteq> Panics p) \<and>
      (\<forall>g'. sub_handler s lib e g msg = Returns g' \<longrightarrow> I g')"
    and "I gs" and "\<forall>(e, msg) \<in> set (accepted (sub_hostID s) events). P msg"
  shows "subscription_Serve lib s events gs =
    Returns (fold (\<lambda>(e, msg) g. keep_on_error g (sub_handler s lib e g msg)) (accepted (sub_hostID s) events) gs,
             stop_reason events)"
  using assms(2,3)
proof (induction events arbitrary: gs rule: stop_reason.induct)
  case (4 e msg events)
  show ?case
  proof (cases "ReceivedFrom msg = sub_hostID s")
    case True
    with 4 show ?thesis by simp
  next
    case False
    then have "P msg" using "4.prems"(2) by simp
    then have handled: "\<forall>p. sub_handler s lib e gs msg \<noteq> Panics p" "\<forall>g'. sub_handler s lib e gs msg = Returns g' \<longrightarrow> I g'"
      using assms(1) "4.prems"(1) by blast+
    have I: "I (keep_on_error gs (sub_handler s lib e gs msg))"
      using handled "4.prems"(1) by (simp add: keep_on_error_def split: outcome.split)
    from "4.IH" [OF I] "4.prems"(2) False handled(1) show ?thesis
      by (cases "sub_handler s lib e gs msg") (simp_all add: keep_on_error_def)
  qed
qed simp_all

subsection \<open>The handlers do not panic\<close>

definition ready :: "('r, 'n) GossipSub \<Rightarrow> bool" where
  "ready gs \<longleftrightarrow> (\<exists>p. gs_messageProcessor gs = Some p \<and> bp_extractors p = newSlotExtractorRegistry \<and> bp_peerCounter p)"

lemma Process_ready:
  assumes "bp_extractors p = newSlotExtractorRegistry" and "bp_peerCounter p"
    and "parseEth2Topic (msg_Topic msg) = Returns ft"
    and "\<forall>m. DecodeGossip lib (msg_Data msg) dst = Inr m \<longrightarrow> carried_slot m \<noteq> Carries None"
  shows "Process lib e p msg dst \<noteq> Panics q"
    and "Process lib e p msg dst = Returns p' \<Longrightarrow> bp_extractors p' = newSlotExtractorRegistry \<and> bp_peerCounter p'"
proof -
  have "Process lib e p msg dst \<noteq> Panics q \<and>
      (Process lib e p msg dst = Returns p' \<longrightarrow> bp_extractors p' = newSlotExtractorRegistry \<and> bp_peerCounter p')"
  proof (cases "DecodeGossip lib (msg_Data msg) dst")
    case (Inr m)
    then have "carried_slot m \<noteq> Carries None" using assms(4) by blast
    with Inr show ?thesis
      using assms(1-3)
      by (cases "carried_slot m")
        (auto simp: Process_unfold extract_reference processSlotMessageMetadata_def slot_record_def
          newSlotMetadata_def newGeneralMetadata_def
          processGeneralMessageMetadata_def node_peer_count_def Let_def split: option.split prod.splits)
  qed (simp add: Process_unfold)
  then show "Process lib e p msg dst \<noteq> Panics q"
    and "Process lib e p msg dst = Returns p' \<Longrightarrow> bp_extractors p' = newSlotExtractorRegistry \<and> bp_peerCounter p'"
    by blast+
qed

lemma process_as_ready:
  assumes "ready gs" and "parseEth2Topic (msg_Topic msg) = Returns ft"
    and "\<forall>m. DecodeGossip lib (msg_Data msg) dst = Inr m \<longrightarrow> carried_slot m \<noteq> Carries None"
  shows "process_as text dst lib e gs msg \<noteq> Panics q" and "process_as text dst lib e gs msg = Returns gs' \<Longrightarrow> ready gs'"
proof -
  obtain p where p: "gs_messageProcessor gs = Some p" "bp_extractors p = newSlotExtractorRegistry" "bp_peerCounter p"
    using assms(1) unfolding ready_def by blast
  note ok = Process_ready [OF p(2,3) assms(2,3)]
  show "process_as text dst lib e gs msg \<noteq> Panics q"
    using ok(1) by (cases "Process lib e p msg dst") (simp_all add: process_as_def p(1))
  show "process_as text dst lib e gs msg = Returns gs' \<Longrightarrow> ready gs'"
    using ok(2) by (auto simp: process_as_def p(1) ready_def)
qed

text \<open>A handler decodes and processes the message, rejects it, or leaves the state alone.\<close>

definition shaped :: "('r, 'n) GossipSub outcome \<Rightarrow> processor_lib \<Rightarrow> env \<Rightarrow> ('r, 'n) GossipSub \<Rightarrow> pubsub_message \<Rightarrow> bool" where
  "shaped r lib e gs msg \<longleftrightarrow>
     (\<exists>text dst. r = process_as text dst lib e gs msg) \<or> (\<exists>text. r = Fails (ErrNew text)) \<or> r = Returns gs"

definition shaped_handler :: "('r, 'n) TopicHandler \<Rightarrow> bool" where
  "shaped_handler h \<longleftrightarrow> (\<forall>lib e gs msg. shaped (h lib e gs msg) lib e gs msg)"

lemma shaped_intros:
  "shaped (process_as text dst lib e gs msg) lib e gs msg"
  "shaped (Fails (ErrNew text)) lib e gs msg"
  "shaped (Returns gs) lib e gs msg"
  "shaped r lib e gs msg \<Longrightarrow> shaped r' lib e gs msg \<Longrightarrow> shaped (if b then r else r') lib e gs msg"
  by (auto simp: shaped_def)

lemma shaped_handler_if: "shaped_handler h \<Longrightarrow> shaped_handler h' \<Longrightarrow> shaped_handler (if b then h else h')"
  by simp

lemma handlers_shaped:
  "shaped_handler beaconBlockHandler" "shaped_handler blobSidecarHandler"
  "shaped_handler beaconAggregateAndProofHandler" "shaped_handler beaconAttestationHandler"
  "shaped_handler syncCommitteeContributionAndProofHandler" "shaped_handler syncCommitteeHandler"
  "shaped_handler proposerSlashingHandler" "shaped_handler attesterSlashingHandler"
  "shaped_handler blsToExecutionChangeHandler" "shaped_handler voluntaryExitHandler" "shaped_handler noopHandler"
  unfolding shaped_handler_def handler_defs noopHandler_def by (intro allI shaped_intros)+

lemma mapping_shaped: "shaped_handler (mappingTopicToHandler n t)"
  unfolding mappingTopicToHandler_def by (intro shaped_handler_if handlers_shaped)

lemma handler_ready:
  assumes "ready gs" and "parseEth2Topic (msg_Topic msg) = Returns ft"
    and "\<forall>dst m. DecodeGossip lib (msg_Data msg) dst = Inr m \<longrightarrow> carried_slot m \<noteq> Carries None"
  shows "(\<forall>q. mappingTopicToHandler n t lib e gs msg \<noteq> Panics q) \<and>
    (\<forall>gs'. mappingTopicToHandler n t lib e gs msg = Returns gs' \<longrightarrow> ready gs')"
proof -
  have "shaped (mappingTopicToHandler n t lib e gs msg) lib e gs msg"
    using mapping_shaped unfolding shaped_handler_def by blast
  then consider why dst where "mappingTopicToHandler n t lib e gs msg = process_as why dst lib e gs msg"
    | why where "mappingTopicToHandler n t lib e gs msg = Fails (ErrNew why)"
    | "mappingTopicToHandler n t lib e gs msg = Returns gs"
    unfolding shaped_def by blast
  then show ?thesis
  proof cases
    case (1 why dst)
    have "\<forall>m. DecodeGossip lib (msg_Data msg) dst = Inr m \<longrightarrow> carried_slot m \<noteq> Carries None" using assms(3) by blast
    from process_as_ready [OF assms(1,2) this, of why e] show ?thesis unfolding 1 by blast
  qed (use assms(1) in simp_all)
qed

section \<open>Properties\<close>

text \<open>
  C12: The topics of a network. When no topics are given, the service gets, in the order of
  the ten message kinds, one topic for each kind without subnets and one for each subnet of the
  others, each made of the fork digest, the message's name, the subnet number and the encoding;
  all names differ, and the peer scoring gets the same topics. The hypotheses are the documented
  form of Prysm's formats and names, and that a fork digest has four bytes.
\<close>

theorem topics_generated:
  fixes gs :: "('r, 'n) GossipSub"
  assumes "NewGossipSub lib prm st now opts = Returns gs" and "go_topics (fold (\<lambda>opt. opt) opts default_GossipSubOption) = []"
    and "formats_ok lib" and "names_ok (handler_names (gl_names lib))"
    and "\<forall>t root d. gl_CreateForkDigest lib t root = Inr d \<longrightarrow> length d = 4"
    and "GetBeaconChainConfig prm st = Returns cfg"
  shows "\<exists>gen digest. GetGenesisConfig prm st = Returns gen \<and>
      gl_CreateForkDigest lib (GenesisTime gen) (GenesisValidatorRoot gen) = Inr digest \<and>
      gs_topics gs = network_topics (gl_names lib) cfg digest \<and> ps_topics (gs_peerScore gs) = gs_topics gs \<and>
      distinct (gs_topics gs) \<and>
      length (gs_topics gs) = 7 + unat (BlobsidecarSubnetCount cfg) + unat (AttestationSubnetCount cfg) +
        unat (SyncCommitteeSubnetCount cfg)"
  using assms(1,2,3,6)
proof (rule NewGossipSub_topics)
  fix gen digest
  assume gen: "GetGenesisConfig prm st = Returns gen"
    and digest: "gl_CreateForkDigest lib (GenesisTime gen) (GenesisValidatorRoot gen) = Inr digest"
    and topics: "gs_topics gs = network_topics (gl_names lib) cfg digest" "ps_topics (gs_peerScore gs) = gs_topics gs"
  have "length digest = 4" using assms(5) digest by blast
  then show ?thesis
    using gen digest topics distinct_network_topics [OF assms(4)] length_network_topics [of "gl_names lib" cfg digest]
    by (intro exI [of _ gen] exI [of _ digest]) simp
qed


definition sample_formats :: p2p_formats where
  "sample_formats =
     \<lparr> BlockSubnetTopicFormat = ''/eth2/%x/beacon_block'', BlobSubnetTopicFormat = ''/eth2/%x/blob_sidecar_%d'',
       AggregateAndProofSubnetTopicFormat = ''/eth2/%x/beacon_aggregate_and_proof'',
       AttestationSubnetTopicFormat = ''/eth2/%x/beacon_attestation_%d'',
       SyncContributionAndProofSubnetTopicFormat = ''/eth2/%x/sync_committee_contribution_and_proof'',
       SyncCommitteeSubnetTopicFormat = ''/eth2/%x/sync_committee_%d'',
       ProposerSlashingSubnetTopicFormat = ''/eth2/%x/proposer_slashing'',
       AttesterSlashingSubnetTopicFormat = ''/eth2/%x/attester_slashing'',
       BlsToExecutionChangeSubnetTopicFormat = ''/eth2/%x/bls_to_execution_change'',
       ExitSubnetTopicFormat = ''/eth2/%x/voluntary_exit'' \<rparr>"

definition sample_gossip_lib :: "(nat, unit) gossip_lib" where
  "sample_gossip_lib =
     \<lparr> gl_CreateForkDigest = (\<lambda>t root. Inr [106, 149, 161, 169]), gl_suffix = ''ssz_snappy'',
       gl_formats = sample_formats, gl_names = sample_names, gl_MsgID = (\<lambda>root m. ''id''),
       gl_MaxCompressedLen = (\<lambda>n. 32 + n + n div 6),
       gl_DefaultGossipSubParams =
         \<lparr> D = 6, Dlo = 5, Dhi = 12, HistoryLength = 5, HistoryGossip = 3, HeartbeatInterval = second \<rparr>,
       gl_New = (\<lambda>g size prms thr. None),
       gl_Join = (\<lambda>t. if t = ''/eth2/6a95a1a9/sync_committee_0/ssz_snappy'' then Some (ErrNew ''exists'') else None),
       gl_Subscribe = (\<lambda>t. None) \<rparr>"

lemma sample_formats_ok: "formats_ok sample_gossip_lib"
  by (simp add: formats_ok_def sample_gossip_lib_def raw_topics_def sample_formats_def topic_format_def
      handler_names_def sample_names_def upt_rec)

definition sample_options :: "(SlotMessageStats list list, nat) GossipSubOptionFunc list" where
  "sample_options =
     [gossip_WithHost (Some \<lparr> libp2p_Host = 0, host_targetPeers = 80 \<rparr>), gossip_WithEstimateActiveValidators 1000000]"

lemma sample_options_simps:
  "fold (\<lambda>opt. opt) sample_options default_GossipSubOption =
     default_GossipSubOption\<lparr>go_host := Some \<lparr> libp2p_Host = 0, host_targetPeers = 80 \<rparr>,
       go_estimateActiveValidators := 1000000\<rparr>"
  by (simp add: sample_options_def gossip_WithHost_def gossip_WithEstimateActiveValidators_def)

lemma sample_NewGossipSub:
  fixes opts :: "('r, 'n) GossipSubOptionFunc list"
  assumes "go_host (applied opts) = Some h" and "go_estimateActiveValidators (applied opts) \<noteq> 0"
    and "go_topics (applied opts) = []"
  shows "\<exists>gs. NewGossipSub sample_gossip_lib sample_params sample_eth now opts = Returns gs"
proof -
  note cfg = sample_eth_config
  obtain gen where gen: "GetGenesisConfig sample_params sample_eth = Returns gen"
    by (simp add: GetGenesisConfig_def GetNetwork_def sample_params_def sample_eth_def)
  have "\<exists>ver. fork_version_of sample_config ep = Returns ver" for ep
    by (simp add: fork_version_of_def array4_def sample_config_def)
  then obtain ver where ver: "GetCurrentForkVersion sample_params sample_eth now = Returns ver"
    unfolding GetCurrentForkVersion_def GetForkVersion_def gen cfg by auto
  have digest: "gl_CreateForkDigest sample_gossip_lib t root = Inr [106, 149, 161, 169]" for t root
    by (simp add: sample_gossip_lib_def)
  show ?thesis
    unfolding NewGossipSub_def using assms
    by (simp add: gen ver cfg Let_def all_topics_network [OF sample_formats_ok cfg] digest)
qed

theorem topics_generated_witness:
  "\<exists>gs. NewGossipSub sample_gossip_lib sample_params sample_eth (10 ^ 18) sample_options = Returns gs \<and>
     length (gs_topics gs) = 81 \<and> distinct (gs_topics gs)"
proof -
  have opts: "go_topics (applied sample_options) = []" "go_estimateActiveValidators (applied sample_options) \<noteq> 0"
    "go_host (applied sample_options) = Some \<lparr> libp2p_Host = 0, host_targetPeers = 80 \<rparr>"
    unfolding sample_options_simps by (simp_all add: default_GossipSubOption_def)
  obtain gs where gs: "NewGossipSub sample_gossip_lib sample_params sample_eth (10 ^ 18) sample_options = Returns gs"
    using sample_NewGossipSub [OF opts(3,2,1)] by blast
  have names: "names_ok (handler_names (gl_names sample_gossip_lib))"
    using sample_handler_names_ok by (simp add: sample_gossip_lib_def)
  have digest: "\<forall>t root d. gl_CreateForkDigest sample_gossip_lib t root = Inr d \<longrightarrow> length d = 4"
    by (simp add: sample_gossip_lib_def)
  from topics_generated [OF gs opts(1) sample_formats_ok names digest sample_eth_config] gs
  show ?thesis by (auto simp: sample_config_def)
qed

text \<open>
  The outcomes of the constructor. A nil host and a zero estimate are errors, whatever else
  is set; a fork digest error is wrapped and only arises when no topics are given; topics that
  are given are used as they are, in order, for the service and for the peer scoring, with the
  fork version of the current epoch and the options' other values.
\<close>

lemma NewGossipSub_outcome:
  fixes opts :: "('r, 'n) GossipSubOptionFunc list"
  defines "opt \<equiv> fold (\<lambda>opt. opt) opts default_GossipSubOption"
  shows "(go_host opt = None \<longrightarrow>
      NewGossipSub lib prm st now opts = Fails (ErrNew ''host must be configured when creating gossipSub'')) \<and>
    (\<forall>h. go_host opt = Some h \<longrightarrow>
      (if go_estimateActiveValidators opt = 0 then
         NewGossipSub lib prm st now opts =
           Fails (ErrNew ''number of estimate active validators must be more than 0 when creating gossipSub'')
       else if go_topics opt = [] then
         (\<forall>gen err. GetGenesisConfig prm st = Returns gen \<longrightarrow>
            gl_CreateForkDigest lib (GenesisTime gen) (GenesisValidatorRoot gen) = Inl err \<longrightarrow>
            NewGossipSub lib prm st now opts = Fails (ErrWrap err ''failed to create fork digest''))
       else
         (\<forall>ver cfg. GetCurrentForkVersion prm st now = Returns ver \<longrightarrow> GetBeaconChainConfig prm st = Returns cfg \<longrightarrow>
            (\<exists>gs. NewGossipSub lib prm st now opts = Returns gs \<and> gs_topics gs = go_topics opt \<and>
              ps_topics (gs_peerScore gs) = go_topics opt \<and> gs_host gs = h \<and> gs_forkVersion gs = ver \<and>
              gs_beaconConfig gs = cfg \<and> gs_messageProcessor gs = go_messageProcessor opt))))"
  by (auto simp: NewGossipSub_def opt_def [symmetric] Let_def newPeerScore_def)

text \<open>
  C14: The set-up of the service. Once the score parameters are built, either the router cannot
  be created, and nothing is added to the supervisor; or the topics are joined in order up to the
  first that cannot be joined or subscribed to: exactly the topics before it have a subscription,
  each with the handler of its name, and its error, naming it, is returned; the service waits
  without an error exactly when every topic was joined.
\<close>

theorem gossip_Serve_subscribes:
  fixes gs :: "('r, 'n) GossipSub"
  assumes "gossip_Serve lib prm st hostID gs svcs = Returns (gs', svcs', err)"
  shows "(svcs' = svcs \<and> (\<exists>e. err = Some (ErrWrap e ''failed to create gossipSub''))) \<or>
    (svcs' = svcs @ map (\<lambda>t. newSubscription hostID t (mappingTopicToHandler (gl_names lib) t))
                      (takeWhile (joinable lib) (gs_topics gs)) \<and>
     err = map_option (join_error lib) (find (\<lambda>t. \<not> joinable lib t) (gs_topics gs)) \<and>
     (err = None \<longleftrightarrow> list_all (joinable lib) (gs_topics gs)))"
proof -
  have none: "find (\<lambda>t. \<not> joinable lib t) ts = None \<longleftrightarrow> list_all (joinable lib) ts" for ts
    by (auto simp: find_None_iff list_all_iff)
  show ?thesis
    using assms
    by (auto simp: gossip_Serve_def Let_def join_topics_result none service_of_def [abs_def]
        split: option.splits prod.splits)
qed

lemma sample_gossip_Serve:
  "\<exists>gs' svcs'. gossip_Serve sample_gossip_lib sample_params sample_eth ''self'' sample_gossip [] =
     Returns (gs', svcs', Some (ErrWrap (ErrNew ''exists'')
       ''failed to join topic /eth2/6a95a1a9/sync_committee_0/ssz_snappy''))"
proof -
  obtain sp where "peer_params sample_names sample_params sample_eth sample_score =
     Returns ((sp, peer_thresholds), clamp_estimate sample_config sample_score)"
    using sample_peer_params by blast
  then show ?thesis
    by (simp add: gossip_Serve_def sample_eth_config sample_gossip_def sample_gossip_lib_def Let_def)
      (simp add: sample_score_def newPeerScore_def)
qed

theorem gossip_Serve_subscribes_witness:
  "\<exists>gs' svcs' err. gossip_Serve sample_gossip_lib sample_params sample_eth ''self'' sample_gossip [] =
     Returns (gs', svcs', Some err) \<and> map sub_topic svcs' = [''/eth2/6a95a1a9/beacon_attestation_0/ssz_snappy'']"
proof -
  obtain gs' svcs' where run: "gossip_Serve sample_gossip_lib sample_params sample_eth ''self'' sample_gossip [] =
     Returns (gs', svcs', Some (ErrWrap (ErrNew ''exists'')
       ''failed to join topic /eth2/6a95a1a9/sync_committee_0/ssz_snappy''))"
    using sample_gossip_Serve by blast
  from gossip_Serve_subscribes [OF run] run show ?thesis
    by (auto simp: sample_gossip_def sample_score_def newPeerScore_def joinable_def sample_gossip_lib_def
        newSubscription_def)
qed

text \<open>
  C28: The service cannot be started twice. When its topics include an attestation subnet and a
  sync committee subnet and the configuration has fewer than three sync committee members per
  subnet and slot (as on mainnet), then after any call of \<^verbatim>\<open>Serve\<close> that got past the score
  parameters, with or without an error, the next call panics: the first call overwrote the
  estimate of active validators.
\<close>

theorem gossip_restart_panics:
  fixes gs :: "('r, 'n) GossipSub"
  assumes "GetBeaconChainConfig prm st = Returns cfg" and "config_ok cfg"
    and "SyncCommitteeSize cfg div AttestationSubnetCount cfg div SlotsPerEpoch cfg < 3"
    and "topic \<in> set (ps_topics (gs_peerScore gs))" and "sync_subnet_topic (gl_names lib) topic"
    and "topic' \<in> set (ps_topics (gs_peerScore gs))" and "attestation_topic (gl_names lib) topic'"
    and "gossip_Serve lib prm st hostID gs svcs = Returns (gs', svcs', err)"
  shows "\<exists>p. gossip_Serve lib prm st hostID gs' svcs' = Panics p"
proof -
  obtain sp thr ps' where run: "peer_params (gl_names lib) prm st (gs_peerScore gs) = Returns ((sp, thr), ps')"
    and gs': "gs_peerScore gs' = ps'"
    using assms(8) by (auto simp: gossip_Serve_def Let_def split: option.splits prod.splits)
  obtain p where "peer_params (gl_names lib) prm st ps' = Panics p"
    using second_call_panics [OF assms(1,2,4-7,3) run] by blast
  then show ?thesis using assms(1) gs' by (simp add: gossip_Serve_def)
qed

theorem gossip_restart_panics_witness:
  "\<exists>gs' svcs' err p. gossip_Serve sample_gossip_lib sample_params sample_eth ''self'' sample_gossip [] = Returns (gs', svcs', err) \<and>
     gossip_Serve sample_gossip_lib sample_params sample_eth ''self'' gs' svcs' = Panics p"
proof -
  obtain gs' svcs' err where run:
    "gossip_Serve sample_gossip_lib sample_params sample_eth ''self'' sample_gossip [] = Returns (gs', svcs', err)"
    using sample_gossip_Serve by blast
  have names: "gl_names sample_gossip_lib = sample_names" by (simp add: sample_gossip_lib_def)
  have topics: "ps_topics (gs_peerScore sample_gossip) =
      [''/eth2/6a95a1a9/beacon_attestation_0/ssz_snappy'', ''/eth2/6a95a1a9/sync_committee_0/ssz_snappy'']"
    by (simp add: sample_gossip_def sample_score_def newPeerScore_def)
  have "\<exists>p. gossip_Serve sample_gossip_lib sample_params sample_eth ''self'' gs' svcs' = Panics p"
    by (rule gossip_restart_panics [OF sample_eth_config sample_config_ok _ _ _ _ _ run,
          where topic = "''/eth2/6a95a1a9/sync_committee_0/ssz_snappy''"
            and topic' = "''/eth2/6a95a1a9/beacon_attestation_0/ssz_snappy''"])
      (use sample_score_topics in \<open>simp_all add: names topics sample_config_def\<close>)
  with run show ?thesis by blast
qed

text \<open>
  C13: A subscription survives its messages. With a processor in place, a decoder that returns no
  nil pointers and messages of well-formed topics, the loop of a subscription never panics; it
  hands exactly the messages from other peers, in order, to the handler; a message whose handler
  fails leaves the state unchanged and does not stop the loop; and the loop ends only when the
  context is done (without an error) or when the router reports an error (which it returns).
\<close>

theorem subscription_loop:
  fixes gs :: "('r, 'n) GossipSub"
  assumes "ready gs" and "s = newSubscription hostID t (mappingTopicToHandler n t)"
    and "\<forall>data dst m. DecodeGossip lib data dst = Inr m \<longrightarrow> carried_slot m \<noteq> Carries None"
    and "\<forall>(e, msg) \<in> set (accepted hostID events). \<exists>ft. parseEth2Topic (msg_Topic msg) = Returns ft"
  shows "subscription_Serve lib s events gs =
    Returns (fold (\<lambda>(e, msg) g. keep_on_error g (mappingTopicToHandler n t lib e g msg)) (accepted hostID events) gs,
             stop_reason events)"
proof -
  have step: "\<forall>e g msg. ready g \<longrightarrow> (\<exists>ft. parseEth2Topic (msg_Topic msg) = Returns ft) \<longrightarrow>
      (\<forall>p. sub_handler s lib e g msg \<noteq> Panics p) \<and> (\<forall>g'. sub_handler s lib e g msg = Returns g' \<longrightarrow> ready g')"
  proof (intro allI impI)
    fix e :: env and g :: "('r, 'n) GossipSub" and msg :: pubsub_message
    assume g: "ready g" and "\<exists>ft. parseEth2Topic (msg_Topic msg) = Returns ft"
    then obtain ft where ft: "parseEth2Topic (msg_Topic msg) = Returns ft" by blast
    have "\<forall>dst m. DecodeGossip lib (msg_Data msg) dst = Inr m \<longrightarrow> carried_slot m \<noteq> Carries None" using assms(3) by blast
    from handler_ready [OF g ft this, of n t e]
    show "(\<forall>p. sub_handler s lib e g msg \<noteq> Panics p) \<and> (\<forall>g'. sub_handler s lib e g msg = Returns g' \<longrightarrow> ready g')"
      by (simp add: assms(2) newSubscription_def)
  qed
  have "sub_hostID s = hostID" "sub_handler s = mappingTopicToHandler n t"
    by (simp_all add: assms(2) newSubscription_def)
  with subscription_fold [OF step assms(1), of events] assms(4) show ?thesis by simp
qed


definition sync_lib :: processor_lib where
  "sync_lib = sample_lib
     \<lparr>DecodeGossip := (\<lambda>data dst. if data \<noteq> [] \<and> dst = T_SyncCommitteeMessage then Inr (SyncCommitteeMessage 5)
                                   else Inl (ErrNew ''empty''))\<rparr>"

definition sample_events :: "(env \<times> sub_event) list" where
  "sample_events =
     [(sample_env, NextMessage (Inr ((sample_message 5)\<lparr>ReceivedFrom := ''self''\<rparr>))),
      (sample_env, NextMessage (Inr ((sample_message 5)\<lparr>msg_Data := []\<rparr>))),
      (sample_env, NextMessage (Inr (sample_message 5))),
      (sample_env, NextMessage (Inl (ErrNew ''cancelled''))), (sample_env, ContextDone)]"

theorem subscription_loop_witness:
  "subscription_Serve sync_lib
     (newSubscription ''self'' ''sync_committee_1'' (mappingTopicToHandler sample_names ''sync_committee_1''))
     sample_events sample_gossip =
   Returns (keep_on_error sample_gossip (syncCommitteeHandler sync_lib sample_env sample_gossip (sample_message 5)),
     Stopped_with (Some (ErrWrap (ErrNew ''cancelled'') ''failed to get next gossip subscription message'')))"
proof -
  have handler: "(mappingTopicToHandler sample_names ''sync_committee_1'' :: (SlotMessageStats list list, nat) TopicHandler) = syncCommitteeHandler"
    by (simp add: mappingTopicToHandler_def sample_names_def Contains_def sublist_Cons_right)
  have topic: "\<exists>ft. parseEth2Topic (msg_Topic (sample_message 5)) = Returns ft"
    by (simp add: sample_message_def sample_parse)
  have acc: "accepted ''self'' sample_events =
      [(sample_env, (sample_message 5)\<lparr>msg_Data := []\<rparr>), (sample_env, sample_message 5)]"
    by (simp add: sample_events_def sample_message_def)
  have ready: "ready sample_gossip" by (simp add: ready_def sample_gossip_def)
  obtain err where fails: "syncCommitteeHandler sync_lib sample_env sample_gossip ((sample_message 5)\<lparr>msg_Data := []\<rparr>) = Fails err"
    by (simp add: up_to_Electra_def up_to_Deneb_def on_fork_def sample_config_def syncCommitteeHandler_def process_as_def Process_unfold sync_lib_def sample_gossip_def sample_message_def)
  have skip: "keep_on_error sample_gossip (syncCommitteeHandler sync_lib sample_env sample_gossip
      ((sample_message 5)\<lparr>msg_Data := []\<rparr>)) = sample_gossip"
    by (simp add: fails keep_on_error_def)
  have "subscription_Serve sync_lib
     (newSubscription ''self'' ''sync_committee_1'' (mappingTopicToHandler sample_names ''sync_committee_1''))
     sample_events sample_gossip =
    Returns (fold (\<lambda>(e, msg) g. keep_on_error g (mappingTopicToHandler sample_names ''sync_committee_1'' sync_lib e g msg))
        (accepted ''self'' sample_events) sample_gossip, stop_reason sample_events)"
    by (rule subscription_loop [OF ready refl]) (use topic in \<open>auto simp: acc sync_lib_def\<close>)
  then show ?thesis by (simp add: acc handler skip) (simp add: sample_events_def)
qed

end
