(* ===== verification/Peering.thy ===== *)
theory Peering
  imports Eth_Network Host_Model
begin

text \<open>
  Peer discovery and dialing (\<^verbatim>\<open>src/peering/discovery.go\<close>, \<^verbatim>\<open>dialer.go\<close>): the local node record, the loop
  that turns the nodes found by discv5 into peer addresses and hands them over a channel, and the
  dialer at its other end. The channel has no buffer, so what the loop sends is what the dialer
  receives; its state is whether it was closed. The node record, its key, the fork data and
  discv5 are libraries, in the parameter record \<^theory_text>\<open>discovery_lib\<close>.
\<close>

section \<open>Parameters and state\<close>

record ENRForkID =
  CurrentForkDigest :: "byte list"
  NextForkVersion :: "byte list"
  NextForkEpoch :: u64

datatype enr_entry = enr_IPv4 net_IP | enr_UDP u16 | enr_TCP u16 | enr_WithEntry string "byte list"

text \<open>
  \<^verbatim>\<open>'k\<close> is a private key, \<^verbatim>\<open>'l\<close> a local node, \<^verbatim>\<open>'e\<close> a node, \<^verbatim>\<open>'b\<close> and \<^verbatim>\<open>'c\<close> the bit vectors of the two kinds of
  subnets, \<^verbatim>\<open>'p\<close> a public key, \<^verbatim>\<open>'a\<close> a multiaddress. \<^verbatim>\<open>dl_Node\<close> signs the local record, which panics when an
  entry cannot be encoded. \<^verbatim>\<open>node_PubkeyBytes\<close> is \<^verbatim>\<open>gcrypto.FromECDSAPub(node.Pubkey())\<close>.
\<close>

record ('k, 'l, 'e, 'b, 'c, 'p, 'a) discovery_lib =
  dl_GenerateKey :: "error + 'k"
  dl_OpenDB :: "error option"
  dl_attBits :: "'b bitvector"
  dl_attBytes :: "'b \<Rightarrow> byte list"
  dl_syncBits :: "'c bitvector"
  dl_syncBytes :: "'c \<Rightarrow> byte list"
  dl_CreateForkDigest :: "gotime \<Rightarrow> byte list \<Rightarrow> error + byte list"
  dl_NextForkData :: "u64 \<Rightarrow> error + byte list \<times> u64"
  dl_MarshalSSZ :: "ENRForkID \<Rightarrow> error + byte list"
  dl_NewLocalNode :: "'k \<Rightarrow> 'l"
  dl_Set :: "enr_entry \<Rightarrow> 'l \<Rightarrow> 'l"
  dl_Node :: "'l \<Rightarrow> 'e outcome"
  dl_Parse :: "string \<Rightarrow> error + 'e"
  node_IP :: "'e \<Rightarrow> net_IP"
  node_UDP :: "'e \<Rightarrow> 64 word"
  node_TCP :: "'e \<Rightarrow> 64 word"
  node_PubkeyBytes :: "'e \<Rightarrow> byte list"
  dl_UnmarshalSecp256k1PublicKey :: "byte list \<Rightarrow> error + 'p"
  dl_IDFromPublicKey :: "'p \<Rightarrow> error + string"
  dl_NewMultiaddr :: "string \<Rightarrow> error + 'a"

record 'k DiscoveryOption =
  do_privateKey :: "'k option"
  do_listenIP :: string
  do_portUDP :: "64 word"
  do_portTCP :: "64 word"

type_synonym 'k DiscoveryOptionFunc = "'k DiscoveryOption \<Rightarrow> 'k DiscoveryOption"

definition peering_WithPrivateKey :: "'k option \<Rightarrow> 'k DiscoveryOptionFunc" where
  "peering_WithPrivateKey key o' = o'\<lparr>do_privateKey := key\<rparr>"

definition peering_WithListenIP :: "string \<Rightarrow> 'k DiscoveryOptionFunc" where
  "peering_WithListenIP ip o' = o'\<lparr>do_listenIP := ip\<rparr>"

definition peering_WithPortUDP :: "64 word \<Rightarrow> 'k DiscoveryOptionFunc" where
  "peering_WithPortUDP port o' = o'\<lparr>do_portUDP := port\<rparr>"

definition peering_WithPortTCP :: "64 word \<Rightarrow> 'k DiscoveryOptionFunc" where
  "peering_WithPortTCP port o' = o'\<lparr>do_portTCP := port\<rparr>"

definition default_DiscoveryOption :: "'k DiscoveryOption" where
  "default_DiscoveryOption =
     \<lparr> do_privateKey = None, do_listenIP = ''127.0.0.1'', do_portUDP = 9090, do_portTCP = 9090 \<rparr>"

text \<open>The channel \<^verbatim>\<open>discovers\<close> is represented by whether it is closed.\<close>

record ('k, 'l, 'e) Discovery =
  d_privateKey :: 'k
  d_node :: 'l
  d_closed :: bool
  d_bootstrapNodes :: "'e list"
  d_forkDigest :: "byte list"

record 'a AddrInfo =
  ai_ID :: string
  ai_Addrs :: "'a list"

section \<open>Construction\<close>

text \<open>The text of an error: a wrapped error is printed after its message.\<close>

fun error_text :: "error \<Rightarrow> string" where
  "error_text (ErrNew s) = s"
| "error_text (ErrWrap e s) = s @ '': '' @ error_text e"

text \<open>\<^verbatim>\<open>if err != nil { panic(err) }\<close>.\<close>

definition or_panic :: "error + 'a \<Rightarrow> 'a outcome" where
  "or_panic r = (case r of Inl err \<Rightarrow> Panics (PanicWith (error_text err)) | Inr x \<Rightarrow> Returns x)"

lemma or_panic_eq_Returns [simp]: "or_panic r = Returns x \<longleftrightarrow> r = Inr x"
  by (simp add: or_panic_def split: sum.split)

fun parse_nodes :: "('k, 'l, 'e, 'b, 'c, 'p, 'a) discovery_lib \<Rightarrow> string list \<Rightarrow> 'e list outcome" where
  "parse_nodes lib [] = Returns []"
| "parse_nodes lib (enrStr # enrs) =
     and_then (wrap (''failed to parse bootstrap node enr '' @ enrStr) (outcome_of (dl_Parse lib enrStr))) (\<lambda>node.
     and_then (parse_nodes lib enrs) (\<lambda>nodes. Returns (node # nodes)))"

definition local_entries ::
  "'k DiscoveryOption \<Rightarrow> NetworkConfig \<Rightarrow> byte list \<Rightarrow> byte list \<Rightarrow> byte list \<Rightarrow> enr_entry list" where
  "local_entries o' net attBytes syncBytes forkIDBytes =
     [enr_IPv4 (case ParseIP (do_listenIP o') of None \<Rightarrow> [] | Some ip \<Rightarrow> ip),
      enr_UDP (ucast (do_portUDP o')), enr_TCP (ucast (do_portTCP o')),
      enr_WithEntry (AttSubnetKey net) attBytes, enr_WithEntry (SyncCommsSubnetKey net) syncBytes,
      enr_WithEntry (ETH2Key net) forkIDBytes]"

definition NewDiscovery ::
  "('k, 'l, 'e, 'b, 'c, 'p, 'a) discovery_lib \<Rightarrow> eth_params \<Rightarrow> eth_state \<Rightarrow> gotime \<Rightarrow> 'k DiscoveryOptionFunc list \<Rightarrow>
   (('k, 'l, 'e) Discovery \<times> eth_state) outcome" where
  "NewDiscovery lib prm st now opts =
     (let o' = fold (\<lambda>opt. opt) opts default_DiscoveryOption in
      and_then (case do_privateKey o' of
                  None \<Rightarrow> wrap ''failed to generate ecdsa private key'' (outcome_of (dl_GenerateKey lib))
                | Some key \<Rightarrow> Returns key) (\<lambda>key.
      case dl_OpenDB lib of
        Some err \<Rightarrow> Fails (ErrWrap err ''failed to open peer's database'')
      | None \<Rightarrow>
          and_then (GetAttestationAllSubnetBitvector (dl_attBits lib) prm st) (\<lambda>attestBitV.
          and_then (GetSyncCommitteeAllSubnetBitvector (dl_syncBits lib) prm st) (\<lambda>syncBitV.
          and_then (GetGenesisConfig prm st) (\<lambda>genesisConfig.
          and_then (GetBeaconNetworkConfig prm st) (\<lambda>(networkConfig, st').
          and_then (wrap ''failed to create fork digest''
            (outcome_of (dl_CreateForkDigest lib (GenesisTime genesisConfig) (GenesisValidatorRoot genesisConfig))))
            (\<lambda>forkDigest.
          and_then (wrap ''failed to get next fork data''
            (outcome_of (dl_NextForkData lib (slots_ToEpoch prm (slots_Since prm now (GenesisTime genesisConfig))))))
            (\<lambda>(nextForkVersion, nextForkEpoch).
          and_then (or_panic (dl_MarshalSSZ lib \<lparr> CurrentForkDigest = forkDigest, NextForkVersion = nextForkVersion,
                                                  NextForkEpoch = nextForkEpoch \<rparr>)) (\<lambda>forkIDBytes.
              (let localNode = fold (dl_Set lib)
                     (local_entries o' networkConfig (dl_attBytes lib attestBitV) (dl_syncBytes lib syncBitV) forkIDBytes)
                     (dl_NewLocalNode lib key)
               in and_then (parse_nodes lib (BootstrapNodes networkConfig)) (\<lambda>bootstrapNodes.
                  and_then (dl_Node lib localNode) (\<lambda>_.
                    Returns (\<lparr> d_privateKey = key, d_node = localNode, d_closed = False,
                               d_bootstrapNodes = bootstrapNodes, d_forkDigest = forkDigest \<rparr>, st')))))))))))))"

section \<open>Discovery\<close>

definition net_addr ::
  "('k, 'l, 'e, 'b, 'c, 'p, 'a) discovery_lib \<Rightarrow> string \<Rightarrow> string \<Rightarrow> net_IP \<Rightarrow> 64 word \<Rightarrow> 'a list outcome" where
  "net_addr lib proto ipScheme ip port =
     (if port \<noteq> 0 then
        and_then (wrap (''failed to parse '' @ proto @ '' multiaddr'') (outcome_of (dl_NewMultiaddr lib
          (''/'' @ ipScheme @ ''/'' @ ip_String ip @ ''/'' @ proto @ ''/'' @ decimal_int port))))
        (\<lambda>maddr. Returns [maddr])
      else Returns [])"

definition ip_scheme :: "net_IP \<Rightarrow> string option" where
  "ip_scheme ip =
     (if To4 ip \<noteq> None then Some ''ip4'' else if To16 ip \<noteq> None then Some ''ip6'' else None)"

definition extractPeerAddrInfo ::
  "('k, 'l, 'e, 'b, 'c, 'p, 'a) discovery_lib \<Rightarrow> 'e \<Rightarrow> 'a AddrInfo outcome" where
  "extractPeerAddrInfo lib node =
     and_then (wrap ''failed to unmarshal secp256k1 public key from node's ecdsa public key''
       (outcome_of (dl_UnmarshalSecp256k1PublicKey lib (node_PubkeyBytes lib node)))) (\<lambda>secp256k1PubKey.
     and_then (wrap ''failed to extract peer ID from node's secp256k1 public key''
       (outcome_of (dl_IDFromPublicKey lib secp256k1PubKey))) (\<lambda>pid.
     case ip_scheme (node_IP lib node) of
       None \<Rightarrow> Fails (ErrNew (''invalid ip scheme from node's ip '' @ ip_String (node_IP lib node)))
     | Some ipScheme \<Rightarrow>
         and_then (net_addr lib ''udp'' ipScheme (node_IP lib node) (node_UDP lib node)) (\<lambda>udp.
         and_then (net_addr lib ''tcp'' ipScheme (node_IP lib node) (node_TCP lib node)) (\<lambda>tcp.
           Returns \<lparr> ai_ID = pid, ai_Addrs = udp @ tcp \<rparr>))))"

text \<open>
  What the loop sees in one iteration: the end of the context, the end of the iterator, or a node
  with what happens if its address is offered: it is received, or the context ends first.
\<close>

datatype 'e disc_event = DiscDone | IterEnd | Found 'e bool

datatype end_status = Serving | Ended "error option" | Panicked panic

text \<open>The deferred \<^verbatim>\<open>close(d.discovers)\<close> when the loop returns.\<close>

definition close_discovers :: "bool \<Rightarrow> end_status" where
  "close_discovers cl = (if cl then Panicked (PanicWith ''close of closed channel'') else Ended None)"

fun discovery_loop ::
  "('k, 'l, 'e, 'b, 'c, 'p, 'a) discovery_lib \<Rightarrow> bool \<Rightarrow> 'e disc_event list \<Rightarrow> 'a AddrInfo list \<times> end_status" where
  "discovery_loop lib cl [] = ([], Serving)"
| "discovery_loop lib cl (DiscDone # events) = ([], close_discovers cl)"
| "discovery_loop lib cl (IterEnd # events) = ([], close_discovers cl)"
| "discovery_loop lib cl (Found node received # events) =
     (if IsPrivate (node_IP lib node) then discovery_loop lib cl events
      else
        (case extractPeerAddrInfo lib node of
           Panics p \<Rightarrow> ([], Panicked p)
         | Fails err \<Rightarrow> discovery_loop lib cl events
         | Returns addrInfo \<Rightarrow>
             if \<not> received then ([], close_discovers cl)
             else if cl then ([], Panicked (PanicWith ''send on closed channel''))
             else (case discovery_loop lib cl events of (sent, status) \<Rightarrow> (addrInfo # sent, status))))"

text \<open>
  \<^verbatim>\<open>Serve\<close>: the addresses sent and the end, with the channel closed once the loop has ended. The
  answers of the operating system and of discv5 to the two listen calls are arguments.
\<close>

definition discovery_Serve ::
  "('k, 'l, 'e, 'b, 'c, 'p, 'a) discovery_lib \<Rightarrow> error option \<Rightarrow> error option \<Rightarrow> 'e disc_event list \<Rightarrow>
   ('k, 'l, 'e) Discovery \<Rightarrow> ('k, 'l, 'e) Discovery \<times> 'a AddrInfo list \<times> end_status" where
  "discovery_Serve lib listenUDP listenV5 events d =
     (case dl_Node lib (d_node d) of
        Panics p \<Rightarrow> (d, [], Panicked p)
      | Fails err \<Rightarrow> (d, [], Ended (Some err))
      | Returns node \<Rightarrow>
          if To4 (node_IP lib node) = None then
            (d, [], Ended (Some (ErrNew (''invalid IP address: '' @ ip_String (node_IP lib node)))))
          else
            (case listenUDP of
               Some err \<Rightarrow> (d, [], Ended (Some (ErrWrap err
                 (''failed to listen on 0.0.0.0:'' @ decimal_int (node_UDP lib node)))))
             | None \<Rightarrow>
                 (case listenV5 of
                    Some err \<Rightarrow> (d, [], Ended (Some (ErrWrap err ''failed to start discv5 listener'')))
                  | None \<Rightarrow>
                      (case discovery_loop lib (d_closed d) events of (sent, status) \<Rightarrow>
                         (d\<lparr>d_closed := (d_closed d \<or> status \<noteq> Serving)\<rparr>, sent, status)))))"

section \<open>Dialer\<close>

record 'n Dialer =
  dial_host :: "'n Host"

text \<open>The channel argument is the receiving end of a discovery's channel, or nil.\<close>

definition NewDialer :: "'n Host option \<Rightarrow> bool \<Rightarrow> 'n Dialer outcome" where
  "NewDialer h discovers =
     (case h of
        None \<Rightarrow> Fails (ErrNew ''host should be configured when creating dialer'')
      | Some h' \<Rightarrow>
          if \<not> discovers then Fails (ErrNew ''discovers channel should be configured when creating dialer'')
          else Returns \<lparr> dial_host = h' \<rparr>)"

text \<open>
  What the dialer sees: the end of its context with the context's error, the closed channel, or
  an address, with the connections at the two times it counts them.
\<close>

datatype 'a dial_event = DialDone error | ChannelClosed | Received "'a AddrInfo" "connection list" "connection list"

text \<open>What it does with an address.\<close>

datatype 'a dial_action = Skip_self | Wait_second | Connect "'a AddrInfo"

definition enough_peers :: "'n Host \<Rightarrow> connection list \<Rightarrow> connection list \<Rightarrow> bool" where
  "enough_peers h conns conns' \<longleftrightarrow>
     float_of_int64 (TargetPeerCount h) * Fin 0.2 \<le> float_of_int64 (OutboundPeerCount conns) \<and>
     sint (TargetPeerCount h) \<le> sint (TotalPeerCount conns')"

definition dial_decision ::
  "string \<Rightarrow> 'n Dialer \<Rightarrow> 'a AddrInfo \<Rightarrow> connection list \<Rightarrow> connection list \<Rightarrow> 'a dial_action" where
  "dial_decision hostID d addrInfo conns conns' =
     (if ai_ID addrInfo = hostID then Skip_self
      else if enough_peers (dial_host d) conns conns' then Wait_second
      else Connect addrInfo)"

fun dialer_Serve ::
  "string \<Rightarrow> 'n Dialer \<Rightarrow> 'a dial_event list \<Rightarrow> 'a dial_action list \<times> end_status" where
  "dialer_Serve hostID d [] = ([], Serving)"
| "dialer_Serve hostID d (DialDone err # events) = ([], Ended (Some err))"
| "dialer_Serve hostID d (ChannelClosed # events) = ([], Ended None)"
| "dialer_Serve hostID d (Received addrInfo conns conns' # events) =
     (case dialer_Serve hostID d events of (actions, status) \<Rightarrow>
        (dial_decision hostID d addrInfo conns conns' # actions, status))"


section \<open>Reference\<close>

text \<open>The address of a node that may be offered: a public one whose address can be built.\<close>

definition offer :: "('k, 'l, 'e, 'b, 'c, 'p, 'a) discovery_lib \<Rightarrow> 'e \<Rightarrow> 'a AddrInfo option" where
  "offer lib node =
     (if IsPrivate (node_IP lib node) then None
      else (case extractPeerAddrInfo lib node of Returns ai \<Rightarrow> Some ai | _ \<Rightarrow> None))"

fun ends_loop :: "('k, 'l, 'e, 'b, 'c, 'p, 'a) discovery_lib \<Rightarrow> 'e disc_event \<Rightarrow> bool" where
  "ends_loop lib DiscDone = True"
| "ends_loop lib IterEnd = True"
| "ends_loop lib (Found node received) = (\<not> received \<and> offer lib node \<noteq> None)"

fun found_node :: "'e disc_event \<Rightarrow> 'e option" where
  "found_node (Found node received) = Some node"
| "found_node ev = None"

text \<open>The events of the iterations that do not end the loop, and the addresses offered in them.\<close>

definition iterations :: "('k, 'l, 'e, 'b, 'c, 'p, 'a) discovery_lib \<Rightarrow> 'e disc_event list \<Rightarrow> 'e disc_event list" where
  "iterations lib events = takeWhile (\<lambda>ev. \<not> ends_loop lib ev) events"

definition offers :: "('k, 'l, 'e, 'b, 'c, 'p, 'a) discovery_lib \<Rightarrow> 'e disc_event list \<Rightarrow> 'a AddrInfo list" where
  "offers lib events = List.map_filter (\<lambda>ev. Option.bind (found_node ev) (offer lib)) (iterations lib events)"

text \<open>
  The end of a loop whose channel is closed already: the first event that ends the loop or offers
  an address makes it panic, by closing the channel again or by sending on it.
\<close>

fun acts :: "('k, 'l, 'e, 'b, 'c, 'p, 'a) discovery_lib \<Rightarrow> 'e disc_event \<Rightarrow> bool" where
  "acts lib (Found node received) = (offer lib node \<noteq> None)"
| "acts lib ev = True"

fun closed_end :: "'e disc_event option \<Rightarrow> end_status" where
  "closed_end None = Serving"
| "closed_end (Some (Found node True)) = Panicked (PanicWith ''send on closed channel'')"
| "closed_end (Some ev) = Panicked (PanicWith ''close of closed channel'')"

text \<open>The texts of the multiaddresses of a node.\<close>

definition port_texts :: "string \<Rightarrow> net_IP \<Rightarrow> string \<Rightarrow> 64 word \<Rightarrow> string list" where
  "port_texts scheme ip proto port =
     (if port = 0 then []
      else [''/'' @ scheme @ ''/'' @ ip_String ip @ ''/'' @ proto @ ''/'' @ decimal_int port])"

definition addr_texts :: "string \<Rightarrow> net_IP \<Rightarrow> 64 word \<Rightarrow> 64 word \<Rightarrow> string list" where
  "addr_texts scheme ip udp tcp = port_texts scheme ip ''udp'' udp @ port_texts scheme ip ''tcp'' tcp"

section \<open>Lemmas\<close>

lemma extract_no_panic [simp]: "extractPeerAddrInfo lib node \<noteq> Panics p"
  by (auto simp: extractPeerAddrInfo_def net_addr_def and_then_eq_Panics split: option.split)

lemma net_addr_texts:
  "net_addr lib proto s ip port = Returns as \<Longrightarrow>
     list_all2 (\<lambda>text a. dl_NewMultiaddr lib text = Inr a) (port_texts s ip proto port) as"
  by (auto simp: net_addr_def port_texts_def split: if_splits)

lemma discovery_loop_open:
  "discovery_loop lib False events =
     (offers lib events, if iterations lib events = events then Serving else Ended None)"
proof (induction lib "False" events rule: discovery_loop.induct)
  case (4 lib node received events)
  show ?case
  proof (cases "offer lib node")
    case None
    then have "IsPrivate (node_IP lib node) \<or> (\<exists>err. extractPeerAddrInfo lib node = Fails err)"
      by (cases "extractPeerAddrInfo lib node") (auto simp: offer_def split: if_splits)
    with 4 None show ?thesis
      by (auto simp: offers_def iterations_def map_filter_simps)
  next
    case (Some ai)
    then have "\<not> IsPrivate (node_IP lib node)" "extractPeerAddrInfo lib node = Returns ai"
      by (auto simp: offer_def split: if_splits outcome.splits)
    with 4 Some show ?thesis
      by (auto simp: offers_def iterations_def map_filter_simps close_discovers_def)
  qed
qed (simp_all add: offers_def iterations_def map_filter_simps close_discovers_def)

lemma discovery_loop_closed: "discovery_loop lib True events = ([], closed_end (find (acts lib) events))"
proof (induction lib "True" events rule: discovery_loop.induct)
  case (4 lib node received events)
  show ?case
  proof (cases "offer lib node")
    case None
    then have "IsPrivate (node_IP lib node) \<or> (\<exists>err. extractPeerAddrInfo lib node = Fails err)"
      by (cases "extractPeerAddrInfo lib node") (auto simp: offer_def split: if_splits)
    with 4 None show ?thesis by auto
  next
    case (Some ai)
    then have "\<not> IsPrivate (node_IP lib node)" "extractPeerAddrInfo lib node = Returns ai"
      by (auto simp: offer_def split: if_splits outcome.splits)
    with Some show ?thesis by (cases received) (simp_all add: close_discovers_def)
  qed
qed (simp_all add: close_discovers_def)

lemma parse_nodes_result:
  "parse_nodes lib enrs =
     (case find (\<lambda>enr. \<exists>err. dl_Parse lib enr = Inl err) enrs of
        None \<Rightarrow> Returns (map (\<lambda>enr. projr (dl_Parse lib enr)) enrs)
      | Some enr \<Rightarrow> Fails (ErrWrap (projl (dl_Parse lib enr)) (''failed to parse bootstrap node enr '' @ enr)))"
proof (induction enrs)
  case (Cons enr enrs)
  then show ?case by (cases "dl_Parse lib enr") (auto split: option.splits)
qed simp

text \<open>The steps of a successful construction.\<close>

lemma NewDiscovery_run:
  fixes lib :: "('k, 'l, 'e, 'b, 'c, 'p, 'a) discovery_lib"
  assumes "NewDiscovery lib prm st now opts = Returns (d, st')"
  defines "opt \<equiv> fold (\<lambda>opt. opt) opts default_DiscoveryOption"
  shows "\<not> d_closed d \<and>
    (if do_privateKey opt = None then dl_GenerateKey lib = Inr (d_privateKey d) else do_privateKey opt = Some (d_privateKey d)) \<and>
    (\<exists>gen net att syn ver ep forkID.
      GetGenesisConfig prm st = Returns gen \<and> GetBeaconNetworkConfig prm st = Returns (net, st') \<and>
      GetAttestationAllSubnetBitvector (dl_attBits lib) prm st = Returns att \<and>
      GetSyncCommitteeAllSubnetBitvector (dl_syncBits lib) prm st = Returns syn \<and>
      dl_CreateForkDigest lib (GenesisTime gen) (GenesisValidatorRoot gen) = Inr (d_forkDigest d) \<and>
      dl_NextForkData lib (slots_ToEpoch prm (slots_Since prm now (GenesisTime gen))) = Inr (ver, ep) \<and>
      dl_MarshalSSZ lib \<lparr> CurrentForkDigest = d_forkDigest d, NextForkVersion = ver, NextForkEpoch = ep \<rparr> = Inr forkID \<and>
      d_node d = fold (dl_Set lib) (local_entries opt net (dl_attBytes lib att) (dl_syncBytes lib syn) forkID)
                   (dl_NewLocalNode lib (d_privateKey d)) \<and>
      parse_nodes lib (BootstrapNodes net) = Returns (d_bootstrapNodes d))"
  using assms(1)
  by (auto simp: NewDiscovery_def opt_def [symmetric] Let_def simp del: fold_simps split: option.splits)

lemma dialer_Serve_map:
  "dialer_Serve hostID d (map (\<lambda>(ai, conns, conns'). Received ai conns conns') rs @ events) =
     (case dialer_Serve hostID d events of (actions, status) \<Rightarrow>
        (map (\<lambda>(ai, conns, conns'). dial_decision hostID d ai conns conns') rs @ actions, status))"
  by (induction rs) (auto split: prod.split)

lemma count_value:
  assumes "length conns < 2 ^ 63"
  shows "sint (TotalPeerCount conns) = int (card (RemotePeer ` set conns))"
    and "sint (OutboundPeerCount conns) =
      int (card {RemotePeer c | c. c \<in> set conns \<and> Direction c = DirOutbound})"
proof -
  have small: "sint (of_nat (length (peer_set cs)) :: 64 word) = int (card (RemotePeer ` set cs))"
    if "length cs \<le> length conns" for cs
  proof -
    have "card (RemotePeer ` set cs) \<le> length cs" by (metis card_image_le card_length finite_set order_trans)
    then have "card (RemotePeer ` set cs) < 2 ^ 63" using that assms by linarith
    then have "int (card (RemotePeer ` set cs)) < 2 ^ 63"
      by (simp only: of_nat_less_iff [where ?'a = int, symmetric]) simp
    then show ?thesis
      using sint_word_of_int_64 [of "int (card (RemotePeer ` set cs))"] by (simp add: length_peer_set)
  qed
  show "sint (TotalPeerCount conns) = int (card (RemotePeer ` set conns))"
    unfolding TotalPeerCount_def by (rule small) simp
  have "RemotePeer ` set (filter (\<lambda>conn. Direction conn = DirOutbound) conns) =
      {RemotePeer c | c. c \<in> set conns \<and> Direction c = DirOutbound}" by auto
  then show "sint (OutboundPeerCount conns) = int (card {RemotePeer c | c. c \<in> set conns \<and> Direction c = DirOutbound})"
    unfolding OutboundPeerCount_def using small [of "filter (\<lambda>conn. Direction conn = DirOutbound) conns"] by simp
qed

lemma enough_peers_iff:
  assumes "length conns < 2 ^ 63" and "length conns' < 2 ^ 63"
  shows "enough_peers h conns conns' \<longleftrightarrow>
    sint (TargetPeerCount h) \<le> 5 * int (card {RemotePeer c | c. c \<in> set conns \<and> Direction c = DirOutbound}) \<and>
    sint (TargetPeerCount h) \<le> int (card (RemotePeer ` set conns'))"
proof -
  have "real_of_int t * 0.2 \<le> real_of_int k \<longleftrightarrow> t \<le> 5 * k" for t k by linarith
  then show ?thesis
    unfolding enough_peers_def float_of_int64_def times_float64.simps float_le_Fin
      count_value(2) [OF assms(1)] count_value(1) [OF assms(2)] by (simp only:)
qed


section \<open>Concrete instances\<close>

text \<open>A library whose nodes are addresses with ports, whose local record is the list of entries set in it.\<close>

definition sample_dlib ::
  "(string, enr_entry list, net_IP \<times> 64 word \<times> 64 word, u64 list, u64 list, byte list, string) discovery_lib" where
  "sample_dlib =
     \<lparr> dl_GenerateKey = Inr ''key'', dl_OpenDB = None,
       dl_attBits = list_bitvector 64, dl_attBytes = map ucast, dl_syncBits = list_bitvector 4, dl_syncBytes = map ucast,
       dl_CreateForkDigest = (\<lambda>t root. Inr [1, 2, 3, 4]), dl_NextForkData = (\<lambda>ep. Inr ([5, 0, 0, 0], 7)),
       dl_MarshalSSZ = (\<lambda>f. Inr (CurrentForkDigest f @ NextForkVersion f)),
       dl_NewLocalNode = (\<lambda>key. []), dl_Set = (\<lambda>en l. l @ [en]),
       dl_Node = (\<lambda>l. case l of enr_IPv4 ip # enr_UDP udp # enr_TCP tcp # _ \<Rightarrow> Returns (ip, ucast udp, ucast tcp)
                   | _ \<Rightarrow> Panics (PanicWith ''enode'')),
       dl_Parse = (\<lambda>s. Inl (ErrNew ''enr'')),
       node_IP = fst, node_UDP = (\<lambda>(ip, udp, tcp). udp), node_TCP = (\<lambda>(ip, udp, tcp). tcp), node_PubkeyBytes = fst,
       dl_UnmarshalSecp256k1PublicKey = Inr, dl_IDFromPublicKey = (\<lambda>k. Inr (dotted k)),
       dl_NewMultiaddr = Inr \<rparr>"

definition sample_discovery :: "(string, enr_entry list, net_IP \<times> 64 word \<times> 64 word) Discovery" where
  "sample_discovery =
     \<lparr> d_privateKey = ''key'', d_node = [enr_IPv4 (v4InV6Prefix @ [127, 0, 0, 1]), enr_UDP 9090, enr_TCP 9090],
       d_closed = False, d_bootstrapNodes = [], d_forkDigest = [1, 2, 3, 4] \<rparr>"

text \<open>The dialer's decision for an address, counted in peers.\<close>

definition decision :: "string \<Rightarrow> 'n Host \<Rightarrow> 'a AddrInfo \<Rightarrow> connection list \<Rightarrow> connection list \<Rightarrow> 'a dial_action" where
  "decision hostID h ai conns conns' =
     (if ai_ID ai = hostID then Skip_self
      else if sint (TargetPeerCount h) \<le> 5 * int (card {RemotePeer c | c. c \<in> set conns \<and> Direction c = DirOutbound}) \<and>
              sint (TargetPeerCount h) \<le> int (card (RemotePeer ` set conns'))
      then Wait_second else Connect ai)"

lemma dial_decision_eq:
  "length conns < 2 ^ 63 \<Longrightarrow> length conns' < 2 ^ 63 \<Longrightarrow>
     dial_decision hostID d ai conns conns' = decision hostID (dial_host d) ai conns conns'"
  unfolding dial_decision_def decision_def by (simp only: enough_peers_iff)

lemma offers_from_nodes:
  "ai \<in> set (offers lib events) \<Longrightarrow>
     \<exists>node received. Found node received \<in> set events \<and> \<not> IsPrivate (node_IP lib node) \<and>
       extractPeerAddrInfo lib node = Returns ai"
proof -
  assume "ai \<in> set (offers lib events)"
  then obtain ev where ev: "ev \<in> set (iterations lib events)" "Option.bind (found_node ev) (offer lib) = Some ai"
    by (auto simp: offers_def List.map_filter_def)
  from ev(2) obtain node received where "ev = Found node received" "offer lib node = Some ai" by (cases ev) auto
  moreover have "ev \<in> set events" using ev(1) set_takeWhileD unfolding iterations_def by fastforce
  ultimately show ?thesis
    by (intro exI [of _ node] exI [of _ received]) (auto simp: offer_def split: if_splits outcome.splits)
qed

section \<open>Properties\<close>

text \<open>
  C19: What discovery hands over. A first run on a channel that is open, past the two listen calls,
  sends exactly the addresses of the public nodes whose address can be built, in the order found,
  until the context or the iterator ends; it then returns no error with the channel closed, and
  never panics. A private node and a node without a usable key or address is skipped.
\<close>

theorem discovery_delivers:
  fixes d :: "('k, 'l, 'e) Discovery" and lib :: "('k, 'l, 'e, 'b, 'c, 'p, 'a) discovery_lib"
  assumes "dl_Node lib (d_node d) = Returns node" and "To4 (node_IP lib node) \<noteq> None" and "\<not> d_closed d"
  shows "discovery_Serve lib None None events d =
    (d\<lparr>d_closed := (iterations lib events \<noteq> events)\<rparr>, offers lib events,
     if iterations lib events = events then Serving else Ended None)"
  using assms by (simp add: discovery_Serve_def discovery_loop_open)

theorem discovery_delivers_witness:
  "discovery_Serve sample_dlib None None
     [Found ([10, 0, 0, 1], 1, 2) True, Found ([8, 8, 4, 4], 30303, 0) True, Found ([1], 1, 1) True, IterEnd]
     sample_discovery =
   (sample_discovery\<lparr>d_closed := True\<rparr>,
    [\<lparr> ai_ID = ''8.8.4.4'', ai_Addrs = [''/ip4/8.8.4.4/udp/30303''] \<rparr>], Ended None)"
proof -
  let ?events = "[Found ([10, 0, 0, 1], 1, 2) True, Found ([8, 8, 4, 4], 30303, 0) True, Found ([1], 1, 1) True, IterEnd]"
  have node: "dl_Node sample_dlib (d_node sample_discovery) = Returns (v4InV6Prefix @ [127, 0, 0, 1], 9090, 9090)"
    by (simp add: sample_dlib_def sample_discovery_def)
  have ip: "To4 (node_IP sample_dlib (v4InV6Prefix @ [127, 0, 0, 1], 9090, 9090)) \<noteq> None" "\<not> d_closed sample_discovery"
    by (simp_all add: sample_dlib_def sample_discovery_def)
  have text_forms: "dotted [8, 8, 4, 4] = ''8.8.4.4''" "decimal_int 30303 = ''30303''"
    by (code_simp, simp add: decimal_int_def decimal.simps char_of_def bit_0)
  have offer: "offer sample_dlib ([10, 0, 0, 1], 1, 2) = None" "offer sample_dlib ([1], 1, 1) = None"
    "offer sample_dlib ([8, 8, 4, 4], 30303, 0) = Some \<lparr> ai_ID = ''8.8.4.4'', ai_Addrs = [''/ip4/8.8.4.4/udp/30303''] \<rparr>"
    by (simp_all add: offer_def sample_dlib_def IsPrivate_def To4_def To16_def extractPeerAddrInfo_def ip_scheme_def
        net_addr_def ip_String_def text_forms)
  then have "iterations sample_dlib ?events \<noteq> ?events"
    "offers sample_dlib ?events = [\<lparr> ai_ID = ''8.8.4.4'', ai_Addrs = [''/ip4/8.8.4.4/udp/30303''] \<rparr>]"
    by (simp_all add: iterations_def offers_def map_filter_simps)
  then show ?thesis using discovery_delivers [OF node ip, of ?events] by simp
qed

text \<open>
  C32: The address of a node has the peer identifier of the node's key and one multiaddress for
  each of its UDP and TCP ports that is not zero, in that order; for an IPv4 node the host part of
  these texts reads back as the node's address.
\<close>

theorem extract_addresses:
  fixes lib :: "('k, 'l, 'e, 'b, 'c, 'p, 'a) discovery_lib"
  assumes "extractPeerAddrInfo lib node = Returns ai"
  shows "\<exists>key scheme. dl_UnmarshalSecp256k1PublicKey lib (node_PubkeyBytes lib node) = Inr key \<and>
    dl_IDFromPublicKey lib key = Inr (ai_ID ai) \<and>
    scheme = (if To4 (node_IP lib node) \<noteq> None then ''ip4'' else ''ip6'') \<and>
    length (node_IP lib node) \<in> {4, 16} \<and>
    list_all2 (\<lambda>text a. dl_NewMultiaddr lib text = Inr a)
      (addr_texts scheme (node_IP lib node) (node_UDP lib node) (node_TCP lib node)) (ai_Addrs ai) \<and>
    (\<forall>ip4. To4 (node_IP lib node) = Some ip4 \<longrightarrow> ParseIP (ip_String (node_IP lib node)) = Some (v4InV6Prefix @ ip4))"
proof -
  have scheme: "ip_scheme ip = Some s \<Longrightarrow> s = (if To4 ip \<noteq> None then ''ip4'' else ''ip6'') \<and> length ip \<in> {4, 16}" for ip s
    by (auto simp: ip_scheme_def To4_def To16_def split: if_splits)
  obtain key s udp tcp where
    "dl_UnmarshalSecp256k1PublicKey lib (node_PubkeyBytes lib node) = Inr key"
    "dl_IDFromPublicKey lib key = Inr (ai_ID ai)" "ip_scheme (node_IP lib node) = Some s"
    "net_addr lib ''udp'' s (node_IP lib node) (node_UDP lib node) = Returns udp"
    "net_addr lib ''tcp'' s (node_IP lib node) (node_TCP lib node) = Returns tcp" "ai_Addrs ai = udp @ tcp"
    using assms by (auto simp: extractPeerAddrInfo_def split: option.splits)
  moreover from this have "list_all2 (\<lambda>text a. dl_NewMultiaddr lib text = Inr a)
      (addr_texts s (node_IP lib node) (node_UDP lib node) (node_TCP lib node)) (ai_Addrs ai)"
    by (simp add: addr_texts_def net_addr_texts list_all2_appendI)
  ultimately show ?thesis
    using scheme [of "node_IP lib node" s] ParseIP_String by (intro exI [of _ key] exI [of _ s]) simp
qed

theorem extract_addresses_witness:
  "\<exists>ai. extractPeerAddrInfo sample_dlib ([8, 8, 4, 4], 30303, 9000) = Returns ai \<and> ai_ID ai = ''8.8.4.4'' \<and>
     length (ai_Addrs ai) = 2 \<and> ParseIP (ip_String [8, 8, 4, 4]) = Some (v4InV6Prefix @ [8, 8, 4, 4])"
proof -
  have "dotted [8, 8, 4, 4] = ''8.8.4.4''" by code_simp
  moreover have "\<exists>ai. extractPeerAddrInfo sample_dlib ([8, 8, 4, 4], 30303, 9000) = Returns ai"
    by (simp add: extractPeerAddrInfo_def sample_dlib_def ip_scheme_def To4_def net_addr_def)
  then obtain ai where ai: "extractPeerAddrInfo sample_dlib ([8, 8, 4, 4], 30303, 9000) = Returns ai" ..
  ultimately show ?thesis
    using extract_addresses [OF ai] ai
    by (auto simp: sample_dlib_def addr_texts_def port_texts_def To4_def dest!: list_all2_lengthD)
qed

text \<open>
  C29: Discovery cannot run twice. A run that returned normally left the channel closed. A
  later run on the same object that gets past the two listen calls sends nothing; it panics with
  \<^verbatim>\<open>send on closed channel\<close> at the first public node whose address can be built (or with \<^verbatim>\<open>close of
  closed channel\<close> when the context ends while it offers that address), and with \<^verbatim>\<open>close of closed
  channel\<close> when the context or the iterator ends before any such node; it only goes on as long as
  there is neither.
\<close>

theorem discovery_restart:
  fixes d :: "('k, 'l, 'e) Discovery" and lib :: "('k, 'l, 'e, 'b, 'c, 'p, 'a) discovery_lib"
  assumes "discovery_Serve lib udp v5 events d = (d', sent, Ended None)"
  shows "d_closed d' \<and> discovery_Serve lib None None events' d' = (d', [], closed_end (find (acts lib) events'))"
proof -
  obtain node where node: "dl_Node lib (d_node d) = Returns node" "To4 (node_IP lib node) \<noteq> None"
    and cl: "d_closed d'" and same: "d_node d' = d_node d"
    using assms by (auto simp: discovery_Serve_def split: outcome.splits if_splits option.splits prod.splits)
  have "d'\<lparr>d_closed := True\<rparr> = d'" using cl by (cases d') simp
  with node cl same show ?thesis by (auto simp: discovery_Serve_def discovery_loop_closed)
qed

theorem discovery_restart_witness:
  "\<exists>d'. discovery_Serve sample_dlib None None [DiscDone] sample_discovery = (d', [], Ended None) \<and>
     discovery_Serve sample_dlib None None [Found ([10, 0, 0, 1], 1, 2) True, Found ([8, 8, 4, 4], 30303, 0) True] d' =
       (d', [], Panicked (PanicWith ''send on closed channel'')) \<and>
     discovery_Serve sample_dlib None None [Found ([10, 0, 0, 1], 1, 2) True, IterEnd] d' =
       (d', [], Panicked (PanicWith ''close of closed channel''))"
proof -
  have node: "dl_Node sample_dlib (d_node sample_discovery) = Returns (v4InV6Prefix @ [127, 0, 0, 1], 9090, 9090)"
    "d_closed sample_discovery = False"
    by (simp_all add: sample_dlib_def sample_discovery_def)
  have "\<exists>d'. discovery_Serve sample_dlib None None [DiscDone] sample_discovery = (d', [], Ended None)"
    by (simp add: discovery_Serve_def node close_discovers_def) (simp add: sample_dlib_def)
  then obtain d' where d': "discovery_Serve sample_dlib None None [DiscDone] sample_discovery = (d', [], Ended None)" ..
  have "offer sample_dlib ([10, 0, 0, 1], 1, 2) = None" "offer sample_dlib ([8, 8, 4, 4], 30303, 0) \<noteq> None"
    by (simp_all add: offer_def sample_dlib_def IsPrivate_def To4_def extractPeerAddrInfo_def ip_scheme_def net_addr_def)
  then show ?thesis
    using d' discovery_restart [OF d', of "[Found ([10, 0, 0, 1], 1, 2) True, Found ([8, 8, 4, 4], 30303, 0) True]"]
      discovery_restart [OF d', of "[Found ([10, 0, 0, 1], 1, 2) True, IterEnd]"]
    by (intro exI [of _ d']) simp
qed

text \<open>
  C18: Discovery and dialer together. The dialer receives what discovery sends, one address at a
  time and in order, and acts on each exactly once: it skips its own address, waits a second when
  it has at least its target of peers and a fifth of the target is outbound, and connects
  otherwise. So it only ever connects to public nodes that discovery found, never to itself, and
  it returns without an error exactly when discovery has ended and closed the channel.
\<close>

theorem peering_dials:
  fixes d :: "('k, 'l, 'e) Discovery" and lib :: "('k, 'l, 'e, 'b, 'c, 'p, 'a) discovery_lib" and dl :: "'n Dialer"
  assumes "dl_Node lib (d_node d) = Returns node" and "To4 (node_IP lib node) \<noteq> None" and "\<not> d_closed d"
    and "discovery_Serve lib None None events d = (d', sent, status)"
    and "length snaps = length sent" and "\<forall>(conns, conns') \<in> set snaps. length conns < 2 ^ 63 \<and> length conns' < 2 ^ 63"
    and "dialer_Serve hostID dl (map (\<lambda>(ai, conns, conns'). Received ai conns conns') (zip sent snaps) @
           (if d_closed d' then [ChannelClosed] else [])) = (actions, status')"
  shows "actions = map (\<lambda>(ai, conns, conns'). decision hostID (dial_host dl) ai conns conns') (zip sent snaps) \<and>
    (\<forall>ai. Connect ai \<in> set actions \<longrightarrow> ai_ID ai \<noteq> hostID \<and>
       (\<exists>n received. Found n received \<in> set events \<and> \<not> IsPrivate (node_IP lib n) \<and>
          extractPeerAddrInfo lib n = Returns ai)) \<and>
    (status' = Ended None \<longleftrightarrow> status = Ended None) \<and> (status' = Serving \<longleftrightarrow> status = Serving)"
proof -
  have run: "sent = offers lib events" "d_closed d' \<longleftrightarrow> status = Ended None" "status = Serving \<longleftrightarrow> \<not> d_closed d'"
    using assms(1-4) by (auto simp: discovery_Serve_def discovery_loop_open split: if_splits)
  have "map (\<lambda>(ai, conns, conns'). dial_decision hostID dl ai conns conns') (zip sent snaps) =
      map (\<lambda>(ai, conns, conns'). decision hostID (dial_host dl) ai conns conns') (zip sent snaps)"
    using assms(6) by (auto simp: dial_decision_eq dest!: set_zip_rightD)
  then have actions: "actions = map (\<lambda>(ai, conns, conns'). decision hostID (dial_host dl) ai conns conns') (zip sent snaps)"
    and status': "status' = (if d_closed d' then Ended None else Serving)"
    using assms(7) by (auto simp: dialer_Serve_map split: if_splits)
  have "ai_ID ai \<noteq> hostID \<and> ai \<in> set sent" if "Connect ai \<in> set actions" for ai
    using that unfolding actions by (auto simp: decision_def split: if_splits dest: set_zip_leftD)
  then show ?thesis
    using actions status' run offers_from_nodes [of _ lib events] by auto
qed

theorem peering_dials_witness:
  "dialer_Serve ''127.0.0.1'' \<lparr> dial_host = \<lparr> libp2p_Host = 0 :: nat, host_targetPeers = 1 \<rparr> \<rparr>
     [Received \<lparr> ai_ID = ''8.8.4.4'', ai_Addrs = [''/ip4/8.8.4.4/udp/30303''] \<rparr> [] [], ChannelClosed] =
     ([Connect \<lparr> ai_ID = ''8.8.4.4'', ai_Addrs = [''/ip4/8.8.4.4/udp/30303''] \<rparr>], Ended None)"
proof -
  let ?ai = "\<lparr> ai_ID = ''8.8.4.4'', ai_Addrs = [''/ip4/8.8.4.4/udp/30303''] \<rparr>"
  let ?events = "[Found ([8, 8, 4, 4], 30303, 0) True, IterEnd]"
  let ?dl = "\<lparr> dial_host = \<lparr> libp2p_Host = 0 :: nat, host_targetPeers = 1 \<rparr> \<rparr>"
  have node: "dl_Node sample_dlib (d_node sample_discovery) = Returns (v4InV6Prefix @ [127, 0, 0, 1], 9090, 9090)"
    by (simp add: sample_dlib_def sample_discovery_def)
  have ip: "To4 (node_IP sample_dlib (v4InV6Prefix @ [127, 0, 0, 1], 9090, 9090)) \<noteq> None" "\<not> d_closed sample_discovery"
    by (simp_all add: sample_dlib_def sample_discovery_def)
  have text_forms: "dotted [8, 8, 4, 4] = ''8.8.4.4''" "decimal_int 30303 = ''30303''"
    by (code_simp, simp add: decimal_int_def decimal.simps char_of_def bit_0)
  have "offer sample_dlib ([8, 8, 4, 4], 30303, 0) = Some ?ai"
    by (simp add: offer_def sample_dlib_def IsPrivate_def To4_def extractPeerAddrInfo_def ip_scheme_def
        net_addr_def ip_String_def text_forms)
  then have run: "discovery_Serve sample_dlib None None ?events sample_discovery =
      (sample_discovery\<lparr>d_closed := True\<rparr>, [?ai], Ended None)"
    using node ip by (simp add: discovery_Serve_def discovery_loop_open iterations_def offers_def map_filter_simps
        del: discovery_loop.simps)
  obtain actions status' where dial: "dialer_Serve ''127.0.0.1'' ?dl [Received ?ai [] [], ChannelClosed] = (actions, status')"
    by (cases "dialer_Serve ''127.0.0.1'' ?dl [Received ?ai [] [], ChannelClosed]")
  have "actions = [decision ''127.0.0.1'' (dial_host ?dl) ?ai [] []] \<and> (status' = Ended None \<longleftrightarrow> True)"
    using peering_dials [OF node ip run, of "[([], [])]" "''127.0.0.1''" ?dl actions status'] dial by simp
  with dial show ?thesis by (simp add: decision_def TargetPeerCount_def)
qed

text \<open>
  C31: The node that announces this host. A constructed discovery has an open channel and the
  configured key, or a generated one when none is configured. Its local record, made for that key,
  was given six entries in this order: the listen address, the UDP port and the TCP port (modulo
  \<^verbatim>\<open>2^16\<close>), the bit vector of all attestation subnets and the one of all sync committee subnets under
  the network's keys for them, and under the key \<^verbatim>\<open>eth2\<close> the fork identifier with the current digest
  and the next fork. An address in dotted form is announced as it is; a text without a colon that
  is not an address is announced as the empty address, without an error. Every bootstrap node of
  the network was parsed, in order.
\<close>

theorem NewDiscovery_record:
  fixes lib :: "('k, 'l, 'e, 'b, 'c, 'p, 'a) discovery_lib"
  assumes "NewDiscovery lib prm st now opts = Returns (d, st')"
  defines "opt \<equiv> fold (\<lambda>opt. opt) opts default_DiscoveryOption"
  shows "\<not> d_closed d \<and>
    (if do_privateKey opt = None then dl_GenerateKey lib = Inr (d_privateKey d) else do_privateKey opt = Some (d_privateKey d)) \<and>
    (\<exists>gen net att syn ver ep forkID ip udp tcp.
      GetGenesisConfig prm st = Returns gen \<and> GetBeaconNetworkConfig prm st = Returns (net, st') \<and>
      GetAttestationAllSubnetBitvector (dl_attBits lib) prm st = Returns att \<and>
      GetSyncCommitteeAllSubnetBitvector (dl_syncBits lib) prm st = Returns syn \<and>
      dl_CreateForkDigest lib (GenesisTime gen) (GenesisValidatorRoot gen) = Inr (d_forkDigest d) \<and>
      dl_NextForkData lib (slots_ToEpoch prm (slots_Since prm now (GenesisTime gen))) = Inr (ver, ep) \<and>
      dl_MarshalSSZ lib \<lparr> CurrentForkDigest = d_forkDigest d, NextForkVersion = ver, NextForkEpoch = ep \<rparr> = Inr forkID \<and>
      d_node d = dl_Set lib (enr_WithEntry (ETH2Key net) forkID)
        (dl_Set lib (enr_WithEntry (SyncCommsSubnetKey net) (dl_syncBytes lib syn))
        (dl_Set lib (enr_WithEntry (AttSubnetKey net) (dl_attBytes lib att))
        (dl_Set lib (enr_TCP tcp) (dl_Set lib (enr_UDP udp) (dl_Set lib (enr_IPv4 ip)
          (dl_NewLocalNode lib (d_privateKey d))))))) \<and>
      (\<forall>a b c d'. do_listenIP opt = dotted [a, b, c, d'] \<longrightarrow> ip = v4InV6Prefix @ [a, b, c, d']) \<and>
      (CHR '':'' \<notin> set (do_listenIP opt) \<and> (\<nexists>a b c d'. do_listenIP opt = dotted [a, b, c, d']) \<longrightarrow> ip = []) \<and>
      uint udp = uint (do_portUDP opt) mod 2 ^ 16 \<and> uint tcp = uint (do_portTCP opt) mod 2 ^ 16 \<and>
      list_all2 (\<lambda>enr node. dl_Parse lib enr = Inr node) (BootstrapNodes net) (d_bootstrapNodes d))"
proof -
  note run = NewDiscovery_run [OF assms(1), folded opt_def]
  let ?ip = "case ParseIP (do_listenIP opt) of None \<Rightarrow> [] | Some ip \<Rightarrow> ip"
  have nodes: "list_all2 (\<lambda>enr node. dl_Parse lib enr = Inr node) enrs ns" if "parse_nodes lib enrs = Returns ns" for enrs ns
    using that by (induction enrs arbitrary: ns) auto
  have port: "uint (ucast w :: u16) = uint w mod 2 ^ 16" for w :: "64 word"
    by (simp add: unsigned_ucast_eq take_bit_eq_mod)
  have "?ip = v4InV6Prefix @ [a, b, c, d']" if "do_listenIP opt = dotted [a, b, c, d']" for a b c d'
    using that by (simp add: ParseIP_dotted)
  moreover have "?ip = []" if "CHR '':'' \<notin> set (do_listenIP opt)" "\<nexists>a b c d'. do_listenIP opt = dotted [a, b, c, d']"
    using ParseIP_no_colon [OF that(1)] that(2) by (auto split: option.split)
  moreover from run obtain gen net att syn ver ep forkID where
    "GetGenesisConfig prm st = Returns gen" "GetBeaconNetworkConfig prm st = Returns (net, st')"
    "GetAttestationAllSubnetBitvector (dl_attBits lib) prm st = Returns att"
    "GetSyncCommitteeAllSubnetBitvector (dl_syncBits lib) prm st = Returns syn"
    "dl_CreateForkDigest lib (GenesisTime gen) (GenesisValidatorRoot gen) = Inr (d_forkDigest d)"
    "dl_NextForkData lib (slots_ToEpoch prm (slots_Since prm now (GenesisTime gen))) = Inr (ver, ep)"
    "dl_MarshalSSZ lib \<lparr> CurrentForkDigest = d_forkDigest d, NextForkVersion = ver, NextForkEpoch = ep \<rparr> = Inr forkID"
    "d_node d = fold (dl_Set lib) (local_entries opt net (dl_attBytes lib att) (dl_syncBytes lib syn) forkID)
       (dl_NewLocalNode lib (d_privateKey d))"
    "parse_nodes lib (BootstrapNodes net) = Returns (d_bootstrapNodes d)"
    by blast
  ultimately show ?thesis
    using run [THEN conjunct1] run [THEN conjunct2, THEN conjunct1]
    by (intro conjI exI [of _ gen] exI [of _ net] exI [of _ att] exI [of _ syn] exI [of _ ver] exI [of _ ep] exI [of _ forkID]
        exI [of _ ?ip] exI [of _ "ucast (do_portUDP opt)"] exI [of _ "ucast (do_portTCP opt)"])
      (simp_all add: local_entries_def nodes port)
qed

lemma sample_NewDiscovery:
  "\<exists>d. NewDiscovery sample_dlib sample_params sample_eth now opts = Returns (d, sample_eth)"
proof -
  have cfg: "GetBeaconChainConfig sample_params sample_eth = Returns sample_config"
    by (simp add: GetBeaconChainConfig_supported sample_params_def sample_eth_def)
  obtain att syn where bits: "GetAttestationAllSubnetBitvector (list_bitvector 64) sample_params sample_eth = Returns att"
    "GetSyncCommitteeAllSubnetBitvector (list_bitvector 4) sample_params sample_eth = Returns syn"
    by (simp add: cfg GetAttestationAllSubnetBitvector_def GetSyncCommitteeAllSubnetBitvector_def)
  obtain gen where gen: "GetGenesisConfig sample_params sample_eth = Returns gen"
    by (simp add: sample_params_def sample_eth_def GetGenesisConfig_def GetNetwork_def)
  have net: "GetBeaconNetworkConfig sample_params sample_eth = Returns (sample_network_config, sample_eth)"
    by (simp add: sample_params_def sample_eth_def GetNetwork_def GetBeaconNetworkConfig_def)
  show ?thesis
    unfolding NewDiscovery_def Let_def sample_dlib_def
    by (simp add: bits gen net local_entries_def or_panic_def split: option.split) (simp add: sample_network_config_def)
qed

theorem NewDiscovery_record_witness:
  "\<exists>d st' att syn. NewDiscovery sample_dlib sample_params sample_eth 0 [peering_WithPortUDP 9000, peering_WithPortTCP 65537] =
       Returns (d, st') \<and> \<not> d_closed d \<and> d_privateKey d = ''key'' \<and>
     d_node d = [enr_IPv4 (v4InV6Prefix @ [127, 0, 0, 1]), enr_UDP 9000, enr_TCP 1, enr_WithEntry ''attnets'' att,
       enr_WithEntry ''syncnets'' syn, enr_WithEntry ''eth2'' [1, 2, 3, 4, 5, 0, 0, 0]]"
proof -
  let ?opts = "[peering_WithPortUDP 9000, peering_WithPortTCP 65537] :: string DiscoveryOptionFunc list"
  let ?o = "fold (\<lambda>opt. opt) ?opts default_DiscoveryOption"
  have options: "?o = \<lparr> do_privateKey = None, do_listenIP = ''127.0.0.1'', do_portUDP = 9000, do_portTCP = 65537 \<rparr>"
    by (simp add: default_DiscoveryOption_def peering_WithPortUDP_def peering_WithPortTCP_def)
  have local: "''127.0.0.1'' = dotted [127, 0, 0, 1]" by code_simp
  obtain d where d: "NewDiscovery sample_dlib sample_params sample_eth 0 ?opts = Returns (d, sample_eth)"
    using sample_NewDiscovery by blast
  have net: "GetBeaconNetworkConfig sample_params sample_eth = Returns (sample_network_config, sample_eth)"
    by (simp add: sample_params_def sample_eth_def GetNetwork_def GetBeaconNetworkConfig_def)
  from NewDiscovery_record [OF d] obtain t root epoch net att syn ver ep forkID ip udp tcp where
    n: "GetBeaconNetworkConfig sample_params sample_eth = Returns (net, sample_eth)"
    and digest: "dl_CreateForkDigest sample_dlib t root = Inr (d_forkDigest d)"
    and next_: "dl_NextForkData sample_dlib epoch = Inr (ver, ep)"
    and ssz: "dl_MarshalSSZ sample_dlib \<lparr> CurrentForkDigest = d_forkDigest d, NextForkVersion = ver, NextForkEpoch = ep \<rparr> = Inr forkID"
    and node: "d_node d = dl_Set sample_dlib (enr_WithEntry (ETH2Key net) forkID)
        (dl_Set sample_dlib (enr_WithEntry (SyncCommsSubnetKey net) syn)
        (dl_Set sample_dlib (enr_WithEntry (AttSubnetKey net) att)
        (dl_Set sample_dlib (enr_TCP tcp) (dl_Set sample_dlib (enr_UDP udp) (dl_Set sample_dlib (enr_IPv4 ip)
          (dl_NewLocalNode sample_dlib (d_privateKey d)))))))"
    and ip: "do_listenIP ?o = dotted [127, 0, 0, 1] \<longrightarrow> ip = v4InV6Prefix @ [127, 0, 0, 1]"
    and ports: "uint udp = uint (do_portUDP ?o) mod 2 ^ 16" "uint tcp = uint (do_portTCP ?o) mod 2 ^ 16"
    by blast
  have key: "\<not> d_closed d" "d_privateKey d = ''key''"
    using NewDiscovery_record [OF d, THEN conjunct1] NewDiscovery_record [OF d, THEN conjunct2, THEN conjunct1, unfolded options]
    by (simp_all add: sample_dlib_def)
  have "net = sample_network_config" using n net by simp
  moreover have "forkID = [1, 2, 3, 4, 5, 0, 0, 0]" using digest next_ ssz by (auto simp: sample_dlib_def)
  moreover have "ip = v4InV6Prefix @ [127, 0, 0, 1]" using ip local unfolding options by simp
  moreover have "udp = 9000" "tcp = 1" using ports unfolding options by (simp_all add: word_uint_eq_iff)
  moreover have "dl_Set sample_dlib en l = l @ [en]" "dl_NewLocalNode sample_dlib k = []" for en l k
    by (simp_all add: sample_dlib_def)
  ultimately have "d_node d = [enr_IPv4 (v4InV6Prefix @ [127, 0, 0, 1]), enr_UDP 9000, enr_TCP 1, enr_WithEntry ''attnets'' att,
       enr_WithEntry ''syncnets'' syn, enr_WithEntry ''eth2'' [1, 2, 3, 4, 5, 0, 0, 0]]"
    using node by (simp add: sample_network_config_def)
  with d key show ?thesis by blast
qed

end
