(* ===== verification/Req_Resp.thy ===== *)
theory Req_Resp
  imports Eth_Network Host_Model "HOL-Library.State_Monad"
begin

text \<open>
  The request/response protocols (\<^verbatim>\<open>src/reqresp/reqresp.go\<close>, \<^verbatim>\<open>handler.go\<close>): the service that registers
  a handler for each protocol, the four inbound and two outbound handlers, and the functions that
  read and write one request or response on a stream. The code threads a stream through many
  calls, so it is written in the state monad of the library, with an outcome as the result; the
  stream's operations, the SSZ-snappy encoder and Prysm's names are in the parameter record
  \<^theory_text>\<open>stream_lib\<close>.
\<close>

section \<open>Parameters\<close>

text \<open>
  The values on the wire: \<^verbatim>\<open>'t\<close> is a status, \<^verbatim>\<open>'b\<close> and \<^verbatim>\<open>'c\<close> the subnet bit vectors; metadata has a sequence
  number. A decoder is told which type it decodes to.
\<close>

datatype ('t, 'b, 'c) rr_value = SSZUint64 u64 | Status 't | MetaDataV1 u64 'b 'c

datatype rr_kind = K_Uint64 | K_Status | K_MetaDataV1

primrec kind_of :: "('t, 'b, 'c) rr_value \<Rightarrow> rr_kind" where
  "kind_of (SSZUint64 n) = K_Uint64"
| "kind_of (Status t) = K_Status"
| "kind_of (MetaDataV1 n b c) = K_MetaDataV1"

text \<open>
  \<^verbatim>\<open>'s\<close> is the state of a stream with its surroundings (the clock). An operation that can fail gives an
  error option.
\<close>

record ('s, 't, 'b, 'c) stream_lib =
  sl_Now :: "'s \<Rightarrow> gotime"
  sl_SetReadDeadline :: "gotime \<Rightarrow> 's \<Rightarrow> error option \<times> 's"
  sl_SetWriteDeadline :: "gotime \<Rightarrow> 's \<Rightarrow> error option \<times> 's"
  sl_ReadFull :: "nat \<Rightarrow> 's \<Rightarrow> (error + byte list) \<times> 's"
  sl_ReadAll :: "'s \<Rightarrow> (error + byte list) \<times> 's"
  sl_Write :: "byte list \<Rightarrow> 's \<Rightarrow> error option \<times> 's"
  sl_DecodeWithMaxLength :: "rr_kind \<Rightarrow> 's \<Rightarrow> (error + ('t, 'b, 'c) rr_value) \<times> 's"
  sl_EncodeWithMaxLength :: "('t, 'b, 'c) rr_value \<Rightarrow> 's \<Rightarrow> error option \<times> 's"
  sl_CloseRead :: "'s \<Rightarrow> error option \<times> 's"
  sl_CloseWrite :: "'s \<Rightarrow> error option \<times> 's"
  sl_Close :: "'s \<Rightarrow> error option \<times> 's"

record rpc_names =
  RPCPingTopicV1 :: string
  RPCGoodByeTopicV1 :: string
  RPCStatusTopicV1 :: string
  RPCMetaDataTopicV1 :: string
  RPCMetaDataTopicV2 :: string
  rpc_suffix :: string
  GoodbyeCodeMessages :: "u64 \<Rightarrow> string option"

definition readTimeout :: duration where
  "readTimeout = 5 * second"

definition writeTimeout :: duration where
  "writeTimeout = 10 * second"

section \<open>Calls on a stream\<close>

text \<open>A call that may fail, and the sequence of two of them: the first error or panic ends it.\<close>

type_synonym ('s, 'a) call = "('s, 'a outcome) state"

definition and_call :: "('s, 'a) call \<Rightarrow> ('a \<Rightarrow> ('s, 'b) call) \<Rightarrow> ('s, 'b) call" where
  "and_call m f =
     State_Monad.bind m (\<lambda>r. case r of
        Panics p \<Rightarrow> State_Monad.return (Panics p)
      | Fails err \<Rightarrow> State_Monad.return (Fails err)
      | Returns x \<Rightarrow> f x)"

definition wrap_call :: "string \<Rightarrow> ('s, 'a) call \<Rightarrow> ('s, 'a) call" where
  "wrap_call msg m = State_Monad.bind m (\<lambda>r. State_Monad.return (wrap msg r))"

definition checked :: "('s \<Rightarrow> error option \<times> 's) \<Rightarrow> ('s, unit) call" where
  "checked op = State (\<lambda>s. case op s of (err, s') \<Rightarrow> (case err of None \<Rightarrow> Returns () | Some e \<Rightarrow> Fails e, s'))"

definition valued :: "('s \<Rightarrow> (error + 'a) \<times> 's) \<Rightarrow> ('s, 'a) call" where
  "valued op = State (\<lambda>s. case op s of (r, s') \<Rightarrow> (outcome_of r, s'))"

definition failing :: "error \<Rightarrow> ('s, 'a) call" where
  "failing err = State_Monad.return (Fails err)"

definition done_call :: "'a \<Rightarrow> ('s, 'a) call" where
  "done_call x = State_Monad.return (Returns x)"

text \<open>A deadline that lies the given time after the clock's reading.\<close>

definition read_deadline :: "('s, 't, 'b, 'c) stream_lib \<Rightarrow> 's \<Rightarrow> error option \<times> 's" where
  "read_deadline lib s = sl_SetReadDeadline lib (time_Add (sl_Now lib s) readTimeout) s"

definition write_deadline :: "('s, 't, 'b, 'c) stream_lib \<Rightarrow> 's \<Rightarrow> error option \<times> 's" where
  "write_deadline lib s = sl_SetWriteDeadline lib (time_Add (sl_Now lib s) writeTimeout) s"

section \<open>Requests and responses\<close>

text \<open>The error of the read deadline is replaced here, not wrapped.\<close>

definition replace_error :: "string \<Rightarrow> ('s, 'a) call \<Rightarrow> ('s, 'a) call" where
  "replace_error msg m =
     State_Monad.bind m (\<lambda>r. State_Monad.return (case r of Fails err \<Rightarrow> Fails (ErrNew msg) | _ \<Rightarrow> r))"

definition readRequest :: "('s, 't, 'b, 'c) stream_lib \<Rightarrow> rr_kind \<Rightarrow> ('s, ('t, 'b, 'c) rr_value) call" where
  "readRequest lib data =
     and_call (replace_error ''failed to set read deadline on stream'' (checked (read_deadline lib))) (\<lambda>_.
     and_call (wrap_call ''failed to decode data on stream'' (valued (sl_DecodeWithMaxLength lib data))) (\<lambda>x.
     and_call (wrap_call ''failed to close read request stream'' (checked (sl_CloseRead lib))) (\<lambda>_.
       done_call x)))"

text \<open>\<^verbatim>\<open>string(errData)\<close>.\<close>

definition bytes_string :: "byte list \<Rightarrow> string" where
  "bytes_string bs = map (\<lambda>b. char_of (unat b)) bs"

definition readResponse :: "('s, 't, 'b, 'c) stream_lib \<Rightarrow> rr_kind \<Rightarrow> ('s, ('t, 'b, 'c) rr_value) call" where
  "readResponse lib data =
     and_call (wrap_call ''failed to set read deadline on stream'' (checked (read_deadline lib))) (\<lambda>_.
     and_call (wrap_call ''failed to read response code on stream'' (valued (sl_ReadFull lib 1))) (\<lambda>respCode.
       if hd respCode \<noteq> 0 then
         and_call (wrap_call ''failed to read response error data on stream'' (valued (sl_ReadAll lib))) (\<lambda>errData.
           failing (ErrWrap (ErrNew (bytes_string errData))
             (''received error code '' @ decimal (unat (hd respCode)) @ '' response on stream'')))
       else
         and_call (wrap_call ''failed to decode data on stream'' (valued (sl_DecodeWithMaxLength lib data))) (\<lambda>x.
         and_call (wrap_call ''failed to close read response stream'' (checked (sl_CloseRead lib))) (\<lambda>_.
           done_call x))))"

definition writeRequest :: "('s, 't, 'b, 'c) stream_lib \<Rightarrow> ('t, 'b, 'c) rr_value \<Rightarrow> ('s, unit) call" where
  "writeRequest lib data =
     and_call (wrap_call ''failed to set write deadline on stream'' (checked (write_deadline lib))) (\<lambda>_.
     and_call (wrap_call ''failed to encode data on stream'' (checked (sl_EncodeWithMaxLength lib data))) (\<lambda>_.
     and_call (wrap_call ''failed to close write request stream'' (checked (sl_CloseWrite lib))) (\<lambda>_.
       done_call ())))"

definition writeResponse :: "('s, 't, 'b, 'c) stream_lib \<Rightarrow> ('t, 'b, 'c) rr_value \<Rightarrow> ('s, unit) call" where
  "writeResponse lib data =
     and_call (wrap_call ''failed to set write deadline on stream'' (checked (write_deadline lib))) (\<lambda>_.
     and_call (wrap_call ''failed to write success response code on stream'' (checked (sl_Write lib [0]))) (\<lambda>_.
     and_call (wrap_call ''failed to encode data on stream'' (checked (sl_EncodeWithMaxLength lib data))) (\<lambda>_.
     and_call (wrap_call ''failed to close write response stream'' (checked (sl_CloseWrite lib))) (\<lambda>_.
       done_call ()))))"

section \<open>Handlers\<close>

text \<open>\<^verbatim>\<open>defer stream.Close()\<close>: the stream is closed on every return, and the error of closing is dropped.\<close>

definition closing :: "('s, 't, 'b, 'c) stream_lib \<Rightarrow> ('s, 'a) call \<Rightarrow> ('s, 'a) call" where
  "closing lib m = State (\<lambda>s. case run_state m s of (r, s') \<Rightarrow> (r, snd (sl_Close lib s')))"

text \<open>
  An inbound handler returns nothing; its outcome here is what it logs: an error under the logged
  message, or nothing.
\<close>

type_synonym 's StreamHandler = "('s, unit) call"

definition noop_stream_handler :: "'s StreamHandler" where
  "noop_stream_handler = done_call ()"

definition InboundPingHandler :: "('s, 't, 'b, 'c) stream_lib \<Rightarrow> 's StreamHandler" where
  "InboundPingHandler lib =
     closing lib
       (and_call (wrap_call ''failed to read ping request on stream'' (readRequest lib K_Uint64)) (\<lambda>req.
        wrap_call ''failed to write ping response on stream'' (writeResponse lib (SSZUint64 0))))"

definition InboundGoodbyeHandler :: "('s, 't, 'b, 'c) stream_lib \<Rightarrow> rpc_names \<Rightarrow> 's StreamHandler" where
  "InboundGoodbyeHandler lib n =
     closing lib
       (and_call (wrap_call ''failed to read goodbye request on stream'' (readRequest lib K_Uint64)) (\<lambda>req.
        case req of
          SSZUint64 code \<Rightarrow>
            (case GoodbyeCodeMessages n code of
               None \<Rightarrow> failing (ErrNew ''failed to read goodbye request code on stream'')
             | Some goodbyeCode \<Rightarrow> done_call ())
        | _ \<Rightarrow> failing (ErrNew ''failed to read goodbye request code on stream'')))"

definition InboundMetadataHandler ::
  "('s, 't, 'b, 'c) stream_lib \<Rightarrow> 'b bitvector \<Rightarrow> 'c bitvector \<Rightarrow> eth_params \<Rightarrow> eth_state \<Rightarrow> 's StreamHandler outcome" where
  "InboundMetadataHandler lib attBits syncBits prm st =
     and_then (GetAttestationAllSubnetBitvector attBits prm st) (\<lambda>att.
     and_then (GetSyncCommitteeAllSubnetBitvector syncBits prm st) (\<lambda>syn.
       Returns (closing lib (wrap_call ''failed to write metadata response''
         (writeResponse lib (MetaDataV1 0 att syn))))))"

definition InboundStatusHandler :: "('s, 't, 'b, 'c) stream_lib \<Rightarrow> 's StreamHandler" where
  "InboundStatusHandler lib =
     closing lib
       (and_call (wrap_call ''failed to read status request on stream'' (readRequest lib K_Status)) (\<lambda>status.
        wrap_call ''failed to write status response on stream'' (writeResponse lib status)))"

definition OutboundPingHandler :: "('s, 't, 'b, 'c) stream_lib \<Rightarrow> ('s, unit) call" where
  "OutboundPingHandler lib =
     closing lib
       (and_call (wrap_call ''failed to write ping request on stream'' (writeRequest lib (SSZUint64 0))) (\<lambda>_.
        and_call (wrap_call ''failed to read ping response on stream'' (readResponse lib K_Uint64)) (\<lambda>resp.
          done_call ())))"

definition OutboundMetadataHandler :: "('s, 't, 'b, 'c) stream_lib \<Rightarrow> ('s, unit) call" where
  "OutboundMetadataHandler lib =
     closing lib
       (and_call (wrap_call ''failed to read metadata response'' (readResponse lib K_MetaDataV1)) (\<lambda>resp. done_call ()))"

definition rr_mappingTopicToHandler ::
  "('s, 't, 'b, 'c) stream_lib \<Rightarrow> rpc_names \<Rightarrow> 'b bitvector \<Rightarrow> 'c bitvector \<Rightarrow> eth_params \<Rightarrow> eth_state \<Rightarrow> string \<Rightarrow>
   's StreamHandler outcome" where
  "rr_mappingTopicToHandler lib n attBits syncBits prm st topic =
     (if topic = RPCPingTopicV1 n then Returns (InboundPingHandler lib)
      else if topic = RPCGoodByeTopicV1 n then Returns (InboundGoodbyeHandler lib n)
      else if topic = RPCMetaDataTopicV1 n \<or> topic = RPCMetaDataTopicV2 n then
        InboundMetadataHandler lib attBits syncBits prm st
      else if topic = RPCStatusTopicV1 n then Returns (InboundStatusHandler lib)
      else Returns noop_stream_handler)"

section \<open>Service\<close>

record 'n ReqRespOption =
  rro_host :: "'n Host option"

type_synonym 'n ReqRespOptionFunc = "'n ReqRespOption \<Rightarrow> 'n ReqRespOption"

definition reqresp_WithHost :: "'n Host option \<Rightarrow> 'n ReqRespOptionFunc" where
  "reqresp_WithHost h o' = o'\<lparr>rro_host := h\<rparr>"

record 'n ReqResp =
  rr_host :: "'n Host"

definition NewReqResp :: "'n ReqRespOptionFunc list \<Rightarrow> 'n ReqResp outcome" where
  "NewReqResp opts =
     (case rro_host (fold (\<lambda>opt. opt) opts \<lparr> rro_host = None \<rparr>) of
        None \<Rightarrow> Fails (ErrNew ''host must be configured when creating reqresp'')
      | Some h \<Rightarrow> Returns \<lparr> rr_host = h \<rparr>)"

definition protocolID :: "rpc_names \<Rightarrow> string \<Rightarrow> string" where
  "protocolID n topic = topic @ ''/'' @ rpc_suffix n"

definition rpc_topics :: "rpc_names \<Rightarrow> string list" where
  "rpc_topics n =
     [RPCPingTopicV1 n, RPCGoodByeTopicV1 n, RPCStatusTopicV1 n, RPCMetaDataTopicV1 n, RPCMetaDataTopicV2 n]"

text \<open>\<^verbatim>\<open>Serve\<close> up to its wait: the host's stream handlers, by protocol, after the registrations.\<close>

fun register_handlers ::
  "(string \<Rightarrow> 's StreamHandler outcome) \<Rightarrow> rpc_names \<Rightarrow> string list \<Rightarrow> (string, 's StreamHandler) gomap \<Rightarrow>
   (string, 's StreamHandler) gomap outcome" where
  "register_handlers mapping n [] table = Returns table"
| "register_handlers mapping n (topic # topics) table =
     and_then (mapping topic) (\<lambda>h. register_handlers mapping n topics (AList.update (protocolID n topic) h table))"

definition reqresp_Serve ::
  "('s, 't, 'b, 'c) stream_lib \<Rightarrow> rpc_names \<Rightarrow> 'b bitvector \<Rightarrow> 'c bitvector \<Rightarrow> eth_params \<Rightarrow> eth_state \<Rightarrow>
   (string, 's StreamHandler) gomap \<Rightarrow> (string, 's StreamHandler) gomap outcome" where
  "reqresp_Serve lib n attBits syncBits prm st table =
     register_handlers (rr_mappingTopicToHandler lib n attBits syncBits prm st) n (rpc_topics n) table"


section \<open>Documented behaviour of a working stream\<close>

text \<open>
  What can be seen of a stream: the bytes still to be read, the bytes written, and whether each
  side is open.
\<close>

record stream_view =
  v_in :: "byte list"
  v_out :: "byte list"
  v_ropen :: bool
  v_wopen :: bool

abbreviation opened :: "byte list \<Rightarrow> stream_view" where
  "opened i \<equiv> \<lparr> v_in = i, v_out = [], v_ropen = True, v_wopen = True \<rparr>"

abbreviation closed_with :: "byte list \<Rightarrow> byte list \<Rightarrow> stream_view" where
  "closed_with i w \<equiv> \<lparr> v_in = i, v_out = w, v_ropen = False, v_wopen = False \<rparr>"

definition gives :: "('s \<Rightarrow> stream_view) \<Rightarrow> 'r \<times> 's \<Rightarrow> 'r \<Rightarrow> stream_view \<Rightarrow> bool" where
  "gives view p r v \<longleftrightarrow> fst p = r \<and> view (snd p) = v"

text \<open>
  A stream that works, as libp2p documents it: on the open side reading consumes the input and
  writing appends to the output, a value \<^verbatim>\<open>x\<close> that stands alone in the input decodes from its encoding
  \<^verbatim>\<open>enc x\<close>; closing a side closes that side, and closing the stream closes both; after that reading or
  writing on it fails and changes nothing.
\<close>

definition read_laws ::
  "('s, 't, 'b, 'c) stream_lib \<Rightarrow> ('s \<Rightarrow> stream_view) \<Rightarrow> (('t, 'b, 'c) rr_value \<Rightarrow> byte list) \<Rightarrow> bool" where
  "read_laws lib view enc \<longleftrightarrow>
     (\<forall>s. v_ropen (view s) \<longrightarrow>
        (\<forall>t. gives view (sl_SetReadDeadline lib t s) None (view s)) \<and>
        gives view (sl_CloseRead lib s) None ((view s)\<lparr>v_ropen := False\<rparr>) \<and>
        (\<forall>b bs. v_in (view s) = b # bs \<longrightarrow> gives view (sl_ReadFull lib 1 s) (Inr [b]) ((view s)\<lparr>v_in := bs\<rparr>)) \<and>
        gives view (sl_ReadAll lib s) (Inr (v_in (view s))) ((view s)\<lparr>v_in := []\<rparr>) \<and>
        (\<forall>x. v_in (view s) = enc x \<longrightarrow>
           gives view (sl_DecodeWithMaxLength lib (kind_of x) s) (Inr x) ((view s)\<lparr>v_in := []\<rparr>))) \<and>
     (\<forall>s. \<not> v_ropen (view s) \<longrightarrow>
        (\<forall>n. \<exists>err. gives view (sl_ReadFull lib n s) (Inl err) (view s)) \<and>
        (\<exists>err. gives view (sl_ReadAll lib s) (Inl err) (view s)) \<and>
        (\<forall>k. \<exists>err. gives view (sl_DecodeWithMaxLength lib k s) (Inl err) (view s)))"

definition write_laws ::
  "('s, 't, 'b, 'c) stream_lib \<Rightarrow> ('s \<Rightarrow> stream_view) \<Rightarrow> (('t, 'b, 'c) rr_value \<Rightarrow> byte list) \<Rightarrow> bool" where
  "write_laws lib view enc \<longleftrightarrow>
     (\<forall>s. v_wopen (view s) \<longrightarrow>
        (\<forall>t. gives view (sl_SetWriteDeadline lib t s) None (view s)) \<and>
        gives view (sl_CloseWrite lib s) None ((view s)\<lparr>v_wopen := False\<rparr>) \<and>
        (\<forall>bs. gives view (sl_Write lib bs s) None ((view s)\<lparr>v_out := v_out (view s) @ bs\<rparr>)) \<and>
        (\<forall>x. gives view (sl_EncodeWithMaxLength lib x s) None ((view s)\<lparr>v_out := v_out (view s) @ enc x\<rparr>))) \<and>
     (\<forall>s. \<not> v_wopen (view s) \<longrightarrow>
        (\<forall>bs. \<exists>err. gives view (sl_Write lib bs s) (Some err) (view s)) \<and>
        (\<forall>x. \<exists>err. gives view (sl_EncodeWithMaxLength lib x s) (Some err) (view s)))"

definition stream_laws ::
  "('s, 't, 'b, 'c) stream_lib \<Rightarrow> ('s \<Rightarrow> stream_view) \<Rightarrow> (('t, 'b, 'c) rr_value \<Rightarrow> byte list) \<Rightarrow> bool" where
  "stream_laws lib view enc \<longleftrightarrow> read_laws lib view enc \<and> write_laws lib view enc \<and>
     (\<forall>s. view (snd (sl_Close lib s)) = (view s)\<lparr>v_ropen := False, v_wopen := False\<rparr>)"

text \<open>A run of a call: from every state with the first view it gives the result and the second view.\<close>

definition runs :: "('s \<Rightarrow> stream_view) \<Rightarrow> ('s, 'a) call \<Rightarrow> stream_view \<Rightarrow> 'a outcome \<Rightarrow> stream_view \<Rightarrow> bool" where
  "runs view m v r v' \<longleftrightarrow> (\<forall>s. view s = v \<longrightarrow> gives view (run_state m s) r v')"

section \<open>Lemmas\<close>

lemma run_and_call:
  "run_state (and_call m f) s =
     (case run_state m s of
        (Returns x, s') \<Rightarrow> run_state (f x) s'
      | (Fails err, s') \<Rightarrow> (Fails err, s')
      | (Panics p, s') \<Rightarrow> (Panics p, s'))"
  by (simp add: and_call_def State_Monad.bind_def State_Monad.return_def split: prod.split outcome.split)

lemma run_simps:
  "run_state (wrap_call msg m) s = (wrap msg (fst (run_state m s)), snd (run_state m s))"
  "run_state (checked op) s = (case fst (op s) of None \<Rightarrow> Returns () | Some e \<Rightarrow> Fails e, snd (op s))"
  "run_state (valued op') s = (outcome_of (fst (op' s)), snd (op' s))"
  "run_state (failing err) s = (Fails err, s)"
  "run_state (done_call x) s = (Returns x, s)"
  "run_state (replace_error msg m) s =
     (case fst (run_state m s) of Fails err \<Rightarrow> Fails (ErrNew msg) | r \<Rightarrow> r, snd (run_state m s))"
  by (simp_all add: wrap_call_def checked_def valued_def failing_def done_call_def replace_error_def
      State_Monad.bind_def State_Monad.return_def split: prod.split outcome.split)

text \<open>Rules for runs: a sequence runs its parts, an error ends it, a message wraps it.\<close>

lemma runs_and_call:
  "runs view m v (Returns x) v1 \<Longrightarrow> runs view (f x) v1 r v2 \<Longrightarrow> runs view (and_call m f) v r v2"
  by (auto simp: runs_def gives_def run_and_call split: prod.split)

lemma runs_and_fail: "runs view m v (Fails err) v' \<Longrightarrow> runs view (and_call m f) v (Fails err) v'"
  by (fastforce simp: runs_def gives_def run_and_call split: prod.split)

lemma runs_wrap: "runs view m v r v' \<Longrightarrow> runs view (wrap_call msg m) v (wrap msg r) v'"
  by (simp add: runs_def gives_def run_simps)

lemma runs_wrap_ok: "runs view m v (Returns x) v' \<Longrightarrow> runs view (wrap_call msg m) v (Returns x) v'"
  using runs_wrap [of view m v "Returns x"] by simp

lemma runs_wrap_fail: "runs view m v (Fails err) v' \<Longrightarrow> runs view (wrap_call msg m) v (Fails (ErrWrap err msg)) v'"
  using runs_wrap [of view m v "Fails err"] by simp

lemma runs_replace_ok: "runs view m v (Returns x) v' \<Longrightarrow> runs view (replace_error msg m) v (Returns x) v'"
  by (simp add: runs_def gives_def run_simps)

lemma runs_done: "runs view (done_call x) v (Returns x) v"
  and runs_failing: "runs view (failing err) v (Fails err) v"
  by (simp_all add: runs_def gives_def run_simps)

lemma runs_checked:
  "(\<And>s. view s = v \<Longrightarrow> gives view (op s) None v') \<Longrightarrow> runs view (checked op) v (Returns ()) v'"
  by (simp add: runs_def gives_def run_simps)

lemma runs_valued:
  "(\<And>s. view s = v \<Longrightarrow> gives view (op s) r v') \<Longrightarrow> runs view (valued op) v (outcome_of r) v'"
  by (simp add: runs_def gives_def run_simps)

lemma runs_valued_ok:
  "(\<And>s. view s = v \<Longrightarrow> gives view (op s) (Inr x) v') \<Longrightarrow> runs view (valued op) v (Returns x) v'"
  using runs_valued [of view v op "Inr x"] by simp

lemma runs_valued_fail:
  "(\<And>s. view s = v \<Longrightarrow> gives view (op s) (Inl err) v') \<Longrightarrow> runs view (valued op) v (Fails err) v'"
  using runs_valued [of view v op "Inl err"] by simp

lemma runs_closing:
  "stream_laws lib view enc \<Longrightarrow> runs view m v r v' \<Longrightarrow>
     runs view (closing lib m) v r (v'\<lparr>v_ropen := False, v_wopen := False\<rparr>)"
  by (auto simp: runs_def gives_def closing_def stream_laws_def split: prod.split)

lemma runs_reads:
  assumes "stream_laws lib view enc"
  shows "v_ropen v \<Longrightarrow> runs view (checked (read_deadline lib)) v (Returns ()) v"
    and "v_ropen v \<Longrightarrow> runs view (checked (sl_CloseRead lib)) v (Returns ()) (v\<lparr>v_ropen := False\<rparr>)"
    and "v_ropen v \<Longrightarrow> v_in v = b # bs \<Longrightarrow> runs view (valued (sl_ReadFull lib 1)) v (Returns [b]) (v\<lparr>v_in := bs\<rparr>)"
    and "v_ropen v \<Longrightarrow> runs view (valued (sl_ReadAll lib)) v (Returns (v_in v)) (v\<lparr>v_in := []\<rparr>)"
    and "v_ropen v \<Longrightarrow> v_in v = enc x \<Longrightarrow> kind_of x = k \<Longrightarrow>
      runs view (valued (sl_DecodeWithMaxLength lib k)) v (Returns x) (v\<lparr>v_in := []\<rparr>)"
  using assms unfolding stream_laws_def read_laws_def read_deadline_def
  by (auto intro!: runs_checked runs_valued_ok)

lemma runs_writes:
  assumes "stream_laws lib view enc"
  shows "v_wopen v \<Longrightarrow> runs view (checked (write_deadline lib)) v (Returns ()) v"
    and "v_wopen v \<Longrightarrow> runs view (checked (sl_CloseWrite lib)) v (Returns ()) (v\<lparr>v_wopen := False\<rparr>)"
    and "v_wopen v \<Longrightarrow> runs view (checked (sl_Write lib bs)) v (Returns ()) (v\<lparr>v_out := v_out v @ bs\<rparr>)"
    and "v_wopen v \<Longrightarrow> runs view (checked (sl_EncodeWithMaxLength lib x)) v (Returns ()) (v\<lparr>v_out := v_out v @ enc x\<rparr>)"
  using assms unfolding stream_laws_def write_laws_def write_deadline_def
  by (auto intro!: runs_checked)

lemma runs_eq: "runs view m v r v1 \<Longrightarrow> v1 = v2 \<Longrightarrow> runs view m v r v2"
  by simp

lemma runs_readRequest:
  assumes "stream_laws lib view enc" and "v_ropen v" and "v_in v = enc x" and "kind_of x = k"
  shows "runs view (readRequest lib k) v (Returns x) (v\<lparr>v_in := [], v_ropen := False\<rparr>)"
  unfolding readRequest_def
  by (intro runs_and_call [OF runs_replace_ok [OF runs_reads(1) [OF assms(1,2)]]]
      runs_and_call [OF runs_wrap_ok [OF runs_reads(5) [OF assms(1,2,3,4)]]]
      runs_and_call [OF runs_wrap_ok [OF runs_reads(2) [OF assms(1)]]] runs_done) (use assms(2) in simp)

lemma runs_writeRequest:
  assumes "stream_laws lib view enc" and "v_wopen v"
  shows "runs view (writeRequest lib x) v (Returns ()) (v\<lparr>v_out := v_out v @ enc x, v_wopen := False\<rparr>)"
  unfolding writeRequest_def
  by (intro runs_and_call [OF runs_wrap_ok [OF runs_writes(1) [OF assms]]]
      runs_and_call [OF runs_wrap_ok [OF runs_writes(4) [OF assms]]]
      runs_and_call [OF runs_wrap_ok [OF runs_writes(2) [OF assms(1)]]] runs_done) (use assms(2) in simp)

lemma runs_writeResponse:
  assumes "stream_laws lib view enc" and "v_wopen v"
  shows "runs view (writeResponse lib x) v (Returns ()) (v\<lparr>v_out := v_out v @ 0 # enc x, v_wopen := False\<rparr>)"
proof -
  have "runs view (writeResponse lib x) v (Returns ())
      (v\<lparr>v_out := v_out v @ [0], v_out := v_out (v\<lparr>v_out := v_out v @ [0]\<rparr>) @ enc x, v_wopen := False\<rparr>)"
    unfolding writeResponse_def
    by (intro runs_and_call [OF runs_wrap_ok [OF runs_writes(1) [OF assms]]]
        runs_and_call [OF runs_wrap_ok [OF runs_writes(3) [OF assms]]]
        runs_and_call [OF runs_wrap_ok [OF runs_writes(4) [OF assms(1)]]]
        runs_and_call [OF runs_wrap_ok [OF runs_writes(2) [OF assms(1)]]] runs_done) (use assms(2) in simp_all)
  then show ?thesis by simp
qed

text \<open>The beginning of a response: the code is read, then the run goes on by its value.\<close>

lemma runs_readResponse_code:
  assumes "stream_laws lib view enc" and "v_ropen v" and "v_in v = c # bs"
    and "runs view (if hd [c] \<noteq> 0 then
         and_call (wrap_call ''failed to read response error data on stream'' (valued (sl_ReadAll lib))) (\<lambda>errData.
           failing (ErrWrap (ErrNew (bytes_string errData))
             (''received error code '' @ decimal (unat (hd [c])) @ '' response on stream'')))
       else
         and_call (wrap_call ''failed to decode data on stream'' (valued (sl_DecodeWithMaxLength lib k))) (\<lambda>x.
         and_call (wrap_call ''failed to close read response stream'' (checked (sl_CloseRead lib))) (\<lambda>_.
           done_call x))) (v\<lparr>v_in := bs\<rparr>) r v'"
  shows "runs view (readResponse lib k) v r v'"
  unfolding readResponse_def
  by (intro runs_and_call [OF runs_wrap_ok [OF runs_reads(1) [OF assms(1,2)]]]
      runs_and_call [OF runs_wrap_ok [OF runs_reads(3) [OF assms(1,2,3)]]]) (rule assms(4))

lemma runs_readResponse:
  assumes "stream_laws lib view enc" and "v_ropen v" and "v_in v = 0 # enc x" and "kind_of x = k"
  shows "runs view (readResponse lib k) v (Returns x) (v\<lparr>v_in := [], v_ropen := False\<rparr>)"
proof -
  let ?v = "v\<lparr>v_in := enc x\<rparr>"
  have 1: "runs view (wrap_call ''failed to decode data on stream'' (valued (sl_DecodeWithMaxLength lib k))) ?v
      (Returns x) (?v\<lparr>v_in := []\<rparr>)"
    by (rule runs_wrap_ok [OF runs_reads(5) [OF assms(1) _ _ assms(4)]]) (use assms(2) in simp_all)
  have 2: "runs view (and_call (wrap_call ''failed to close read response stream'' (checked (sl_CloseRead lib)))
      (\<lambda>_. done_call x)) (?v\<lparr>v_in := []\<rparr>) (Returns x) (v\<lparr>v_in := [], v_ropen := False\<rparr>)"
    by (rule runs_and_call [OF runs_wrap_ok [OF runs_reads(2) [OF assms(1)]]], use assms(2) in simp)
      (rule runs_eq [OF runs_done], simp)
  from runs_and_call [OF 1, of "\<lambda>x. and_call (wrap_call ''failed to close read response stream'' (checked (sl_CloseRead lib)))
      (\<lambda>_. done_call x)", OF 2]
  show ?thesis by (intro runs_readResponse_code [OF assms(1-3)]) simp
qed

lemma runs_readResponse_error:
  assumes "stream_laws lib view enc" and "v_ropen v" and "v_in v = c # bs" and "c \<noteq> 0"
  shows "runs view (readResponse lib k) v
    (Fails (ErrWrap (ErrNew (bytes_string bs)) (''received error code '' @ decimal (unat c) @ '' response on stream'')))
    (v\<lparr>v_in := []\<rparr>)"
proof -
  let ?v = "v\<lparr>v_in := bs\<rparr>"
  let ?err = "ErrWrap (ErrNew (bytes_string bs)) (''received error code '' @ decimal (unat c) @ '' response on stream'')"
  have 1: "runs view (wrap_call ''failed to read response error data on stream'' (valued (sl_ReadAll lib))) ?v
      (Returns bs) (?v\<lparr>v_in := []\<rparr>)"
    using runs_wrap_ok [OF runs_reads(4) [OF assms(1), of ?v]] assms(2) by simp
  have 2: "runs view (failing ?err) (?v\<lparr>v_in := []\<rparr>) (Fails ?err) (v\<lparr>v_in := []\<rparr>)"
    by (rule runs_eq [OF runs_failing]) simp
  from runs_and_call [OF 1, of "\<lambda>errData. failing (ErrWrap (ErrNew (bytes_string errData))
      (''received error code '' @ decimal (unat c) @ '' response on stream''))", OF 2] assms(4)
  show ?thesis by (intro runs_readResponse_code [OF assms(1-3)]) simp
qed

text \<open>The handlers on a stream that has just been opened.\<close>

lemma runs_inbound_ping:
  assumes "stream_laws lib view enc"
  shows "runs view (InboundPingHandler lib) (opened (enc (SSZUint64 q))) (Returns ()) (closed_with [] (0 # enc (SSZUint64 0)))"
  unfolding InboundPingHandler_def
  by (rule runs_eq, rule runs_closing [OF assms], rule runs_and_call [OF runs_wrap_ok],
      rule runs_readRequest [OF assms, where x = "SSZUint64 q"], simp, simp, simp, rule runs_wrap_ok,
      rule runs_writeResponse [OF assms], simp_all)

lemma runs_inbound_status:
  assumes "stream_laws lib view enc"
  shows "runs view (InboundStatusHandler lib) (opened (enc (Status t))) (Returns ()) (closed_with [] (0 # enc (Status t)))"
  unfolding InboundStatusHandler_def
  by (rule runs_eq, rule runs_closing [OF assms], rule runs_and_call [OF runs_wrap_ok],
      rule runs_readRequest [OF assms, where x = "Status t"], simp, simp, simp, rule runs_wrap_ok,
      rule runs_writeResponse [OF assms], simp_all)

lemma runs_inbound_goodbye:
  assumes "stream_laws lib view enc"
  shows "runs view (InboundGoodbyeHandler lib n) (opened (enc (SSZUint64 q)))
    (if GoodbyeCodeMessages n q = None then Fails (ErrNew ''failed to read goodbye request code on stream'') else Returns ())
    (closed_with [] [])"
  unfolding InboundGoodbyeHandler_def
  by (rule runs_eq, rule runs_closing [OF assms], rule runs_and_call [OF runs_wrap_ok],
      rule runs_readRequest [OF assms, where x = "SSZUint64 q"])
    (auto split: option.split intro: runs_done runs_failing)

lemma runs_outbound_ping:
  assumes "stream_laws lib view enc"
  shows "runs view (OutboundPingHandler lib) (opened (0 # enc (SSZUint64 q))) (Returns ()) (closed_with [] (enc (SSZUint64 0)))"
  unfolding OutboundPingHandler_def
  by (rule runs_eq, rule runs_closing [OF assms], rule runs_and_call [OF runs_wrap_ok], rule runs_writeRequest [OF assms],
      simp, rule runs_and_call [OF runs_wrap_ok], rule runs_readResponse [OF assms, where x = "SSZUint64 q"],
      simp, simp, simp, rule runs_done, simp)

lemma runs_outbound_metadata:
  assumes "stream_laws lib view enc"
  shows "runs view (OutboundMetadataHandler lib) (opened (0 # enc (MetaDataV1 q a c))) (Returns ()) (closed_with [] [])"
  unfolding OutboundMetadataHandler_def
  by (rule runs_eq, rule runs_closing [OF assms], rule runs_and_call [OF runs_wrap_ok],
      rule runs_readResponse [OF assms, where x = "MetaDataV1 q a c"], simp, simp, simp, rule runs_done, simp)

lemma runs_inbound_metadata:
  assumes "stream_laws lib view enc" and "InboundMetadataHandler lib attBits syncBits prm st = Returns meta"
  shows "\<exists>att syn. GetAttestationAllSubnetBitvector attBits prm st = Returns att \<and>
    GetSyncCommitteeAllSubnetBitvector syncBits prm st = Returns syn \<and>
    (\<forall>i. runs view meta (opened i) (Returns ()) (closed_with i (0 # enc (MetaDataV1 0 att syn))))"
proof -
  obtain att syn where bits: "GetAttestationAllSubnetBitvector attBits prm st = Returns att"
    "GetSyncCommitteeAllSubnetBitvector syncBits prm st = Returns syn"
    and meta: "meta = closing lib (wrap_call ''failed to write metadata response'' (writeResponse lib (MetaDataV1 0 att syn)))"
    using assms(2) by (auto simp: InboundMetadataHandler_def)
  have "runs view meta (opened i) (Returns ()) (closed_with i (0 # enc (MetaDataV1 0 att syn)))" for i
    unfolding meta
    by (rule runs_eq, rule runs_closing [OF assms(1)], rule runs_wrap_ok, rule runs_writeResponse [OF assms(1)], simp_all)
  with bits show ?thesis by blast
qed

text \<open>A request that does not decode.\<close>

lemma runs_readRequest_error:
  assumes "stream_laws lib view enc" and "v_ropen v"
    and "\<And>s. view s = v \<Longrightarrow> gives view (sl_DecodeWithMaxLength lib k s) (Inl err) v'"
  shows "runs view (readRequest lib k) v (Fails (ErrWrap err ''failed to decode data on stream'')) v'"
  unfolding readRequest_def
  by (intro runs_and_call [OF runs_replace_ok [OF runs_reads(1) [OF assms(1,2)]]] runs_and_fail runs_wrap_fail
      runs_valued_fail) (rule assms(3))

lemma runsD: "runs view m v r v' \<Longrightarrow> view s = v \<Longrightarrow> fst (run_state m s) = r \<and> view (snd (run_state m s)) = v'"
  by (simp add: runs_def gives_def)

lemma register_handlers_result:
  assumes "\<forall>t \<in> set topics. mapping t = Returns (h t)" and "distinct topics"
  shows "\<exists>table'. register_handlers mapping n topics table = Returns table' \<and>
    (\<forall>p. map_of table' p = (case find (\<lambda>t. protocolID n t = p) topics of Some t \<Rightarrow> Some (h t) | None \<Rightarrow> map_of table p))"
  using assms
proof (induction topics arbitrary: table)
  case (Cons t topics)
  have inj: "protocolID n t' = protocolID n t \<longleftrightarrow> t' = t" for t' by (simp add: protocolID_def)
  obtain table' where table': "register_handlers mapping n topics (AList.update (protocolID n t) (h t) table) = Returns table'"
    "\<forall>p. map_of table' p = (case find (\<lambda>t. protocolID n t = p) topics of Some t \<Rightarrow> Some (h t)
       | None \<Rightarrow> map_of (AList.update (protocolID n t) (h t) table) p)"
    using Cons.IH [of "AList.update (protocolID n t) (h t) table"] Cons.prems by auto
  have "find (\<lambda>t'. protocolID n t' = protocolID n t) topics = None"
    using Cons.prems(2) by (auto simp: find_None_iff inj)
  then show ?case
    using table' Cons.prems(1) by (intro exI [of _ table']) (auto simp: update_conv' split: option.split)
qed simp

section \<open>Concrete instances\<close>

text \<open>A stream in memory, which is its own view. A number is encoded in unary.\<close>

primrec byte_enc :: "(byte, byte, byte) rr_value \<Rightarrow> byte list" where
  "byte_enc (SSZUint64 n) = replicate (unat n) 1 @ [0]"
| "byte_enc (Status t) = [t]"
| "byte_enc (MetaDataV1 n b c) = replicate (unat n) 1 @ [0, b, c]"

primrec byte_dec :: "rr_kind \<Rightarrow> byte list \<Rightarrow> error + (byte, byte, byte) rr_value" where
  "byte_dec K_Uint64 bs =
     (case dropWhile (\<lambda>b. b = 1) bs of
        [x] \<Rightarrow> Inr (SSZUint64 (of_nat (length (takeWhile (\<lambda>b. b = 1) bs))))
      | _ \<Rightarrow> Inl (ErrNew ''EOF''))"
| "byte_dec K_Status bs = (case bs of [t] \<Rightarrow> Inr (Status t) | _ \<Rightarrow> Inl (ErrNew ''EOF''))"
| "byte_dec K_MetaDataV1 bs =
     (case dropWhile (\<lambda>b. b = 1) bs of
        [x, b, c] \<Rightarrow> Inr (MetaDataV1 (of_nat (length (takeWhile (\<lambda>b. b = 1) bs))) b c)
      | _ \<Rightarrow> Inl (ErrNew ''EOF''))"

definition mem_read :: "(stream_view \<Rightarrow> (error + 'a) \<times> stream_view) \<Rightarrow> stream_view \<Rightarrow> (error + 'a) \<times> stream_view" where
  "mem_read f s = (if v_ropen s then f s else (Inl (ErrNew ''stream reset''), s))"

definition mem_write :: "byte list \<Rightarrow> stream_view \<Rightarrow> error option \<times> stream_view" where
  "mem_write bs s = (if v_wopen s then (None, s\<lparr>v_out := v_out s @ bs\<rparr>) else (Some (ErrNew ''stream reset''), s))"

definition mem_lib :: "(stream_view, byte, byte, byte) stream_lib" where
  "mem_lib =
     \<lparr> sl_Now = (\<lambda>s. 0), sl_SetReadDeadline = (\<lambda>t s. (None, s)), sl_SetWriteDeadline = (\<lambda>t s. (None, s)),
       sl_ReadFull = (\<lambda>n. mem_read (\<lambda>s. if length (v_in s) < n then (Inl (ErrNew ''EOF''), s\<lparr>v_in := []\<rparr>)
                                        else (Inr (take n (v_in s)), s\<lparr>v_in := drop n (v_in s)\<rparr>))),
       sl_ReadAll = mem_read (\<lambda>s. (Inr (v_in s), s\<lparr>v_in := []\<rparr>)),
       sl_Write = mem_write,
       sl_DecodeWithMaxLength = (\<lambda>k. mem_read (\<lambda>s. (byte_dec k (v_in s), s\<lparr>v_in := []\<rparr>))),
       sl_EncodeWithMaxLength = (\<lambda>x. mem_write (byte_enc x)),
       sl_CloseRead = (\<lambda>s. (None, s\<lparr>v_ropen := False\<rparr>)), sl_CloseWrite = (\<lambda>s. (None, s\<lparr>v_wopen := False\<rparr>)),
       sl_Close = (\<lambda>s. (None, s\<lparr>v_ropen := False, v_wopen := False\<rparr>)) \<rparr>"

lemma byte_dec_enc: "byte_dec (kind_of x) (byte_enc x) = Inr x"
proof -
  have "takeWhile (\<lambda>b. b = 1) (replicate k 1 @ 0 # bs) = replicate k (1 :: byte)"
    "dropWhile (\<lambda>b. b = 1) (replicate k 1 @ 0 # bs) = (0 :: byte) # bs" for k bs
    by (induction k) simp_all
  then show ?thesis by (cases x) simp_all
qed

lemma mem_lib_laws: "stream_laws mem_lib (\<lambda>s. s) byte_enc"
  by (simp add: stream_laws_def read_laws_def write_laws_def gives_def mem_lib_def mem_read_def mem_write_def byte_dec_enc)

section \<open>Properties\<close>

text \<open>
  C21: Two hosts of this code understand each other on a working stream. When one end serves a
  ping and the other reads its answer, both handlers succeed, the request the second end wrote is
  the one the first end read, nothing is left unread and both ends are closed. The same holds for
  metadata, where the requesting end writes nothing.
\<close>

theorem reqresp_exchange:
  fixes lib :: "('s, 't, 'b, 'c) stream_lib"
  assumes "stream_laws lib view enc"
    and "view server = opened (enc (SSZUint64 0))"
    and "view client = opened (v_out (view (snd (run_state (InboundPingHandler lib) server))))"
    and "InboundMetadataHandler lib attBits syncBits prm st = Returns meta"
    and "view server' = opened []" and "view client' = opened (v_out (view (snd (run_state meta server'))))"
  shows "fst (run_state (InboundPingHandler lib) server) = Returns () \<and>
    fst (run_state (OutboundPingHandler lib) client) = Returns () \<and>
    v_out (view (snd (run_state (OutboundPingHandler lib) client))) = v_in (view server) \<and>
    view (snd (run_state (InboundPingHandler lib) server)) = closed_with [] (v_in (view client)) \<and>
    view (snd (run_state (OutboundPingHandler lib) client)) = closed_with [] (v_in (view server)) \<and>
    fst (run_state meta server') = Returns () \<and>
    fst (run_state (OutboundMetadataHandler lib) client') = Returns () \<and>
    view (snd (run_state meta server')) = closed_with [] (v_in (view client')) \<and>
    view (snd (run_state (OutboundMetadataHandler lib) client')) = closed_with [] []"
proof -
  note laws = assms(1)
  note ping = runsD [OF runs_inbound_ping [OF laws, of 0] assms(2)]
  then have "view client = opened (0 # enc (SSZUint64 0))" using assms(3) by simp
  note pong = runsD [OF runs_outbound_ping [OF laws, of 0] this] and client = this
  obtain att syn where meta: "runs view meta (opened i) (Returns ()) (closed_with i (0 # enc (MetaDataV1 0 att syn)))" for i
    using runs_inbound_metadata [OF laws assms(4)] by blast
  note sent = runsD [OF meta assms(5)]
  then have client': "view client' = opened (0 # enc (MetaDataV1 0 att syn))" using assms(6) by simp
  show ?thesis
    using ping pong sent runsD [OF runs_outbound_metadata [OF laws] client'] assms(2) client client' by simp
qed

text \<open>Bit vectors of one byte, for a concrete run.\<close>

definition byte_bits :: "byte bitvector" where
  "byte_bits = \<lparr> bv_zero = 0, SetBitAt = (\<lambda>b i v. if i < 8 then (if v then set_bit (unat i) b else unset_bit (unat i) b) else b),
     BitAt = (\<lambda>b i. i < 8 \<and> bit b (unat i)), bv_Len = 8 \<rparr>"

lemma sample_metadata:
  "\<exists>meta. InboundMetadataHandler lib byte_bits byte_bits sample_params sample_eth = Returns meta"
proof -
  have "GetBeaconChainConfig sample_params sample_eth = Returns sample_config"
    by (simp add: GetBeaconChainConfig_supported sample_params_def sample_eth_def)
  then show ?thesis
    by (simp add: InboundMetadataHandler_def GetAttestationAllSubnetBitvector_def GetSyncCommitteeAllSubnetBitvector_def)
qed

theorem reqresp_exchange_witness:
  "fst (run_state (InboundPingHandler mem_lib) (opened [0])) = Returns () \<and>
   fst (run_state (OutboundPingHandler mem_lib)
     (opened (v_out (snd (run_state (InboundPingHandler mem_lib) (opened [0])))))) = Returns () \<and>
   snd (run_state (OutboundPingHandler mem_lib)
     (opened (v_out (snd (run_state (InboundPingHandler mem_lib) (opened [0])))))) = closed_with [] [0]"
proof -
  obtain meta where meta: "InboundMetadataHandler mem_lib byte_bits byte_bits sample_params sample_eth = Returns meta"
    using sample_metadata by blast
  show ?thesis
    using reqresp_exchange [OF mem_lib_laws _ _ meta, where server = "opened [0]" and server' = "opened []"] by simp
qed

text \<open>
  C33: What a peer gets from the inbound handlers on a working stream. A ping, whatever its
  number, is answered with a success code and the number zero; a status is answered with a success
  code and the same status; a metadata request is answered with a success code and metadata with
  all subnets, without reading a request; a goodbye is read and not answered, and its code only
  decides what is logged. In every case both sides of the stream are closed at the end.
\<close>

theorem inbound_replies:
  fixes lib :: "('s, 't, 'b, 'c) stream_lib"
  assumes "stream_laws lib view enc"
  shows "(view s = opened (enc (SSZUint64 q)) \<longrightarrow>
      fst (run_state (InboundPingHandler lib) s) = Returns () \<and>
      view (snd (run_state (InboundPingHandler lib) s)) = closed_with [] (0 # enc (SSZUint64 0)) \<and>
      view (snd (run_state (InboundGoodbyeHandler lib n) s)) = closed_with [] [] \<and>
      (fst (run_state (InboundGoodbyeHandler lib n) s) = Returns () \<longleftrightarrow> GoodbyeCodeMessages n q \<noteq> None)) \<and>
    (view s = opened (enc (Status t)) \<longrightarrow>
      fst (run_state (InboundStatusHandler lib) s) = Returns () \<and>
      view (snd (run_state (InboundStatusHandler lib) s)) = closed_with [] (0 # enc (Status t))) \<and>
    (\<forall>meta i. InboundMetadataHandler lib attBits syncBits prm st = Returns meta \<and> view s = opened i \<longrightarrow>
      (\<exists>att syn. GetAttestationAllSubnetBitvector attBits prm st = Returns att \<and>
         GetSyncCommitteeAllSubnetBitvector syncBits prm st = Returns syn \<and>
         fst (run_state meta s) = Returns () \<and>
         view (snd (run_state meta s)) = closed_with i (0 # enc (MetaDataV1 0 att syn))))"
proof (intro conjI allI impI)
  note laws = assms
  assume "view s = opened (enc (SSZUint64 q))"
  note ping = runsD [OF runs_inbound_ping [OF laws] this] and bye = runsD [OF runs_inbound_goodbye [OF laws, of n] this]
  show "fst (run_state (InboundPingHandler lib) s) = Returns ()"
    "view (snd (run_state (InboundPingHandler lib) s)) = closed_with [] (0 # enc (SSZUint64 0))" using ping by simp_all
  show "view (snd (run_state (InboundGoodbyeHandler lib n) s)) = closed_with [] []"
    "fst (run_state (InboundGoodbyeHandler lib n) s) = Returns () \<longleftrightarrow> GoodbyeCodeMessages n q \<noteq> None" using bye by simp_all
next
  assume "view s = opened (enc (Status t))"
  note status = runsD [OF runs_inbound_status [OF assms] this]
  show "fst (run_state (InboundStatusHandler lib) s) = Returns ()"
    "view (snd (run_state (InboundStatusHandler lib) s)) = closed_with [] (0 # enc (Status t))" using status by simp_all
next
  fix meta i
  assume "InboundMetadataHandler lib attBits syncBits prm st = Returns meta \<and> view s = opened i"
  then show "\<exists>att syn. GetAttestationAllSubnetBitvector attBits prm st = Returns att \<and>
         GetSyncCommitteeAllSubnetBitvector syncBits prm st = Returns syn \<and>
         fst (run_state meta s) = Returns () \<and>
         view (snd (run_state meta s)) = closed_with i (0 # enc (MetaDataV1 0 att syn))"
    using runs_inbound_metadata [OF assms, of attBits syncBits prm st meta] by (fastforce simp: runs_def gives_def)
qed

theorem inbound_replies_witness:
  "snd (run_state (InboundPingHandler mem_lib) (opened [1, 1, 0])) = closed_with [] [0, 0] \<and>
   snd (run_state (InboundStatusHandler mem_lib) (opened [7])) = closed_with [] [0, 7]"
proof -
  have "byte_enc (SSZUint64 2) = [1, 1, 0]" by code_simp
  then show ?thesis
    using inbound_replies [OF mem_lib_laws, of "opened [1, 1, 0]" 2] inbound_replies [OF mem_lib_laws, of "opened [7]" _ _ 7]
    by simp
qed

text \<open>
  C34: Errors on a stream. An outbound handler that gets a response whose code is not zero
  reports the code and the text that follows it, reads all of it and closes the stream. An inbound
  ping or status request that does not decode is reported with the decoder's error and answered
  with nothing: the stream is closed with no byte written. The hypothesis on the decoder is that
  it fails on this input without touching the write side.
\<close>

theorem reqresp_errors:
  fixes lib :: "('s, 't, 'b, 'c) stream_lib"
  assumes "stream_laws lib view enc"
  shows "(view s = opened (c # msg) \<and> c \<noteq> 0 \<longrightarrow>
      (let err = ErrWrap (ErrNew (bytes_string msg)) (''received error code '' @ decimal (unat c) @ '' response on stream'')
       in fst (run_state (OutboundPingHandler lib) s) = Fails (ErrWrap err ''failed to read ping response on stream'') \<and>
          view (snd (run_state (OutboundPingHandler lib) s)) = closed_with [] (enc (SSZUint64 0)) \<and>
          fst (run_state (OutboundMetadataHandler lib) s) = Fails (ErrWrap err ''failed to read metadata response'') \<and>
          view (snd (run_state (OutboundMetadataHandler lib) s)) = closed_with [] [])) \<and>
    (view s = opened i \<and>
     (\<forall>s'. view s' = opened i \<longrightarrow> gives view (sl_DecodeWithMaxLength lib k s') (Inl derr) (opened rest)) \<longrightarrow>
      (let err = ErrWrap derr ''failed to decode data on stream''
       in (k = K_Uint64 \<longrightarrow>
             fst (run_state (InboundPingHandler lib) s) = Fails (ErrWrap err ''failed to read ping request on stream'') \<and>
             view (snd (run_state (InboundPingHandler lib) s)) = closed_with rest []) \<and>
          (k = K_Status \<longrightarrow>
             fst (run_state (InboundStatusHandler lib) s) = Fails (ErrWrap err ''failed to read status request on stream'') \<and>
             view (snd (run_state (InboundStatusHandler lib) s)) = closed_with rest [])))"
proof (intro conjI impI; elim conjE)
  let ?err = "ErrWrap (ErrNew (bytes_string msg)) (''received error code '' @ decimal (unat c) @ '' response on stream'')"
  assume s: "view s = opened (c # msg)" and c: "c \<noteq> 0"
  have ping: "runs view (OutboundPingHandler lib) (opened (c # msg))
      (Fails (ErrWrap ?err ''failed to read ping response on stream'')) (closed_with [] (enc (SSZUint64 0)))"
    unfolding OutboundPingHandler_def
    by (rule runs_eq, rule runs_closing [OF assms], rule runs_and_call [OF runs_wrap_ok], rule runs_writeRequest [OF assms],
        simp, rule runs_and_fail, rule runs_wrap_fail, rule runs_readResponse_error [OF assms _ _ c], simp_all)
  have meta: "runs view (OutboundMetadataHandler lib) (opened (c # msg))
      (Fails (ErrWrap ?err ''failed to read metadata response'')) (closed_with [] [])"
    unfolding OutboundMetadataHandler_def
    by (rule runs_eq, rule runs_closing [OF assms], rule runs_and_fail, rule runs_wrap_fail,
        rule runs_readResponse_error [OF assms _ _ c], simp_all)
  show "let err = ?err
       in fst (run_state (OutboundPingHandler lib) s) = Fails (ErrWrap err ''failed to read ping response on stream'') \<and>
          view (snd (run_state (OutboundPingHandler lib) s)) = closed_with [] (enc (SSZUint64 0)) \<and>
          fst (run_state (OutboundMetadataHandler lib) s) = Fails (ErrWrap err ''failed to read metadata response'') \<and>
          view (snd (run_state (OutboundMetadataHandler lib) s)) = closed_with [] []"
    unfolding Let_def using runsD [OF ping s] runsD [OF meta s] by simp
next
  assume s: "view s = opened i"
    and dec: "\<forall>s'. view s' = opened i \<longrightarrow> gives view (sl_DecodeWithMaxLength lib k s') (Inl derr) (opened rest)"
  have read: "runs view (readRequest lib k) (opened i) (Fails (ErrWrap derr ''failed to decode data on stream'')) (opened rest)"
    by (rule runs_readRequest_error [OF assms]) (use dec in simp_all)
  have handler: "runs view (closing lib (and_call (wrap_call msg (readRequest lib k)) f)) (opened i)
      (Fails (ErrWrap (ErrWrap derr ''failed to decode data on stream'') msg)) (closed_with rest [])"
    for msg and f :: "('t, 'b, 'c) rr_value \<Rightarrow> ('s, unit) call"
    by (rule runs_eq, rule runs_closing [OF assms], rule runs_and_fail, rule runs_wrap_fail, rule read) simp
  show "let err = ErrWrap derr ''failed to decode data on stream''
       in (k = K_Uint64 \<longrightarrow>
             fst (run_state (InboundPingHandler lib) s) = Fails (ErrWrap err ''failed to read ping request on stream'') \<and>
             view (snd (run_state (InboundPingHandler lib) s)) = closed_with rest []) \<and>
          (k = K_Status \<longrightarrow>
             fst (run_state (InboundStatusHandler lib) s) = Fails (ErrWrap err ''failed to read status request on stream'') \<and>
             view (snd (run_state (InboundStatusHandler lib) s)) = closed_with rest [])"
    unfolding Let_def InboundPingHandler_def InboundStatusHandler_def using runsD [OF handler s] by auto
qed

theorem reqresp_errors_witness:
  "fst (run_state (OutboundPingHandler mem_lib) (opened [2, 98, 97, 100])) =
     Fails (ErrWrap (ErrWrap (ErrNew ''bad'') ''received error code 2 response on stream'') ''failed to read ping response on stream'') \<and>
   fst (run_state (InboundStatusHandler mem_lib) (opened [])) =
     Fails (ErrWrap (ErrWrap (ErrNew ''EOF'') ''failed to decode data on stream'') ''failed to read status request on stream'') \<and>
   snd (run_state (InboundStatusHandler mem_lib) (opened [])) = closed_with [] []"
proof -
  have strings: "bytes_string [98, 97, 100] = ''bad''" "decimal (unat (2 :: byte)) = ''2''" by code_simp+
  have eof: "gives (\<lambda>s. s) (sl_DecodeWithMaxLength mem_lib K_Status (opened [])) (Inl (ErrNew ''EOF'')) (opened [])"
    by (simp add: gives_def mem_lib_def mem_read_def)
  show ?thesis
    using reqresp_errors [OF mem_lib_laws, of "opened [2, 98, 97, 100]" 2 "[98, 97, 100]"] strings
      reqresp_errors [OF mem_lib_laws, of "opened []" _ _ "[]" K_Status "ErrNew ''EOF''" "[]"] eof
    by (simp add: Let_def)
qed

text \<open>
  C35: The service registers a handler for exactly five protocols, each topic with the
  encoding's suffix: ping, goodbye and status with their own handler and both metadata versions
  with the metadata handler; every other protocol keeps its handler. The hypothesis is that the
  library's topic names differ.
\<close>

theorem reqresp_Serve_registers:
  fixes lib :: "('s, 't, 'b, 'c) stream_lib"
  assumes "distinct (rpc_topics n)" and "InboundMetadataHandler lib attBits syncBits prm st = Returns meta"
  shows "\<exists>table'. reqresp_Serve lib n attBits syncBits prm st table = Returns table' \<and>
    map_of table' (protocolID n (RPCPingTopicV1 n)) = Some (InboundPingHandler lib) \<and>
    map_of table' (protocolID n (RPCGoodByeTopicV1 n)) = Some (InboundGoodbyeHandler lib n) \<and>
    map_of table' (protocolID n (RPCStatusTopicV1 n)) = Some (InboundStatusHandler lib) \<and>
    map_of table' (protocolID n (RPCMetaDataTopicV1 n)) = Some meta \<and>
    map_of table' (protocolID n (RPCMetaDataTopicV2 n)) = Some meta \<and>
    (\<forall>p. p \<notin> protocolID n ` set (rpc_topics n) \<longrightarrow> map_of table' p = map_of table p)"
proof -
  let ?mapping = "rr_mappingTopicToHandler lib n attBits syncBits prm st"
  let ?h = "\<lambda>t. if t = RPCPingTopicV1 n then InboundPingHandler lib else if t = RPCGoodByeTopicV1 n then InboundGoodbyeHandler lib n
     else if t = RPCStatusTopicV1 n then InboundStatusHandler lib else meta"
  have "\<forall>t \<in> set (rpc_topics n). ?mapping t = Returns (?h t)"
    using assms by (auto simp: rpc_topics_def rr_mappingTopicToHandler_def)
  from register_handlers_result [OF this assms(1), of n table] obtain table' where
    "reqresp_Serve lib n attBits syncBits prm st table = Returns table'" and
    table': "\<forall>p. map_of table' p = (case find (\<lambda>t. protocolID n t = p) (rpc_topics n) of Some t \<Rightarrow> Some (?h t) | None \<Rightarrow> map_of table p)"
    by (auto simp: reqresp_Serve_def)
  moreover have "protocolID n t = protocolID n t' \<longleftrightarrow> t = t'" for t t' by (simp add: protocolID_def)
  moreover have "find (\<lambda>t. protocolID n t = p) (rpc_topics n) = None" if "p \<notin> protocolID n ` set (rpc_topics n)" for p
    using that by (auto simp: find_None_iff)
  ultimately show ?thesis
    using assms(1) by (intro exI [of _ table']) (auto simp: rpc_topics_def)
qed

definition sample_rpc :: rpc_names where
  "sample_rpc =
     \<lparr> RPCPingTopicV1 = ''/eth2/beacon_chain/req/ping/1'', RPCGoodByeTopicV1 = ''/eth2/beacon_chain/req/goodbye/1'',
       RPCStatusTopicV1 = ''/eth2/beacon_chain/req/status/1'', RPCMetaDataTopicV1 = ''/eth2/beacon_chain/req/metadata/1'',
       RPCMetaDataTopicV2 = ''/eth2/beacon_chain/req/metadata/2'', rpc_suffix = ''ssz_snappy'',
       GoodbyeCodeMessages = (\<lambda>c. if c = 1 then Some ''client shutdown'' else None) \<rparr>"

theorem reqresp_Serve_registers_witness:
  "\<exists>table'. reqresp_Serve mem_lib sample_rpc byte_bits byte_bits sample_params sample_eth [] = Returns table' \<and>
     map_of table' ''/eth2/beacon_chain/req/ping/1/ssz_snappy'' = Some (InboundPingHandler mem_lib)"
proof -
  obtain meta where meta: "InboundMetadataHandler mem_lib byte_bits byte_bits sample_params sample_eth = Returns meta"
    using sample_metadata by blast
  have "distinct (rpc_topics sample_rpc)" by (simp add: rpc_topics_def sample_rpc_def)
  from reqresp_Serve_registers [OF this meta, of "[]"] show ?thesis
    by (auto simp: sample_rpc_def protocolID_def)
qed

end
