(* ===== verification/Watcher_Model.thy ===== *)
theory Watcher_Model
  imports Watcher_Options Gossip_Properties Peering Req_Resp
begin

text \<open>
  The watcher (\<^verbatim>\<open>src/watcher/watcher.go\<close>) and the command line (\<^verbatim>\<open>src/cmd/cmd.go\<close>, \<^verbatim>\<open>cmd_watcher.go\<close>): the
  construction of all services from the options in order, the private keys, the action of the
  command and the exit code of the process. The key functions and the connection manager are
  parameters, as is the parsed command line.
\<close>

section \<open>Construction\<close>

text \<open>\<^verbatim>\<open>'k\<close> is an ECDSA key, \<^verbatim>\<open>'q\<close> the host's form of it, \<^verbatim>\<open>'c\<close> a connection manager.\<close>

record ('k, 'q, 'c) watcher_lib =
  wl_HexToECDSA :: "string \<Rightarrow> error + 'k"
  wl_GenerateKey :: "error + 'k"
  wl_FromECDSA :: "'k \<Rightarrow> byte list"
  wl_PrivKeyBytesLen :: nat
  wl_UnmarshalSecp256k1PrivateKey :: "byte list \<Rightarrow> error + 'q"
  wl_NewConnManager :: "64 word \<Rightarrow> 64 word \<Rightarrow> error + 'c"

definition retrievePrivateKeys :: "('k, 'q, 'c) watcher_lib \<Rightarrow> string \<Rightarrow> ('k \<times> 'q) outcome" where
  "retrievePrivateKeys wl ecdsaKeyHex =
     and_then (if ecdsaKeyHex \<noteq> '''' then
                 wrap ''failed to parse ecdsa private key'' (outcome_of (wl_HexToECDSA wl ecdsaKeyHex))
               else wrap ''failed to generate ecdsa private key'' (outcome_of (wl_GenerateKey wl))) (\<lambda>ecdsaKey.
       let ecdsaBytes = wl_FromECDSA wl ecdsaKey in
       if length ecdsaBytes \<noteq> wl_PrivKeyBytesLen wl then
         Fails (ErrNew (''expected secp256k1 data size to be '' @ decimal (wl_PrivKeyBytesLen wl) @
           '', but actual '' @ decimal (length ecdsaBytes)))
       else
         and_then (wrap ''failed to unmarshal secp256k1 private key''
           (outcome_of (wl_UnmarshalSecp256k1PrivateKey wl ecdsaBytes))) (\<lambda>secpKey.
           Returns (ecdsaKey, secpKey)))"

definition UserAgent :: string where
  "UserAgent = ''peekd''"

text \<open>
  The services in the order they are added to the supervisor. The processor is one object that
  the gossip service and the supervisor share.
\<close>

datatype ('d, 'n, 'k, 'l, 'e) service =
    HostService "'n Host"
  | DiscoveryService "('k, 'l, 'e) Discovery"
  | DialerService "'n Dialer"
  | GossipService "('d adapter, 'n) GossipSub"
  | ReqRespService "'n ReqResp"
  | ProcessorService "'d adapter BeaconMessageProcessor"

record ('d, 'n, 'k, 'l, 'e) Watcher =
  w_services :: "('d, 'n, 'k, 'l, 'e) service list"
  w_repo :: "'d adapter"

text \<open>The high watermark of the connection manager, \<^verbatim>\<open>o.targetPeers*5/4\<close> on \<^verbatim>\<open>int\<close>.\<close>

definition high_watermark :: "64 word \<Rightarrow> 64 word" where
  "high_watermark targetPeers = word_of_int (sint (targetPeers * 5) sdiv 4)"

definition NewWatcher ::
  "('k, 'q, 'c) watcher_lib \<Rightarrow> ('q, 'm, 'c, 'ma, 'n) host_lib \<Rightarrow> ('k, 'l, 'e, 'b, 's, 'p, 'a) discovery_lib \<Rightarrow>
   ('d, 'bt) driver \<Rightarrow> ('msg, 'z) gossip_lib \<Rightarrow> eth_params \<Rightarrow> eth_state \<Rightarrow> gotime \<Rightarrow> WatcherOptionFunc list \<Rightarrow>
   (('d, 'n, 'k, 'l, 'e) Watcher \<times> eth_state) outcome" where
  "NewWatcher wl hl dl drv gl prm st now opts =
     (let o' = fold (\<lambda>opt. opt) opts (default_WatcherOption prm) in
      and_then (wrap ''failed to set eth network'' (SetNetwork prm (wo_ethNetwork o') st)) (\<lambda>st1.
      and_then (wrap ''failed to initialize repository'' (NewRepository drv
        [WithDBType (wo_dbType o'), WithDBName (wo_dbName o'), WithDBHost (wo_dbHost o'), WithDBPort (wo_dbPort o'),
         WithDBUser (wo_dbUser o'), WithDBPassword (wo_dbPassword o'), WithDBSecure (wo_dbSecure o')])) (\<lambda>repo.
      and_then (wrap ''failed to retrieve private keys'' (retrievePrivateKeys wl (wo_ecdsaPrivateKeyHex o')))
        (\<lambda>(ecdsaKey, secpKey).
      and_then (wrap ''failed to create connection manager'' (outcome_of (wl_NewConnManager wl
        (wo_targetPeers o') (high_watermark (wo_targetPeers o'))))) (\<lambda>connMgr.
      and_then (wrap ''failed to create host'' (NewHost hl
        [host_WithListenIP (wo_listenIP o'), host_WithPort (wo_portTCP o'), host_WithPrivateKey secpKey,
         host_WithUserAgent UserAgent, host_WithTargetPeers (wo_targetPeers o'), host_WithConnMgr connMgr])) (\<lambda>localHost.
      and_then (wrap ''failed to create discovery'' (NewDiscovery dl prm st1 now
        [peering_WithPrivateKey (Some ecdsaKey), peering_WithListenIP (wo_listenIP o'),
         peering_WithPortUDP (wo_portUDP o'), peering_WithPortTCP (wo_portTCP o')])) (\<lambda>(discovery, st2).
      and_then (wrap ''failed to create dialer'' (NewDialer (Some localHost) True)) (\<lambda>dialer.
      and_then (NewBeaconMessageProcessor prm st2
        [WithRepository repo, WithPeerCounter, WithNodeAlias (wo_nodeAlias o'), WithNodeRegion (wo_nodeRegion o')])
        (\<lambda>messageProcessor.
      and_then (wrap ''failed to create gossipSub'' (NewGossipSub gl prm st2 now
        [gossip_WithEstimateActiveValidators (wo_estimateActiveValidators o'), gossip_WithSupervisor ''watcher'',
         gossip_WithHost (Some localHost), gossip_WithMessageProcessor messageProcessor])) (\<lambda>gossipSub.
      and_then (wrap ''failed to create reqresp'' (NewReqResp [reqresp_WithHost (Some localHost)])) (\<lambda>reqResp.
        Returns (\<lparr> w_services = [HostService localHost, DiscoveryService discovery, DialerService dialer,
                     GossipService gossipSub, ReqRespService reqResp, ProcessorService messageProcessor],
                   w_repo = repo \<rparr>, st2))))))))))))"

text \<open>
  \<^verbatim>\<open>Serve\<close>: what the supervisor returns, after which the repository is closed; the error of closing
  it is dropped.
\<close>

definition watcher_Serve ::
  "('d, 'bt) driver \<Rightarrow> error option \<Rightarrow> ('d, 'n, 'k, 'l, 'e) Watcher \<Rightarrow> ('d, 'n, 'k, 'l, 'e) Watcher \<times> error option" where
  "watcher_Serve drv supervised w =
     (w\<lparr>w_repo := fst (repo_Close (adapter_methods drv) (w_repo w))\<rparr>, supervised)"

section \<open>The command\<close>

text \<open>
  The action of the command: the error it returns, with the watcher after its run when one was
  created. \<^verbatim>\<open>supervised\<close> is what the supervisor returns.
\<close>

definition launchWatcher ::
  "('k, 'q, 'c) watcher_lib \<Rightarrow> ('q, 'm, 'c, 'ma, 'n) host_lib \<Rightarrow> ('k, 'l, 'e, 'b, 's, 'p, 'a) discovery_lib \<Rightarrow>
   ('d, 'bt) driver \<Rightarrow> ('msg, 'z) gossip_lib \<Rightarrow> eth_params \<Rightarrow> eth_state \<Rightarrow> gotime \<Rightarrow> command \<Rightarrow> error option \<Rightarrow>
   (('d, 'n, 'k, 'l, 'e) Watcher \<times> error option) outcome" where
  "launchWatcher wl hl dl drv gl prm st now cmd supervised =
     and_then (wrap ''failed to create watcher'' (NewWatcher wl hl dl drv gl prm st now (launch_options cmd)))
       (\<lambda>(w, st'). Returns (watcher_Serve drv supervised w))"

text \<open>\<^verbatim>\<open>errors.Is(err, context.Canceled)\<close> looks through the wrapping; the exit code of the process.\<close>

definition Canceled :: error where
  "Canceled = ErrNew ''context canceled''"

fun errors_Is :: "error \<Rightarrow> error \<Rightarrow> bool" where
  "errors_Is (ErrNew s) target = (ErrNew s = target)"
| "errors_Is (ErrWrap err s) target = (ErrWrap err s = target \<or> errors_Is err target)"

definition main_exit :: "error option \<Rightarrow> nat" where
  "main_exit err = (case err of None \<Rightarrow> 0 | Some e \<Rightarrow> if errors_Is e Canceled then 0 else 1)"



section \<open>Lemmas\<close>

lemma NewDialer_host: "NewDialer (Some h) True = Returns \<lparr> dial_host = h \<rparr>"
  by (simp add: NewDialer_def)

lemma NewReqResp_host: "NewReqResp [reqresp_WithHost (Some h)] = Returns \<lparr> rr_host = h \<rparr>"
  by (simp add: NewReqResp_def reqresp_WithHost_def)

lemma NewProcessor_fields:
  assumes "NewBeaconMessageProcessor prm st [WithRepository repo, WithPeerCounter, WithNodeAlias na, WithNodeRegion nr] = Returns mp"
  shows "bp_repo mp = Some repo" "bp_peerCounter mp" "bp_extractors mp = newSlotExtractorRegistry"
    "bp_nodeAlias mp = na" "bp_nodeRegion mp = nr" "GetBeaconChainConfig prm st = Returns (bp_beaconConfig mp)"
  using assms
  by (auto simp: NewBeaconMessageProcessor_def WithRepository_def WithPeerCounter_def WithNodeAlias_def
      WithNodeRegion_def Let_def)

lemma NewHost_run:
  assumes "NewHost hl [host_WithListenIP ip, host_WithPort port, host_WithPrivateKey key, host_WithUserAgent ua,
      host_WithTargetPeers t, host_WithConnMgr cm] = Returns h"
  shows "TargetPeerCount h = t"
    and "\<exists>addr rc. lib_NewMultiaddr hl (''/ip4/'' @ ip @ ''/tcp/'' @ decimal_int port) = Inr addr \<and>
      lib_NewResourceManager hl = Inr rc \<and> lib_libp2p_New hl addr key ua rc cm = Inr (libp2p_Host h)"
  using assms
  by (auto simp: NewHost_def host_WithListenIP_def host_WithPort_def host_WithPrivateKey_def host_WithUserAgent_def
      host_WithTargetPeers_def host_WithConnMgr_def Let_def TargetPeerCount_def default_HostOption_def
      split: option.splits if_splits)

lemma NewRepository_run:
  assumes "NewRepository drv [WithDBType ty, WithDBName nm, WithDBHost ho, WithDBPort po, WithDBUser us, WithDBPassword pw,
      WithDBSecure sec] = Returns repo"
  shows "ty = ''clickhouse'' \<and> (\<exists>copts. drv_Open drv copts = Inr (chRepo repo) \<and>
    opt_Addr copts = [ho @ '':'' @ decimal (unat po mod 2 ^ 16)] \<and> opt_Database copts = nm \<and> opt_Username copts = us \<and>
    opt_Password copts = pw \<and> (opt_TLSInsecureSkipVerify copts = None \<longleftrightarrow> \<not> sec))"
proof -
  have port: "unat (ucast po :: u16) = unat po mod 2 ^ 16" by (simp add: unsigned_ucast_eq take_bit_eq_mod)
  let ?o = "\<lparr> ro_dbType = ty, ro_dbName = nm, ro_dbHost = ho, ro_dbPort = po, ro_dbUser = us, ro_dbPassword = pw, ro_dbSecure = sec \<rparr>"
  let ?copts = "clickhouse_options (repository_config ?o)"
  have "ty = ''clickhouse''" "drv_Open drv ?copts = Inr (chRepo repo)"
    using assms
    by (auto simp: NewRepository_def default_RepositoryOption_def WithDBType_def WithDBName_def WithDBHost_def WithDBPort_def
        WithDBUser_def WithDBPassword_def WithDBSecure_def Let_def NewClickHouseRepository_def split: if_splits option.splits)
  then show ?thesis
    by (intro conjI exI [of _ ?copts]) (simp_all add: clickhouse_options_def repository_config_def port)
qed

lemma NewDiscovery_fields:
  assumes "NewDiscovery dl prm st now [peering_WithPrivateKey (Some key), peering_WithListenIP ip,
      peering_WithPortUDP udp, peering_WithPortTCP tcp] = Returns (d, st')"
  shows "d_privateKey d = key" "\<not> d_closed d" "\<exists>net. GetBeaconNetworkConfig prm st = Returns (net, st')"
    and "\<exists>addr rest. d_node d =
      fold (dl_Set dl) (enr_IPv4 addr # enr_UDP (ucast udp) # enr_TCP (ucast tcp) # rest) (dl_NewLocalNode dl key)"
proof -
  let ?opts = "[peering_WithPrivateKey (Some key), peering_WithListenIP ip, peering_WithPortUDP udp, peering_WithPortTCP tcp]"
  have options: "fold (\<lambda>opt. opt) ?opts default_DiscoveryOption =
      \<lparr> do_privateKey = Some key, do_listenIP = ip, do_portUDP = udp, do_portTCP = tcp \<rparr>"
    by (simp add: default_DiscoveryOption_def peering_WithPrivateKey_def peering_WithListenIP_def peering_WithPortUDP_def
        peering_WithPortTCP_def)
  note run = NewDiscovery_run [OF assms, unfolded options]
  show key: "d_privateKey d = key" and "\<not> d_closed d" using run by auto
  from run show "\<exists>net. GetBeaconNetworkConfig prm st = Returns (net, st')" by blast
  from run obtain net att syn forkID where
    "d_node d = fold (dl_Set dl) (local_entries \<lparr> do_privateKey = Some key, do_listenIP = ip, do_portUDP = udp, do_portTCP = tcp \<rparr>
       net att syn forkID) (dl_NewLocalNode dl (d_privateKey d))"
    by blast
  then show "\<exists>addr rest. d_node d =
      fold (dl_Set dl) (enr_IPv4 addr # enr_UDP (ucast udp) # enr_TCP (ucast tcp) # rest) (dl_NewLocalNode dl key)"
    unfolding local_entries_def key DiscoveryOption.simps by blast
qed

text \<open>\<^verbatim>\<open>5/4\<close> of the target, as long as the product fits.\<close>

lemma high_watermark_value:
  assumes "0 \<le> sint t" and "sint t * 5 < 2 ^ 63"
  shows "sint (high_watermark t) = sint t * 5 div 4"
proof -
  have "t * 5 = word_of_int (sint t * 5)"
    by (simp flip: wi_hom_mult)
  then have prod: "sint (t * 5) = sint t * 5"
    using assms sint_word_of_int_64 [of "sint t * 5"] by simp
  have "sint t * 5 div 4 < 2 ^ 63" using assms by linarith
  then show ?thesis
    unfolding high_watermark_def prod using assms
    by (subst sdiv_nonneg, simp, simp, intro sint_word_of_int_64) simp_all
qed

lemma GetBeaconNetworkConfig_network:
  "GetBeaconNetworkConfig prm st = Returns (net, st') \<Longrightarrow> network st' = network st"
  by (auto simp: GetBeaconNetworkConfig_def Let_def split: if_splits)

lemma NewGossipSub_fields:
  assumes "NewGossipSub gl prm st now [gossip_WithEstimateActiveValidators est, gossip_WithSupervisor sv,
      gossip_WithHost (Some h), gossip_WithMessageProcessor mp] = Returns gs"
  shows "gs_host gs = h" "gs_messageProcessor gs = Some mp" "gs_supervisor gs = sv" "est \<noteq> 0"
    "estimateActiveValidators (gs_peerScore gs) = est"
    "GetBeaconChainConfig prm st = Returns (gs_beaconConfig gs)"
  using assms
  by (auto simp: NewGossipSub_def newPeerScore_def gossip_WithEstimateActiveValidators_def gossip_WithSupervisor_def
      gossip_WithHost_def gossip_WithMessageProcessor_def default_GossipSubOption_def Let_def split: if_splits)

lemma retrievePrivateKeys_run:
  assumes "retrievePrivateKeys wl hex = Returns (k, q)"
  shows "(if hex \<noteq> '''' then wl_HexToECDSA wl hex = Inr k else wl_GenerateKey wl = Inr k) \<and>
    length (wl_FromECDSA wl k) = wl_PrivKeyBytesLen wl \<and> wl_UnmarshalSecp256k1PrivateKey wl (wl_FromECDSA wl k) = Inr q"
  using assms by (auto simp: retrievePrivateKeys_def Let_def split: if_splits)

section \<open>Concrete instances\<close>

definition sample_wlib :: "(string, string, unit) watcher_lib" where
  "sample_wlib =
     \<lparr> wl_HexToECDSA = Inr, wl_GenerateKey = Inr ''key'', wl_FromECDSA = (\<lambda>k. replicate 32 0), wl_PrivKeyBytesLen = 32,
       wl_UnmarshalSecp256k1PrivateKey = (\<lambda>b. Inr ''secp''), wl_NewConnManager = (\<lambda>low high. Inr ()) \<rparr>"

lemma sample_NewWatcher:
  assumes "wo_ethNetwork (fold (\<lambda>opt. opt) opts (default_WatcherOption sample_params)) = ''mainnet''"
    and "wo_dbType (fold (\<lambda>opt. opt) opts (default_WatcherOption sample_params)) = ''clickhouse''"
    and "wo_estimateActiveValidators (fold (\<lambda>opt. opt) opts (default_WatcherOption sample_params)) \<noteq> 0"
    and "wo_listenIP (fold (\<lambda>opt. opt) opts (default_WatcherOption sample_params)) = ''127.0.0.1''"
  shows "\<exists>w. NewWatcher sample_wlib sample_host_lib sample_dlib memory_driver sample_gossip_lib sample_params sample_eth now opts =
    Returns (w, sample_eth)"
proof -
  let ?o = "fold (\<lambda>opt. opt) opts (default_WatcherOption sample_params)"
  have net: "SetNetwork sample_params ''mainnet'' sample_eth = Returns sample_eth"
    by (simp add: SetNetwork_def sample_params_def sample_eth_def)
  obtain repo where repo: "NewRepository memory_driver [WithDBType ''clickhouse'', WithDBName (wo_dbName ?o),
      WithDBHost (wo_dbHost ?o), WithDBPort (wo_dbPort ?o), WithDBUser (wo_dbUser ?o), WithDBPassword (wo_dbPassword ?o),
      WithDBSecure (wo_dbSecure ?o)] = Returns repo"
    by (auto simp: NewRepository_def WithDBType_def WithDBName_def WithDBHost_def WithDBPort_def WithDBUser_def
        WithDBPassword_def WithDBSecure_def Let_def NewClickHouseRepository_def memory_driver_def)
  have "\<exists>k q. retrievePrivateKeys sample_wlib hex = Returns (k, q)" for hex
    by (cases "hex = []") (simp_all add: retrievePrivateKeys_def sample_wlib_def)
  then obtain k q where keys: "retrievePrivateKeys sample_wlib (wo_ecdsaPrivateKeyHex ?o) = Returns (k, q)" by blast
  have cm: "wl_NewConnManager sample_wlib a b = Inr ()" for a b by (simp add: sample_wlib_def)
  have ip: "ParseIP ''127.0.0.1'' = Some (v4InV6Prefix @ [127, 0, 0, 1])" by code_simp
  obtain h where host: "NewHost sample_host_lib [host_WithListenIP ''127.0.0.1'', host_WithPort (wo_portTCP ?o),
      host_WithPrivateKey q, host_WithUserAgent UserAgent, host_WithTargetPeers (wo_targetPeers ?o), host_WithConnMgr ()] = Returns h"
    by (simp add: NewHost_def host_WithListenIP_def host_WithPort_def host_WithPrivateKey_def host_WithUserAgent_def
        host_WithTargetPeers_def host_WithConnMgr_def Let_def default_HostOption_def sample_host_lib_def ip)
  obtain d where disc: "NewDiscovery sample_dlib sample_params sample_eth now [peering_WithPrivateKey (Some k),
      peering_WithListenIP ''127.0.0.1'', peering_WithPortUDP (wo_portUDP ?o), peering_WithPortTCP (wo_portTCP ?o)] = Returns (d, sample_eth)"
    using sample_NewDiscovery by blast
  have "\<exists>g. GetGenesisConfig sample_params sample_eth = Returns g"
    by (simp add: GetGenesisConfig_def GetNetwork_def sample_params_def sample_eth_def)
  then obtain mp where proc: "NewBeaconMessageProcessor sample_params sample_eth [WithRepository repo, WithPeerCounter,
      WithNodeAlias (wo_nodeAlias ?o), WithNodeRegion (wo_nodeRegion ?o)] = Returns mp"
    by (auto simp: NewBeaconMessageProcessor_def sample_eth_config Let_def)
  obtain gs where goss: "NewGossipSub sample_gossip_lib sample_params sample_eth now
      [gossip_WithEstimateActiveValidators (wo_estimateActiveValidators ?o), gossip_WithSupervisor ''watcher'',
       gossip_WithHost (Some h), gossip_WithMessageProcessor mp] = Returns gs"
    using sample_NewGossipSub [of "[gossip_WithEstimateActiveValidators (wo_estimateActiveValidators ?o), gossip_WithSupervisor ''watcher'',
       gossip_WithHost (Some h), gossip_WithMessageProcessor mp]" h now] assms(3)
    by (auto simp: gossip_WithEstimateActiveValidators_def gossip_WithSupervisor_def gossip_WithHost_def
        gossip_WithMessageProcessor_def default_GossipSubOption_def)
  show ?thesis
    unfolding NewWatcher_def Let_def assms(1,2,4)
    by (simp only: net repo keys cm host disc proc goss NewDialer_host NewReqResp_host wrap.simps outcome_of.simps
        and_then.simps prod.case) blast
qed

section \<open>Properties\<close>

text \<open>
  C20: How a constructed watcher is put together. It has the six services in the order host,
  discovery, dialer, gossip, request/response, processor; the dialer, the gossip service and the
  request/response service use the one host. The discovery has the key that the configured
  hexadecimal text gives, or a generated one when none is configured, and the host was created with
  that same key in its other form, listening on the configured address and the TCP port that the
  discovery announces (modulo \<^verbatim>\<open>2^16\<close>), under the agent name \<^verbatim>\<open>peekd\<close>, with the configured target and a
  connection manager whose low mark is the target and whose high mark is five fourths of it. The
  gossip service and the supervisor share one processor, which writes to the watcher's repository,
  counts peers, knows all message types and labels records with the configured alias and region;
  the repository is a ClickHouse connection to the configured host, port, database and user. The
  network is the configured one, the gossip service and the processor have its configuration, and
  scoring starts from the configured estimate of validators, which is not zero.
\<close>

theorem watcher_wiring:
  assumes "NewWatcher wl hl dl drv gl prm st now opts = Returns (w, st')"
  defines "opt \<equiv> fold (\<lambda>opt. opt) opts (default_WatcherOption prm)"
  shows "\<exists>h d gs mp. w_services w = [HostService h, DiscoveryService d, DialerService \<lparr> dial_host = h \<rparr>,
      GossipService gs, ReqRespService \<lparr> rr_host = h \<rparr>, ProcessorService mp] \<and>
    (if wo_ecdsaPrivateKeyHex opt \<noteq> '''' then wl_HexToECDSA wl (wo_ecdsaPrivateKeyHex opt) = Inr (d_privateKey d)
     else wl_GenerateKey wl = Inr (d_privateKey d)) \<and>
    (\<exists>q addr rc cm high. wl_UnmarshalSecp256k1PrivateKey wl (wl_FromECDSA wl (d_privateKey d)) = Inr q \<and>
      lib_NewMultiaddr hl (''/ip4/'' @ wo_listenIP opt @ ''/tcp/'' @ decimal_int (wo_portTCP opt)) = Inr addr \<and>
      lib_NewResourceManager hl = Inr rc \<and> wl_NewConnManager wl (wo_targetPeers opt) high = Inr cm \<and>
      (0 \<le> sint (wo_targetPeers opt) \<and> sint (wo_targetPeers opt) * 5 < 2 ^ 63 \<longrightarrow>
         sint high = sint (wo_targetPeers opt) * 5 div 4) \<and>
      lib_libp2p_New hl addr q ''peekd'' rc cm = Inr (libp2p_Host h)) \<and>
    (\<exists>ip rest. d_node d = fold (dl_Set dl) (enr_IPv4 ip # enr_UDP (ucast (wo_portUDP opt)) # enr_TCP (ucast (wo_portTCP opt)) # rest)
       (dl_NewLocalNode dl (d_privateKey d))) \<and> \<not> d_closed d \<and>
    TargetPeerCount h = wo_targetPeers opt \<and> gs_host gs = h \<and> gs_messageProcessor gs = Some mp \<and>
    bp_repo mp = Some (w_repo w) \<and> bp_peerCounter mp \<and> bp_extractors mp = newSlotExtractorRegistry \<and>
    bp_nodeAlias mp = wo_nodeAlias opt \<and> bp_nodeRegion mp = wo_nodeRegion opt \<and>
    wo_dbType opt = ''clickhouse'' \<and>
    (\<exists>copts. drv_Open drv copts = Inr (chRepo (w_repo w)) \<and>
      opt_Addr copts = [wo_dbHost opt @ '':'' @ decimal (unat (wo_dbPort opt) mod 2 ^ 16)] \<and>
      opt_Database copts = wo_dbName opt \<and> opt_Username copts = wo_dbUser opt \<and> opt_Password copts = wo_dbPassword opt \<and>
      (opt_TLSInsecureSkipVerify copts = None \<longleftrightarrow> \<not> wo_dbSecure opt)) \<and>
    network st' = wo_ethNetwork opt \<and> wo_estimateActiveValidators opt \<noteq> 0 \<and>
    estimateActiveValidators (gs_peerScore gs) = wo_estimateActiveValidators opt \<and>
    GetBeaconChainConfig prm st' = Returns (bp_beaconConfig mp) \<and> gs_beaconConfig gs = bp_beaconConfig mp"
proof -
  obtain st1 repo k q cm h d mp gs where
    net: "SetNetwork prm (wo_ethNetwork opt) st = Returns st1" and
    repo: "NewRepository drv [WithDBType (wo_dbType opt), WithDBName (wo_dbName opt), WithDBHost (wo_dbHost opt),
         WithDBPort (wo_dbPort opt), WithDBUser (wo_dbUser opt), WithDBPassword (wo_dbPassword opt),
         WithDBSecure (wo_dbSecure opt)] = Returns repo" and
    keys: "retrievePrivateKeys wl (wo_ecdsaPrivateKeyHex opt) = Returns (k, q)" and
    cm: "wl_NewConnManager wl (wo_targetPeers opt) (high_watermark (wo_targetPeers opt)) = Inr cm" and
    host: "NewHost hl [host_WithListenIP (wo_listenIP opt), host_WithPort (wo_portTCP opt), host_WithPrivateKey q,
         host_WithUserAgent UserAgent, host_WithTargetPeers (wo_targetPeers opt), host_WithConnMgr cm] = Returns h" and
    disc: "NewDiscovery dl prm st1 now [peering_WithPrivateKey (Some k), peering_WithListenIP (wo_listenIP opt),
         peering_WithPortUDP (wo_portUDP opt), peering_WithPortTCP (wo_portTCP opt)] = Returns (d, st')" and
    proc: "NewBeaconMessageProcessor prm st' [WithRepository repo, WithPeerCounter, WithNodeAlias (wo_nodeAlias opt),
         WithNodeRegion (wo_nodeRegion opt)] = Returns mp" and
    goss: "NewGossipSub gl prm st' now [gossip_WithEstimateActiveValidators (wo_estimateActiveValidators opt),
         gossip_WithSupervisor ''watcher'', gossip_WithHost (Some h), gossip_WithMessageProcessor mp] = Returns gs" and
    w: "w = \<lparr> w_services = [HostService h, DiscoveryService d, DialerService \<lparr> dial_host = h \<rparr>,
      GossipService gs, ReqRespService \<lparr> rr_host = h \<rparr>, ProcessorService mp], w_repo = repo \<rparr>"
    using assms(1)
    by (auto simp: NewWatcher_def opt_def [symmetric] Let_def NewDialer_host NewReqResp_host)
  have "network st' = wo_ethNetwork opt"
    using net NewDiscovery_fields(3) [OF disc] GetBeaconNetworkConfig_network
    by (auto simp: SetNetwork_def split: if_splits)
  moreover have "\<exists>q addr rc cm high. wl_UnmarshalSecp256k1PrivateKey wl (wl_FromECDSA wl (d_privateKey d)) = Inr q \<and>
      lib_NewMultiaddr hl (''/ip4/'' @ wo_listenIP opt @ ''/tcp/'' @ decimal_int (wo_portTCP opt)) = Inr addr \<and>
      lib_NewResourceManager hl = Inr rc \<and> wl_NewConnManager wl (wo_targetPeers opt) high = Inr cm \<and>
      (0 \<le> sint (wo_targetPeers opt) \<and> sint (wo_targetPeers opt) * 5 < 2 ^ 63 \<longrightarrow>
         sint high = sint (wo_targetPeers opt) * 5 div 4) \<and>
      lib_libp2p_New hl addr q ''peekd'' rc cm = Inr (libp2p_Host h)"
    using NewHost_run(2) [OF host] retrievePrivateKeys_run [OF keys] NewDiscovery_fields(1) [OF disc] cm
      high_watermark_value [of "wo_targetPeers opt"]
    unfolding UserAgent_def by blast
  moreover have "if wo_ecdsaPrivateKeyHex opt \<noteq> '''' then wl_HexToECDSA wl (wo_ecdsaPrivateKeyHex opt) = Inr (d_privateKey d)
     else wl_GenerateKey wl = Inr (d_privateKey d)"
    using retrievePrivateKeys_run [OF keys] NewDiscovery_fields(1) [OF disc] by simp
  ultimately show ?thesis
    using w NewHost_run(1) [OF host] NewRepository_run [OF repo] NewProcessor_fields [OF proc]
      NewDiscovery_fields(1,2,4) [OF disc] NewGossipSub_fields [OF goss]
    by (intro exI [of _ h] exI [of _ d] exI [of _ gs] exI [of _ mp]) simp
qed

theorem watcher_wiring_witness:
  "\<exists>w st' h d. NewWatcher sample_wlib sample_host_lib sample_dlib memory_driver sample_gossip_lib sample_params sample_eth 0
     [watcher_WithDBType ''clickhouse'', watcher_WithEstimateActiveValidators 1000000, watcher_WithTargetPeers 50,
      watcher_WithECDSAPrivateKeyHex ''0a''] = Returns (w, st') \<and>
     take 2 (w_services w) = [HostService h, DiscoveryService d] \<and> d_privateKey d = ''0a'' \<and>
     libp2p_Host h = ''/ip4/127.0.0.1/tcp/9090'' \<and> TargetPeerCount h = 50 \<and> network st' = ''mainnet''"
proof -
  let ?opts = "[watcher_WithDBType ''clickhouse'', watcher_WithEstimateActiveValidators 1000000, watcher_WithTargetPeers 50,
      watcher_WithECDSAPrivateKeyHex ''0a'']"
  let ?o = "fold (\<lambda>opt. opt) ?opts (default_WatcherOption sample_params)"
  have options: "wo_ecdsaPrivateKeyHex ?o = ''0a''" "wo_targetPeers ?o = 50" "wo_listenIP ?o = ''127.0.0.1''"
    "wo_portTCP ?o = 9090" "wo_ethNetwork ?o = ''mainnet''"
    by (simp_all add: watcher_options default_WatcherOption_def sample_params_def)
  obtain w where w: "NewWatcher sample_wlib sample_host_lib sample_dlib memory_driver sample_gossip_lib sample_params sample_eth 0
     ?opts = Returns (w, sample_eth)"
    using sample_NewWatcher [of ?opts 0]
    by (auto simp: watcher_options default_WatcherOption_def sample_params_def)
  have lib: "wl_HexToECDSA sample_wlib = Inr" "lib_NewMultiaddr sample_host_lib = Inr"
    "lib_libp2p_New sample_host_lib a k u m c = Inr a" for a k u m c
    by (simp_all add: sample_wlib_def sample_host_lib_def)
  have text_forms: "decimal_int 9090 = ''9090''"
    by (simp add: decimal_int_def decimal.simps char_of_def bit_0)
  from watcher_wiring [OF w, unfolded options lib] obtain h d x y z u where
    "w_services w = [HostService h, DiscoveryService d, x, y, z, u]" "d_privateKey d = ''0a''"
    "libp2p_Host h = ''/ip4/'' @ ''127.0.0.1'' @ ''/tcp/'' @ decimal_int 9090" "TargetPeerCount h = 50"
    "network sample_eth = ''mainnet''"
    by auto
  with w show ?thesis by (auto simp: text_forms)
qed

text \<open>
  C30: What the command line must set. A network that is set to neither of the two supported names
  is reported as such. With a supported or unset network, a command without a database type fails
  with the error \<^verbatim>\<open>unsupported database type\<close> (the default the repository package has is overwritten
  with the empty string). So a command without a database type always fails, and the process exits
  with code 1. A command without an estimate of active validators never starts a watcher. Each
  option has the flag's value when the flag is set and its default otherwise; a watcher that ran
  returns the supervisor's error, with its repository closed.
\<close>

theorem launch_requires:
  "let net = (if cmd_IsSet cmd ''network'' then cmd_String cmd ''network'' else MainnetName prm);
       created = (\<lambda>err. ErrWrap err ''failed to create watcher'')
   in (net \<notin> {MainnetName prm, HoodiName prm} \<longrightarrow>
        launchWatcher wl hl dl drv gl prm st now cmd sv =
          Fails (created (ErrWrap (ErrNew ''network must be set only for supported ethereum'') ''failed to set eth network''))) \<and>
      (net \<in> {MainnetName prm, HoodiName prm} \<and> \<not> cmd_IsSet cmd ''db-type'' \<longrightarrow>
        launchWatcher wl hl dl drv gl prm st now cmd sv =
          Fails (created (ErrWrap (ErrNew ''unsupported database type: '') ''failed to initialize repository''))) \<and>
      (\<not> cmd_IsSet cmd ''db-type'' \<longrightarrow>
        (\<exists>err. launchWatcher wl hl dl drv gl prm st now cmd sv = Fails err \<and> main_exit (Some err) = 1)) \<and>
      (\<not> cmd_IsSet cmd ''estimate-active-validators'' \<longrightarrow> (\<forall>r. launchWatcher wl hl dl drv gl prm st now cmd sv \<noteq> Returns r)) \<and>
      (\<forall>w err. launchWatcher wl hl dl drv gl prm st now cmd sv = Returns (w, err) \<longrightarrow>
        err = sv \<and>
        (\<exists>w' st'. NewWatcher wl hl dl drv gl prm st now (launch_options cmd) = Returns (w', st') \<and>
          w_services w = w_services w' \<and> w_repo w = fst (repo_Close (adapter_methods drv) (w_repo w')) \<and>
          fold (\<lambda>opt. opt) (launch_options cmd) (default_WatcherOption prm) = launched prm cmd))"
proof -
  let ?net = "if cmd_IsSet cmd ''network'' then cmd_String cmd ''network'' else MainnetName prm"
  have net: "wo_ethNetwork (launched prm cmd) = ?net" by (simp add: launched_def flag_or_def)
  have repo: "NewRepository drv [WithDBType '''', WithDBName a, WithDBHost b, WithDBPort p, WithDBUser c, WithDBPassword d,
      WithDBSecure s] = Fails (ErrNew ''unsupported database type: '')" for a b c d p s
    by (simp add: NewRepository_def WithDBType_def WithDBName_def WithDBHost_def WithDBPort_def WithDBUser_def
        WithDBPassword_def WithDBSecure_def Let_def)
  have 1: "launchWatcher wl hl dl drv gl prm st now cmd sv =
      Fails (ErrWrap (ErrWrap (ErrNew ''network must be set only for supported ethereum'') ''failed to set eth network'')
        ''failed to create watcher'')" if "?net \<notin> {MainnetName prm, HoodiName prm}"
  proof -
    have "SetNetwork prm ?net st = Fails (ErrNew ''network must be set only for supported ethereum'')"
      using that by (simp add: SetNetwork_def)
    then show ?thesis by (simp only: launchWatcher_def NewWatcher_def launched_options Let_def net) simp
  qed
  have 2: "launchWatcher wl hl dl drv gl prm st now cmd sv =
      Fails (ErrWrap (ErrWrap (ErrNew ''unsupported database type: '') ''failed to initialize repository'')
        ''failed to create watcher'')" if "?net \<in> {MainnetName prm, HoodiName prm}" "\<not> cmd_IsSet cmd ''db-type''"
  proof -
    have "\<exists>st1. SetNetwork prm n st = Returns st1" if "n \<in> {MainnetName prm, HoodiName prm}" for n
      using that by (auto simp: SetNetwork_def)
    from this [OF that(1)] obtain st1 where st1: "SetNetwork prm ?net st = Returns st1" ..
    have "wo_dbType (launched prm cmd) = ''''" using that(2) by (simp add: launched_def flag_or_def)
    then show ?thesis by (simp only: launchWatcher_def NewWatcher_def launched_options Let_def net st1 repo) simp
  qed
  have 3: "launchWatcher wl hl dl drv gl prm st now cmd sv \<noteq> Returns r"
    if "\<not> cmd_IsSet cmd ''estimate-active-validators''" for r
  proof
    assume "launchWatcher wl hl dl drv gl prm st now cmd sv = Returns r"
    then obtain w st' where "NewWatcher wl hl dl drv gl prm st now (launch_options cmd) = Returns (w, st')"
      by (auto simp: launchWatcher_def)
    then have "wo_estimateActiveValidators (launched prm cmd) \<noteq> 0"
      by (auto simp: NewWatcher_def launched_options Let_def dest!: NewGossipSub_fields(4))
    with that show False by (simp add: launched_def flag_or_def)
  qed
  have 4: "\<exists>err. launchWatcher wl hl dl drv gl prm st now cmd sv = Fails err \<and> main_exit (Some err) = 1"
    if "\<not> cmd_IsSet cmd ''db-type''"
    using 1 2 [OF _ that] by (cases "?net \<in> {MainnetName prm, HoodiName prm}") (simp_all add: main_exit_def Canceled_def)
  have 5: "err = sv \<and> (\<exists>w' st'. NewWatcher wl hl dl drv gl prm st now (launch_options cmd) = Returns (w', st') \<and>
      w_services w = w_services w' \<and> w_repo w = fst (repo_Close (adapter_methods drv) (w_repo w')) \<and>
      fold (\<lambda>opt. opt) (launch_options cmd) (default_WatcherOption prm) = launched prm cmd)"
    if "launchWatcher wl hl dl drv gl prm st now cmd sv = Returns (w, err)" for w err
    using that by (auto simp: launchWatcher_def watcher_Serve_def launched_options)
  show ?thesis unfolding Let_def using 1 2 3 4 5 by blast
qed

text \<open>A command line with nothing set, and one that sets an unsupported network.\<close>

definition bare_command :: command where
  "bare_command =
     \<lparr> cmd_IsSet = (\<lambda>f. False), cmd_String = (\<lambda>f. ''''), cmd_Int = (\<lambda>f. 0), cmd_Uint = (\<lambda>f. 0), cmd_Bool = (\<lambda>f. False) \<rparr>"

definition sepolia_command :: command where
  "sepolia_command = bare_command\<lparr>cmd_IsSet := (\<lambda>f. f = ''network''), cmd_String := (\<lambda>f. ''sepolia'')\<rparr>"

theorem launch_requires_witness:
  "launchWatcher sample_wlib sample_host_lib sample_dlib memory_driver sample_gossip_lib sample_params sample_eth 0
     bare_command None =
       Fails (ErrWrap (ErrWrap (ErrNew ''unsupported database type: '') ''failed to initialize repository'') ''failed to create watcher'') \<and>
   launchWatcher sample_wlib sample_host_lib sample_dlib memory_driver sample_gossip_lib sample_params sample_eth 0
     sepolia_command None =
       Fails (ErrWrap (ErrWrap (ErrNew ''network must be set only for supported ethereum'') ''failed to set eth network'')
         ''failed to create watcher'')"
proof -
  note law = launch_requires [of _ sample_params sample_wlib sample_host_lib sample_dlib memory_driver sample_gossip_lib sample_eth 0 None]
  show ?thesis
    using law [of bare_command] law [of sepolia_command]
    by (simp add: Let_def bare_command_def sepolia_command_def sample_params_def)
qed

end
