(* ===== verification/Spec2Isabelle.thy ===== *)
theory Spec2Isabelle
  imports Processor_Properties Watcher_Model
begin

text \<open>
  \<^bold>\<open>peekd\<close>, verified. peekd joins the Ethereum consensus network as a libp2p host, subscribes to all
  gossip topics, and records for each message when it arrived and how often it was seen, in batches
  per slot, in ClickHouse. The program is the Go code under \<^verbatim>\<open>src/\<close>; this library models it function
  by function and proves what makes its parts correct. Where the code does not do what it means
  to, the theorem says what it does.

  \<^bold>\<open>Parts and theories.\<close> The watcher builds everything from the command line and runs six services.
  Discovery hands peer addresses over a channel to the dialer, which connects the host to them. The
  gossip service joins the topics; each subscription passes its messages to the handler of its
  topic, which passes them, with the type they should have at the current fork, to the processor.
  The processor finds the slot of a message, caches a record of it, and its service loop saves the
  records of completed slots to the repository, together with the number of times each message was
  seen, which the router's identifier function counts. The request/response service answers peers.

  \<^item> \<^verbatim>\<open>Prelude\<close>: outcomes of a Go call (return, error, panic), maps with arbitrary iteration order, time,
    words, strings; the locales for dictionaries and for step relations with an invariant.
    \<^verbatim>\<open>Go_Float\<close>, \<^verbatim>\<open>Go_Net\<close>: the language's \<^verbatim>\<open>float64\<close> and the IP addresses of its library.
  \<^item> \<^verbatim>\<open>Prysm_Params\<close>, \<^verbatim>\<open>Topics\<close>: the names, configuration and message types of Prysm that the code reads,
    and the locale of a switch over topic names, which three components interpret.
  \<^item> \<^verbatim>\<open>Repository\<close> (\<^verbatim>\<open>repository/models.go\<close>, \<^verbatim>\<open>clickhouse.go\<close>, \<^verbatim>\<open>repository.go\<close>): records are
    sent as one whole batch or not at all; the rows have the columns and types of the tables.
  \<^item> \<^verbatim>\<open>Seen_Counter\<close>, \<^verbatim>\<open>Slot_Cache\<close>, \<^verbatim>\<open>Slot_Extractor\<close> (\<^verbatim>\<open>processor/seen_counter.go\<close>, \<^verbatim>\<open>slot_cache.go\<close>,
    \<^verbatim>\<open>slot_extractor.go\<close>): the counter refines a multiset of sightings, the cache is a map of maps that
    keeps the first record of a message, draining moves a slot out, and the extractor registry is
    equal to a reference by message type.
  \<^item> \<^verbatim>\<open>Beacon_Processor\<close>, \<^verbatim>\<open>Processor_Properties\<close> (\<^verbatim>\<open>processor/beacon_message_processor.go\<close>,
    \<^verbatim>\<open>beacon_messages.go\<close>): the processor as functions and as a step relation in which handlers,
    counters and the service loop interleave; in every reachable state the records filed are those in
    the save calls that the repository's state reflects, in flight and cached; what a flush hands over, with which counts and when it ends; the times of a record.
  \<^item> \<^verbatim>\<open>Eth_Network\<close> (\<^verbatim>\<open>eth/network.go\<close>): the chosen network, fork versions against the schedule of forks
    (Fulu epochs get the Electra version), subnets.
  \<^item> \<^verbatim>\<open>Peer_Score\<close>, \<^verbatim>\<open>Gossip_Handler\<close>, \<^verbatim>\<open>Gossip_Sub\<close>, \<^verbatim>\<open>Gossip_Properties\<close> (\<^verbatim>\<open>gossip/\<close>): score parameters, the
    handlers by topic and fork, the generated topics, the set-up and the subscription loop, and the
    pruning of peers.
  \<^item> \<^verbatim>\<open>Host_Model\<close> (\<^verbatim>\<open>host/host.go\<close>), \<^verbatim>\<open>Peering\<close> (\<^verbatim>\<open>peering/\<close>), \<^verbatim>\<open>Req_Resp\<close> (\<^verbatim>\<open>reqresp/\<close>): the host, the
    listen addresses it accepts and its peer counts; discovery, dialer and both together; the
    handlers on a stream whose two sides open and close, in the state monad.
  \<^item> \<^verbatim>\<open>Watcher_Options\<close>, \<^verbatim>\<open>Watcher_Model\<close> (\<^verbatim>\<open>watcher/watcher.go\<close>, \<^verbatim>\<open>cmd/\<close>): flags, options, the construction
    of all services, the action of the command and the exit code.
  \<^item> This theory: what all components of a constructed watcher agree on.

  \<^bold>\<open>How the code is rendered.\<close> A Go function is a HOL function with the same name (with a prefix where
  packages reuse one); a struct is a record; an error is a value and a panic an outcome, so that
  every early return is a branch. Integers are words of their width; durations are 64-bit words
  and wrap; a date is an integer of nanoseconds. What goroutines share under a mutex changes
  atomically; a \<^verbatim>\<open>select\<close> or a blocking call is an event in a list, or a step of a relation. Loops are
  structural recursions over what they range over; there is no fuel. Third-party packages (Prysm,
  libp2p, pubsub, discv5, ClickHouse, the cli) are records of functions that the definitions
  take as arguments; what a theorem needs of them is a named hypothesis (\<^verbatim>\<open>batch_laws\<close>,
  \<^verbatim>\<open>bitvector_laws\<close>, \<^verbatim>\<open>formats_ok\<close>, \<^verbatim>\<open>names_ok\<close>, \<^verbatim>\<open>stream_laws\<close>) with an instance that satisfies it. They say what a call does when it
  succeeds and that a closed side of a stream fails; of a failed insert nothing is assumed.

  \<^bold>\<open>Not modelled.\<close> Log output; the time-outs of contexts and the waiting of tickers; the rounding of
  floating-point numbers (operations are exact reals with infinities); the callbacks of
  \<^verbatim>\<open>host/notify.go\<close>, which only log; signal handling and the declaration of the root command in
  \<^verbatim>\<open>cmd/cmd.go\<close>; the supervisor library, so a restart of a service is a second call of its \<^verbatim>\<open>Serve\<close>;
  pruning reads the scores once, while the code locks them anew for each peer, so an update of the
  scores during one call of \<^verbatim>\<open>prune\<close> is not seen; the error text of an unsupported message leaves
  out the printed Go type; the SQL of \<^verbatim>\<open>migrations/\<close>, whose columns are the reference for the rows.
\<close>

section \<open>Lemmas\<close>

lemma topic_tests_names: "set (topic_tests n) = set (handler_names n)"
  by (auto simp: topic_tests_def handler_names_def)

lemma NewWatcher_gossip:
  assumes "NewWatcher wl hl dl drv gl prm st now opts = Returns (w, st')" and "GossipService gs \<in> set (w_services w)"
  shows "\<exists>opts'. NewGossipSub gl prm st' now opts' = Returns gs \<and> go_topics (applied opts') = [] \<and> ready gs"
proof -
  obtain est h mp repo na nr where
    goss: "NewGossipSub gl prm st' now [gossip_WithEstimateActiveValidators est,
         gossip_WithSupervisor ''watcher'', gossip_WithHost (Some h), gossip_WithMessageProcessor mp] = Returns gs" and
    proc: "NewBeaconMessageProcessor prm st' [WithRepository repo, WithPeerCounter, WithNodeAlias na, WithNodeRegion nr] = Returns mp"
    using assms by (auto simp: NewWatcher_def Let_def)
  moreover have "go_topics (applied [gossip_WithEstimateActiveValidators est,
         gossip_WithSupervisor ''watcher'', gossip_WithHost (Some h), gossip_WithMessageProcessor mp]) = []"
    by (simp add: gossip_WithEstimateActiveValidators_def gossip_WithSupervisor_def gossip_WithHost_def
        gossip_WithMessageProcessor_def default_GossipSubOption_def)
  ultimately show ?thesis
    using NewGossipSub_fields(2) [OF goss] NewProcessor_fields(2,3) [OF proc] unfolding ready_def by blast
qed

section \<open>Properties that span components\<close>

text \<open>
  C6: The components of a watcher agree on every topic. A constructed watcher's gossip service has a
  processor in place, and for every topic that it generated, the gossip service, the peer scoring
  and the processor recognise the same message kind, although each tests the names in its own way
  and order: the subscription's handler is the kind's handler, the score parameters are the
  kind's, the topic group recorded for its messages is the kind's name, and the recorded fork and
  topic are the fork digest and the name with its subnet number.
\<close>

theorem topic_agreement:
  assumes "NewWatcher wl hl dl drv lib prm st now opts = Returns (w, st')" and "GossipService gs \<in> set (w_services w)"
    and "formats_ok lib" and "names_ok (handler_names (gl_names lib))" and "names_ok (topic_tests (gl_names lib))"
    and "\<forall>t root d. gl_CreateForkDigest lib t root = Inr d \<longrightarrow> length d = 4"
    and "GetBeaconChainConfig prm st' = Returns cfg" and "topic \<in> set (gs_topics gs)"
  shows "ready gs \<and> (\<exists>i < 10. \<exists>sub digest.
    mappingTopicToHandler (gl_names lib) topic = (handler_list ! i :: (_, _) TopicHandler) \<and>
    one_topic_params (gl_names lib) cfg ps topic = params_list cfg ps ! i \<and>
    TopicToTopicGroup (gl_names lib) topic = handler_names (gl_names lib) ! i \<and>
    parseEth2Topic topic = Returns (hex_bytes digest, handler_names (gl_names lib) ! i @ sub) \<and>
    sub \<in> set (subnet_suffixes cfg i))"
proof -
  let ?n = "gl_names lib"
  obtain opts' where gs: "NewGossipSub lib prm st' now opts' = Returns gs" "go_topics (applied opts') = []" "ready gs"
    using NewWatcher_gossip [OF assms(1,2)] by blast
  obtain gen digest where "GetGenesisConfig prm st' = Returns gen"
    and digest: "gl_CreateForkDigest lib (GenesisTime gen) (GenesisValidatorRoot gen) = Inr digest"
    and topics: "gs_topics gs = network_topics ?n cfg digest" and "ps_topics (gs_peerScore gs) = gs_topics gs"
    by (rule NewGossipSub_topics [OF gs(1,2) assms(3,7)])
  obtain i sub where i: "i < 10" "sub \<in> set (subnet_suffixes cfg i)"
    and topic: "topic = gossip_topic (hex_bytes digest) (handler_names ?n ! i @ sub)"
    using assms(8) unfolding topics in_network_topics by blast
  have sub: "set sub \<subseteq> set ''_0123456789''" using i(2) by (rule subnet_suffix_chars)
  have "length digest = 4" using assms(6) digest by blast
  then have len: "length (hex_bytes digest) \<le> 10" by (simp add: length_hex_bytes)
  have name: "handler_names ?n ! i \<in> set (handler_names ?n)" using i(1) by (intro nth_mem) (simp add: handler_names_def)
  have "CHR ''/'' \<notin> set (handler_names ?n ! i)" using assms(4) name by (auto simp: names_ok_def list_all_iff)
  then have slash: "CHR ''/'' \<notin> set (handler_names ?n ! i @ sub)" using sub by auto
  show ?thesis
    using gs(3) i topic handler_of_topic [OF assms(4) i(1) len sub] tp.dispatch_gossip [OF assms(4) _ len sub, of i cfg ps] length_handler_names [of ?n]
      TopicToTopicGroup_exact [OF assms(5) _ len sub] name topic_tests_names
      parseEth2Topic_gossip [OF slash_notin_hex slash]
    by (intro conjI exI [of _ i] exI [of _ sub] exI [of _ digest]) auto
qed

theorem topic_agreement_witness:
  "\<exists>w st' gs topic. NewWatcher sample_wlib sample_host_lib sample_dlib memory_driver sample_gossip_lib sample_params sample_eth 0
     [watcher_WithDBType ''clickhouse'', watcher_WithEstimateActiveValidators 1000000] = Returns (w, st') \<and>
     GossipService gs \<in> set (w_services w) \<and> topic \<in> set (gs_topics gs) \<and> ready gs \<and>
     TopicToTopicGroup sample_names topic \<in> set (handler_names sample_names)"
proof -
  let ?opts = "[watcher_WithDBType ''clickhouse'', watcher_WithEstimateActiveValidators 1000000]"
  obtain w where w: "NewWatcher sample_wlib sample_host_lib sample_dlib memory_driver sample_gossip_lib sample_params sample_eth 0
     ?opts = Returns (w, sample_eth)"
    using sample_NewWatcher [of ?opts 0]
    by (auto simp: watcher_options default_WatcherOption_def sample_params_def)
  then obtain gs where gs: "GossipService gs \<in> set (w_services w)"
    by (auto simp: NewWatcher_def Let_def)
  obtain opts' where opts': "NewGossipSub sample_gossip_lib sample_params sample_eth 0 opts' = Returns gs"
    "go_topics (applied opts') = []"
    using NewWatcher_gossip [OF w gs] by blast
  obtain gen digest where "GetGenesisConfig sample_params sample_eth = Returns gen"
    "gl_CreateForkDigest sample_gossip_lib (GenesisTime gen) (GenesisValidatorRoot gen) = Inr digest"
    "gs_topics gs = network_topics (gl_names sample_gossip_lib) sample_config digest" "ps_topics (gs_peerScore gs) = gs_topics gs"
    by (rule NewGossipSub_topics [OF opts' sample_formats_ok sample_eth_config])
  then have "length (gs_topics gs) = 81" by (simp add: length_network_topics sample_config_def)
  then obtain topic where topic: "topic \<in> set (gs_topics gs)" by (cases "gs_topics gs") auto
  have names: "gl_names sample_gossip_lib = sample_names" by (simp add: sample_gossip_lib_def)
  have "ready gs \<and> (\<exists>i < 10. TopicToTopicGroup sample_names topic = handler_names sample_names ! i)"
    using topic_agreement [OF w gs sample_formats_ok _ _ _ sample_eth_config topic] sample_handler_names_ok sample_names_ok
    unfolding names by (auto simp: sample_gossip_lib_def)
  then have "ready gs \<and> TopicToTopicGroup sample_names topic \<in> set (handler_names sample_names)"
    using length_handler_names [of sample_names] nth_mem [of _ "handler_names sample_names"] by auto
  with w gs topic show ?thesis by blast
qed

end
